(* ===== verification/Prelude.thy ===== *)
theory Prelude
  imports Main "HOL-Library.Sublist"
begin

text \<open>
  Shared vocabulary of the development: Go error values and results (with the nil-pointer panic
  as an outcome of its own), the sequencing of fallible calls that thread a state, the string
  functions of Go's standard library that the provider uses, and a few facts on maps.
\<close>

section \<open>Go errors and results\<close>

text \<open>
  An error value is a chain, as \<open>errors.Unwrap\<close> walks it: a fresh error, the status error of a
  Kubernetes API server (its reason and message), a wrapped error, or the error of
  \<open>internal/controller/*/object/cleanerr.go\<close> that masks pointers when it is printed.
\<close>

datatype goerr =
    ErrNew string
  | ErrStatus string string
  | ErrWrap string goerr
  | ErrClean goerr

text \<open>What a call gives: a value, a non-nil error, or a run-time panic.\<close>

datatype 'a res = Ok 'a | Err goerr | Panic string

named_theorems res_simps "how results move through the sequencing operators"
named_theorems res_splits "case distinctions on the sequencing operators"

text \<open>\<open>kerrors.ReasonForError\<close> finds the status error of the chain with \<open>errors.As\<close>.\<close>

fun apiReason :: "goerr \<Rightarrow> string option" where
  "apiReason (ErrNew _) = None"
| "apiReason (ErrStatus r _) = Some r"
| "apiReason (ErrWrap _ e) = apiReason e"
| "apiReason (ErrClean e) = apiReason e"

definition isNotFound :: "goerr \<Rightarrow> bool" where
  "isNotFound e \<longleftrightarrow> apiReason e = Some ''NotFound''"

lemma isNotFound_wrap [simp]:
  "isNotFound (ErrWrap m e) = isNotFound e"
  "isNotFound (ErrClean e) = isNotFound e"
  "\<not> isNotFound (ErrNew m)"
  "isNotFound (ErrStatus r m) \<longleftrightarrow> r = ''NotFound''"
  by (simp_all add: isNotFound_def)

text \<open>\<open>errors.Wrap\<close> of a nil error is nil; of anything else, a longer chain.\<close>

fun wrapNil :: "string \<Rightarrow> goerr option \<Rightarrow> goerr option" where
  "wrapNil m None = None"
| "wrapNil m (Some e) = Some (ErrWrap m e)"

fun mapErr :: "(goerr \<Rightarrow> goerr) \<Rightarrow> 'a res \<Rightarrow> 'a res" where
  "mapErr h (Ok a) = Ok a"
| "mapErr h (Err e) = Err (h e)"
| "mapErr h (Panic p) = Panic p"

fun isOk :: "'a res \<Rightarrow> bool" where
  "isOk (Ok _) = True"
| "isOk _ = False"

lemma mapErr_Ok_iff [simp]: "mapErr h r = Ok a \<longleftrightarrow> r = Ok a"
  by (cases r) auto

lemma mapErr_Err_iff [simp]: "mapErr h r = Err e \<longleftrightarrow> (\<exists>e'. r = Err e' \<and> e = h e')"
  by (cases r) auto

lemma mapErr_Panic_iff [simp]: "mapErr h r = Panic p \<longleftrightarrow> r = Panic p"
  by (cases r) auto

lemma isOk_iff: "isOk r \<longleftrightarrow> (\<exists>a. r = Ok a)"
  by (cases r) auto

subsection \<open>Sequencing\<close>

text \<open>
  \<open>x, err := f(); if err != nil { return wrap(err) }; k(x)\<close>, first for a pure call, then for one
  that changes a state. A panic of the call ends the caller.
\<close>

fun tryR :: "'a res \<Rightarrow> (goerr \<Rightarrow> goerr) \<Rightarrow> ('a \<Rightarrow> 'b res) \<Rightarrow> 'b res" where
  "tryR (Ok a) h k = k a"
| "tryR (Err e) h k = Err (h e)"
| "tryR (Panic p) h k = Panic p"

fun tryS :: "'a res \<times> 's \<Rightarrow> (goerr \<Rightarrow> goerr) \<Rightarrow> ('a \<Rightarrow> 's \<Rightarrow> 'b res \<times> 's) \<Rightarrow> 'b res \<times> 's" where
  "tryS (Ok a, s) h k = k a s"
| "tryS (Err e, s) h k = (Err (h e), s)"
| "tryS (Panic p, s) h k = (Panic p, s)"

text \<open>A pure fallible call in the middle of a stateful function.\<close>

definition liftR :: "'a res \<Rightarrow> 's \<Rightarrow> 'a res \<times> 's" where
  "liftR r s = (r, s)"

lemma tryR_split [res_splits]:
  "P (tryR r h k) \<longleftrightarrow>
     (\<forall>a. r = Ok a \<longrightarrow> P (k a)) \<and> (\<forall>e. r = Err e \<longrightarrow> P (Err (h e))) \<and>
     (\<forall>p. r = Panic p \<longrightarrow> P (Panic p))"
  by (cases r) auto

lemma tryS_split [res_splits]:
  "P (tryS r h k) \<longleftrightarrow>
     (\<forall>a s. r = (Ok a, s) \<longrightarrow> P (k a s)) \<and> (\<forall>e s. r = (Err e, s) \<longrightarrow> P (Err (h e), s)) \<and>
     (\<forall>p s. r = (Panic p, s) \<longrightarrow> P (Panic p, s))"
  by (cases r; cases "fst r") auto

lemma tryR_split_asm [res_splits]:
  "P (tryR r h k) \<longleftrightarrow>
     \<not> ((\<exists>a. r = Ok a \<and> \<not> P (k a)) \<or> (\<exists>e. r = Err e \<and> \<not> P (Err (h e))) \<or>
        (\<exists>p. r = Panic p \<and> \<not> P (Panic p)))"
  by (cases r) auto

lemma tryS_split_asm [res_splits]:
  "P (tryS r h k) \<longleftrightarrow>
     \<not> ((\<exists>a s. r = (Ok a, s) \<and> \<not> P (k a s)) \<or> (\<exists>e s. r = (Err e, s) \<and> \<not> P (Err (h e), s)) \<or>
        (\<exists>p s. r = (Panic p, s) \<and> \<not> P (Panic p, s)))"
  by (cases r; cases "fst r") auto

lemma tryR_eq_Ok [res_simps]: "tryR r h k = Ok b \<longleftrightarrow> (\<exists>a. r = Ok a \<and> k a = Ok b)"
  by (cases r) auto

lemma tryS_eq_Ok [res_simps]:
  "tryS r h k = (Ok b, t) \<longleftrightarrow> (\<exists>a s. r = (Ok a, s) \<and> k a s = (Ok b, t))"
  by (cases r; cases "fst r") auto

lemma tryS_liftR [simp]:
  "tryS (liftR (Ok a) s) h k = k a s"
  "tryS (liftR (Err e) s) h k = (Err (h e), s)"
  "tryS (liftR (Panic p) s) h k = (Panic p, s)"
  by (simp_all add: liftR_def)

lemma liftR_eq_Ok [res_simps]: "liftR r s = (Ok a, t) \<longleftrightarrow> r = Ok a \<and> t = s"
  by (auto simp: liftR_def)

text \<open>
  A relation that holds across the call and across what follows holds across the whole; the
  frame and invariant lemmas of the components are instances.
\<close>

lemma tryS_invariant:
  assumes "I s" and "\<And>r t. f = (r, t) \<Longrightarrow> I t" and "\<And>a t. f = (Ok a, t) \<Longrightarrow> I t \<Longrightarrow> I (snd (k a t))"
  shows "I (snd (tryS f h k))"
proof (cases f)
  case (Pair r t)
  with assms have "I t" by blast
  with Pair assms(3) show ?thesis by (cases r) auto
qed

lemma tryS_keeps:
  "I (snd f) \<Longrightarrow> (\<And>a t. I t \<Longrightarrow> I (snd (k a t))) \<Longrightarrow> I (snd (tryS f h k))"
  by (cases f; cases "fst f") auto

section \<open>Strings\<close>

text \<open>\<open>strings.Split\<close> for a separator of one character.\<close>

fun splitOn :: "char \<Rightarrow> string \<Rightarrow> string list" where
  "splitOn c [] = [[]]"
| "splitOn c (x # xs) =
     (if x = c then [] # splitOn c xs
      else (case splitOn c xs of [] \<Rightarrow> [[x]] | p # ps \<Rightarrow> (x # p) # ps))"

text \<open>\<open>strings.SplitN(s, sep, 2)\<close> for a separator of one character.\<close>

definition splitN2 :: "char \<Rightarrow> string \<Rightarrow> string list" where
  "splitN2 c s =
     (if c \<in> set s then [takeWhile (\<lambda>x. x \<noteq> c) s, tl (dropWhile (\<lambda>x. x \<noteq> c) s)] else [s])"

definition hasPrefix :: "string \<Rightarrow> string \<Rightarrow> bool" where
  "hasPrefix s p = prefix p s"

definition trimPrefix :: "string \<Rightarrow> string \<Rightarrow> string" where
  "trimPrefix s p = (if prefix p s then drop (length p) s else s)"

lemma splitOn_not_Nil [simp]: "splitOn c s \<noteq> []"
  by (induction s) (auto split: list.splits)

lemma splitOn_no_sep: "c \<notin> set s \<Longrightarrow> splitOn c s = [s]"
  by (induction s) auto

lemma splitOn_sep_free: "p \<in> set (splitOn c s) \<Longrightarrow> c \<notin> set p"
proof (induction s arbitrary: p)
  case Nil
  then show ?case by simp
next
  case (Cons x xs)
  obtain q qs where q: "splitOn c xs = q # qs"
    by (cases "splitOn c xs") auto
  with Cons show ?case by (auto split: if_splits)
qed

lemma splitOn_append: "splitOn c (s @ c # t) = butlast (splitOn c s) @ last (splitOn c s) # splitOn c t"
proof (induction s)
  case Nil
  show ?case by simp
next
  case (Cons x xs)
  obtain q qs where q: "splitOn c xs = q # qs"
    by (cases "splitOn c xs") auto
  with Cons show ?case by (cases qs) auto
qed

lemma splitOn_sep_append: "c \<notin> set s \<Longrightarrow> splitOn c (s @ c # t) = s # splitOn c t"
  by (simp add: splitOn_append splitOn_no_sep)

lemma split_first_sep:
  "c \<in> set s \<Longrightarrow> s = takeWhile (\<lambda>x. x \<noteq> c) s @ c # tl (dropWhile (\<lambda>x. x \<noteq> c) s)"
  by (induction s) auto

text \<open>Joining at a separator that neither left part contains is injective.\<close>

lemma append_sep_inject:
  assumes "c \<notin> set a" "c \<notin> set b"
  shows "a @ c # s = b @ c # t \<longleftrightarrow> a = b \<and> s = t"
proof
  assume eq: "a @ c # s = b @ c # t"
  have tw: "takeWhile (\<lambda>x. x \<noteq> c) (u @ c # v) = u" if "c \<notin> set u" for u v
    using that by (subst takeWhile_append2) auto
  from eq have "a = b" using tw [OF assms(1), of s] tw [OF assms(2), of t] by simp
  with eq show "a = b \<and> s = t" by simp
qed simp

text \<open>
  The verb \<open>%q\<close> of \<open>fmt\<close> (\<open>strconv.Quote\<close>): quotation marks, with escapes for the quotation mark, the
  backslash and the control characters; the bytes of printable runes outside ASCII stay as they are.
\<close>

definition hexChar :: "nat \<Rightarrow> char" where
  "hexChar n = (''0123456789abcdef'') ! n"

definition quoteByte :: "char \<Rightarrow> string" where
  "quoteByte c =
     (let n = of_char c :: nat in
      if c = CHR 0x22 \<or> c = CHR 0x5C then [CHR 0x5C, c]
      else if n = 7 then CHR 0x5C # ''a''
      else if n = 8 then CHR 0x5C # ''b''
      else if n = 9 then CHR 0x5C # ''t''
      else if n = 10 then CHR 0x5C # ''n''
      else if n = 11 then CHR 0x5C # ''v''
      else if n = 12 then CHR 0x5C # ''f''
      else if n = 13 then CHR 0x5C # ''r''
      else if n < 32 \<or> n = 127 then [CHR 0x5C, CHR ''x'', hexChar (n div 16), hexChar (n mod 16)]
      else [c])"

definition goQuote :: "string \<Rightarrow> string" where
  "goQuote s = [CHR 0x22] @ concat (map quoteByte s) @ [CHR 0x22]"

text \<open>The verbs \<open>%d\<close> and \<open>%v\<close> of a number that is not negative.\<close>

fun decimal :: "nat \<Rightarrow> string" where
  "decimal n = (if n < 10 then [hexChar n] else decimal (n div 10) @ [hexChar (n mod 10)])"

declare decimal.simps [simp del]

section \<open>Lists and maps\<close>

lemma find_SomeD: "find P xs = Some x \<Longrightarrow> x \<in> set xs \<and> P x"
  by (induction xs) (auto split: if_splits)

lemma map_upd_other: "k \<noteq> k' \<Longrightarrow> (m(k \<mapsto> v)) k' = m k'"
  by simp

end
