(* ===== verification/Clean_Error.thy ===== *)
theory Clean_Error
  imports Prelude
begin

text \<open>
  \<open>internal/controller/*/object/cleanerr.go\<close>: error messages with the pointers masked, so that a
  repeated failure gives the same text. The regular expression is a function that returns what
  follows a match at the head of the string; \<open>ReplaceAllString\<close> scans from the left.
\<close>

section \<open>The pointer pattern\<close>

definition hexDigit :: "char \<Rightarrow> bool" where
  "hexDigit c \<longleftrightarrow> c \<in> set ''0123456789abcdef''"

text \<open>\<open>\(0x[0-9a-f]{5,}\)\<close>: the digits cannot run over the closing parenthesis.\<close>

fun pointerRegex :: "string \<Rightarrow> string option" where
  "pointerRegex (a # b # c # t) =
     (if a = CHR ''('' \<and> b = CHR ''0'' \<and> c = CHR ''x'' \<and> 5 \<le> length (takeWhile hexDigit t)
      then (case dropWhile hexDigit t of
              [] \<Rightarrow> None
            | d # r \<Rightarrow> (if d = CHR '')'' then Some r else None))
      else None)"
| "pointerRegex _ = None"

lemma pointerRegex_shorter: "pointerRegex s = Some r \<Longrightarrow> length r < length s"
proof (induction s rule: pointerRegex.induct)
  case (1 a b c t)
  have "length (dropWhile hexDigit t) \<le> length t" by (rule length_dropWhile_le)
  with 1 show ?case by (auto split: if_splits list.splits)
qed auto

function maskPointers :: "string \<Rightarrow> string" where
  "maskPointers [] = []"
| "maskPointers (x # xs) =
     (case pointerRegex (x # xs) of
        Some r \<Rightarrow> ''(..ptr..)'' @ maskPointers r
      | None \<Rightarrow> x # maskPointers xs)"
  by pat_completeness auto
termination
  by (relation "measure length") (use pointerRegex_shorter in fastforce)+

declare maskPointers.simps(2) [simp del]

definition containsPointer :: "string \<Rightarrow> bool" where
  "containsPointer s \<longleftrightarrow> (\<exists>t \<in> set (suffixes s). pointerRegex t \<noteq> None)"

lemma containsPointer_Nil [simp]: "\<not> containsPointer []"
  by (simp add: containsPointer_def)

lemma containsPointer_Cons:
  "containsPointer (x # xs) \<longleftrightarrow> pointerRegex (x # xs) \<noteq> None \<or> containsPointer xs"
  by (auto simp: containsPointer_def)

section \<open>Masking\<close>

lemma maskPointers_id: "\<not> containsPointer s \<Longrightarrow> maskPointers s = s"
  by (induction s) (auto simp: containsPointer_Cons maskPointers.simps(2))

text \<open>
  A part of the output without an opening parenthesis was copied from the input, because every
  replacement starts with one.
\<close>

lemma maskPointers_copied:
  "maskPointers s = u @ v \<Longrightarrow> CHR ''('' \<notin> set u \<Longrightarrow> \<exists>t. s = u @ t \<and> v = maskPointers t"
proof (induction u arbitrary: s)
  case Nil
  then show ?case by simp
next
  case (Cons c u)
  show ?case
  proof (cases s)
    case Nil
    with Cons.prems show ?thesis by simp
  next
    case (Cons x xs)
    with Cons.prems have "pointerRegex (x # xs) = None"
      by (auto simp: maskPointers.simps(2) split: option.splits)
    with Cons Cons.prems have "x = c" and "maskPointers xs = u @ v"
      by (auto simp: maskPointers.simps(2))
    with Cons.IH [of xs] Cons.prems(2) Cons show ?thesis by auto
  qed
qed

lemma pointerRegex_SomeD:
  assumes "pointerRegex s = Some r"
  obtains h where "s = ''(0x'' @ h @ '')'' @ r" "5 \<le> length h" "\<forall>c \<in> set h. hexDigit c"
proof -
  obtain t where s: "s = ''(0x'' @ t" and h: "5 \<le> length (takeWhile hexDigit t)"
    and d: "dropWhile hexDigit t = '')'' @ r"
    using assms by (cases s rule: pointerRegex.cases) (auto split: if_splits list.splits)
  have "t = takeWhile hexDigit t @ '')'' @ r"
    using d by (metis takeWhile_dropWhile_id)
  with s have "s = ''(0x'' @ takeWhile hexDigit t @ '')'' @ r" by (metis append_assoc)
  then show ?thesis using h by (rule that) (auto dest: set_takeWhileD)
qed

lemma pointerRegex_SomeI:
  assumes "5 \<le> length h" "\<forall>c \<in> set h. hexDigit c"
  shows "pointerRegex (''(0x'' @ h @ '')'' @ r) = Some r"
proof -
  have n: "\<not> hexDigit (CHR '')'')" by (simp add: hexDigit_def)
  have "takeWhile hexDigit (h @ '')'' @ r) = h @ takeWhile hexDigit ('')'' @ r)"
    by (rule takeWhile_append2) (rule bspec [OF assms(2)])
  moreover have "dropWhile hexDigit (h @ '')'' @ r) = dropWhile hexDigit ('')'' @ r)"
    by (rule dropWhile_append2) (rule bspec [OF assms(2)])
  ultimately show ?thesis using n assms(1) by simp
qed

lemma hexDigit_paren [simp]: "\<not> hexDigit (CHR ''('')" "\<not> hexDigit (CHR '')'')"
  by (simp_all add: hexDigit_def)

lemma hexDigits_no_paren: "\<forall>c \<in> set h. hexDigit c \<Longrightarrow> CHR ''('' \<notin> set h"
  using hexDigit_paren(1) by blast

lemma pointerRegex_maskPointers:
  assumes "pointerRegex (x # xs) = None"
  shows "pointerRegex (x # maskPointers xs) = None"
proof (rule ccontr)
  assume "pointerRegex (x # maskPointers xs) \<noteq> None"
  then obtain r h where eq: "x # maskPointers xs = ''(0x'' @ h @ '')'' @ r"
    and h: "5 \<le> length h" "\<forall>c \<in> set h. hexDigit c"
    by (auto elim!: pointerRegex_SomeD)
  from eq have x: "x = CHR ''(''" and m: "maskPointers xs = (''0x'' @ h @ '')'') @ r"
    by simp_all
  have "CHR ''('' \<notin> set (''0x'' @ h @ '')'')"
    using hexDigits_no_paren [OF h(2)] by simp
  from maskPointers_copied [OF m this] obtain t where "xs = ''0x'' @ h @ '')'' @ t"
    by auto
  with x pointerRegex_SomeI [OF h, of t] have "pointerRegex (x # xs) = Some t" by simp
  with assms show False by simp
qed

lemma containsPointer_append_ptr:
  "containsPointer (''(..ptr..)'' @ s) \<longleftrightarrow> containsPointer s"
  by (cases s; cases "tl s") (simp_all add: containsPointer_Cons)

lemma maskPointers_clean: "\<not> containsPointer (maskPointers s)"
proof (induction s rule: maskPointers.induct)
  case 1
  show ?case by simp
next
  case (2 x xs)
  show ?case
  proof (cases "pointerRegex (x # xs)")
    case None
    with 2 show ?thesis
      by (simp add: maskPointers.simps(2) containsPointer_Cons pointerRegex_maskPointers)
  next
    case (Some r)
    have "\<not> containsPointer (''(..ptr..)'' @ maskPointers r)"
      using 2(2) [OF Some] containsPointer_append_ptr by blast
    with Some show ?thesis by (simp add: maskPointers.simps(2))
  qed
qed

section \<open>Error messages\<close>

text \<open>
  \<open>Error()\<close> along the chain: a wrapped error prints its message, a colon and its cause; a cleaned
  error prints its cause with the pointers masked (\<open>cleanErrorMessage\<close>).
\<close>

fun errorText :: "goerr \<Rightarrow> string" where
  "errorText (ErrNew m) = m"
| "errorText (ErrStatus r m) = m"
| "errorText (ErrWrap m e) = m @ '': '' @ errorText e"
| "errorText (ErrClean e) = maskPointers (errorText e)"

definition cleanErrorMessage :: "goerr \<Rightarrow> string" where
  "cleanErrorMessage e = maskPointers (errorText e)"

text \<open>\<open>CleanErr\<close>: nil stays nil.\<close>

fun CleanErr :: "goerr option \<Rightarrow> goerr option" where
  "CleanErr None = None"
| "CleanErr (Some e) = Some (ErrClean e)"

end
