(* ===== verification/Kube_Types.thy ===== *)
theory Kube_Types
  imports Prelude
begin

text \<open>
  The data the provider works on: the \<open>Object\<close> resource of both API groups
  (\<open>apis/cluster/object/v1alpha2\<close> and \<open>apis/namespaced/object/v1alpha1\<close>, whose types differ only
  in the provider-config reference), unstructured Kubernetes objects, and the parameters of the
  model: one record for the pure functions of the libraries the provider imports, and one for the
  calls of a Kubernetes client. A library function is always a field of such a record; what a
  theorem relies on is stated as a predicate over the field.
\<close>

section \<open>JSON values and unstructured objects\<close>

datatype json =
    JNull
  | JBool bool
  | JNumber string
  | JString string
  | JArray "json list"
  | JObject "(string \<times> json) list"

record gvk =
  gvk_group :: string
  gvk_version :: string
  gvk_kind :: string

text \<open>\<open>types.NamespacedName\<close>: the namespace and the name.\<close>

type_synonym nsname = "string \<times> string"

text \<open>\<open>metav1.ManagedFieldsEntry\<close>; \<open>FieldsV1\<close> is a pointer to raw bytes.\<close>

record mfe =
  mfe_manager :: string
  mfe_operation :: string
  mfe_subresource :: string
  mfe_fieldsV1 :: "string option"

text \<open>
  \<open>unstructured.Unstructured\<close> by what its accessors return; the other top-level fields of the JSON
  tree (\<open>spec\<close>, \<open>data\<close>, \<open>status\<close>) are kept by name.
\<close>

record unstructured =
  u_apiVersion :: string
  u_kind :: string
  u_namespace :: string
  u_name :: string
  u_annotations :: "string \<rightharpoonup> string"
  u_finalizers :: "string list"
  u_managedFields :: "mfe list"
  u_content :: "string \<rightharpoonup> json"

definition emptyUnstructured :: unstructured where
  "emptyUnstructured =
     \<lparr>u_apiVersion = [], u_kind = [], u_namespace = [], u_name = [], u_annotations = Map.empty,
      u_finalizers = [], u_managedFields = [], u_content = Map.empty\<rparr>"

text \<open>A condition of an observed object's \<open>status.conditions\<close>.\<close>

record ocond =
  oc_type :: string
  oc_status :: string

section \<open>The Object resource\<close>

record dependsOn =
  dep_apiVersion :: string
  dep_kind :: string
  dep_name :: string
  dep_namespace :: string

record patchesFrom =
  pf_dependsOn :: dependsOn
  pf_fieldPath :: "string option"

record reference =
  ref_dependsOn :: "dependsOn option"
  ref_patchesFrom :: "patchesFrom option"
  ref_toFieldPath :: "string option"

record objectReference =
  or_kind :: string
  or_namespace :: string
  or_name :: string
  or_uid :: string
  or_apiVersion :: string
  or_resourceVersion :: string
  or_fieldPath :: string

record connectionDetail =
  cd_ref :: objectReference
  cd_toConnectionSecretKey :: string

text \<open>\<open>runtime.RawExtension\<close>: the raw bytes, \<open>None\<close> for a nil slice.\<close>

type_synonym rawExtension = "string option"

definition rawBytes :: "rawExtension \<Rightarrow> string" where
  "rawBytes r = (case r of None \<Rightarrow> [] | Some s \<Rightarrow> s)"

record objectParameters =
  op_manifest :: rawExtension
  op_deletionPropagationPolicy :: string

text \<open>Readiness policies are strings, so that a value outside the enumeration is possible.\<close>

abbreviation ReadinessPolicySuccessfulCreate :: string where
  "ReadinessPolicySuccessfulCreate \<equiv> ''SuccessfulCreate''"
abbreviation ReadinessPolicyDeriveFromObject :: string where
  "ReadinessPolicyDeriveFromObject \<equiv> ''DeriveFromObject''"
abbreviation ReadinessPolicyAllTrue :: string where
  "ReadinessPolicyAllTrue \<equiv> ''AllTrue''"
abbreviation ReadinessPolicyDeriveFromCelQuery :: string where
  "ReadinessPolicyDeriveFromCelQuery \<equiv> ''DeriveFromCelQuery''"

record readiness =
  rd_policy :: string
  rd_celQuery :: string

text \<open>Management actions (\<open>xpv2.ManagementAction\<close>).\<close>

abbreviation ManagementActionAll :: string where "ManagementActionAll \<equiv> ''*''"
abbreviation ManagementActionObserve :: string where "ManagementActionObserve \<equiv> ''Observe''"
abbreviation ManagementActionCreate :: string where "ManagementActionCreate \<equiv> ''Create''"
abbreviation ManagementActionUpdate :: string where "ManagementActionUpdate \<equiv> ''Update''"
abbreviation ManagementActionDelete :: string where "ManagementActionDelete \<equiv> ''Delete''"

text \<open>
  The reference to a provider config: kind and name. The cluster-scoped Object has the name only,
  and its kind is left empty here.
\<close>

record pcReference =
  pcr_kind :: string
  pcr_name :: string

record secretReference =
  sr_name :: string
  sr_namespace :: string

record objectSpec =
  sp_writeConnectionSecretToReference :: "secretReference option"
  sp_providerConfigReference :: "pcReference option"
  sp_managementPolicies :: "string list option"
  sp_deletionPolicy :: string
  sp_connectionDetails :: "connectionDetail list"
  sp_forProvider :: objectParameters
  sp_references :: "reference list"
  sp_readiness :: readiness
  sp_watch :: bool

text \<open>
  The status conditions the provider sets, named after the constructors of \<open>xpv2\<close> it calls:
  \<open>Available\<close> and \<open>Unavailable\<close> are of type Ready, the reconcile results of type Synced. A status
  holds at most one condition of each type, and \<open>SetConditions\<close> replaces it.
\<close>

datatype condition =
    Available
  | Unavailable
  | UnavailableMessage string
  | ReconcileSuccess
  | ReconcileError goerr
  | ReconcilePaused

datatype condType = TypeReady | TypeSynced

fun conditionType :: "condition \<Rightarrow> condType" where
  "conditionType Available = TypeReady"
| "conditionType Unavailable = TypeReady"
| "conditionType (UnavailableMessage _) = TypeReady"
| "conditionType ReconcileSuccess = TypeSynced"
| "conditionType (ReconcileError _) = TypeSynced"
| "conditionType ReconcilePaused = TypeSynced"

type_synonym conditions = "condType \<rightharpoonup> condition"

definition setCondition :: "condition \<Rightarrow> conditions \<Rightarrow> conditions" where
  "setCondition c cs = cs(conditionType c \<mapsto> c)"

record objectStatus =
  os_conditions :: conditions
  os_atProviderManifest :: rawExtension

record objectMeta =
  om_name :: string
  om_namespace :: string
  om_uid :: string
  om_labels :: "string \<rightharpoonup> string"
  om_annotations :: "string \<rightharpoonup> string"
  om_finalizers :: "string list"
  om_creationTimestamp :: "int option"
  om_deletionTimestamp :: "int option"

record kobject =
  ko_meta :: objectMeta
  ko_spec :: objectSpec
  ko_status :: objectStatus

text \<open>\<open>meta.WasDeleted\<close>: the deletion timestamp is set.\<close>

definition wasDeleted :: "objectMeta \<Rightarrow> bool" where
  "wasDeleted m \<longleftrightarrow> om_deletionTimestamp m \<noteq> None"

text \<open>The two packages of each controller: cluster-scoped and namespaced Objects.\<close>

datatype scope = ClusterScoped | Namespaced

instantiation scope :: enum
begin

definition enum_scope :: "scope list" where
  "enum_scope = [ClusterScoped, Namespaced]"

definition enum_all_scope :: "(scope \<Rightarrow> bool) \<Rightarrow> bool" where
  "enum_all_scope P \<longleftrightarrow> P ClusterScoped \<and> P Namespaced"

definition enum_ex_scope :: "(scope \<Rightarrow> bool) \<Rightarrow> bool" where
  "enum_ex_scope P \<longleftrightarrow> P ClusterScoped \<or> P Namespaced"

instance
proof
  have all: "sc = ClusterScoped \<or> sc = Namespaced" for sc by (cases sc) simp_all
  show "(UNIV :: scope set) = set enum_class.enum" using all by (auto simp: enum_scope_def)
  show "distinct (enum_class.enum :: scope list)" by (simp add: enum_scope_def)
  show "enum_class.enum_all P \<longleftrightarrow> Ball UNIV P" for P :: "scope \<Rightarrow> bool"
    unfolding enum_all_scope_def by (metis (full_types) UNIV_I all)
  show "enum_class.enum_ex P \<longleftrightarrow> Bex UNIV P" for P :: "scope \<Rightarrow> bool"
    unfolding enum_ex_scope_def by (metis (full_types) UNIV_I all)
qed

end

lemma all_scope: "(\<forall>sc. P sc) \<longleftrightarrow> P ClusterScoped \<and> P Namespaced"
  by (metis scope.exhaust)

abbreviation koName :: "kobject \<Rightarrow> string" where "koName o' \<equiv> om_name (ko_meta o')"
abbreviation koNamespace :: "kobject \<Rightarrow> string" where "koNamespace o' \<equiv> om_namespace (ko_meta o')"
abbreviation koUID :: "kobject \<Rightarrow> string" where "koUID o' \<equiv> om_uid (ko_meta o')"
abbreviation koManifest :: "kobject \<Rightarrow> rawExtension" where
  "koManifest o' \<equiv> op_manifest (sp_forProvider (ko_spec o'))"

definition setReady :: "condition \<Rightarrow> kobject \<Rightarrow> kobject" where
  "setReady c o' = o'\<lparr>ko_status := (ko_status o')\<lparr>os_conditions := setCondition c (os_conditions (ko_status o'))\<rparr>\<rparr>"

definition setFinalizers :: "string list \<Rightarrow> kobject \<Rightarrow> kobject" where
  "setFinalizers fs o' = o'\<lparr>ko_meta := (ko_meta o')\<lparr>om_finalizers := fs\<rparr>\<rparr>"

definition setAtProviderRaw :: "string \<Rightarrow> kobject \<Rightarrow> kobject" where
  "setAtProviderRaw raw o' = o'\<lparr>ko_status := (ko_status o')\<lparr>os_atProviderManifest := Some raw\<rparr>\<rparr>"

lemma setReady_simps [simp]:
  "ko_meta (setReady c o') = ko_meta o'"
  "ko_spec (setReady c o') = ko_spec o'"
  "os_atProviderManifest (ko_status (setReady c o')) = os_atProviderManifest (ko_status o')"
  "os_conditions (ko_status (setReady c o')) = setCondition c (os_conditions (ko_status o'))"
  by (simp_all add: setReady_def)

lemma setFinalizers_simps [simp]:
  "om_finalizers (ko_meta (setFinalizers fs o')) = fs"
  "om_uid (ko_meta (setFinalizers fs o')) = om_uid (ko_meta o')"
  "om_name (ko_meta (setFinalizers fs o')) = om_name (ko_meta o')"
  "om_namespace (ko_meta (setFinalizers fs o')) = om_namespace (ko_meta o')"
  "om_deletionTimestamp (ko_meta (setFinalizers fs o')) = om_deletionTimestamp (ko_meta o')"
  "ko_spec (setFinalizers fs o') = ko_spec o'"
  "ko_status (setFinalizers fs o') = ko_status o'"
  by (simp_all add: setFinalizers_def)

lemma setAtProviderRaw_simps [simp]:
  "ko_meta (setAtProviderRaw raw o') = ko_meta o'"
  "ko_spec (setAtProviderRaw raw o') = ko_spec o'"
  "os_atProviderManifest (ko_status (setAtProviderRaw raw o')) = Some raw"
  "os_conditions (ko_status (setAtProviderRaw raw o')) = os_conditions (ko_status o')"
  by (simp_all add: setAtProviderRaw_def)

lemma setCondition_same [simp]: "setCondition c cs (conditionType c) = Some c"
  by (simp add: setCondition_def)

lemma setCondition_other: "t \<noteq> conditionType c \<Longrightarrow> setCondition c cs t = cs t"
  by (simp add: setCondition_def)

section \<open>Parameters: library functions and clients\<close>

text \<open>
  The functions of imported packages that the object controllers call. \<open>lib_unmarshal\<close> is
  \<open>json.Unmarshal\<close> into an \<open>Unstructured\<close>, \<open>lib_fields\<close> into a \<open>map[string]any\<close>, \<open>lib_marshal\<close>
  is \<open>Unstructured.MarshalJSON\<close>; \<open>lib_gvkOf\<close> is \<open>Unstructured.GroupVersionKind\<close> and \<open>lib_gvString\<close>
  is \<open>schema.GroupVersion.String\<close>; \<open>lib_deepEqual\<close> is \<open>equality.Semantic.DeepEqual\<close>; the next four
  are \<open>meta.AddAnnotations\<close> (with one entry), \<open>meta.FinalizerExists\<close>, \<open>meta.AddFinalizer\<close> and
  \<open>meta.RemoveFinalizer\<close> on the finalizer list; \<open>lib_getValue\<close>, \<open>lib_setValue\<close> and
  \<open>lib_statusConditions\<close> are \<open>GetValue\<close>, \<open>SetValue\<close> and \<open>GetValueInto("status", ...)\<close> of
  \<open>fieldpath.Paved\<close>; \<open>lib_paveUnstructured\<close> and \<open>lib_paveObject\<close> are \<open>fieldpath.PaveObject\<close> on an
  unstructured object and on an Object; \<open>lib_fromUnstructured\<close> is \<open>FromUnstructured\<close> into an Object;
  \<open>lib_csaPatch\<close> is \<open>csaupgrade.UpgradeManagedFieldsPatch\<close>; \<open>lib_sha256Hex\<close> is
  the hexadecimal SHA-256 sum; \<open>lib_formatValue\<close> is \<open>fmt.Sprintf("%v", v)\<close>.
\<close>

record klib =
  lib_unmarshal :: "string \<Rightarrow> unstructured res"
  lib_marshal :: "unstructured \<Rightarrow> string res"
  lib_fields :: "string \<Rightarrow> (string \<times> json) list res"
  lib_gvkOf :: "unstructured \<Rightarrow> gvk"
  lib_gvString :: "string \<Rightarrow> string \<Rightarrow> string"
  lib_deepEqual :: "unstructured \<Rightarrow> unstructured \<Rightarrow> bool"
  lib_addAnnotation :: "(string \<rightharpoonup> string) \<Rightarrow> string \<Rightarrow> string \<Rightarrow> (string \<rightharpoonup> string)"
  lib_finExists :: "string list \<Rightarrow> string \<Rightarrow> bool"
  lib_finAdd :: "string list \<Rightarrow> string \<Rightarrow> string list"
  lib_finRemove :: "string list \<Rightarrow> string \<Rightarrow> string list"
  lib_getValue :: "unstructured \<Rightarrow> string \<Rightarrow> json res"
  lib_setValue :: "unstructured \<Rightarrow> string \<Rightarrow> json \<Rightarrow> unstructured res"
  lib_statusConditions :: "unstructured \<Rightarrow> ocond list res"
  lib_paveUnstructured :: "unstructured \<Rightarrow> unstructured res"
  lib_paveObject :: "kobject \<Rightarrow> unstructured res"
  lib_fromUnstructured :: "unstructured \<Rightarrow> kobject res"
  lib_csaPatch :: "unstructured \<Rightarrow> string list \<Rightarrow> string \<Rightarrow> string res"
  lib_sha256Hex :: "string \<Rightarrow> string"
  lib_formatValue :: "json \<Rightarrow> string"

text \<open>Documented laws of the finalizer functions of crossplane-runtime's \<open>meta\<close> package.\<close>

definition finalizerLaws :: "klib \<Rightarrow> bool" where
  "finalizerLaws L \<longleftrightarrow>
     (\<forall>fs f. lib_finExists L (lib_finAdd L fs f) f) \<and>
     (\<forall>fs f. \<not> lib_finExists L (lib_finRemove L fs f) f) \<and>
     (\<forall>fs f g. g \<noteq> f \<longrightarrow> lib_finExists L (lib_finAdd L fs f) g = lib_finExists L fs g) \<and>
     (\<forall>fs f g. g \<noteq> f \<longrightarrow> lib_finExists L (lib_finRemove L fs f) g = lib_finExists L fs g)"

lemma finalizerLawsD:
  assumes "finalizerLaws L"
  shows "lib_finExists L (lib_finAdd L fs f) f"
    and "\<not> lib_finExists L (lib_finRemove L fs f) f"
    and "g \<noteq> f \<Longrightarrow> lib_finExists L (lib_finAdd L fs f) g = lib_finExists L fs g"
    and "g \<noteq> f \<Longrightarrow> lib_finExists L (lib_finRemove L fs f) g = lib_finExists L fs g"
  using assms unfolding finalizerLaws_def by blast+

text \<open>\<open>AddAnnotations\<close> sets the entry and keeps the others.\<close>

definition annotationLaws :: "klib \<Rightarrow> bool" where
  "annotationLaws L \<longleftrightarrow> (\<forall>as k v. lib_addAnnotation L as k v = as(k \<mapsto> v))"

text \<open>
  A client of a Kubernetes API server over a world \<open>'w\<close>, everything outside the process. Every call
  returns the world it leaves: the server may answer anything, and others may act meanwhile.
  The calls: \<open>Get\<close> (API version, kind, key), \<open>Update\<close>, the patching \<open>Applicator.Apply\<close>, the
  server-side apply patch (dry run or not, field owner), a JSON patch, \<open>Delete\<close> with a propagation
  policy, and the \<open>Update\<close> of an Object itself.
\<close>

record 'w kclient =
  k_get :: "string \<Rightarrow> string \<Rightarrow> nsname \<Rightarrow> 'w \<Rightarrow> unstructured res \<times> 'w"
  k_update :: "unstructured \<Rightarrow> 'w \<Rightarrow> unstructured res \<times> 'w"
  k_apply :: "unstructured \<Rightarrow> 'w \<Rightarrow> unstructured res \<times> 'w"
  k_ssa :: "bool \<Rightarrow> string \<Rightarrow> unstructured \<Rightarrow> 'w \<Rightarrow> unstructured res \<times> 'w"
  k_jsonPatch :: "unstructured \<Rightarrow> string \<Rightarrow> 'w \<Rightarrow> unstructured res \<times> 'w"
  k_delete :: "string \<Rightarrow> unstructured \<Rightarrow> 'w \<Rightarrow> unit res \<times> 'w"
  k_updateObject :: "kobject \<Rightarrow> 'w \<Rightarrow> kobject res \<times> 'w"

end
