(* ===== verification/Object_Ops.thy ===== *)
theory Object_Ops
  imports Kube_Types Clean_Error
begin

text \<open>
  The operations of \<open>internal/controller/*/object/object.go\<close>, \<open>syncer.go\<close>, \<open>informers.go\<close> and of the
  API types that only read or compute on an Object: its manifest and observed manifest, its
  references, the keys of its provider config, and the patch of a field from a referenced object.
\<close>

section \<open>Error messages of the controller\<close>

abbreviation errGetProviderConfig :: string where "errGetProviderConfig \<equiv> ''cannot get provider config''"
abbreviation errCreateDiscoveryClient :: string where
  "errCreateDiscoveryClient \<equiv> ''cannot create discovery client''"
abbreviation errCreateSSAExtractor :: string where
  "errCreateSSAExtractor \<equiv> ''cannot create new unstructured server side apply extractor''"
abbreviation errNotKubernetesObject :: string where
  "errNotKubernetesObject \<equiv> ''managed resource is not an Object custom resource''"
abbreviation errBuildKubeForProviderConfig :: string where
  "errBuildKubeForProviderConfig \<equiv> ''cannot build kube client for provider config''"
abbreviation refFinalizerNamePrefix :: string where
  "refFinalizerNamePrefix \<equiv> ''kubernetes.crossplane.io/referred-by-object-''"
abbreviation resourceRefGVKsIndex :: string where
  "resourceRefGVKsIndex \<equiv> ''objectsRefsGVKs''"
abbreviation resourceRefsIndex :: string where
  "resourceRefsIndex \<equiv> ''objectsRefs''"
abbreviation errTrackPCUsage :: string where "errTrackPCUsage \<equiv> ''cannot track ProviderConfig usage''"
abbreviation errGetObject :: string where "errGetObject \<equiv> ''cannot get object''"
abbreviation errCreateObject :: string where "errCreateObject \<equiv> ''cannot create object''"
abbreviation errApplyObject :: string where "errApplyObject \<equiv> ''cannot apply object''"
abbreviation errDeleteObject :: string where "errDeleteObject \<equiv> ''cannot delete object''"
abbreviation errGetObservedState :: string where "errGetObservedState \<equiv> ''cannot get observed state''"
abbreviation errGetDesiredState :: string where "errGetDesiredState \<equiv> ''cannot get desired state''"
abbreviation errUnmarshalTemplate :: string where "errUnmarshalTemplate \<equiv> ''cannot unmarshal template''"
abbreviation errFailedToMarshalExisting :: string where
  "errFailedToMarshalExisting \<equiv> ''cannot marshal existing resource''"
abbreviation errGetReferencedResource :: string where
  "errGetReferencedResource \<equiv> ''cannot get referenced resource''"
abbreviation errPatchFromReferencedResource :: string where
  "errPatchFromReferencedResource \<equiv> ''cannot patch from referenced resource''"
abbreviation errResolveResourceReferences :: string where
  "errResolveResourceReferences \<equiv> ''cannot resolve resource references''"
abbreviation errAddFinalizer :: string where "errAddFinalizer \<equiv> ''cannot add finalizer to Object''"
abbreviation errRemoveFinalizer :: string where "errRemoveFinalizer \<equiv> ''cannot remove finalizer from Object''"
abbreviation errAddReferenceFinalizer :: string where
  "errAddReferenceFinalizer \<equiv> ''cannot add finalizer to referenced resource''"
abbreviation errRemoveReferenceFinalizer :: string where
  "errRemoveReferenceFinalizer \<equiv> ''cannot remove finalizer from referenced resource''"
abbreviation errGetConnectionDetails :: string where "errGetConnectionDetails \<equiv> ''cannot get connection details''"
abbreviation errGetValueAtFieldPath :: string where "errGetValueAtFieldPath \<equiv> ''cannot get value at fieldPath''"
abbreviation errDecodeSecretData :: string where "errDecodeSecretData \<equiv> ''cannot decode secret data''"
abbreviation errSanitizeSecretData :: string where "errSanitizeSecretData \<equiv> ''cannot sanitize secret data''"
abbreviation nilDereference :: string where
  "nilDereference \<equiv> ''invalid memory address or nil pointer dereference''"

section \<open>Manifests\<close>

definition ssaFieldOwner :: "string \<Rightarrow> string" where
  "ssaFieldOwner name = ''provider-kubernetes/'' @ name"

lemma ssaFieldOwner_inject [simp]: "ssaFieldOwner a = ssaFieldOwner b \<longleftrightarrow> a = b"
  by (simp add: ssaFieldOwner_def)

text \<open>A manifest without a name takes the name of the Object.\<close>

definition defaultName :: "kobject \<Rightarrow> unstructured \<Rightarrow> unstructured" where
  "defaultName obj r = (if u_name r = [] then r\<lparr>u_name := koName obj\<rparr> else r)"

lemma defaultName_simps [simp]:
  "u_name (defaultName obj r) = (if u_name r = [] then koName obj else u_name r)"
  "u_kind (defaultName obj r) = u_kind r"
  "u_apiVersion (defaultName obj r) = u_apiVersion r"
  "u_namespace (defaultName obj r) = u_namespace r"
  "u_annotations (defaultName obj r) = u_annotations r"
  by (simp_all add: defaultName_def)

definition parseManifest :: "klib \<Rightarrow> kobject \<Rightarrow> unstructured res" where
  "parseManifest L obj =
     tryR (lib_unmarshal L (rawBytes (koManifest obj))) (ErrWrap errUnmarshalTemplate)
       (\<lambda>r. Ok (defaultName obj r))"

definition parseStatus :: "klib \<Rightarrow> kobject \<Rightarrow> unstructured option res" where
  "parseStatus L obj =
     (case os_atProviderManifest (ko_status obj) of
        None \<Rightarrow> Ok None
      | Some raw \<Rightarrow>
          tryR (lib_unmarshal L raw) (ErrWrap errUnmarshalTemplate) (\<lambda>r. Ok (Some (defaultName obj r))))"

lemma parseManifest_cong:
  "koManifest a = koManifest b \<Longrightarrow> koName a = koName b \<Longrightarrow> parseManifest L a = parseManifest L b"
  by (simp add: parseManifest_def defaultName_def cong: if_cong)

lemma parseManifest_name:
  "parseManifest L obj = Ok m \<Longrightarrow> koName obj \<noteq> [] \<Longrightarrow> u_name m \<noteq> []"
  by (auto simp: parseManifest_def res_simps split: if_splits)

section \<open>References\<close>

text \<open>API version, kind, namespace and name: from \<open>patchesFrom\<close>, else from \<open>dependsOn\<close>, else empty.\<close>

definition getReferenceInfo :: "reference \<Rightarrow> string \<times> string \<times> string \<times> string" where
  "getReferenceInfo ref =
     (case ref_patchesFrom ref of
        Some p \<Rightarrow> (dep_apiVersion (pf_dependsOn p), dep_kind (pf_dependsOn p),
                    dep_namespace (pf_dependsOn p), dep_name (pf_dependsOn p))
      | None \<Rightarrow>
          (case ref_dependsOn ref of
             Some d \<Rightarrow> (dep_apiVersion d, dep_kind d, dep_namespace d, dep_name d)
           | None \<Rightarrow> ([], [], [], [])))"

text \<open>A reference that names no object is skipped.\<close>

definition emptyReference :: "reference \<Rightarrow> bool" where
  "emptyReference ref \<longleftrightarrow> ref_dependsOn ref = None \<and> ref_patchesFrom ref = None"

definition parseAPIVersion :: "string \<Rightarrow> string \<times> string" where
  "parseAPIVersion v =
     (case splitN2 (CHR ''/'') v of
        [p] \<Rightarrow> ([], p)
      | [p, q] \<Rightarrow> (p, q)
      | _ \<Rightarrow> ([], []))"

lemma parseAPIVersion_core: "CHR ''/'' \<notin> set v \<Longrightarrow> parseAPIVersion v = ([], v)"
  by (simp add: parseAPIVersion_def splitN2_def)

lemma parseAPIVersion_group:
  "CHR ''/'' \<notin> set g \<Longrightarrow> parseAPIVersion (g @ ''/'' @ v) = (g, v)"
  by (auto simp: parseAPIVersion_def splitN2_def takeWhile_append dropWhile_append)

text \<open>\<open>unstructuredFromObjectRef\<close> of a connection detail's object reference.\<close>

definition unstructuredFromObjectRef :: "objectReference \<Rightarrow> unstructured" where
  "unstructuredFromObjectRef r =
     emptyUnstructured\<lparr>u_apiVersion := or_apiVersion r, u_kind := or_kind r,
       u_name := or_name r, u_namespace := or_namespace r\<rparr>"

section \<open>Patching from a referenced object\<close>

text \<open>\<open>patchFieldValueToObject\<close>: the Object is rebuilt from its patched unstructured form.\<close>

definition patchFieldValueToObject :: "klib \<Rightarrow> string \<Rightarrow> json \<Rightarrow> kobject \<Rightarrow> kobject res" where
  "patchFieldValueToObject L path v to =
     tryR (lib_paveObject L to) id (\<lambda>paved.
     tryR (lib_setValue L paved (''spec.forProvider.manifest.'' @ path) v) id
       (lib_fromUnstructured L))"

text \<open>
  \<open>Reference.ApplyFromFieldPathPatch\<close>. The receiver is the loop's copy of the reference, so the
  default of \<open>ToFieldPath\<close> is not stored; a nil \<open>PatchesFrom\<close> or \<open>FieldPath\<close> is dereferenced.
\<close>

definition ApplyFromFieldPathPatch :: "klib \<Rightarrow> reference \<Rightarrow> unstructured \<Rightarrow> kobject \<Rightarrow> kobject res" where
  "ApplyFromFieldPathPatch L r from to =
     (if ref_toFieldPath r = None \<and> ref_patchesFrom r = None then Panic nilDereference
      else
        tryR (lib_paveUnstructured L from) id (\<lambda>paved.
        (case ref_patchesFrom r of
           None \<Rightarrow> Panic nilDereference
         | Some p \<Rightarrow>
             (case pf_fieldPath p of
                None \<Rightarrow> Panic nilDereference
              | Some fp \<Rightarrow>
                  tryR (lib_getValue L paved fp) id (\<lambda>out.
                    patchFieldValueToObject L
                      (case ref_toFieldPath r of None \<Rightarrow> fp | Some t \<Rightarrow> t) out to)))))"

section \<open>Provider config keys\<close>

text \<open>
  The namespaced controller identifies a provider config by kind, namespace of the Object and name
  (\<open>providerConfigRefKey\<close>); the cluster-scoped one by its name. The reference is a pointer.
\<close>

definition providerConfigRefKey :: "kobject \<Rightarrow> string res" where
  "providerConfigRefKey obj =
     (case sp_providerConfigReference (ko_spec obj) of
        None \<Rightarrow> Panic nilDereference
      | Some r \<Rightarrow> Ok (pcr_kind r @ ''/'' @ koNamespace obj @ ''/'' @ pcr_name r))"

definition providerConfigKey :: "scope \<Rightarrow> kobject \<Rightarrow> string res" where
  "providerConfigKey sc obj =
     (case sc of
        Namespaced \<Rightarrow> providerConfigRefKey obj
      | ClusterScoped \<Rightarrow>
          (case sp_providerConfigReference (ko_spec obj) of
             None \<Rightarrow> Panic nilDereference
           | Some r \<Rightarrow> Ok (pcr_name r)))"

text \<open>
  The key determines the config: kinds and namespaces have no slash, and a namespaced reference to a
  \<open>ProviderConfig\<close> of the same name in another namespace has another key.
\<close>

lemma providerConfigRefKey_inject:
  assumes "providerConfigRefKey a = Ok k" "providerConfigRefKey b = Ok k"
    and "sp_providerConfigReference (ko_spec a) = Some r" "sp_providerConfigReference (ko_spec b) = Some s"
    and "CHR ''/'' \<notin> set (pcr_kind r)" "CHR ''/'' \<notin> set (pcr_kind s)"
    and "CHR ''/'' \<notin> set (koNamespace a)" "CHR ''/'' \<notin> set (koNamespace b)"
  shows "r = s \<and> koNamespace a = koNamespace b"
proof -
  from assms have "pcr_kind r @ CHR ''/'' # (koNamespace a @ CHR ''/'' # pcr_name r) =
      pcr_kind s @ CHR ''/'' # (koNamespace b @ CHR ''/'' # pcr_name s)"
    by (simp add: providerConfigRefKey_def)
  then have "pcr_kind r = pcr_kind s"
    and "koNamespace a @ CHR ''/'' # pcr_name r = koNamespace b @ CHR ''/'' # pcr_name s"
    using assms(5,6) by (simp_all add: append_sep_inject)
  moreover from this(2) have "koNamespace a = koNamespace b \<and> pcr_name r = pcr_name s"
    using assms(7,8) by (simp add: append_sep_inject)
  ultimately show ?thesis by simp
qed

end
