(* ===== verification/Readiness.thy ===== *)
theory Readiness
  imports Object_Ops
begin

text \<open>
  Readiness of an Object (\<open>updateConditionFromObserved\<close> and its checks in
  \<open>internal/controller/*/object/object.go\<close>): the Ready condition that the readiness policy derives
  from the observed object. The CEL engine is a parameter.
\<close>

section \<open>The CEL engine\<close>

abbreviation errCelQueryFailedToCompile :: string where
  "errCelQueryFailedToCompile \<equiv> ''failed to compile query''"
abbreviation errCelQueryReturnTypeNotBool :: string where
  "errCelQueryReturnTypeNotBool \<equiv> ''celQuery does not return a bool type''"
abbreviation errCelQueryFailedToCreateProgram :: string where
  "errCelQueryFailedToCreateProgram \<equiv> ''failed to create program from the cel query''"
abbreviation errCelQueryFailedToEvalProgram :: string where
  "errCelQueryFailedToEvalProgram \<equiv> ''failed to eval the program''"
abbreviation errCelQueryCannotBeEmpty :: string where
  "errCelQueryCannotBeEmpty \<equiv> ''cel query cannot be empty''"
abbreviation errCelQueryFailedToCreateEnvironment :: string where
  "errCelQueryFailedToCreateEnvironment \<equiv> ''cel query failed to create environment''"
abbreviation errCelQueryJSON :: string where
  "errCelQueryJSON \<equiv> ''failed to marshal or unmarshal the obj for cel query''"

datatype celVal = CelBool bool | CelOther string

text \<open>A program evaluates with the variable \<open>object\<close> bound to a JSON object.\<close>

type_synonym celProgram = "(string \<times> json) list \<Rightarrow> celVal res"

record celAst =
  ast_outputIsBool :: bool
  ast_program :: "celProgram res"

text \<open>
  \<open>cel.NewEnv\<close>, \<open>env.Compile\<close> (with the error of its issues), the test of the output type, and
  \<open>env.Program\<close>; \<open>cel_marshal\<close> is \<open>json.Marshal\<close> of the observed tree.
\<close>

record celEnv =
  cel_newEnv :: "unit res"
  cel_compile :: "string \<Rightarrow> celAst res"
  cel_marshal :: "unstructured \<Rightarrow> string res"

section \<open>The checks\<close>

text \<open>\<open>GetCondition\<close>: the status of the first condition of the type, \<open>Unknown\<close> if there is none.\<close>

definition conditionStatus :: "string \<Rightarrow> ocond list \<Rightarrow> string" where
  "conditionStatus t cs =
     (case find (\<lambda>c. oc_type c = t) cs of Some c \<Rightarrow> oc_status c | None \<Rightarrow> ''Unknown'')"

definition checkDeriveFromObject :: "klib \<Rightarrow> unstructured \<Rightarrow> bool res" where
  "checkDeriveFromObject L observed =
     (case lib_statusConditions L observed of
        Panic p \<Rightarrow> Panic p
      | Err _ \<Rightarrow> Ok False
      | Ok cs \<Rightarrow> Ok (conditionStatus ''Ready'' cs = ''True''))"

text \<open>The loop over the conditions, with its early return.\<close>

fun allConditionsLoop :: "bool \<Rightarrow> ocond list \<Rightarrow> bool" where
  "allConditionsLoop allTrue [] = allTrue"
| "allConditionsLoop allTrue (c # cs) =
     (if oc_status c \<noteq> ''True'' then False else allConditionsLoop allTrue cs)"

definition checkAllConditions :: "klib \<Rightarrow> unstructured \<Rightarrow> bool res" where
  "checkAllConditions L observed =
     (case lib_statusConditions L observed of
        Panic p \<Rightarrow> Panic p
      | Err _ \<Rightarrow> Ok False
      | Ok cs \<Rightarrow> Ok (allConditionsLoop (0 < length cs) cs))"

lemma allConditionsLoop_iff:
  "allConditionsLoop b cs \<longleftrightarrow> (\<forall>c \<in> set cs. oc_status c = ''True'') \<and> b"
  by (induction cs) auto

text \<open>One step of the CEL evaluation: an error ends it as not ready, wrapped.\<close>

definition celTry ::
  "'a res \<Rightarrow> string \<Rightarrow> ('a \<Rightarrow> (bool \<times> goerr option) res) \<Rightarrow> (bool \<times> goerr option) res" where
  "celTry r m k =
     (case r of
        Ok a \<Rightarrow> k a
      | Err e \<Rightarrow> Ok (False, wrapNil m (Some e))
      | Panic p \<Rightarrow> Panic p)"

text \<open>
  \<open>checkDeriveFromCelQuery\<close>. At the test of the output type the variable \<open>err\<close> holds the nil of the
  successful \<open>cel.NewEnv\<close>, and \<open>errors.Wrap\<close> of nil is nil.
\<close>

definition checkDeriveFromCelQuery ::
  "klib \<Rightarrow> celEnv \<Rightarrow> kobject \<Rightarrow> unstructured \<Rightarrow> (bool \<times> goerr option) res" where
  "checkDeriveFromCelQuery L C obj observed =
     (let query = rd_celQuery (sp_readiness (ko_spec obj)) in
      if query = [] then Ok (False, Some (ErrNew errCelQueryCannotBeEmpty))
      else
        celTry (cel_newEnv C) errCelQueryFailedToCreateEnvironment (\<lambda>_.
        celTry (cel_compile C query) errCelQueryFailedToCompile (\<lambda>ast.
        if \<not> ast_outputIsBool ast then Ok (False, wrapNil errCelQueryReturnTypeNotBool None)
        else
          celTry (ast_program ast) errCelQueryFailedToCreateProgram (\<lambda>program.
          celTry (cel_marshal C observed) errCelQueryJSON (\<lambda>data.
          celTry (lib_fields L data) errCelQueryJSON (\<lambda>objMap.
          celTry (program objMap) errCelQueryFailedToEvalProgram (\<lambda>val.
            Ok (val = CelBool True, None))))))))"

text \<open>
  The condition that a check sets. \<open>updateConditionFromObserved\<close> leaves the condition alone for
  \<open>SuccessfulCreate\<close> (and the empty policy) and refuses an unknown policy.
\<close>

definition readyCondition :: "bool \<times> goerr option \<Rightarrow> condition" where
  "readyCondition r =
     (case snd r of
        Some e \<Rightarrow> UnavailableMessage (errorText e)
      | None \<Rightarrow> (if fst r then Available else Unavailable))"

definition readyResult :: "(bool \<times> goerr option) res \<Rightarrow> kobject \<Rightarrow> kobject res" where
  "readyResult r obj =
     (case r of
        Ok a \<Rightarrow> Ok (setReady (readyCondition a) obj)
      | Err e \<Rightarrow> Err e
      | Panic p \<Rightarrow> Panic p)"

definition noError :: "bool res \<Rightarrow> (bool \<times> goerr option) res" where
  "noError r = tryR r id (\<lambda>b. Ok (b, None))"

definition updateConditionFromObserved ::
  "klib \<Rightarrow> celEnv \<Rightarrow> kobject \<Rightarrow> unstructured \<Rightarrow> kobject res" where
  "updateConditionFromObserved L C obj observed =
     (let policy = rd_policy (sp_readiness (ko_spec obj)) in
      if policy = ReadinessPolicyDeriveFromObject then
        readyResult (noError (checkDeriveFromObject L observed)) obj
      else if policy = ReadinessPolicyAllTrue then
        readyResult (noError (checkAllConditions L observed)) obj
      else if policy = ReadinessPolicyDeriveFromCelQuery then
        readyResult (checkDeriveFromCelQuery L C obj observed) obj
      else if policy = ReadinessPolicySuccessfulCreate \<or> policy = [] then Ok obj
      else Err (ErrNew (''unknown readiness policy '' @ goQuote policy)))"

section \<open>Facts\<close>

text \<open>Only the Ready condition of the status can change.\<close>

lemma updateConditionFromObserved_frame:
  assumes "updateConditionFromObserved L C obj observed = Ok obj'"
  shows "ko_meta obj' = ko_meta obj" "ko_spec obj' = ko_spec obj"
    "os_atProviderManifest (ko_status obj') = os_atProviderManifest (ko_status obj)"
    "os_conditions (ko_status obj') TypeSynced = os_conditions (ko_status obj) TypeSynced"
proof -
  have ready: "conditionType (readyCondition r) = TypeReady" for r
    by (cases r) (auto simp: readyCondition_def split: option.splits)
  have "obj' = obj \<or> (\<exists>r. obj' = setReady (readyCondition r) obj)"
    using assms
    by (auto simp: updateConditionFromObserved_def Let_def readyResult_def
        split: if_splits res.splits)
  then show "ko_meta obj' = ko_meta obj" "ko_spec obj' = ko_spec obj"
    "os_atProviderManifest (ko_status obj') = os_atProviderManifest (ko_status obj)"
    "os_conditions (ko_status obj') TypeSynced = os_conditions (ko_status obj) TypeSynced"
    by (auto simp: setCondition_def ready)
qed

lemma celTry_simps [simp]:
  "celTry (Ok a) m k = k a"
  "celTry (Err e) m k = Ok (False, Some (ErrWrap m e))"
  "celTry (Panic p) m k = Panic p"
  by (simp_all add: celTry_def)

lemma celTry_split [res_splits]:
  "P (celTry r m k) \<longleftrightarrow>
     (\<forall>a. r = Ok a \<longrightarrow> P (k a)) \<and> (\<forall>e. r = Err e \<longrightarrow> P (Ok (False, Some (ErrWrap m e)))) \<and>
     (\<forall>p. r = Panic p \<longrightarrow> P (Panic p))"
  by (cases r) auto

lemma celTry_split_asm [res_splits]:
  "P (celTry r m k) \<longleftrightarrow>
     \<not> ((\<exists>a. r = Ok a \<and> \<not> P (k a)) \<or> (\<exists>e. r = Err e \<and> \<not> P (Ok (False, Some (ErrWrap m e)))) \<or>
        (\<exists>p. r = Panic p \<and> \<not> P (Panic p)))"
  by (cases r) auto

text \<open>The CEL check never returns an error as such: what fails is reported in the pair.\<close>

lemma checkDeriveFromCelQuery_no_Err: "checkDeriveFromCelQuery L C obj observed \<noteq> Err e"
  by (simp add: checkDeriveFromCelQuery_def Let_def split: res_splits)

lemma checkDeriveFromCelQuery_ready:
  assumes "checkDeriveFromCelQuery L C obj observed = Ok (True, err)"
  shows "err = None"
  using assms by (simp add: checkDeriveFromCelQuery_def Let_def split: if_splits res_splits)

end
