(* ===== verification/Indexes.thy ===== *)
theory Indexes
  imports Object_Ops
begin

text \<open>
  \<open>internal/controller/*/object/indexes.go\<close>: the index keys under which the cache of Objects finds
  the Objects that reference or manage a resource, and the event handler that enqueues them. The
  cache's \<open>List\<close> is a parameter.
\<close>

section \<open>Keys\<close>

definition refKeyProviderGVK :: "string \<Rightarrow> string \<Rightarrow> string \<Rightarrow> string \<Rightarrow> string" where
  "refKeyProviderGVK providerConfig kind grp version =
     providerConfig @ ''.'' @ kind @ ''.'' @ grp @ ''.'' @ version"

definition refKeyProviderNamespacedNameGVK ::
  "string \<Rightarrow> string \<Rightarrow> string \<Rightarrow> string \<Rightarrow> string \<Rightarrow> string" where
  "refKeyProviderNamespacedNameGVK providerConfig ns name kind apiVersion =
     providerConfig @ ''.'' @ name @ ''.'' @ ns @ ''.'' @ kind @ ''.'' @ apiVersion"

section \<open>Index functions\<close>

definition referenceGVKKey :: "reference \<Rightarrow> string" where
  "referenceGVKKey ref =
     (case getReferenceInfo ref of
        (refAPIVersion, refKind, _, _) \<Rightarrow>
          (case parseAPIVersion refAPIVersion of
             (grp, version) \<Rightarrow> refKeyProviderGVK [] refKind grp version))"

definition referenceNameKey :: "reference \<Rightarrow> string" where
  "referenceNameKey ref =
     (case getReferenceInfo ref of
        (refAPIVersion, refKind, refNamespace, refName) \<Rightarrow>
          refKeyProviderNamespacedNameGVK [] refNamespace refName refKind refAPIVersion)"

text \<open>
  The error of \<open>parseManifest\<close> is dropped and its nil result dereferenced. \<open>sc\<close> selects the
  package, the key of the provider config being the only difference.
\<close>

definition manifestOrPanic :: "klib \<Rightarrow> kobject \<Rightarrow> unstructured res" where
  "manifestOrPanic L obj =
     (case parseManifest L obj of
        Ok d \<Rightarrow> Ok d
      | Err _ \<Rightarrow> Panic nilDereference
      | Panic p \<Rightarrow> Panic p)"

definition IndexByProviderGVK :: "klib \<Rightarrow> scope \<Rightarrow> kobject \<Rightarrow> string list res" where
  "IndexByProviderGVK L sc obj =
     (let keys = map referenceGVKKey (sp_references (ko_spec obj)) in
      tryR (providerConfigKey sc obj) id (\<lambda>providerConfigKey.
      tryR (manifestOrPanic L obj) id (\<lambda>d.
        Ok (keys @ [refKeyProviderGVK providerConfigKey (u_kind d)
             (gvk_group (lib_gvkOf L d)) (gvk_version (lib_gvkOf L d))]))))"

definition IndexByProviderNamespacedNameGVK :: "klib \<Rightarrow> scope \<Rightarrow> kobject \<Rightarrow> string list res" where
  "IndexByProviderNamespacedNameGVK L sc obj =
     (let keys = map referenceNameKey (sp_references (ko_spec obj)) in
      tryR (providerConfigKey sc obj) id (\<lambda>providerConfigKey.
      tryR (manifestOrPanic L obj) id (\<lambda>d.
        Ok (keys @ [refKeyProviderNamespacedNameGVK providerConfigKey (u_namespace d) (u_name d)
             (u_kind d) (u_apiVersion d)]))))"

text \<open>The index functions of the cluster-scoped package.\<close>

definition IndexByProviderGVK_cluster :: "klib \<Rightarrow> kobject \<Rightarrow> string list res" where
  "IndexByProviderGVK_cluster L obj = IndexByProviderGVK L ClusterScoped obj"

definition IndexByProviderNamespacedNameGVK_cluster :: "klib \<Rightarrow> kobject \<Rightarrow> string list res" where
  "IndexByProviderNamespacedNameGVK_cluster L obj = IndexByProviderNamespacedNameGVK L ClusterScoped obj"

text \<open>\<open>client.MatchingFields\<close> on an index: the objects whose keys contain the value.\<close>

definition indexedBy :: "(kobject \<Rightarrow> string list res) \<Rightarrow> string \<Rightarrow> kobject \<Rightarrow> bool" where
  "indexedBy index key obj \<longleftrightarrow> (case index obj of Ok keys \<Rightarrow> key \<in> set keys | _ \<Rightarrow> False)"

text \<open>What the documentation of the cache promises of a list by an index.\<close>

definition listLaw ::
  "(kobject \<Rightarrow> string list res) \<Rightarrow> kobject list \<Rightarrow> (string \<Rightarrow> kobject list res) \<Rightarrow> bool" where
  "listLaw index objs lst \<longleftrightarrow>
     (\<forall>key os. lst key = Ok os \<longrightarrow> set os = {obj \<in> set objs. indexedBy index key obj})"

lemma indexedBy_iff: "indexedBy index key obj \<longleftrightarrow> (\<exists>keys. index obj = Ok keys \<and> key \<in> set keys)"
  by (simp add: indexedBy_def split: res.splits)

lemma listLaw_member:
  "listLaw index objs lst \<Longrightarrow> lst key = Ok os \<Longrightarrow> obj \<in> set os \<longleftrightarrow> obj \<in> set objs \<and> indexedBy index key obj"
  by (auto simp: listLaw_def)

lemma reference_indexed_name:
  assumes "ref \<in> set (sp_references (ko_spec obj))"
    and "IndexByProviderNamespacedNameGVK L sc obj = Ok keys"
  shows "referenceNameKey ref \<in> set keys"
  using assms by (auto simp: IndexByProviderNamespacedNameGVK_def res_simps)

lemma reference_indexed_gvk:
  assumes "ref \<in> set (sp_references (ko_spec obj))" "IndexByProviderGVK L sc obj = Ok keys"
  shows "referenceGVKKey ref \<in> set keys"
  using assms by (auto simp: IndexByProviderGVK_def res_simps)

lemma manifestOrPanic_Ok: "manifestOrPanic L obj = Ok d \<longleftrightarrow> parseManifest L obj = Ok d"
  by (simp add: manifestOrPanic_def split: res.splits)

lemma managed_indexed_name:
  assumes "providerConfigKey sc obj = Ok pc" "parseManifest L obj = Ok d"
    and "IndexByProviderNamespacedNameGVK L sc obj = Ok keys"
  shows "refKeyProviderNamespacedNameGVK pc (u_namespace d) (u_name d) (u_kind d) (u_apiVersion d) \<in> set keys"
  using assms by (auto simp: IndexByProviderNamespacedNameGVK_def res_simps manifestOrPanic_Ok)

lemma managed_indexed_gvk:
  assumes "providerConfigKey sc obj = Ok pc" "parseManifest L obj = Ok d"
    and "IndexByProviderGVK L sc obj = Ok keys"
  shows "refKeyProviderGVK pc (u_kind d) (gvk_group (lib_gvkOf L d)) (gvk_version (lib_gvkOf L d)) \<in> set keys"
  using assms by (auto simp: IndexByProviderGVK_def res_simps manifestOrPanic_Ok)

lemma providerConfigKey_not_Err: "providerConfigKey sc obj \<noteq> Err e"
  by (auto simp: providerConfigKey_def providerConfigRefKey_def split: scope.splits option.splits)

lemma manifestOrPanic_not_Err: "manifestOrPanic L obj \<noteq> Err e"
  by (simp add: manifestOrPanic_def split: res.splits)

text \<open>An index function gives keys or panics.\<close>

lemma index_not_Err:
  "IndexByProviderNamespacedNameGVK L sc obj \<noteq> Err e" "IndexByProviderGVK L sc obj \<noteq> Err e"
  by (auto simp: IndexByProviderNamespacedNameGVK_def IndexByProviderGVK_def Let_def
      providerConfigKey_not_Err manifestOrPanic_not_Err split: res_splits)

section \<open>Events\<close>

text \<open>The resource of an event, by the metadata the handler reads.\<close>

record eventObject =
  ev_gvk :: gvk
  ev_namespace :: string
  ev_name :: string

definition eventKey :: "klib \<Rightarrow> string \<Rightarrow> eventObject \<Rightarrow> string" where
  "eventKey L pc ev =
     refKeyProviderNamespacedNameGVK pc (ev_namespace ev) (ev_name ev) (gvk_kind (ev_gvk ev))
       (lib_gvString L (gvk_group (ev_gvk ev)) (gvk_version (ev_gvk ev)))"

text \<open>
  \<open>enqueueObjectsForReferences\<close>: the requests added to the work queue, in order. A request names the
  namespace in the namespaced package only. The provider config is the value stored in the context,
  the empty string when there is none.
\<close>

definition objectRequest :: "scope \<Rightarrow> kobject \<Rightarrow> nsname" where
  "objectRequest sc obj = (case sc of Namespaced \<Rightarrow> (koNamespace obj, koName obj) | ClusterScoped \<Rightarrow> ([], koName obj))"

definition enqueueObjectsForReferences ::
  "klib \<Rightarrow> scope \<Rightarrow> (string \<Rightarrow> kobject list res) \<Rightarrow> string option \<Rightarrow> eventObject \<Rightarrow> nsname list \<Rightarrow> nsname list res" where
  "enqueueObjectsForReferences L sc lst ctxPC ev q =
     (let pc = (case ctxPC of None \<Rightarrow> [] | Some p \<Rightarrow> p) in
      (case lst (eventKey L pc ev) of
         Err _ \<Rightarrow> Ok q
       | Panic p \<Rightarrow> Panic p
       | Ok items \<Rightarrow>
           Ok (q @ map (objectRequest sc) (filter (\<lambda>o'. sp_watch (ko_spec o')) items))))"

definition enqueueObjectsForReferences_cluster ::
  "klib \<Rightarrow> (string \<Rightarrow> kobject list res) \<Rightarrow> string option \<Rightarrow> eventObject \<Rightarrow> nsname list \<Rightarrow> nsname list res" where
  "enqueueObjectsForReferences_cluster L lst ctxPC ev q =
     enqueueObjectsForReferences L ClusterScoped lst ctxPC ev q"

lemma enqueue_member:
  assumes "listLaw index objs lst" "lst (eventKey L pc ev) = Ok os"
    and "enqueueObjectsForReferences L sc lst (Some pc) ev q = Ok q'"
  shows "set q' = set q \<union> objectRequest sc `
     {obj \<in> set objs. indexedBy index (eventKey L pc ev) obj \<and> sp_watch (ko_spec obj)}"
  using assms listLaw_member [OF assms(1,2)]
  by (auto simp: enqueueObjectsForReferences_def Let_def)

end
