(* ===== verification/Syncer.thy ===== *)
theory Syncer
  imports Object_Ops
begin

text \<open>
  \<open>internal/controller/*/object/syncer.go\<close>: the two resource syncers. The interface
  \<open>ResourceSyncer\<close> is a record of functions over a state \<open>'s\<close> (the clusters and the memory of the
  process), as Go passes it; the locale \<open>resource_syncer\<close> states what the controller relies on.
\<close>

section \<open>The interface\<close>

record 's resourceSyncer =
  rs_GetObservedState :: "kobject \<Rightarrow> unstructured option \<Rightarrow> 's \<Rightarrow> unstructured option res \<times> 's"
  rs_GetDesiredState :: "kobject \<Rightarrow> unstructured \<Rightarrow> 's \<Rightarrow> unstructured option res \<times> 's"
  rs_SyncResource :: "kobject \<Rightarrow> unstructured \<Rightarrow> 's \<Rightarrow> unstructured res \<times> 's"

text \<open>
  Computing the observed and the desired state only reads: every state change is a sequence of the
  steps that \<open>step\<close> allows.
\<close>

locale resource_syncer =
  fixes syncer :: "'s resourceSyncer" and step :: "'s \<Rightarrow> 's \<Rightarrow> bool"
  assumes observed_steps: "rs_GetObservedState syncer obj current s = (r, t) \<Longrightarrow> step\<^sup>*\<^sup>* s t"
    and desired_steps: "rs_GetDesiredState syncer obj manifest s = (r', t) \<Longrightarrow> step\<^sup>*\<^sup>* s t"
begin

lemma both_steps:
  assumes "rs_GetObservedState syncer obj current s = (r, t)"
    and "rs_GetDesiredState syncer obj' manifest t = (r', u)"
  shows "step\<^sup>*\<^sup>* s u"
  using assms observed_steps desired_steps rtranclp_trans by metis

text \<open>A property of the state that every step keeps survives the comparison of the two states.\<close>

lemma both_keep:
  assumes "rs_GetObservedState syncer obj current s = (r, t)"
    and "rs_GetDesiredState syncer obj' manifest t = (r', u)"
    and "\<And>x y. step x y \<Longrightarrow> I x \<Longrightarrow> I y" and "I s"
  shows "I u"
  using both_steps [OF assms(1,2)] assms(4)
  by (induction rule: rtranclp_induct) (auto intro: assms(3))

end

text \<open>The calls of a client that do not write: \<open>Get\<close>, and server-side apply as a dry run.\<close>

inductive readStep :: "'s kclient \<Rightarrow> 's \<Rightarrow> 's \<Rightarrow> bool" for C :: "'s kclient" where
  get: "k_get C apiVersion kind key s = (r, t) \<Longrightarrow> readStep C s t"
| dryRun: "k_ssa C True owner u s = (r', t) \<Longrightarrow> readStep C s t"

section \<open>The patching syncer\<close>

abbreviation LastAppliedConfigAnnotation :: string where
  "LastAppliedConfigAnnotation \<equiv> ''kubectl.kubernetes.io/last-applied-configuration''"

text \<open>\<open>current\<close> is a pointer, whose methods dereference it.\<close>

definition Patching_GetObservedState ::
  "klib \<Rightarrow> kobject \<Rightarrow> unstructured option \<Rightarrow> unstructured option res" where
  "Patching_GetObservedState L obj current =
     (case current of
        None \<Rightarrow> Panic nilDereference
      | Some c \<Rightarrow>
          (case u_annotations c LastAppliedConfigAnnotation of
             None \<Rightarrow> Ok None
           | Some lastApplied \<Rightarrow>
               tryR (lib_unmarshal L lastApplied) (ErrWrap errUnmarshalTemplate)
                 (\<lambda>last. Ok (Some (defaultName obj last)))))"

definition Patching_GetDesiredState :: "klib \<Rightarrow> kobject \<Rightarrow> unstructured option res" where
  "Patching_GetDesiredState L obj = tryR (parseManifest L obj) id (\<lambda>m. Ok (Some m))"

definition Patching_SyncResource ::
  "klib \<Rightarrow> 's kclient \<Rightarrow> kobject \<Rightarrow> unstructured \<Rightarrow> 's \<Rightarrow> unstructured res \<times> 's" where
  "Patching_SyncResource L C obj desired s =
     (let annotated = desired\<lparr>u_annotations := lib_addAnnotation L (u_annotations desired)
            LastAppliedConfigAnnotation (rawBytes (koManifest obj))\<rparr> in
      tryS (k_apply C annotated s) (\<lambda>e. ErrWrap errApplyObject (ErrClean e)) (\<lambda>applied s. (Ok applied, s)))"

definition PatchingResourceSyncer :: "klib \<Rightarrow> 's kclient \<Rightarrow> 's resourceSyncer" where
  "PatchingResourceSyncer L C =
     \<lparr>rs_GetObservedState = \<lambda>obj current s. (Patching_GetObservedState L obj current, s),
      rs_GetDesiredState = \<lambda>obj manifest s. (Patching_GetDesiredState L obj, s),
      rs_SyncResource = Patching_SyncResource L C\<rparr>"

interpretation patching: resource_syncer "PatchingResourceSyncer L C" "readStep C" for L C
  by unfold_locales (auto simp: PatchingResourceSyncer_def)

section \<open>Legacy field managers\<close>

abbreviation opUpdate :: string where "opUpdate \<equiv> ''Update''"

text \<open>A map of JSON fields with the single key \<open>k\<close> whose value is an object.\<close>

definition objectField :: "string \<Rightarrow> (string \<times> json) list \<Rightarrow> (string \<times> json) list option" where
  "objectField k kvs = (case map_of kvs k of Some (JObject m) \<Rightarrow> Some m | _ \<Rightarrow> None)"

definition isFinalizersOnlyManagedFieldsEntry :: "klib \<Rightarrow> mfe \<Rightarrow> bool" where
  "isFinalizersOnlyManagedFieldsEntry L entry =
     (case mfe_fieldsV1 entry of
        None \<Rightarrow> False
      | Some raw \<Rightarrow>
          if length raw = 0 then False
          else
            (case lib_fields L raw of
               Ok kvs \<Rightarrow>
                 if length kvs \<noteq> 1 then False
                 else
                   (case objectField ''f:metadata'' kvs of
                      None \<Rightarrow> False
                    | Some metadata \<Rightarrow>
                        if length metadata \<noteq> 1 then False
                        else objectField ''f:finalizers'' metadata \<noteq> None)
             | _ \<Rightarrow> False))"

text \<open>The loop over the managed fields entries.\<close>

fun needUpgradeLoop :: "klib \<Rightarrow> (string \<Rightarrow> bool) \<Rightarrow> mfe list \<Rightarrow> bool" where
  "needUpgradeLoop L legacy [] = False"
| "needUpgradeLoop L legacy (e # es) =
     (if mfe_operation e \<noteq> opUpdate \<or> \<not> legacy (mfe_manager e) then needUpgradeLoop L legacy es
      else if mfe_subresource e = ''status'' then needUpgradeLoop L legacy es
      else if isFinalizersOnlyManagedFieldsEntry L e then needUpgradeLoop L legacy es
      else True)"

definition needSSAFieldManagerUpgrade :: "klib \<Rightarrow> string list \<Rightarrow> unstructured option \<Rightarrow> bool" where
  "needSSAFieldManagerUpgrade L legacy accessor =
     (case accessor of
        None \<Rightarrow> False
      | Some u \<Rightarrow> needUpgradeLoop L (\<lambda>m. m \<in> set legacy) (u_managedFields u))"

definition legacyEntry :: "klib \<Rightarrow> string list \<Rightarrow> mfe \<Rightarrow> bool" where
  "legacyEntry L legacy e \<longleftrightarrow>
     mfe_operation e = opUpdate \<and> mfe_manager e \<in> set legacy \<and> mfe_subresource e \<noteq> ''status'' \<and>
     \<not> isFinalizersOnlyManagedFieldsEntry L e"

lemma needUpgradeLoop_iff:
  "needUpgradeLoop L (\<lambda>m. m \<in> set legacy) es \<longleftrightarrow> list_ex (legacyEntry L legacy) es"
  by (induction es) (auto simp: legacyEntry_def)

lemma needSSAFieldManagerUpgrade_Some:
  "needSSAFieldManagerUpgrade L legacy (Some u) \<longleftrightarrow> list_ex (legacyEntry L legacy) (u_managedFields u)"
  by (simp add: needSSAFieldManagerUpgrade_def needUpgradeLoop_iff)

section \<open>The server-side-apply syncer\<close>

text \<open>
  A cache as the interface \<open>state.Cache\<close> offers it over the state, and the syncer's fields: the
  client, \<open>Extract\<close> of the extractor, the function that loads the cache, the legacy managers.
\<close>

record 's cacheRef =
  cr_GetStateFor :: "kobject \<Rightarrow> 's \<Rightarrow> unstructured option \<times> bool"
  cr_SetStateFor :: "kobject \<Rightarrow> unstructured option \<Rightarrow> 's \<Rightarrow> 's"

record 's ssaSyncer =
  ss_client :: "'s kclient"
  ss_extract :: "unstructured \<Rightarrow> string \<Rightarrow> 's \<Rightarrow> unstructured res \<times> 's"
  ss_desiredStateCacheFn :: "'s \<Rightarrow> 's cacheRef \<times> 's"
  ss_legacyCSAFieldManagers :: "string list"

definition SSA_GetObservedState ::
  "'s ssaSyncer \<Rightarrow> kobject \<Rightarrow> unstructured option \<Rightarrow> 's \<Rightarrow> unstructured option res \<times> 's" where
  "SSA_GetObservedState S obj current s =
     (case current of
        None \<Rightarrow> (Ok None, s)
      | Some c \<Rightarrow>
          tryS (ss_extract S c (ssaFieldOwner (koName obj)) s) id (\<lambda>x s. (Ok (Some x), s)))"

text \<open>What follows the dry run: a needed upgrade or a failed extraction drops the cache entry.\<close>

definition storeDesired ::
  "klib \<Rightarrow> 's ssaSyncer \<Rightarrow> 's cacheRef \<Rightarrow> kobject \<Rightarrow> unstructured \<Rightarrow> 's \<Rightarrow> unstructured option res \<times> 's" where
  "storeDesired L S cache obj desiredObj s =
     (if needSSAFieldManagerUpgrade L (ss_legacyCSAFieldManagers S) (Some desiredObj) then
        (Ok None, cr_SetStateFor cache obj None s)
      else
        (case ss_extract S desiredObj (ssaFieldOwner (koName obj)) s of
           (Ok desired, s) \<Rightarrow> (Ok (Some desired), cr_SetStateFor cache obj (Some desired) s)
         | (Err e, s) \<Rightarrow> (Err (ErrWrap ''cannot extract SSA'' e), cr_SetStateFor cache obj None s)
         | (Panic p, s) \<Rightarrow> (Panic p, s)))"

definition SSA_GetDesiredState ::
  "klib \<Rightarrow> 's ssaSyncer \<Rightarrow> kobject \<Rightarrow> unstructured \<Rightarrow> 's \<Rightarrow> unstructured option res \<times> 's" where
  "SSA_GetDesiredState L S obj manifest s0 =
     (case ss_desiredStateCacheFn S s0 of
        (cache, s) \<Rightarrow>
          (case cr_GetStateFor cache obj s of
             (cachedDesired, ok) \<Rightarrow>
               if ok \<and> cachedDesired \<noteq> None \<and>
                  \<not> needSSAFieldManagerUpgrade L (ss_legacyCSAFieldManagers S) cachedDesired
               then (Ok cachedDesired, s)
               else
                 tryS (k_ssa (ss_client S) True (ssaFieldOwner (koName obj)) manifest s)
                   (\<lambda>e. ErrWrap ''cannot dry run SSA'' (ErrClean e))
                   (storeDesired L S cache obj)))"

definition maybeUpgradeFieldManagers ::
  "klib \<Rightarrow> 's ssaSyncer \<Rightarrow> kobject \<Rightarrow> 's \<Rightarrow> unit res \<times> 's" where
  "maybeUpgradeFieldManagers L S obj s =
     tryS (liftR (parseStatus L obj) s) (ErrWrap ''cannot get the current state of the object'') (\<lambda>current s.
       (case current of
          None \<Rightarrow> (Ok (), s)
        | Some c \<Rightarrow>
            if \<not> needSSAFieldManagerUpgrade L (ss_legacyCSAFieldManagers S) (Some c) then (Ok (), s)
            else
              tryS (liftR (lib_csaPatch L c (ss_legacyCSAFieldManagers S) (ssaFieldOwner (koName obj))) s)
                (ErrWrap ''failed to calculate patch for managed fields upgrade'') (\<lambda>patch s.
                if length patch = 0 then (Ok (), s)
                else
                  tryS (k_jsonPatch (ss_client S) c patch s)
                    (ErrWrap ''failed to patch managed fields upgrade'') (\<lambda>_ s. (Ok (), s)))))"

definition SSA_SyncResource ::
  "klib \<Rightarrow> 's ssaSyncer \<Rightarrow> kobject \<Rightarrow> unstructured \<Rightarrow> 's \<Rightarrow> unstructured res \<times> 's" where
  "SSA_SyncResource L S obj desired s =
     tryS (maybeUpgradeFieldManagers L S obj s) (ErrWrap ''cannot upgrade field managers'') (\<lambda>_ s.
     tryS (k_ssa (ss_client S) False (ssaFieldOwner (koName obj)) desired s)
       (\<lambda>e. ErrWrap errCreateObject (ErrClean e)) (\<lambda>applied s. (Ok applied, s)))"

definition SSAResourceSyncer :: "klib \<Rightarrow> 's ssaSyncer \<Rightarrow> 's resourceSyncer" where
  "SSAResourceSyncer L S =
     \<lparr>rs_GetObservedState = SSA_GetObservedState S,
      rs_GetDesiredState = SSA_GetDesiredState L S,
      rs_SyncResource = SSA_SyncResource L S\<rparr>"

text \<open>The steps of the syncer that do not write to a cluster.\<close>

inductive ssaStep :: "'s ssaSyncer \<Rightarrow> 's \<Rightarrow> 's \<Rightarrow> bool" for S :: "'s ssaSyncer" where
  read: "readStep (ss_client S) s t \<Longrightarrow> ssaStep S s t"
| extraction: "ss_extract S u owner s = (r, t) \<Longrightarrow> ssaStep S s t"
| loadCache: "ss_desiredStateCacheFn S s = (cache, t) \<Longrightarrow> ssaStep S s t"
| setCache: "ss_desiredStateCacheFn S s0 = (cache, s1) \<Longrightarrow> ssaStep S s (cr_SetStateFor cache obj v s)"

lemma storeDesired_steps:
  assumes "storeDesired L S cache obj d s = (r, t)" "ss_desiredStateCacheFn S s0 = (cache, s1)"
  shows "(ssaStep S)\<^sup>*\<^sup>* s t"
proof -
  note set = ssaStep.setCache [OF assms(2)]
  have "(ssaStep S)\<^sup>*\<^sup>* s (cr_SetStateFor cache obj v u)"
    if "ss_extract S d owner s = (x, u)" for v u owner x
    using ssaStep.extraction [OF that] set [of u obj v] by (meson converse_rtranclp_into_rtranclp r_into_rtranclp)
  moreover have "(ssaStep S)\<^sup>*\<^sup>* s u" if "ss_extract S d owner s = (x, u)" for u owner x
    using ssaStep.extraction [OF that] by blast
  moreover have "(ssaStep S)\<^sup>*\<^sup>* s (cr_SetStateFor cache obj v s)" for v
    using set by blast
  ultimately show ?thesis
    using assms(1) by (auto simp: storeDesired_def split: if_splits prod.splits res.splits)
qed

lemma SSA_GetDesiredState_steps:
  assumes "SSA_GetDesiredState L S obj manifest s0 = (r, t)"
  shows "(ssaStep S)\<^sup>*\<^sup>* s0 t"
proof -
  obtain cache s where c: "ss_desiredStateCacheFn S s0 = (cache, s)"
    by (cases "ss_desiredStateCacheFn S s0")
  have 1: "ssaStep S s0 s" using c by (rule ssaStep.loadCache)
  have "(ssaStep S)\<^sup>*\<^sup>* s t"
  proof (cases "k_ssa (ss_client S) True (ssaFieldOwner (koName obj)) manifest s")
    case (Pair x u)
    then have 2: "ssaStep S s u" by (blast intro: ssaStep.read readStep.dryRun)
    have "t = s \<or> t = u \<or> (\<exists>d. storeDesired L S cache obj d u = (r, t))"
      using assms Pair by (cases x) (auto simp: SSA_GetDesiredState_def c split: prod.splits if_splits)
    with 2 show ?thesis
      using storeDesired_steps [OF _ c] by (metis converse_rtranclp_into_rtranclp r_into_rtranclp rtranclp.rtrancl_refl)
  qed
  with 1 show ?thesis by (rule converse_rtranclp_into_rtranclp)
qed

lemma SSA_GetObservedState_steps:
  assumes "SSA_GetObservedState S obj current s = (r, t)"
  shows "(ssaStep S)\<^sup>*\<^sup>* s t"
  using assms by (auto simp: SSA_GetObservedState_def intro: ssaStep.extraction split: option.splits res_splits)

interpretation ssa: resource_syncer "SSAResourceSyncer L S" "ssaStep S" for L S
  by unfold_locales
    (auto simp: SSAResourceSyncer_def dest: SSA_GetObservedState_steps SSA_GetDesiredState_steps)

end
