(* ===== verification/Step_System.thy ===== *)
theory Step_System
  imports Prelude
begin

text \<open>
  Systems of concurrent calls, as the caches and stores of the provider see them: a step relation on a
  state, of which a component \<open>calls\<close> says where each call is. Proved once for every such system are
  the rule that an invariant of the steps holds in every reachable state, and that calls with a bounded
  number of steps left come to an end in every schedule.
\<close>

section \<open>Reachable states\<close>

inductive reachable :: "('s \<Rightarrow> bool) \<Rightarrow> ('s \<Rightarrow> 's \<Rightarrow> bool) \<Rightarrow> 's \<Rightarrow> bool"
  for init :: "'s \<Rightarrow> bool" and step :: "'s \<Rightarrow> 's \<Rightarrow> bool" where
  init: "init s \<Longrightarrow> reachable init step s"
| step: "reachable init step s \<Longrightarrow> step s t \<Longrightarrow> reachable init step t"

lemma reachable_run:
  assumes "reachable init step s" "step\<^sup>*\<^sup>* s t"
  shows "reachable init step t"
  using assms(2,1) by (induction rule: rtranclp_induct) (auto intro: reachable.step)

locale step_invariant =
  fixes init :: "'s \<Rightarrow> bool" and step :: "'s \<Rightarrow> 's \<Rightarrow> bool" and inv :: "'s \<Rightarrow> bool"
  assumes init_inv: "init s \<Longrightarrow> inv s"
    and step_inv: "step s t \<Longrightarrow> inv s \<Longrightarrow> inv t"
begin

lemma reachable_inv: "reachable init step s \<Longrightarrow> inv s"
  by (induction rule: reachable.induct) (auto intro: init_inv step_inv)

lemma run_inv: "step\<^sup>*\<^sup>* s t \<Longrightarrow> inv s \<Longrightarrow> inv t"
  by (induction rule: rtranclp_induct) (auto intro: step_inv)

end

section \<open>Calls that end\<close>

text \<open>
  \<open>left\<close> bounds the steps a call has left, 0 when it has returned; a step never gives a call more and
  moves at least one, and in a state of the invariant some step is possible while a call has not returned.
\<close>

locale ending_calls = step_invariant init step inv
  for init :: "'s \<Rightarrow> bool" and step :: "'s \<Rightarrow> 's \<Rightarrow> bool" and inv :: "'s \<Rightarrow> bool" +
  fixes calls :: "'s \<Rightarrow> nat \<Rightarrow> 'c" and left :: "'c \<Rightarrow> nat"
  assumes step_moves: "step s t \<Longrightarrow> inv s \<Longrightarrow>
      (\<forall>i. left (calls t i) \<le> left (calls s i)) \<and> (\<exists>i. left (calls t i) < left (calls s i))"
    and step_enabled: "inv s \<Longrightarrow> left (calls s i) \<noteq> 0 \<Longrightarrow> \<exists>t. step s t"
begin

text \<open>No step is possible exactly when every call has returned.\<close>

lemma stuck_iff:
  assumes "inv s"
  shows "(\<nexists>t. step s t) \<longleftrightarrow> (\<forall>i. left (calls s i) = 0)"
  using step_enabled [OF assms] step_moves [OF _ assms] by (metis gr_implies_not0)

definition pending :: "nat \<Rightarrow> 's \<Rightarrow> nat" where
  "pending n s = (\<Sum>i<n. left (calls s i))"

lemma step_pending:
  assumes "step s t" "inv s" "\<And>i. n \<le> i \<Longrightarrow> left (calls s i) = 0"
  shows "pending n t < pending n s" and "n \<le> i \<Longrightarrow> left (calls t i) = 0"
proof -
  note moves = step_moves [OF assms(1,2)]
  from moves obtain i where i: "left (calls t i) < left (calls s i)" by blast
  with assms(3) [of i] have "i < n" by (cases "n \<le> i") auto
  then show "pending n t < pending n s"
    unfolding pending_def using moves i by (intro sum_strict_mono_ex1) auto
  show "left (calls t i) = 0" if "n \<le> i" for i using moves assms(3) [OF that] by (metis le_zero_eq)
qed

lemma run_pending:
  assumes "(step ^^ j) s t" "inv s" "\<And>i. n \<le> i \<Longrightarrow> left (calls s i) = 0"
  shows "j + pending n t \<le> pending n s \<and> inv t \<and> (\<forall>i \<ge> n. left (calls t i) = 0)"
  using assms(1)
proof (induction j arbitrary: t)
  case 0
  with assms(2,3) show ?case by simp
next
  case (Suc j)
  then obtain u where u: "(step ^^ j) s u" "step u t" by auto
  note ih = Suc.IH [OF u(1)]
  with step_pending [OF u(2), of n] step_inv [OF u(2)] show ?case by fastforce
qed

text \<open>Of \<open>n\<close> calls with at most \<open>b\<close> steps each, every schedule has at most \<open>b * n\<close> steps.\<close>

lemma run_bound:
  assumes "(step ^^ j) s t" "inv s" "\<And>i. n \<le> i \<Longrightarrow> left (calls s i) = 0" "\<And>i. left (calls s i) \<le> b"
  shows "j \<le> b * n"
proof -
  have "pending n s \<le> (\<Sum>i<n. b)" unfolding pending_def using assms(4) by (intro sum_mono)
  with run_pending [OF assms(1,2), of n] assms(3) show ?thesis by (simp add: mult.commute)
qed

end

end
