(* ===== verification/Informers.thy ===== *)
theory Informers
  imports Indexes Step_System
begin

text \<open>
  \<open>internal/controller/*/object/informers.go\<close>: the informers for the resources that Objects
  reference or manage, their event source, and their garbage collection. The informer caches of
  controller-runtime are parameters: whether creating one, getting its informer or adding the event
  handler fails. A running cache is the number of its cancellable context.
\<close>

section \<open>State\<close>

record gvkWithConfig =
  gc_providerConfig :: string
  gc_gvk :: gvk

text \<open>
  A \<open>resourceCache\<close> is a pointer: its number says which \<open>cache.New\<close> made it, and its \<open>cancelFn\<close> puts the
  number in the set of the cancelled ones.
\<close>

type_synonym resourceCache = nat

record resourceInformers =
  ri_sink :: bool
  ri_resourceCaches :: "gvkWithConfig \<rightharpoonup> resourceCache"
  ri_cancelled :: "resourceCache set"
  ri_next :: nat

definition newInformers :: resourceInformers where
  "newInformers = \<lparr>ri_sink = False, ri_resourceCaches = Map.empty, ri_cancelled = {}, ri_next = 0\<rparr>"

text \<open>The outcome of \<open>cache.New\<close>, \<open>GetInformer\<close> and \<open>AddEventHandler\<close>; \<open>'rc\<close> is \<open>rest.Config\<close>.\<close>

record 'rc cacheLib =
  cl_new :: "'rc \<Rightarrow> gvk \<Rightarrow> unit res"
  cl_getInformer :: "'rc \<Rightarrow> gvk \<Rightarrow> unit res"
  cl_addEventHandler :: "'rc \<Rightarrow> gvk \<Rightarrow> unit res"

section \<open>Start and delivery\<close>

definition Start :: "resourceInformers \<Rightarrow> unit res \<times> resourceInformers" where
  "Start i =
     (if ri_sink i then (Err (ErrNew ''source already started, cannot start it again''), i)
      else (Ok (), i\<lparr>ri_sink := True\<rparr>))"

text \<open>The goroutine of \<open>Start\<close> drops the sink when the context is done.\<close>

definition contextDone :: "resourceInformers \<Rightarrow> resourceInformers" where
  "contextDone i = i\<lparr>ri_sink := False\<rparr>"

datatype informerEvent =
    AddEvent eventObject
  | UpdateEvent eventObject eventObject
  | DeleteEvent eventObject
  | DeleteUnknownEvent string eventObject

text \<open>The three handler functions: what is sent is the added, the new, or the last known object.\<close>

fun genericEvent :: "informerEvent \<Rightarrow> eventObject" where
  "genericEvent (AddEvent o') = o'"
| "genericEvent (UpdateEvent old new) = new"
| "genericEvent (DeleteEvent o') = o'"
| "genericEvent (DeleteUnknownEvent key final) = final"

text \<open>The sink: every predicate must accept the event; calling a nil function panics.\<close>

definition deliver ::
  "resourceInformers \<Rightarrow> (eventObject \<Rightarrow> bool) list
     \<Rightarrow> (string option \<Rightarrow> eventObject \<Rightarrow> nsname list \<Rightarrow> nsname list res)
     \<Rightarrow> string \<Rightarrow> informerEvent \<Rightarrow> nsname list \<Rightarrow> nsname list res" where
  "deliver i ps handler providerConfig event q =
     (if \<not> ri_sink i then Panic nilDereference
      else if list_ex (\<lambda>p. \<not> p (genericEvent event)) ps then Ok q
      else handler (Some providerConfig) (genericEvent event) q)"

section \<open>Watching\<close>

definition cancelFn :: "nat \<Rightarrow> resourceInformers \<Rightarrow> resourceInformers" where
  "cancelFn a i = i\<lparr>ri_cancelled := insert a (ri_cancelled i)\<rparr>"

text \<open>The last part of the loop body, under the write lock: a cache started in parallel wins.\<close>

definition watchCommit :: "gvkWithConfig \<Rightarrow> nat \<Rightarrow> resourceInformers \<Rightarrow> resourceInformers" where
  "watchCommit key a i =
     (case ri_resourceCaches i key of
        Some _ \<Rightarrow> cancelFn a i
      | None \<Rightarrow> i\<lparr>ri_resourceCaches := (ri_resourceCaches i)(key \<mapsto> a)\<rparr>)"

definition withCancel :: "resourceInformers \<Rightarrow> nat \<times> resourceInformers" where
  "withCancel i = (ri_next i, i\<lparr>ri_next := Suc (ri_next i)\<rparr>)"

text \<open>The body of the loop; an error is logged and the loop continues.\<close>

definition watchOne ::
  "'rc cacheLib \<Rightarrow> 'rc \<Rightarrow> string \<Rightarrow> gvk \<Rightarrow> resourceInformers \<Rightarrow> resourceInformers" where
  "watchOne K rc providerConfig g i =
     (let key = \<lparr>gc_providerConfig = providerConfig, gc_gvk = g\<rparr> in
      if ri_resourceCaches i key \<noteq> None then i
      else if \<not> isOk (cl_new K rc g) then i
      else
        (case withCancel i of
           (a, i) \<Rightarrow>
             if \<not> isOk (cl_getInformer K rc g) then cancelFn a i
             else if \<not> isOk (cl_addEventHandler K rc g) then cancelFn a i
             else watchCommit key a i))"

definition WatchResources ::
  "'rc cacheLib \<Rightarrow> 'rc \<Rightarrow> 'rc option \<Rightarrow> string \<Rightarrow> gvk list \<Rightarrow> resourceInformers \<Rightarrow> resourceInformers" where
  "WatchResources K config rc providerConfig gvks i =
     fold (watchOne K (case rc of None \<Rightarrow> config | Some c \<Rightarrow> c) providerConfig) gvks i"

section \<open>Garbage collection\<close>

definition gvkKey :: "gvkWithConfig \<Rightarrow> string" where
  "gvkKey gc = refKeyProviderGVK (gc_providerConfig gc) (gvk_kind (gc_gvk gc)) (gvk_group (gc_gvk gc))
     (gvk_version (gc_gvk gc))"

text \<open>
  The body of the loop over the copy of the map: an informer whose Objects cannot be listed, or that
  some Object refers to, is kept; another one is cancelled and deleted.
\<close>

definition cleanupOne ::
  "(string \<Rightarrow> kobject list res) \<Rightarrow> gvkWithConfig \<times> nat \<Rightarrow> resourceInformers \<Rightarrow> resourceInformers" where
  "cleanupOne lst entry i =
     (case entry of
        (gc, a) \<Rightarrow>
          (case lst (gvkKey gc) of
             Ok items \<Rightarrow>
               (if 0 < length items then i
                else (cancelFn a i)\<lparr>ri_resourceCaches := (ri_resourceCaches i)(gc := None)\<rparr>)
           | _ \<Rightarrow> i))"

text \<open>\<open>entries\<close> is the copy of the map, in the order Go happens to iterate it.\<close>

definition cleanupResourceInformers ::
  "(string \<Rightarrow> kobject list res) \<Rightarrow> (gvkWithConfig \<times> nat) list \<Rightarrow> resourceInformers \<Rightarrow> resourceInformers" where
  "cleanupResourceInformers lst entries i = fold (cleanupOne lst) entries i"

section \<open>Facts\<close>

text \<open>
  Well-formed informers: the caches in the map belong to started contexts that are not cancelled, and
  no context serves two keys.
\<close>

definition wfInformers :: "resourceInformers \<Rightarrow> bool" where
  "wfInformers i \<longleftrightarrow>
     (\<forall>k a. ri_resourceCaches i k = Some a \<longrightarrow> a < ri_next i \<and> a \<notin> ri_cancelled i) \<and>
     (\<forall>k k' a. ri_resourceCaches i k = Some a \<longrightarrow> ri_resourceCaches i k' = Some a \<longrightarrow> k = k') \<and>
     (\<forall>a \<in> ri_cancelled i. a < ri_next i)"

text \<open>A context that was created and serves no key.\<close>

definition unusedContext :: "resourceInformers \<Rightarrow> nat \<Rightarrow> bool" where
  "unusedContext i a \<longleftrightarrow> a < ri_next i \<and> (\<forall>k. ri_resourceCaches i k \<noteq> Some a)"

lemma wfInformers_new: "wfInformers newInformers"
  by (simp add: wfInformers_def newInformers_def)

lemma withCancelD:
  assumes "withCancel i = (a, i')"
  shows "a = ri_next i" "i' = i\<lparr>ri_next := Suc (ri_next i)\<rparr>"
  using assms by (auto simp: withCancel_def)

lemma withCancel_wf:
  assumes "wfInformers i" "withCancel i = (a, i')"
  shows "wfInformers i'" "unusedContext i' a" "a \<notin> ri_cancelled i'"
proof -
  note i' = withCancelD [OF assms(2)]
  show "wfInformers i'" using assms(1) unfolding wfInformers_def i' by (auto simp: less_Suc_eq)
  show "unusedContext i' a" using assms(1) unfolding wfInformers_def unusedContext_def i' by auto
  show "a \<notin> ri_cancelled i'" using assms(1) unfolding wfInformers_def i' by auto
qed

lemma cancelFn_wf: "wfInformers i \<Longrightarrow> unusedContext i a \<Longrightarrow> wfInformers (cancelFn a i)"
  unfolding wfInformers_def unusedContext_def cancelFn_def by auto

lemma watchCommit_wf:
  assumes "wfInformers i" "unusedContext i a" "a \<notin> ri_cancelled i"
  shows "wfInformers (watchCommit k a i)"
proof (cases "ri_resourceCaches i k")
  case None
  then have "watchCommit k a i = i\<lparr>ri_resourceCaches := (ri_resourceCaches i)(k \<mapsto> a)\<rparr>"
    by (simp add: watchCommit_def)
  with assms show ?thesis unfolding wfInformers_def unusedContext_def by auto
next
  case (Some b)
  then show ?thesis using cancelFn_wf [OF assms(1,2)] by (simp add: watchCommit_def)
qed

lemma watchOne_wf: "wfInformers i \<Longrightarrow> wfInformers (watchOne K rc pc g i)"
  unfolding watchOne_def
  by (auto simp: Let_def withCancel_wf intro: cancelFn_wf watchCommit_wf split: prod.splits)

lemma cleanupOne_wf:
  assumes "wfInformers i" "\<forall>k \<noteq> gc. ri_resourceCaches i k \<noteq> Some a" "a < ri_next i"
  shows "wfInformers (cleanupOne lst (gc, a) i)"
proof (cases "cleanupOne lst (gc, a) i = i")
  case True
  with assms(1) show ?thesis by simp
next
  case False
  then have "cleanupOne lst (gc, a) i = (cancelFn a i)\<lparr>ri_resourceCaches := (ri_resourceCaches i)(gc := None)\<rparr>"
    by (auto simp: cleanupOne_def split: res.splits if_splits)
  with assms show ?thesis unfolding wfInformers_def cancelFn_def by auto
qed

lemma WatchResources_wf: "wfInformers i \<Longrightarrow> wfInformers (WatchResources K config rc pc gvks i)"
  unfolding WatchResources_def by (induction gvks arbitrary: i) (simp_all add: watchOne_wf)

lemma watchOne_keeps:
  "ri_resourceCaches i k = Some a \<Longrightarrow> ri_resourceCaches (watchOne K rc pc g i) k = Some a"
  by (auto simp: watchOne_def withCancel_def watchCommit_def cancelFn_def Let_def split: option.splits)

lemma watchOne_found:
  "ri_resourceCaches i \<lparr>gc_providerConfig = pc, gc_gvk = g\<rparr> \<noteq> None \<Longrightarrow> watchOne K rc pc g i = i"
  by (simp add: watchOne_def)

lemma watchOne_frame:
  "k \<noteq> \<lparr>gc_providerConfig = pc, gc_gvk = g\<rparr> \<Longrightarrow>
     ri_resourceCaches (watchOne K rc pc g i) k = ri_resourceCaches i k"
  by (auto simp: watchOne_def withCancel_def watchCommit_def cancelFn_def Let_def split: option.splits)

text \<open>
  The interface \<open>KindObserver\<close> of the controller: watching keeps what is watched, adds at most what it
  is asked for, and is free when everything is watched.
\<close>

locale kind_observer =
  fixes watch :: "'rc option \<Rightarrow> string \<Rightarrow> gvk list \<Rightarrow> 's \<Rightarrow> 's"
    and watched :: "'s \<Rightarrow> gvkWithConfig \<Rightarrow> bool"
  assumes watch_keeps: "watched s k \<Longrightarrow> watched (watch rc pc gvks s) k"
    and watch_adds: "watched (watch rc pc gvks s) k \<Longrightarrow>
      watched s k \<or> gc_providerConfig k = pc \<and> gc_gvk k \<in> set gvks"
    and watch_idle: "(\<And>g. g \<in> set gvks \<Longrightarrow> watched s \<lparr>gc_providerConfig = pc, gc_gvk = g\<rparr>) \<Longrightarrow>
      watch rc pc gvks s = s"
begin

text \<open>Watches of different configs do not meet.\<close>

lemma watch_other_config:
  "gc_providerConfig k \<noteq> pc \<Longrightarrow> watched (watch rc pc gvks s) k \<longleftrightarrow> watched s k"
  using watch_keeps watch_adds by blast

text \<open>A repeated watch of a subset of what was watched successfully changes nothing.\<close>

lemma watch_again:
  assumes "\<And>g. g \<in> set gvks \<Longrightarrow> watched (watch rc pc gvks s) \<lparr>gc_providerConfig = pc, gc_gvk = g\<rparr>"
    and "set gvks' \<subseteq> set gvks"
  shows "watch rc' pc gvks' (watch rc pc gvks s) = watch rc pc gvks s"
  by (rule watch_idle) (use assms in blast)

end

definition isWatched :: "resourceInformers \<Rightarrow> gvkWithConfig \<Rightarrow> bool" where
  "isWatched i k \<longleftrightarrow> ri_resourceCaches i k \<noteq> None"

lemma WatchResources_keeps:
  "ri_resourceCaches i k = Some a \<Longrightarrow> ri_resourceCaches (WatchResources K config rc pc gvks i) k = Some a"
  unfolding WatchResources_def by (induction gvks arbitrary: i) (simp_all add: watchOne_keeps)

lemma WatchResources_frame:
  "gc_providerConfig k \<noteq> pc \<or> gc_gvk k \<notin> set gvks \<Longrightarrow>
     ri_resourceCaches (WatchResources K config rc pc gvks i) k = ri_resourceCaches i k"
  unfolding WatchResources_def
proof (induction gvks arbitrary: i)
  case (Cons g gvks)
  from Cons.prems have "k \<noteq> \<lparr>gc_providerConfig = pc, gc_gvk = g\<rparr>" by auto
  with Cons show ?case by (simp add: watchOne_frame)
qed simp

lemma WatchResources_idle:
  "(\<And>g. g \<in> set gvks \<Longrightarrow> isWatched i \<lparr>gc_providerConfig = pc, gc_gvk = g\<rparr>) \<Longrightarrow>
     WatchResources K config rc pc gvks i = i"
  unfolding WatchResources_def isWatched_def
  by (induction gvks) (simp_all add: watchOne_found)

interpretation informers: kind_observer "WatchResources K config" isWatched for K config
proof unfold_locales
  fix s k rc pc gvks
  show "isWatched s k \<Longrightarrow> isWatched (WatchResources K config rc pc gvks s) k"
    by (auto simp: isWatched_def dest: WatchResources_keeps)
  show "isWatched (WatchResources K config rc pc gvks s) k \<Longrightarrow>
      isWatched s k \<or> gc_providerConfig k = pc \<and> gc_gvk k \<in> set gvks"
    using WatchResources_frame [of k pc gvks K config rc s] unfolding isWatched_def by metis
qed (rule WatchResources_idle)

text \<open>Garbage collection: what happens to the entry of one key.\<close>

lemma cleanupOne_other: "k \<noteq> gc \<Longrightarrow> ri_resourceCaches (cleanupOne lst (gc, a) i) k = ri_resourceCaches i k"
  by (simp add: cleanupOne_def split: res.splits)

definition unreferenced :: "(string \<Rightarrow> kobject list res) \<Rightarrow> gvkWithConfig \<Rightarrow> bool" where
  "unreferenced lst gc \<longleftrightarrow> lst (gvkKey gc) = Ok []"

lemma cleanupOne_same:
  "ri_resourceCaches (cleanupOne lst (gc, a) i) gc =
     (if unreferenced lst gc then None else ri_resourceCaches i gc)"
  by (auto simp: cleanupOne_def unreferenced_def split: res.splits)

lemma cleanup_caches:
  "ri_resourceCaches (cleanupResourceInformers lst entries i) k =
     (if unreferenced lst k \<and> k \<in> fst ` set entries then None else ri_resourceCaches i k)"
  unfolding cleanupResourceInformers_def
proof (induction entries arbitrary: i)
  case Nil
  then show ?case by simp
next
  case (Cons e entries)
  obtain gc a where "e = (gc, a)" by (cases e)
  with Cons show ?case
    by (cases "k = gc") (auto simp: cleanupOne_other cleanupOne_same)
qed

lemma cleanup_cancelled:
  "ri_cancelled (cleanupResourceInformers lst entries i) =
     ri_cancelled i \<union> {a. \<exists>gc. (gc, a) \<in> set entries \<and> unreferenced lst gc}"
  unfolding cleanupResourceInformers_def
proof (induction entries arbitrary: i)
  case Nil
  then show ?case by simp
next
  case (Cons e entries)
  obtain gc a where "e = (gc, a)" by (cases e)
  with Cons show ?case
    by (auto simp: cleanupOne_def unreferenced_def cancelFn_def split: res.splits)
qed

section \<open>Concurrent watches\<close>

text \<open>
  Reconcilers call \<open>WatchResources\<close> concurrently. A call looks the key up under the read lock,
  then starts a cache, then commits it under the write lock.
\<close>

datatype watchCall =
    Looking gvkWithConfig
  | Starting gvkWithConfig
  | Committing gvkWithConfig nat
  | Done

type_synonym watchSystem = "resourceInformers \<times> (nat \<Rightarrow> watchCall)"

inductive watchStep :: "watchSystem \<Rightarrow> watchSystem \<Rightarrow> bool" where
  lookFound: "calls n = Looking k \<Longrightarrow> ri_resourceCaches i k = Some a \<Longrightarrow>
     watchStep (i, calls) (i, calls(n := Done))"
| lookMissing: "calls n = Looking k \<Longrightarrow> ri_resourceCaches i k = None \<Longrightarrow>
     watchStep (i, calls) (i, calls(n := Starting k))"
| newFails: "calls n = Starting k \<Longrightarrow> watchStep (i, calls) (i, calls(n := Done))"
| startFails: "calls n = Starting k \<Longrightarrow> withCancel i = (a, i') \<Longrightarrow>
     watchStep (i, calls) (cancelFn a i', calls(n := Done))"
| started: "calls n = Starting k \<Longrightarrow> withCancel i = (a, i') \<Longrightarrow>
     watchStep (i, calls) (i', calls(n := Committing k a))"
| commit: "calls n = Committing k a \<Longrightarrow>
     watchStep (i, calls) (watchCommit k a i, calls(n := Done))"

definition watchStart :: "watchSystem \<Rightarrow> bool" where
  "watchStart s \<longleftrightarrow> fst s = newInformers \<and> (\<forall>n. \<exists>k. snd s n = Looking k)"

abbreviation watchReachable :: "watchSystem \<Rightarrow> bool" where
  "watchReachable \<equiv> reachable watchStart watchStep"

text \<open>
  Every context that was created is cancelled, in the map, or held by one call that is about to
  commit it; the three exclude one another.
\<close>

definition committing :: "watchSystem \<Rightarrow> nat \<Rightarrow> bool" where
  "committing s a \<longleftrightarrow> (\<exists>n k. snd s n = Committing k a)"

definition watchInv :: "watchSystem \<Rightarrow> bool" where
  "watchInv s \<longleftrightarrow> wfInformers (fst s) \<and>
     (\<forall>a < ri_next (fst s).
        a \<in> ri_cancelled (fst s) \<or> (\<exists>k. ri_resourceCaches (fst s) k = Some a) \<or> committing s a) \<and>
     (\<forall>n k a. snd s n = Committing k a \<longrightarrow> unusedContext (fst s) a \<and> a \<notin> ri_cancelled (fst s)) \<and>
     (\<forall>n m k k' a. snd s n = Committing k a \<longrightarrow> snd s m = Committing k' a \<longrightarrow> n = m)"

inductive_cases watchStepE: "watchStep (i, calls) t"

text \<open>Steps that only move a call that holds no context.\<close>

lemma watchInv_move:
  assumes "watchInv (i, calls)" "\<And>k a. calls n \<noteq> Committing k a" "\<And>k a. c \<noteq> Committing k a"
  shows "watchInv (i, calls(n := c))"
proof -
  have eq: "(calls(n := c)) m = Committing k a \<longleftrightarrow> calls m = Committing k a" for m k a
    using assms(2,3) by auto
  show ?thesis
    using assms(1) unfolding watchInv_def committing_def fst_conv snd_conv eq .
qed

lemma watchInv_startFails:
  assumes "watchInv (i, calls)" "\<And>k a. calls n \<noteq> Committing k a" "withCancel i = (a, i')"
  shows "watchInv (cancelFn a i', calls(n := Done))"
proof -
  note i' = withCancelD [OF assms(3)]
  have wf: "wfInformers i" using assms(1) by (simp add: watchInv_def)
  note new = withCancel_wf [OF wf assms(3)]
  have "watchInv (cancelFn a i', calls)"
    using assms(1) cancelFn_wf [OF new(1,2)]
    unfolding watchInv_def committing_def unusedContext_def i' cancelFn_def
    by (auto simp: less_Suc_eq)
  then show ?thesis using assms(2) by (rule watchInv_move) simp
qed

lemma watchInv_started:
  assumes "watchInv (i, calls)" "calls n = Starting k" "withCancel i = (a, i')"
  shows "watchInv (i', calls(n := Committing k a))"
proof -
  note i' = withCancelD [OF assms(3)]
  have inv: "wfInformers i"
    "\<And>b. b < ri_next i \<Longrightarrow> b \<in> ri_cancelled i \<or> (\<exists>k. ri_resourceCaches i k = Some b) \<or> committing (i, calls) b"
    "\<And>m k b. calls m = Committing k b \<Longrightarrow> unusedContext i b \<and> b \<notin> ri_cancelled i"
    "\<And>m m' k k' b. calls m = Committing k b \<Longrightarrow> calls m' = Committing k' b \<Longrightarrow> m = m'"
    using assms(1) unfolding watchInv_def by auto
  note new = withCancel_wf [OF inv(1) assms(3)]
  have old: "b \<noteq> a" if "calls m = Committing k' b" for m k' b
    using inv(3) [OF that] by (auto simp: unusedContext_def i')
  have com: "committing (i', calls(n := Committing k a)) b \<longleftrightarrow> b = a \<or> committing (i, calls) b" for b
  proof
    assume "committing (i', calls(n := Committing k a)) b"
    then show "b = a \<or> committing (i, calls) b" by (auto simp: committing_def split: if_splits)
  next
    assume "b = a \<or> committing (i, calls) b"
    then show "committing (i', calls(n := Committing k a)) b"
    proof
      assume "committing (i, calls) b"
      then obtain m k' where m: "calls m = Committing k' b" by (auto simp: committing_def)
      with assms(2) have "m \<noteq> n" by auto
      with m show ?thesis by (auto simp: committing_def intro!: exI [of _ m])
    qed (auto simp: committing_def intro!: exI [of _ n])
  qed
  show ?thesis
    unfolding watchInv_def fst_conv snd_conv com
  proof (intro conjI allI impI)
    fix b assume "b < ri_next i'"
    then show "b \<in> ri_cancelled i' \<or> (\<exists>k. ri_resourceCaches i' k = Some b) \<or> b = a \<or> committing (i, calls) b"
      using inv(2) [of b] by (auto simp: i' less_Suc_eq)
  next
    fix m k' b assume "(calls(n := Committing k a)) m = Committing k' b"
    then show "unusedContext i' b" "b \<notin> ri_cancelled i'"
      using new(2,3) inv(3) [of m k' b] by (auto simp: unusedContext_def i' split: if_splits)
  next
    fix m m' k1 k2 b
    assume "(calls(n := Committing k a)) m = Committing k1 b" "(calls(n := Committing k a)) m' = Committing k2 b"
    then show "m = m'" using inv(4) [of m k1 b m' k2] old [of m k1 b] old [of m' k2 b] by (auto split: if_splits)
  qed (rule new(1))
qed

lemma watchInv_commit:
  assumes "watchInv (i, calls)" "calls n = Committing k a"
  shows "watchInv (watchCommit k a i, calls(n := Done))"
proof -
  have inv: "wfInformers i"
    "\<And>b. b < ri_next i \<Longrightarrow> b \<in> ri_cancelled i \<or> (\<exists>k. ri_resourceCaches i k = Some b) \<or> committing (i, calls) b"
    "\<And>m k b. calls m = Committing k b \<Longrightarrow> unusedContext i b \<and> b \<notin> ri_cancelled i"
    "\<And>m m' k k' b. calls m = Committing k b \<Longrightarrow> calls m' = Committing k' b \<Longrightarrow> m = m'"
    using assms(1) unfolding watchInv_def by auto
  have a: "unusedContext i a" "a \<notin> ri_cancelled i" using inv(3) [OF assms(2)] by auto
  let ?i = "watchCommit k a i"
  have nxt: "ri_next ?i = ri_next i" by (simp add: watchCommit_def cancelFn_def split: option.splits)
  have can: "b \<in> ri_cancelled ?i \<longleftrightarrow> b \<in> ri_cancelled i \<or> b = a \<and> ri_resourceCaches i k \<noteq> None" for b
    by (auto simp: watchCommit_def cancelFn_def split: option.splits)
  have map: "ri_resourceCaches ?i k' = Some b \<longleftrightarrow>
      ri_resourceCaches i k' = Some b \<or> k' = k \<and> b = a \<and> ri_resourceCaches i k = None" for k' b
    by (cases "ri_resourceCaches i k") (auto simp: watchCommit_def cancelFn_def)
  have com: "committing (?i, calls(n := Done)) b \<longleftrightarrow> committing (i, calls) b \<and> b \<noteq> a" for b
  proof
    assume "committing (?i, calls(n := Done)) b"
    then obtain m k' where "(calls(n := Done)) m = Committing k' b"
      unfolding committing_def snd_conv by blast
    then have m: "calls m = Committing k' b" "m \<noteq> n" by (auto split: if_splits)
    with inv(4) [OF m(1)] assms(2) have "b \<noteq> a" by blast
    with m show "committing (i, calls) b \<and> b \<noteq> a" unfolding committing_def snd_conv by blast
  next
    assume "committing (i, calls) b \<and> b \<noteq> a"
    then obtain m k' where m: "calls m = Committing k' b" "b \<noteq> a" by (auto simp: committing_def)
    with assms(2) have "m \<noteq> n" by auto
    with m show "committing (?i, calls(n := Done)) b"
      unfolding committing_def snd_conv by (intro exI [of _ m] exI [of _ k']) simp
  qed
  show ?thesis
    unfolding watchInv_def fst_conv snd_conv com nxt
  proof (intro conjI allI impI)
    show "wfInformers ?i" using inv(1) a by (rule watchCommit_wf)
  next
    fix b assume "b < ri_next i"
    then consider "b \<in> ri_cancelled i" | k' where "ri_resourceCaches i k' = Some b" | "committing (i, calls) b"
      using inv(2) by blast
    then show "b \<in> ri_cancelled ?i \<or> (\<exists>k'. ri_resourceCaches ?i k' = Some b) \<or> committing (i, calls) b \<and> b \<noteq> a"
    proof cases
      case 3
      then show ?thesis unfolding can map by (cases "b = a"; cases "ri_resourceCaches i k") blast+
    qed (auto simp only: can map)
  next
    fix m k' b assume "(calls(n := Done)) m = Committing k' b"
    then have m: "calls m = Committing k' b" "m \<noteq> n" by (auto split: if_splits)
    with inv(4) [OF m(1)] assms(2) have "b \<noteq> a" by blast
    with inv(3) [OF m(1)] show "unusedContext ?i b" "b \<notin> ri_cancelled ?i"
      unfolding unusedContext_def can map nxt by auto
  next
    fix m m' k1 k2 b
    assume "(calls(n := Done)) m = Committing k1 b" "(calls(n := Done)) m' = Committing k2 b"
    then show "m = m'" using inv(4) [of m k1 b m' k2] by (auto split: if_splits)
  qed
qed

lemma watchStep_inv: "watchStep s t \<Longrightarrow> watchInv s \<Longrightarrow> watchInv t"
  by (induction rule: watchStep.induct)
    (auto intro: watchInv_move watchInv_startFails watchInv_started watchInv_commit)

lemma watchStart_inv:
  assumes "watchStart s"
  shows "watchInv s"
proof -
  from assms have "snd s n \<noteq> Committing k a" for n k a
    unfolding watchStart_def by (metis watchCall.distinct(3))
  with assms show ?thesis
    using wfInformers_new by (auto simp: watchStart_def watchInv_def newInformers_def)
qed

text \<open>The steps a call of \<open>WatchResources\<close> for one kind has left.\<close>

fun watchLeft :: "watchCall \<Rightarrow> nat" where
  "watchLeft (Looking _) = 3"
| "watchLeft (Starting _) = 2"
| "watchLeft (Committing _ _) = 1"
| "watchLeft Done = 0"

lemma watchStep_moves:
  "watchStep s t \<Longrightarrow> (\<forall>n. watchLeft (snd t n) \<le> watchLeft (snd s n)) \<and> (\<exists>n. watchLeft (snd t n) < watchLeft (snd s n))"
  by (induction rule: watchStep.induct) (auto intro!: exI)

lemma watchStep_enabled:
  assumes "watchLeft (snd s n) \<noteq> 0"
  shows "\<exists>t. watchStep s t"
proof (cases "snd s n")
  case (Looking k)
  then show ?thesis by (cases s; cases "ri_resourceCaches (fst s) k") (auto intro: watchStep.intros)
qed (cases s, use assms in \<open>auto intro: watchStep.intros\<close>)+

interpretation watch_system: ending_calls watchStart watchStep watchInv snd watchLeft
  by unfold_locales (blast intro: watchStart_inv watchStep_inv watchStep_enabled dest: watchStep_moves)+

end
