(* ===== verification/Base64.thy ===== *)
theory Base64
  imports Prelude
begin

text \<open>
  \<open>base64.StdEncoding.DecodeString\<close> of Go's standard library, which \<open>connectionDetails\<close> uses for the
  data of secrets: the alphabet with \<open>+\<close> and \<open>/\<close>, padding required, carriage returns and newlines
  skipped, unused trailing bits ignored. Bytes are characters. The encoder is the reference that the
  decoder is checked against.
\<close>

definition b64Alphabet :: string where
  "b64Alphabet = ''ABCDEFGHIJKLMNOPQRSTUVWXYZabcdefghijklmnopqrstuvwxyz0123456789+/''"

definition b64Index :: "char \<Rightarrow> string \<Rightarrow> nat option" where
  "b64Index c alphabet =
     (if c \<in> set alphabet then Some (length (takeWhile (\<lambda>x. x \<noteq> c) alphabet)) else None)"

definition sextet :: "char \<Rightarrow> nat option" where
  "sextet c = b64Index c b64Alphabet"

definition byte :: "nat \<Rightarrow> char" where
  "byte n = char_of (n mod 256)"

text \<open>Groups of four characters; padding only in the last group.\<close>

fun b64Groups :: "string \<Rightarrow> string option" where
  "b64Groups [] = Some []"
| "b64Groups (a # b # c # d # rest) =
     (case (sextet a, sextet b) of
        (Some x, Some y) \<Rightarrow>
          (if c = CHR ''='' then
             (if d = CHR ''='' \<and> rest = [] then Some [byte (x * 4 + y div 16)] else None)
           else
             (case sextet c of
                None \<Rightarrow> None
              | Some z \<Rightarrow>
                  (if d = CHR ''='' then
                     (if rest = [] then
                        Some [byte (x * 4 + y div 16), byte ((y mod 16) * 16 + z div 4)]
                      else None)
                   else
                     (case (sextet d, b64Groups rest) of
                        (Some w, Some bs) \<Rightarrow>
                          Some ([byte (x * 4 + y div 16), byte ((y mod 16) * 16 + z div 4),
                                 byte ((z mod 4) * 64 + w)] @ bs)
                      | _ \<Rightarrow> None))))
      | _ \<Rightarrow> None)"
| "b64Groups _ = None"

definition newlineChar :: "char \<Rightarrow> bool" where
  "newlineChar c \<longleftrightarrow> of_char c = (10::nat) \<or> of_char c = (13::nat)"

definition DecodeString :: "string \<Rightarrow> string option" where
  "DecodeString s = b64Groups (filter (\<lambda>c. \<not> newlineChar c) s)"

section \<open>The reference encoder\<close>

definition b64Char :: "nat \<Rightarrow> char" where
  "b64Char n = b64Alphabet ! n"

fun EncodeToString :: "string \<Rightarrow> string" where
  "EncodeToString [] = []"
| "EncodeToString [a] =
     (let x = of_char a in [b64Char (x div 4), b64Char ((x mod 4) * 16), CHR ''='', CHR ''=''])"
| "EncodeToString [a, b] =
     (let x = of_char a; y = of_char b in
      [b64Char (x div 4), b64Char ((x mod 4) * 16 + y div 16), b64Char ((y mod 16) * 4), CHR ''=''])"
| "EncodeToString (a # b # c # rest) =
     (let x = of_char a; y = of_char b; z = of_char c in
      [b64Char (x div 4), b64Char ((x mod 4) * 16 + y div 16), b64Char ((y mod 16) * 4 + z div 64),
       b64Char (z mod 64)] @ EncodeToString rest)"

lemma b64_chars:
  "list_all (\<lambda>n. sextet (b64Char n) = Some n \<and> b64Char n \<noteq> CHR ''='' \<and> \<not> newlineChar (b64Char n)) [0..<64]"
  by code_simp

lemma b64Char_simps:
  assumes "n < 64"
  shows "sextet (b64Char n) = Some n" "b64Char n \<noteq> CHR ''=''" "\<not> newlineChar (b64Char n)"
  using b64_chars assms by (auto simp: list_all_iff)

lemma byte_of_char [simp]: "n = of_char c \<Longrightarrow> byte n = c"
  by (simp add: byte_def)

lemma of_char_bound [simp]: "of_char c < (256::nat)"
  using range_nat_of_char by auto

lemma sextet_bounds:
  fixes c :: char
  shows "of_char c div 4 < (64::nat)" "(of_char c mod 4) * 16 < (64::nat)"
    "(of_char c mod 4) * 16 + of_char d div 16 < (64::nat)" "(of_char c mod 16) * 4 < (64::nat)"
    "(of_char c mod 16) * 4 + of_char d div 64 < (64::nat)" "of_char c mod 64 < (64::nat)"
proof -
  have d: "of_char d div 16 < (16::nat)" "of_char d div 64 < (4::nat)" "of_char c div 4 < (64::nat)"
    using of_char_bound [of c] of_char_bound [of d] by (auto simp: less_mult_imp_div_less)
  have m: "of_char c mod 4 < (4::nat)" "of_char c mod 16 < (16::nat)" by simp_all
  show "of_char c div 4 < (64::nat)" "(of_char c mod 4) * 16 < (64::nat)"
    "(of_char c mod 4) * 16 + of_char d div 16 < (64::nat)" "(of_char c mod 16) * 4 < (64::nat)"
    "(of_char c mod 16) * 4 + of_char d div 64 < (64::nat)" "of_char c mod 64 < (64::nat)"
    using d m by linarith+
qed

lemma newlineChar_pad [simp]: "\<not> newlineChar (CHR ''='')"
  by (simp add: newlineChar_def)

lemma EncodeToString_no_newline: "\<forall>c \<in> set (EncodeToString s). \<not> newlineChar c"
  by (induction s rule: EncodeToString.induct)
    (auto simp: Let_def b64Char_simps sextet_bounds)

lemma b64Groups_Encode: "b64Groups (EncodeToString s) = Some s"
proof (induction s rule: EncodeToString.induct)
  case 1
  show ?case by simp
next
  case (2 a)
  have "of_char a div 4 * 4 + (of_char a mod 4 * 16) div 16 = (of_char a :: nat)" by simp
  then show ?case by (simp add: Let_def b64Char_simps sextet_bounds)
next
  case (3 a b)
  have "of_char b div 16 < (16::nat)" using of_char_bound [of b] by (simp add: less_mult_imp_div_less)
  then show ?case by (simp add: Let_def b64Char_simps sextet_bounds)
next
  case (4 a b c rest)
  have "of_char b div 16 < (16::nat)" "of_char c div 64 < (4::nat)"
    using of_char_bound [of b] of_char_bound [of c] by (simp_all add: less_mult_imp_div_less)
  with 4 show ?case by (simp add: Let_def b64Char_simps sextet_bounds)
qed

lemma Decode_Encode: "DecodeString (EncodeToString s) = Some s"
proof -
  have "filter (\<lambda>c. \<not> newlineChar c) (EncodeToString s) = EncodeToString s"
    using EncodeToString_no_newline by (simp add: filter_id_conv)
  then show ?thesis by (simp add: DecodeString_def b64Groups_Encode)
qed

end
