(* ===== verification/External.thy ===== *)
theory External
  imports Readiness Syncer Informers Base64
begin

text \<open>
  \<open>external\<close> of \<open>internal/controller/*/object/object.go\<close>: \<open>Observe\<close>, \<open>Create\<close>, \<open>Update\<close>, \<open>Delete\<close> and
  what they call. The Object is a pointer that the methods modify, so the state of every operation is
  the Object and the state \<open>'s\<close> behind the clients, the syncer and the kind observer.
\<close>

section \<open>State and results\<close>

text \<open>\<open>KindObserver\<close>: its one method, \<open>WatchResources\<close>, with the REST config that may be nil.\<close>

type_synonym ('s, 'rc) kindObserver = "'rc option \<Rightarrow> string \<Rightarrow> gvk list \<Rightarrow> 's \<Rightarrow> 's"

record ('s, 'rc) external =
  ex_client :: "'s kclient"
  ex_rest :: 'rc
  ex_localClient :: "'s kclient"
  ex_syncer :: "'s resourceSyncer"
  ex_kindObserver :: "('s, 'rc) kindObserver option"
  ex_sanitizeSecrets :: bool
  ex_removeManagedFields :: bool
  ex_desiredStateCacheCleanupFn :: "('s \<Rightarrow> 's) option"

type_synonym connDetails = "string \<rightharpoonup> string"

record externalObservation =
  eo_resourceExists :: bool
  eo_resourceUpToDate :: bool
  eo_connectionDetails :: "connDetails option"

definition notExists :: externalObservation where
  "notExists = \<lparr>eo_resourceExists = False, eo_resourceUpToDate = False, eo_connectionDetails = None\<rparr>"

text \<open>A call that does not touch the Object.\<close>

definition withObj :: "kobject \<Rightarrow> 'a res \<times> 's \<Rightarrow> 'a res \<times> (kobject \<times> 's)" where
  "withObj obj r = (fst r, (obj, snd r))"

lemma withObj_eq: "withObj obj r = (x, (o', t)) \<longleftrightarrow> r = (x, t) \<and> o' = obj"
  by (cases r) (auto simp: withObj_def)

section \<open>Status\<close>

text \<open>What is stored of an observed object: without managed fields, secrets with their data redacted.\<close>

definition isSecret :: "unstructured \<Rightarrow> bool" where
  "isSecret u \<longleftrightarrow> u_kind u = ''Secret'' \<and> u_apiVersion u = ''v1''"

definition sanitized :: "klib \<Rightarrow> ('s, 'rc) external \<Rightarrow> unstructured \<Rightarrow> unstructured res" where
  "sanitized L E observed =
     (let sObserved = (if ex_removeManagedFields E then observed\<lparr>u_managedFields := []\<rparr> else observed) in
      if ex_sanitizeSecrets E \<and> isSecret observed
      then tryR (lib_setValue L sObserved ''data'' (JObject [(''redacted'', JNull)]))
             (ErrWrap errSanitizeSecretData) Ok
      else Ok sObserved)"

text \<open>
  \<open>setAtProvider\<close>: the raw manifest is assigned from the result of \<open>MarshalJSON\<close>, which is nil with an
  error. The conditions are derived from the unsanitized object.
\<close>

definition setAtProviderNil :: "kobject \<Rightarrow> kobject" where
  "setAtProviderNil obj = obj\<lparr>ko_status := (ko_status obj)\<lparr>os_atProviderManifest := None\<rparr>\<rparr>"

definition setAtProvider ::
  "klib \<Rightarrow> celEnv \<Rightarrow> ('s, 'rc) external \<Rightarrow> unstructured \<Rightarrow> kobject \<times> 's \<Rightarrow> unit res \<times> (kobject \<times> 's)" where
  "setAtProvider L C E observed st =
     (case sanitized L E observed of
        Err e \<Rightarrow> (Err e, st)
      | Panic p \<Rightarrow> (Panic p, st)
      | Ok sObserved \<Rightarrow>
          (case lib_marshal L sObserved of
             Err e \<Rightarrow> (Err (ErrWrap errFailedToMarshalExisting e), (setAtProviderNil (fst st), snd st))
           | Panic p \<Rightarrow> (Panic p, st)
           | Ok raw \<Rightarrow>
               (let obj = setAtProviderRaw raw (fst st) in
                (case updateConditionFromObserved L C obj observed of
                   Ok obj' \<Rightarrow> (Ok (), (obj', snd st))
                 | Err e \<Rightarrow> (Err e, (obj, snd st))
                 | Panic p \<Rightarrow> (Panic p, (obj, snd st))))))"

section \<open>References\<close>

definition shouldWatch :: "('s, 'rc) external \<Rightarrow> kobject \<Rightarrow> bool" where
  "shouldWatch E obj \<longleftrightarrow> ex_kindObserver E \<noteq> None \<and> sp_watch (ko_spec obj)"

definition watchIfNeeded ::
  "('s, 'rc) external \<Rightarrow> 'rc option \<Rightarrow> string \<Rightarrow> gvk list \<Rightarrow> kobject \<times> 's \<Rightarrow> kobject \<times> 's" where
  "watchIfNeeded E rc pc gvks st =
     (case ex_kindObserver E of
        Some watch \<Rightarrow> (if sp_watch (ko_spec (fst st)) then (fst st, watch rc pc gvks (snd st)) else st)
      | None \<Rightarrow> st)"

definition patchesField :: "reference \<Rightarrow> bool" where
  "patchesField ref \<longleftrightarrow> (case ref_patchesFrom ref of None \<Rightarrow> False | Some p \<Rightarrow> pf_fieldPath p \<noteq> None)"

text \<open>One iteration of the loop of \<open>resolveReferencies\<close>: the kind of the referenced resource.\<close>

definition resolveOne ::
  "klib \<Rightarrow> ('s, 'rc) external \<Rightarrow> reference \<Rightarrow> kobject \<times> 's \<Rightarrow> gvk res \<times> (kobject \<times> 's)" where
  "resolveOne L E ref st =
     (case getReferenceInfo ref of
        (refAPIVersion, refKind, refNamespace, refName) \<Rightarrow>
          tryS (withObj (fst st) (k_get (ex_localClient E) refAPIVersion refKind (refNamespace, refName) (snd st)))
            (ErrWrap errGetReferencedResource) (\<lambda>res st.
            let gv = parseAPIVersion refAPIVersion;
                g = \<lparr>gvk_group = fst gv, gvk_version = snd gv, gvk_kind = refKind\<rparr> in
            if patchesField ref then
              (case ApplyFromFieldPathPatch L ref res (fst st) of
                 Ok obj \<Rightarrow> (Ok g, (obj, snd st))
               | Err e \<Rightarrow> (Err (ErrWrap errPatchFromReferencedResource e), st)
               | Panic p \<Rightarrow> (Panic p, st))
            else (Ok g, st)))"

fun resolveLoop ::
  "klib \<Rightarrow> ('s, 'rc) external \<Rightarrow> reference list \<Rightarrow> gvk list \<Rightarrow> kobject \<times> 's \<Rightarrow> gvk list res \<times> (kobject \<times> 's)" where
  "resolveLoop L E [] gvks st = (Ok gvks, st)"
| "resolveLoop L E (ref # refs) gvks st =
     (if emptyReference ref then resolveLoop L E refs gvks st
      else tryS (resolveOne L E ref st) id (\<lambda>g st. resolveLoop L E refs (gvks @ [g]) st))"

definition resolveReferencies ::
  "klib \<Rightarrow> ('s, 'rc) external \<Rightarrow> kobject \<times> 's \<Rightarrow> unit res \<times> (kobject \<times> 's)" where
  "resolveReferencies L E st =
     tryS (resolveLoop L E (sp_references (ko_spec (fst st))) [] st) id (\<lambda>gvks st.
       (Ok (), watchIfNeeded E None [] gvks st))"

section \<open>Connection details\<close>

definition secretData :: "connectionDetail \<Rightarrow> bool" where
  "secretData cd \<longleftrightarrow> or_kind (cd_ref cd) = ''Secret'' \<and> or_apiVersion (cd_ref cd) = ''v1'' \<and>
     hasPrefix (or_fieldPath (cd_ref cd)) ''data''"

definition detailValue :: "connectionDetail \<Rightarrow> string \<Rightarrow> string res" where
  "detailValue cd s =
     (if secretData cd then
        (case DecodeString s of
           Some fv \<Rightarrow> Ok fv
         | None \<Rightarrow> Err (ErrWrap errDecodeSecretData (ErrNew ''illegal base64 data'')))
      else Ok s)"

fun connectionDetailsLoop ::
  "klib \<Rightarrow> 's kclient \<Rightarrow> connectionDetail list \<Rightarrow> connDetails \<Rightarrow> 's \<Rightarrow> connDetails res \<times> 's" where
  "connectionDetailsLoop L K [] mcd s = (Ok mcd, s)"
| "connectionDetailsLoop L K (cd # cds) mcd s =
     (let ro = unstructuredFromObjectRef (cd_ref cd) in
      tryS (k_get K (u_apiVersion ro) (u_kind ro) (u_namespace ro, u_name ro) s) (ErrWrap errGetObject) (\<lambda>ro s.
      tryS (liftR (lib_getValue L ro (or_fieldPath (cd_ref cd))) s) (ErrWrap errGetValueAtFieldPath) (\<lambda>v s.
      tryS (liftR (detailValue cd (lib_formatValue L v)) s) id (\<lambda>fv s.
        connectionDetailsLoop L K cds (mcd(cd_toConnectionSecretKey cd \<mapsto> fv)) s))))"

definition connectionDetails ::
  "klib \<Rightarrow> 's kclient \<Rightarrow> connectionDetail list \<Rightarrow> 's \<Rightarrow> connDetails res \<times> 's" where
  "connectionDetails L K cds s = connectionDetailsLoop L K cds Map.empty s"

section \<open>Observe\<close>

text \<open>\<open>GetManagementPolicies\<close> of an Object without policies is the empty list.\<close>

definition managementPolicies :: "kobject \<Rightarrow> string list" where
  "managementPolicies obj = (case sp_managementPolicies (ko_spec obj) of None \<Rightarrow> [] | Some ps \<Rightarrow> ps)"

definition mayWrite :: "kobject \<Rightarrow> bool" where
  "mayWrite obj \<longleftrightarrow> list_ex (\<lambda>p. p \<in> {ManagementActionUpdate, ManagementActionCreate, ManagementActionAll})
     (managementPolicies obj)"

definition sameState :: "klib \<Rightarrow> unstructured option \<Rightarrow> unstructured option \<Rightarrow> bool" where
  "sameState L lastState desired =
     (case lastState of
        None \<Rightarrow> False
      | Some l \<Rightarrow> (case desired of None \<Rightarrow> False | Some d \<Rightarrow> lib_deepEqual L l d))"

definition upToDate :: "klib \<Rightarrow> kobject \<Rightarrow> unstructured option \<Rightarrow> unstructured option \<Rightarrow> bool" where
  "upToDate L obj lastState desired \<longleftrightarrow> \<not> mayWrite obj \<or> sameState L lastState desired"

definition readyOnSync :: "kobject \<Rightarrow> kobject" where
  "readyOnSync obj =
     (let p = rd_policy (sp_readiness (ko_spec obj)) in
      if p = ReadinessPolicySuccessfulCreate \<or> p = [] then setReady Available obj else obj)"

definition handleObservation ::
  "klib \<Rightarrow> ('s, 'rc) external \<Rightarrow> unstructured option \<Rightarrow> unstructured option \<Rightarrow> kobject \<times> 's
     \<Rightarrow> externalObservation res \<times> (kobject \<times> 's)" where
  "handleObservation L E lastState desired st =
     (if upToDate L (fst st) lastState desired then
        (let obj = readyOnSync (fst st) in
         if wasDeleted (ko_meta obj) then
           (Ok \<lparr>eo_resourceExists = True, eo_resourceUpToDate = True, eo_connectionDetails = None\<rparr>, (obj, snd st))
         else
           tryS (withObj obj (connectionDetails L (ex_client E) (sp_connectionDetails (ko_spec obj)) (snd st)))
             (ErrWrap errGetConnectionDetails) (\<lambda>cd st.
             (Ok \<lparr>eo_resourceExists = True, eo_resourceUpToDate = True, eo_connectionDetails = Some cd\<rparr>, st)))
      else
        (Ok \<lparr>eo_resourceExists = True, eo_resourceUpToDate = False, eo_connectionDetails = None\<rparr>, st))"

text \<open>What follows a successful Get: status, observed and desired state, comparison.\<close>

definition observeCurrent ::
  "klib \<Rightarrow> celEnv \<Rightarrow> ('s, 'rc) external \<Rightarrow> unstructured \<Rightarrow> unstructured \<Rightarrow> kobject \<times> 's
     \<Rightarrow> externalObservation res \<times> (kobject \<times> 's)" where
  "observeCurrent L C E manifest current st =
     tryS (setAtProvider L C E current st) id (\<lambda>_ st.
     tryS (withObj (fst st) (rs_GetObservedState (ex_syncer E) (fst st) (Some current) (snd st)))
       (ErrWrap errGetObservedState) (\<lambda>observedState st.
     tryS (withObj (fst st) (rs_GetDesiredState (ex_syncer E) (fst st) manifest (snd st)))
       (ErrWrap errGetDesiredState) (\<lambda>desiredState st.
     handleObservation L E observedState desiredState st)))"

text \<open>From the parsed manifest on: the watch of its kind, the Get, and the missing object.\<close>

definition observeManifest ::
  "klib \<Rightarrow> celEnv \<Rightarrow> scope \<Rightarrow> ('s, 'rc) external \<Rightarrow> unstructured \<Rightarrow> kobject \<times> 's
     \<Rightarrow> externalObservation res \<times> (kobject \<times> 's)" where
  "observeManifest L C sc E manifest st =
     tryS (liftR (if shouldWatch E (fst st) then providerConfigKey sc (fst st) else Ok []) st) id (\<lambda>pc st.
       let st = watchIfNeeded E (Some (ex_rest E)) pc [lib_gvkOf L manifest] st in
       (case withObj (fst st) (k_get (ex_client E) (u_apiVersion manifest) (u_kind manifest)
                                 (u_namespace manifest, u_name manifest) (snd st)) of
          (Ok current, st) \<Rightarrow> observeCurrent L C E manifest current st
        | (Err e, st) \<Rightarrow> if isNotFound e then (Ok notExists, st) else (Err (ErrWrap errGetObject e), st)
        | (Panic p, st) \<Rightarrow> (Panic p, st)))"

definition Observe ::
  "klib \<Rightarrow> celEnv \<Rightarrow> scope \<Rightarrow> ('s, 'rc) external \<Rightarrow> kobject \<times> 's
     \<Rightarrow> externalObservation res \<times> (kobject \<times> 's)" where
  "Observe L C sc E st =
     tryS (if wasDeleted (ko_meta (fst st)) then (Ok (), st) else resolveReferencies L E st)
       (ErrWrap errResolveResourceReferences) (\<lambda>_ st.
     tryS (liftR (parseManifest L (fst st)) st) id (\<lambda>manifest st.
     observeManifest L C sc E manifest st))"

definition Observe_cluster ::
  "klib \<Rightarrow> celEnv \<Rightarrow> ('s, 'rc) external \<Rightarrow> kobject \<times> 's \<Rightarrow> externalObservation res \<times> (kobject \<times> 's)" where
  "Observe_cluster L C E st = Observe L C ClusterScoped E st"

section \<open>Create, Update, Delete\<close>

definition syncManifest ::
  "klib \<Rightarrow> celEnv \<Rightarrow> ('s, 'rc) external \<Rightarrow> string \<Rightarrow> kobject \<times> 's \<Rightarrow> unit res \<times> (kobject \<times> 's)" where
  "syncManifest L C E msg st =
     tryS (liftR (parseManifest L (fst st)) st) id (\<lambda>res st.
     tryS (withObj (fst st) (rs_SyncResource (ex_syncer E) (fst st) res (snd st)))
       (\<lambda>e. ErrWrap msg (ErrClean e)) (\<lambda>current st.
     setAtProvider L C E current st))"

definition Create ::
  "klib \<Rightarrow> celEnv \<Rightarrow> ('s, 'rc) external \<Rightarrow> kobject \<times> 's \<Rightarrow> unit res \<times> (kobject \<times> 's)" where
  "Create L C E st = syncManifest L C E errCreateObject st"

definition Update ::
  "klib \<Rightarrow> celEnv \<Rightarrow> ('s, 'rc) external \<Rightarrow> kobject \<times> 's \<Rightarrow> unit res \<times> (kobject \<times> 's)" where
  "Update L C E st = syncManifest L C E errApplyObject st"

text \<open>\<open>resource.IgnoreNotFound\<close>, then the wrap of what is left.\<close>

definition ignoreNotFound :: "unit res \<Rightarrow> unit res" where
  "ignoreNotFound r = (case r of Err e \<Rightarrow> (if isNotFound e then Ok () else Err e) | _ \<Rightarrow> r)"

definition Delete :: "klib \<Rightarrow> ('s, 'rc) external \<Rightarrow> kobject \<times> 's \<Rightarrow> unit res \<times> (kobject \<times> 's)" where
  "Delete L E st =
     (let propagationPolicy = op_deletionPropagationPolicy (sp_forProvider (ko_spec (fst st))) in
      tryS (liftR (parseManifest L (fst st)) st) id (\<lambda>res st.
        let s = (case ex_desiredStateCacheCleanupFn E of None \<Rightarrow> snd st | Some f \<Rightarrow> f (snd st)) in
        (case k_delete (ex_client E) propagationPolicy res s of
           (r, s) \<Rightarrow> (mapErr (ErrWrap errDeleteObject) (ignoreNotFound r), (fst st, s)))))"

definition Disconnect :: "kobject \<times> 's \<Rightarrow> unit res \<times> (kobject \<times> 's)" where
  "Disconnect st = (Ok (), st)"

end
