(* ===== verification/Ref_World.thy ===== *)
theory Ref_World
  imports Object_Ops
begin

text \<open>
  A small instance of the parameters: library functions that satisfy the documented laws, and the
  client of a cluster that holds objects in memory. The theorems hold for every instance; this one
  shows that their hypotheses can hold. Objects are written as \<open>apiVersion|kind|namespace|name\<close>.
\<close>

section \<open>Library functions\<close>

definition ref_unmarshal :: "string \<Rightarrow> unstructured res" where
  "ref_unmarshal s =
     (case splitOn (CHR ''|'') s of
        [a, k, ns, n] \<Rightarrow> Ok (emptyUnstructured\<lparr>u_apiVersion := a, u_kind := k, u_namespace := ns, u_name := n\<rparr>)
      | _ \<Rightarrow> Err (ErrNew ''bad manifest''))"

definition ref_marshal :: "unstructured \<Rightarrow> string res" where
  "ref_marshal u = Ok (u_apiVersion u @ ''|'' @ u_kind u @ ''|'' @ u_namespace u @ ''|'' @ u_name u)"

definition ref_gvkOf :: "unstructured \<Rightarrow> gvk" where
  "ref_gvkOf u =
     (let gv = parseAPIVersion (u_apiVersion u) in
      \<lparr>gvk_group = fst gv, gvk_version = snd gv, gvk_kind = u_kind u\<rparr>)"

definition ref_lib :: klib where
  "ref_lib =
     \<lparr>lib_unmarshal = ref_unmarshal,
      lib_marshal = ref_marshal,
      lib_fields = \<lambda>raw. Ok [],
      lib_gvkOf = ref_gvkOf,
      lib_gvString = \<lambda>g v. if g = [] then v else g @ ''/'' @ v,
      lib_deepEqual = \<lambda>a b. a = b,
      lib_addAnnotation = \<lambda>as k v. as(k \<mapsto> v),
      lib_finExists = \<lambda>fs f. f \<in> set fs,
      lib_finAdd = \<lambda>fs f. if f \<in> set fs then fs else fs @ [f],
      lib_finRemove = \<lambda>fs f. filter (\<lambda>g. g \<noteq> f) fs,
      lib_getValue = \<lambda>u path. (case u_content u path of Some v \<Rightarrow> Ok v | None \<Rightarrow> Err (ErrNew ''no such field'')),
      lib_setValue = \<lambda>u path v. Ok (u\<lparr>u_content := (u_content u)(path \<mapsto> v)\<rparr>),
      lib_statusConditions = \<lambda>u. Ok [],
      lib_paveUnstructured = \<lambda>u. Ok u,
      lib_paveObject = \<lambda>o'. Ok emptyUnstructured,
      lib_fromUnstructured = \<lambda>u. Err (ErrNew ''not an Object''),
      lib_csaPatch = \<lambda>u ms owner. Ok [],
      lib_sha256Hex = \<lambda>s. s,
      lib_formatValue = \<lambda>v. (case v of JString s \<Rightarrow> s | _ \<Rightarrow> [])\<rparr>"

lemma ref_lib_simps [simp]:
  "lib_unmarshal ref_lib = ref_unmarshal"
  "lib_marshal ref_lib = ref_marshal"
  "lib_fields ref_lib = (\<lambda>raw. Ok [])"
  "lib_gvkOf ref_lib = ref_gvkOf"
  "lib_gvString ref_lib = (\<lambda>g v. if g = [] then v else g @ ''/'' @ v)"
  "lib_deepEqual ref_lib = (\<lambda>a b. a = b)"
  "lib_addAnnotation ref_lib = (\<lambda>as k v. as(k \<mapsto> v))"
  "lib_finExists ref_lib = (\<lambda>fs f. f \<in> set fs)"
  "lib_finAdd ref_lib = (\<lambda>fs f. if f \<in> set fs then fs else fs @ [f])"
  "lib_finRemove ref_lib = (\<lambda>fs f. filter (\<lambda>g. g \<noteq> f) fs)"
  "lib_getValue ref_lib = (\<lambda>u path. (case u_content u path of Some v \<Rightarrow> Ok v | None \<Rightarrow> Err (ErrNew ''no such field'')))"
  "lib_setValue ref_lib = (\<lambda>u path v. Ok (u\<lparr>u_content := (u_content u)(path \<mapsto> v)\<rparr>))"
  "lib_statusConditions ref_lib = (\<lambda>u. Ok [])"
  "lib_csaPatch ref_lib = (\<lambda>u ms owner. Ok [])"
  "lib_sha256Hex ref_lib = (\<lambda>s. s)"
  "lib_formatValue ref_lib = (\<lambda>v. (case v of JString s \<Rightarrow> s | _ \<Rightarrow> []))"
  by (simp_all add: ref_lib_def)

lemma ref_lib_laws: "finalizerLaws ref_lib" "annotationLaws ref_lib"
  by (auto simp: finalizerLaws_def annotationLaws_def)

section \<open>A cluster in memory\<close>

type_synonym refKey = "string \<times> string \<times> nsname"
type_synonym refWorld = "refKey \<rightharpoonup> unstructured"

definition keyOf :: "unstructured \<Rightarrow> refKey" where
  "keyOf u = (u_apiVersion u, u_kind u, (u_namespace u, u_name u))"

abbreviation notFoundError :: goerr where
  "notFoundError \<equiv> ErrStatus ''NotFound'' ''not found''"

definition ref_client :: "refWorld kclient" where
  "ref_client =
     \<lparr>k_get = \<lambda>a k n w. (case w (a, k, n) of Some u \<Rightarrow> (Ok u, w) | None \<Rightarrow> (Err notFoundError, w)),
      k_update = \<lambda>u w. (case w (keyOf u) of Some _ \<Rightarrow> (Ok u, w(keyOf u \<mapsto> u)) | None \<Rightarrow> (Err notFoundError, w)),
      k_apply = \<lambda>u w. (Ok u, w(keyOf u \<mapsto> u)),
      k_ssa = \<lambda>dry owner u w. (Ok u, if dry then w else w(keyOf u \<mapsto> u)),
      k_jsonPatch = \<lambda>u patch w. (Ok u, w),
      k_delete = \<lambda>policy u w.
        (case w (keyOf u) of Some _ \<Rightarrow> (Ok (), w(keyOf u := None)) | None \<Rightarrow> (Err notFoundError, w)),
      k_updateObject = \<lambda>o' w. (Ok o', w)\<rparr>"

lemma ref_client_simps [simp]:
  "k_get ref_client a k n w = (case w (a, k, n) of Some u \<Rightarrow> (Ok u, w) | None \<Rightarrow> (Err notFoundError, w))"
  "k_update ref_client u w =
     (case w (keyOf u) of Some _ \<Rightarrow> (Ok u, w(keyOf u \<mapsto> u)) | None \<Rightarrow> (Err notFoundError, w))"
  "k_apply ref_client u w = (Ok u, w(keyOf u \<mapsto> u))"
  "k_ssa ref_client dry owner u w = (Ok u, if dry then w else w(keyOf u \<mapsto> u))"
  "k_jsonPatch ref_client u patch w = (Ok u, w)"
  "k_delete ref_client policy u w =
     (case w (keyOf u) of Some _ \<Rightarrow> (Ok (), w(keyOf u := None)) | None \<Rightarrow> (Err notFoundError, w))"
  "k_updateObject ref_client o' w = (Ok o', w)"
  by (simp_all add: ref_client_def)

section \<open>Objects\<close>

definition ref_spec :: "string \<Rightarrow> objectSpec" where
  "ref_spec raw =
     \<lparr>sp_writeConnectionSecretToReference = None,
      sp_providerConfigReference = Some \<lparr>pcr_kind = ''ProviderConfig'', pcr_name = ''default''\<rparr>,
      sp_managementPolicies = Some [''*''],
      sp_deletionPolicy = ''Delete'',
      sp_connectionDetails = [],
      sp_forProvider = \<lparr>op_manifest = Some raw, op_deletionPropagationPolicy = ''Background''\<rparr>,
      sp_references = [],
      sp_readiness = \<lparr>rd_policy = ''SuccessfulCreate'', rd_celQuery = []\<rparr>,
      sp_watch = False\<rparr>"

definition ref_object :: "string \<Rightarrow> string \<Rightarrow> kobject" where
  "ref_object name raw =
     \<lparr>ko_meta = \<lparr>om_name = name, om_namespace = ''team'', om_uid = ''uid-'' @ name, om_labels = Map.empty,
        om_annotations = Map.empty, om_finalizers = [], om_creationTimestamp = Some 0,
        om_deletionTimestamp = None\<rparr>,
      ko_spec = ref_spec raw,
      ko_status = \<lparr>os_conditions = Map.empty, os_atProviderManifest = None\<rparr>\<rparr>"

lemma ref_object_simps [simp]:
  "koName (ref_object name raw) = name"
  "koNamespace (ref_object name raw) = ''team''"
  "koUID (ref_object name raw) = ''uid-'' @ name"
  "om_finalizers (ko_meta (ref_object name raw)) = []"
  "om_deletionTimestamp (ko_meta (ref_object name raw)) = None"
  "ko_spec (ref_object name raw) = ref_spec raw"
  "os_atProviderManifest (ko_status (ref_object name raw)) = None"
  "os_conditions (ko_status (ref_object name raw)) = Map.empty"
  by (simp_all add: ref_object_def)

lemma ref_spec_simps [simp]:
  "sp_providerConfigReference (ref_spec raw) = Some \<lparr>pcr_kind = ''ProviderConfig'', pcr_name = ''default''\<rparr>"
  "sp_managementPolicies (ref_spec raw) = Some [''*'']"
  "sp_connectionDetails (ref_spec raw) = []"
  "sp_forProvider (ref_spec raw) = \<lparr>op_manifest = Some raw, op_deletionPropagationPolicy = ''Background''\<rparr>"
  "sp_references (ref_spec raw) = []"
  "sp_readiness (ref_spec raw) = \<lparr>rd_policy = ''SuccessfulCreate'', rd_celQuery = []\<rparr>"
  "sp_watch (ref_spec raw) = False"
  by (simp_all add: ref_spec_def)

abbreviation ref_manifest :: string where "ref_manifest \<equiv> ''v1|ConfigMap|apps|settings''"

definition ref_configMap :: unstructured where
  "ref_configMap = emptyUnstructured\<lparr>u_apiVersion := ''v1'', u_kind := ''ConfigMap'',
     u_namespace := ''apps'', u_name := ''settings''\<rparr>"

lemma ref_configMap_simps [simp]:
  "u_apiVersion ref_configMap = ''v1''" "u_kind ref_configMap = ''ConfigMap''"
  "u_namespace ref_configMap = ''apps''" "u_name ref_configMap = ''settings''"
  "u_annotations ref_configMap = Map.empty" "u_finalizers ref_configMap = []"
  "u_managedFields ref_configMap = []" "u_content ref_configMap = Map.empty"
  by (simp_all add: ref_configMap_def emptyUnstructured_def)

lemma ref_unmarshal_manifest [simp]: "ref_unmarshal ref_manifest = Ok ref_configMap"
  by (simp add: ref_unmarshal_def ref_configMap_def)

lemma ref_parseManifest [simp]: "parseManifest ref_lib (ref_object name ref_manifest) = Ok ref_configMap"
  by (simp add: parseManifest_def rawBytes_def defaultName_def)

text \<open>A reference to a namespace, and an Object with it.\<close>

definition ref_namespaceRef :: reference where
  "ref_namespaceRef =
     \<lparr>ref_dependsOn = Some \<lparr>dep_apiVersion = ''v1'', dep_kind = ''Namespace'', dep_name = ''apps'', dep_namespace = []\<rparr>,
      ref_patchesFrom = None, ref_toFieldPath = None\<rparr>"

definition ref_dependent :: kobject where
  "ref_dependent = (ref_object ''settings'' ref_manifest)
     \<lparr>ko_spec := (ref_spec ref_manifest)\<lparr>sp_references := [ref_namespaceRef]\<rparr>\<rparr>"

lemma ref_namespaceRef_simps [simp]:
  "\<not> emptyReference ref_namespaceRef" "getReferenceInfo ref_namespaceRef = (''v1'', ''Namespace'', [], ''apps'')"
  by (simp_all add: ref_namespaceRef_def emptyReference_def getReferenceInfo_def)

definition ref_namespace :: unstructured where
  "ref_namespace = emptyUnstructured\<lparr>u_apiVersion := ''v1'', u_kind := ''Namespace'', u_name := ''apps'',
     u_finalizers := [''kubernetes'']\<rparr>"

end
