(* ===== verification/External_Facts.thy ===== *)
theory External_Facts
  imports External Ref_World
begin

text \<open>
  Facts about \<open>external\<close>: \<open>Observe\<close> only reads (proved once for every resource syncer), its outcome in
  terms of the Get and of the compared states, what \<open>setAtProvider\<close> depends on, and the convergence of
  the patching syncer on a server that stores what it is sent.
\<close>

section \<open>Observe only reads\<close>

text \<open>The steps that Observe is made of; \<open>syncStep\<close> are those of the syncer.\<close>

inductive observeStep :: "('s, 'rc) external \<Rightarrow> ('s \<Rightarrow> 's \<Rightarrow> bool) \<Rightarrow> 's \<Rightarrow> 's \<Rightarrow> bool"
  for E :: "('s, 'rc) external" and syncStep :: "'s \<Rightarrow> 's \<Rightarrow> bool" where
  upstream: "readStep (ex_client E) s t \<Longrightarrow> observeStep E syncStep s t"
| local: "readStep (ex_localClient E) s t \<Longrightarrow> observeStep E syncStep s t"
| sync: "syncStep s t \<Longrightarrow> observeStep E syncStep s t"
| watch: "ex_kindObserver E = Some w \<Longrightarrow> observeStep E syncStep s (w rc pc gvks s)"

lemma withObj_run: "withObj obj r = (x, st) \<Longrightarrow> r = (x, snd st) \<and> fst st = obj"
  by (cases st) (auto simp: withObj_eq)

lemma watchIfNeeded_steps: "(observeStep E syncStep)\<^sup>*\<^sup>* (snd st) (snd (watchIfNeeded E rc pc gvks st))"
  by (auto simp: watchIfNeeded_def intro: observeStep.watch split: option.splits)

lemma resolveOne_steps:
  assumes "resolveOne L E ref st = (r, st')"
  shows "(observeStep E syncStep)\<^sup>*\<^sup>* (snd st) (snd st')"
proof -
  obtain a k n m where i: "getReferenceInfo ref = (a, k, n, m)" by (cases "getReferenceInfo ref")
  obtain x t where g: "k_get (ex_localClient E) a k (n, m) (snd st) = (x, t)"
    by (cases "k_get (ex_localClient E) a k (n, m) (snd st)")
  have "snd st' = t"
    using assms by (auto simp: resolveOne_def i g withObj_def Let_def split: res_splits if_splits res.splits)
  then show ?thesis using observeStep.local [OF readStep.get [OF g]] by blast
qed

lemma resolveLoop_steps:
  "resolveLoop L E refs gvks st = (r, st') \<Longrightarrow> (observeStep E syncStep)\<^sup>*\<^sup>* (snd st) (snd st')"
proof (induction refs arbitrary: gvks st)
  case Nil
  then show ?case by auto
next
  case (Cons ref refs)
  show ?case
  proof (cases "emptyReference ref")
    case True
    with Cons show ?thesis by simp
  next
    case False
    obtain x u where one: "resolveOne L E ref st = (x, u)" by (cases "resolveOne L E ref st")
    have "(observeStep E syncStep)\<^sup>*\<^sup>* (snd st) (snd u)" using one by (rule resolveOne_steps)
    moreover have "(observeStep E syncStep)\<^sup>*\<^sup>* (snd u) (snd st')"
      using Cons False one by (cases x) (auto dest: Cons.IH)
    ultimately show ?thesis by (rule rtranclp_trans)
  qed
qed

lemma resolveReferencies_steps:
  assumes "resolveReferencies L E st = (r, st')"
  shows "(observeStep E syncStep)\<^sup>*\<^sup>* (snd st) (snd st')"
proof -
  obtain x u where loop: "resolveLoop L E (sp_references (ko_spec (fst st))) [] st = (x, u)"
    by (cases "resolveLoop L E (sp_references (ko_spec (fst st))) [] st")
  have "(observeStep E syncStep)\<^sup>*\<^sup>* (snd u) (snd st')"
    using assms loop watchIfNeeded_steps [of E syncStep u None "[]"]
    by (cases x) (auto simp: resolveReferencies_def)
  with resolveLoop_steps [OF loop] show ?thesis by (rule rtranclp_trans)
qed

lemma connectionDetailsLoop_steps:
  "connectionDetailsLoop L (ex_client E) cds mcd s = (r, t) \<Longrightarrow> (observeStep E syncStep)\<^sup>*\<^sup>* s t"
proof (induction cds arbitrary: mcd s)
  case Nil
  then show ?case by simp
next
  case (Cons cd cds)
  let ?ro = "unstructuredFromObjectRef (cd_ref cd)"
  obtain x u where g: "k_get (ex_client E) (u_apiVersion ?ro) (u_kind ?ro) (u_namespace ?ro, u_name ?ro) s = (x, u)"
    by (cases "k_get (ex_client E) (u_apiVersion ?ro) (u_kind ?ro) (u_namespace ?ro, u_name ?ro) s")
  have "observeStep E syncStep s u" using observeStep.upstream [OF readStep.get [OF g]] .
  moreover have "(observeStep E syncStep)\<^sup>*\<^sup>* u t"
    using Cons.prems by (auto simp: Let_def g liftR_def dest: Cons.IH split: res_splits)
  ultimately show ?case by (rule converse_rtranclp_into_rtranclp)
qed

lemma setAtProvider_state: "snd (snd (setAtProvider L C E observed st)) = snd st"
  by (simp add: setAtProvider_def Let_def split: res.splits)

lemma handleObservation_steps:
  assumes "handleObservation L E lastState desired st = (r, st')"
  shows "(observeStep E syncStep)\<^sup>*\<^sup>* (snd st) (snd st')"
proof -
  have "snd st' = snd st \<or>
      (\<exists>cds x. connectionDetailsLoop L (ex_client E) cds Map.empty (snd st) = (x, snd st'))"
    using assms
    by (auto simp: handleObservation_def connectionDetails_def Let_def withObj_def split: res_splits if_splits)
      (metis prod.collapse)+
  then show ?thesis using connectionDetailsLoop_steps by fastforce
qed

context resource_syncer begin

lemma observeCurrent_steps:
  assumes E: "ex_syncer E = syncer" and run: "observeCurrent L C E manifest current st = (r, st')"
  shows "(observeStep E step)\<^sup>*\<^sup>* (snd st) (snd st')"
proof -
  let ?R = "(observeStep E step)\<^sup>*\<^sup>*"
  have sync: "step\<^sup>*\<^sup>* s t \<Longrightarrow> ?R s t" for s t
    by (induction rule: rtranclp_induct) (auto intro: observeStep.sync rtranclp.rtrancl_into_rtrancl)
  have obs: "?R (snd u) (snd v)"
    if "withObj (fst u) (rs_GetObservedState (ex_syncer E) (fst u) (Some current) (snd u)) = (x, v)" for u v x
    using withObj_run [OF that] E by (auto intro: sync observed_steps)
  have des: "?R (snd u) (snd v)"
    if "withObj (fst u) (rs_GetDesiredState (ex_syncer E) (fst u) manifest (snd u)) = (x, v)" for u v x
    using withObj_run [OF that] E by (auto intro: sync desired_steps)
  obtain x1 s1 where 1: "setAtProvider L C E current st = (x1, s1)" by (cases "setAtProvider L C E current st")
  have s1: "snd s1 = snd st" using setAtProvider_state [of L C E current st] 1 by simp
  obtain x2 s2 where 2: "withObj (fst s1) (rs_GetObservedState (ex_syncer E) (fst s1) (Some current) (snd s1)) = (x2, s2)"
    by (cases "withObj (fst s1) (rs_GetObservedState (ex_syncer E) (fst s1) (Some current) (snd s1))")
  obtain x3 s3 where 3: "withObj (fst s2) (rs_GetDesiredState (ex_syncer E) (fst s2) manifest (snd s2)) = (x3, s3)"
    by (cases "withObj (fst s2) (rs_GetDesiredState (ex_syncer E) (fst s2) manifest (snd s2))")
  consider "st' = s1" | "st' = s2" | "st' = s3" | o1 o2 where "handleObservation L E o1 o2 s3 = (r, st')"
    using run 1 2 3 by (cases x1; cases x2; cases x3) (auto simp: observeCurrent_def)
  then show ?thesis
  proof cases
    case 4
    then have "?R (snd s3) (snd st')" by (rule handleObservation_steps)
    with obs [OF 2] des [OF 3] s1 show ?thesis by (metis rtranclp_trans)
  qed (use obs [OF 2] des [OF 3] s1 in \<open>auto intro: rtranclp_trans\<close>)
qed

lemma observeManifest_steps:
  assumes E: "ex_syncer E = syncer" and run: "observeManifest L C sc E manifest st = (r, st')"
  shows "(observeStep E step)\<^sup>*\<^sup>* (snd st) (snd st')"
proof (cases "if shouldWatch E (fst st) then providerConfigKey sc (fst st) else Ok []")
  case (Ok pc)
  let ?u = "watchIfNeeded E (Some (ex_rest E)) pc [lib_gvkOf L manifest] st"
  let ?get = "k_get (ex_client E) (u_apiVersion manifest) (u_kind manifest) (u_namespace manifest, u_name manifest)"
  obtain x t where g: "?get (snd ?u) = (x, t)" by (cases "?get (snd ?u)")
  have 1: "observeStep E step (snd ?u) t" using observeStep.upstream [OF readStep.get [OF g]] .
  have "snd st' = t \<or> (\<exists>current o'. observeCurrent L C E manifest current (o', t) = (r, st'))"
    using run Ok g by (cases x) (auto simp: observeManifest_def withObj_def Let_def split: if_splits)
  then have "(observeStep E step)\<^sup>*\<^sup>* t (snd st')"
    using observeCurrent_steps [OF E] by fastforce
  with 1 watchIfNeeded_steps [of E step st "Some (ex_rest E)" pc "[lib_gvkOf L manifest]"] show ?thesis
    by (meson converse_rtranclp_into_rtranclp rtranclp_trans)
qed (use run in \<open>auto simp: observeManifest_def\<close>)

lemma Observe_steps:
  assumes E: "ex_syncer E = syncer" and run: "Observe L C sc E st = (r, st')"
  shows "(observeStep E step)\<^sup>*\<^sup>* (snd st) (snd st')"
proof -
  let ?res = "if wasDeleted (ko_meta (fst st)) then (Ok (), st) else resolveReferencies L E st"
  obtain x u where res: "?res = (x, u)" by (cases ?res)
  have 1: "(observeStep E step)\<^sup>*\<^sup>* (snd st) (snd u)"
    using res by (auto intro: resolveReferencies_steps split: if_splits)
  have "(observeStep E step)\<^sup>*\<^sup>* (snd u) (snd st')"
    using run res by (cases x; cases "parseManifest L (fst u)")
      (auto simp: Observe_def intro: observeManifest_steps [OF E])
  with 1 show ?thesis by (rule rtranclp_trans)
qed

end

section \<open>The status\<close>

lemma setReady_same_check:
  "isOk (readyResult r a) \<longleftrightarrow> isOk r" "readyResult r a = Ok b \<Longrightarrow> ko_spec b = ko_spec a \<and> ko_meta b = ko_meta a"
  by (auto simp: readyResult_def split: res.splits)

lemma updateConditionFromObserved_spec:
  assumes "ko_spec a = ko_spec b"
  shows "isOk (updateConditionFromObserved L C a observed) \<longleftrightarrow> isOk (updateConditionFromObserved L C b observed)"
  using assms
  by (simp add: updateConditionFromObserved_def Let_def setReady_same_check checkDeriveFromCelQuery_def)

lemma setAtProvider_Ok:
  assumes "setAtProvider L C E observed (obj, s) = (Ok (), (obj', t))"
  shows "t = s" "ko_meta obj' = ko_meta obj" "ko_spec obj' = ko_spec obj"
  using assms updateConditionFromObserved_frame [of L C _ observed obj']
  by (auto simp: setAtProvider_def Let_def split: res.splits)

lemma setAtProvider_again:
  assumes "setAtProvider L C E observed (obj, s) = (Ok (), (obj', t))" "ko_spec a = ko_spec obj"
  shows "\<exists>b. setAtProvider L C E observed (a, u) = (Ok (), (b, u)) \<and> ko_meta b = ko_meta a \<and> ko_spec b = ko_spec a"
proof -
  from assms(1) obtain so raw where so: "sanitized L E observed = Ok so" "lib_marshal L so = Ok raw"
    and "isOk (updateConditionFromObserved L C (setAtProviderRaw raw obj) observed)"
    by (auto simp: setAtProvider_def Let_def isOk_iff split: res.splits)
  then have "isOk (updateConditionFromObserved L C (setAtProviderRaw raw a) observed)"
    using updateConditionFromObserved_spec [of "setAtProviderRaw raw a" "setAtProviderRaw raw obj"] assms(2) by simp
  then obtain b where b: "updateConditionFromObserved L C (setAtProviderRaw raw a) observed = Ok b"
    by (auto simp: isOk_iff)
  with so have "setAtProvider L C E observed (a, u) = (Ok (), (b, u))"
    by (simp add: setAtProvider_def)
  with updateConditionFromObserved_frame [OF b] show ?thesis by simp
qed

section \<open>Convergence of the patching syncer\<close>

text \<open>A server that stores what is applied: the annotation is kept, and a Get reads the result back.\<close>

definition storesApplied :: "'s kclient \<Rightarrow> bool" where
  "storesApplied K \<longleftrightarrow>
     (\<forall>d s r t. k_apply K d s = (Ok r, t) \<longrightarrow>
        u_annotations r LastAppliedConfigAnnotation = u_annotations d LastAppliedConfigAnnotation \<and>
        k_get K (u_apiVersion d) (u_kind d) (u_namespace d, u_name d) t = (Ok r, t))"

lemma storesApplied_ref: "storesApplied ref_client"
  by (simp add: storesApplied_def keyOf_def)

lemma Patching_SyncResource_Ok:
  assumes "annotationLaws L" "storesApplied K" "Patching_SyncResource L K obj m s = (Ok r, t)"
  shows "k_get K (u_apiVersion m) (u_kind m) (u_namespace m, u_name m) t = (Ok r, t)"
    "u_annotations r LastAppliedConfigAnnotation = Some (rawBytes (koManifest obj))"
proof -
  let ?d = "m\<lparr>u_annotations := (u_annotations m)(LastAppliedConfigAnnotation \<mapsto> rawBytes (koManifest obj))\<rparr>"
  have "k_apply K ?d s = (Ok r, t)"
    using assms(1,3) by (simp add: Patching_SyncResource_def annotationLaws_def res_simps)
  with assms(2) show "k_get K (u_apiVersion m) (u_kind m) (u_namespace m, u_name m) t = (Ok r, t)"
    "u_annotations r LastAppliedConfigAnnotation = Some (rawBytes (koManifest obj))"
    unfolding storesApplied_def by fastforce+
qed

text \<open>The observed state of what was applied is the manifest.\<close>

lemma Patching_observed_synced:
  assumes "u_annotations r LastAppliedConfigAnnotation = Some (rawBytes (koManifest obj))"
  shows "Patching_GetObservedState L obj (Some r) = tryR (parseManifest L obj) id (\<lambda>m. Ok (Some m))"
  by (cases "lib_unmarshal L (rawBytes (koManifest obj))")
    (simp_all add: Patching_GetObservedState_def assms parseManifest_def)


text \<open>A CEL engine without programs, and a controller on the cluster in memory.\<close>

definition ref_cel :: celEnv where
  "ref_cel = \<lparr>cel_newEnv = Ok (), cel_compile = \<lambda>q. Err (ErrNew ''syntax error''), cel_marshal = \<lambda>u. Ok []\<rparr>"

definition ref_external :: "(refWorld, unit) external" where
  "ref_external =
     \<lparr>ex_client = ref_client, ex_rest = (), ex_localClient = ref_client,
      ex_syncer = PatchingResourceSyncer ref_lib ref_client, ex_kindObserver = None,
      ex_sanitizeSecrets = True, ex_removeManagedFields = True, ex_desiredStateCacheCleanupFn = None\<rparr>"

lemma ref_external_simps [simp]:
  "ex_client ref_external = ref_client" "ex_localClient ref_external = ref_client"
  "ex_syncer ref_external = PatchingResourceSyncer ref_lib ref_client"
  "ex_kindObserver ref_external = None" "ex_desiredStateCacheCleanupFn ref_external = None"
  "ex_sanitizeSecrets ref_external" "ex_removeManagedFields ref_external"
  by (simp_all add: ref_external_def)

definition ref_applied :: unstructured where
  "ref_applied = ref_configMap\<lparr>u_annotations := [LastAppliedConfigAnnotation \<mapsto> ref_manifest]\<rparr>"

definition ref_observed :: kobject where
  "ref_observed = setAtProviderRaw ref_manifest (ref_object ''settings'' ref_manifest)"

lemma ref_setAtProvider:
  "setAtProvider ref_lib ref_cel ref_external ref_applied (ref_object ''settings'' ref_manifest, w) =
     (Ok (), (ref_observed, w))"
  by (simp add: setAtProvider_def sanitized_def isSecret_def ref_applied_def ref_marshal_def
      updateConditionFromObserved_def ref_observed_def)

lemma ref_Update:
  "Update ref_lib ref_cel ref_external (ref_object ''settings'' ref_manifest, Map.empty) =
     (Ok (), (ref_observed, [keyOf ref_configMap \<mapsto> ref_applied]))"
  by (simp add: Update_def syncManifest_def PatchingResourceSyncer_def Patching_SyncResource_def withObj_def
      rawBytes_def ref_setAtProvider keyOf_def flip: ref_applied_def)

lemma ref_Observe_synced:
  "\<exists>obj''. Observe ref_lib ref_cel Namespaced ref_external (ref_observed, [keyOf ref_configMap \<mapsto> ref_applied]) =
     (Ok \<lparr>eo_resourceExists = True, eo_resourceUpToDate = True, eo_connectionDetails = Some Map.empty\<rparr>,
      (obj'', [keyOf ref_configMap \<mapsto> ref_applied])) \<and> ko_spec obj'' = ref_spec ref_manifest"
proof -
  have obs: "Patching_GetObservedState ref_lib ref_observed (Some ref_applied) = Ok (Some ref_configMap)"
    by (simp add: Patching_GetObservedState_def ref_applied_def defaultName_def)
  have m: "parseManifest ref_lib ref_observed = Ok ref_configMap"
    by (simp add: ref_observed_def parseManifest_def rawBytes_def defaultName_def)
  have at: "setAtProvider ref_lib ref_cel ref_external ref_applied (ref_observed, w) = (Ok (), (ref_observed, w))" for w
    by (simp add: setAtProvider_def sanitized_def isSecret_def ref_applied_def ref_marshal_def
        updateConditionFromObserved_def ref_observed_def setAtProviderRaw_def)
  have spec: "sp_references (ko_spec ref_observed) = []" "\<not> wasDeleted (ko_meta ref_observed)"
    "sp_connectionDetails (ko_spec ref_observed) = []" "rd_policy (sp_readiness (ko_spec ref_observed)) = ReadinessPolicySuccessfulCreate"
    "ko_spec ref_observed = ref_spec ref_manifest"
    by (simp_all add: ref_observed_def wasDeleted_def)
  show ?thesis
    by (simp add: Observe_def observeManifest_def observeCurrent_def resolveReferencies_def watchIfNeeded_def
        shouldWatch_def withObj_def spec m at keyOf_def PatchingResourceSyncer_def Patching_GetDesiredState_def obs
        handleObservation_def upToDate_def sameState_def readyOnSync_def connectionDetails_def)
qed


end
