(* ===== verification/Observation.thy ===== *)
theory Observation
  imports External_Facts
begin

text \<open>
  Properties of \<open>external\<close> in \<open>internal/controller/*/object/object.go\<close>: what \<open>Observe\<close> may change, when
  it reports a resource as up to date, how references gate it, what the status holds of a secret, the
  deletion path, and the connection details.
\<close>

section \<open>Observe only reads\<close>



section \<open>Up to date\<close>

lemma handleObservation_Ok:
  assumes "handleObservation L E lastState desired st = (Ok obs, st')"
  shows "eo_resourceExists obs" "eo_resourceUpToDate obs \<longleftrightarrow> upToDate L (fst st) lastState desired"
    "ko_spec (fst st') = ko_spec (fst st)"
  using assms
  by (auto simp: handleObservation_def readyOnSync_def Let_def res_simps withObj_def split: if_splits)

text \<open>The Get of \<open>Observe\<close>, and a successful Observe: the resource is missing, or it was read.\<close>

definition getCurrent :: "'s kclient \<Rightarrow> unstructured \<Rightarrow> 's \<Rightarrow> unstructured res \<times> 's" where
  "getCurrent K m s = k_get K (u_apiVersion m) (u_kind m) (u_namespace m, u_name m) s"

lemma watchIfNeeded_obj [simp]: "fst (watchIfNeeded E rc pc gvks st) = fst st"
  by (simp add: watchIfNeeded_def split: option.splits)

lemma observeManifest_OkE:
  assumes "observeManifest L C sc E m st = (Ok obs, st')"
  obtains (missing) s e t where "getCurrent (ex_client E) m s = (Err e, t)" "isNotFound e" "obs = notExists"
  | (found) s current t obj1 s1 last s2 desired s3 where
      "getCurrent (ex_client E) m s = (Ok current, t)"
      "setAtProvider L C E current (fst st, t) = (Ok (), (obj1, s1))"
      "rs_GetObservedState (ex_syncer E) obj1 (Some current) s1 = (Ok last, s2)"
      "rs_GetDesiredState (ex_syncer E) obj1 m s2 = (Ok desired, s3)"
      "handleObservation L E last desired (obj1, s3) = (Ok obs, st')"
proof -
  from assms obtain pc where "(if shouldWatch E (fst st) then providerConfigKey sc (fst st) else Ok []) = Ok pc"
    by (auto simp: observeManifest_def res_simps)
  moreover define u where "u = watchIfNeeded E (Some (ex_rest E)) pc [lib_gvkOf L m] st"
  moreover obtain r t where g: "getCurrent (ex_client E) m (snd u) = (r, t)"
    by (cases "getCurrent (ex_client E) m (snd u)")
  ultimately have run: "(case (r, (fst u, t)) of
          (Ok current, st) \<Rightarrow> observeCurrent L C E m current st
        | (Err e, st) \<Rightarrow> if isNotFound e then (Ok notExists, st) else (Err (ErrWrap errGetObject e), st)
        | (Panic p, st) \<Rightarrow> (Panic p, st)) = (Ok obs, st')"
    using assms by (cases r) (simp_all add: observeManifest_def withObj_def getCurrent_def Let_def split: if_splits)
  show ?thesis
  proof (cases r)
    case (Ok current)
    with run show ?thesis
      by (auto simp: u_def observeCurrent_def res_simps withObj_eq intro: found [OF g [unfolded Ok]])
  next
    case (Err e)
    with run show ?thesis by (auto intro: missing [OF g [unfolded Err]] split: if_splits)
  qed (use run in simp)
qed

lemma Observe_OkE:
  assumes "Observe L C sc E st = (Ok obs, st')"
  obtains st1 m where "parseManifest L (fst st1) = Ok m" "observeManifest L C sc E m st1 = (Ok obs, st')"
    "wasDeleted (ko_meta (fst st)) \<Longrightarrow> st1 = st"
    "\<not> wasDeleted (ko_meta (fst st)) \<Longrightarrow> resolveReferencies L E st = (Ok (), st1)"
  using assms by (auto simp: Observe_def res_simps split: if_splits)



text \<open>
  An observe-only Object is never reported as out of date: without the policies Create, Update and
  all, a resource that exists is up to date, whatever its state.
\<close>

theorem Observe_only_never_drifts:
  assumes "Observe L C sc E (obj, s) = (Ok obs, (obj', t))" "\<not> mayWrite obj'" "eo_resourceExists obs"
  shows "eo_resourceUpToDate obs"
  using assms(1)
proof (rule Observe_OkE)
  fix st1 m
  assume "observeManifest L C sc E m st1 = (Ok obs, (obj', t))"
  then show ?thesis
  proof (cases rule: observeManifest_OkE)
    case (missing s0 e t0)
    with assms(3) show ?thesis by (simp add: notExists_def)
  next
    case (found s0 current t0 obj1 s1 last s2 desired s3)
    note h = handleObservation_Ok [OF found(5)]
    have "\<not> mayWrite obj1" using assms(2) h(3) by (simp add: mayWrite_def managementPolicies_def)
    with h(2) show ?thesis by (simp add: upToDate_def)
  qed
qed

text \<open>An observe-only Object whose resource exists without a last applied configuration.\<close>

definition ref_observeOnly :: kobject where
  "ref_observeOnly = (ref_object ''settings'' ref_manifest)
     \<lparr>ko_spec := (ref_spec ref_manifest)\<lparr>sp_managementPolicies := Some [''Observe'']\<rparr>\<rparr>"

lemma Observe_only_never_drifts_witness:
  "\<exists>obs st. Observe ref_lib ref_cel Namespaced ref_external (ref_observeOnly, [keyOf ref_configMap \<mapsto> ref_configMap]) =
     (Ok obs, st) \<and> eo_resourceExists obs \<and> eo_resourceUpToDate obs"
proof -
  have spec: "sp_references (ko_spec ref_observeOnly) = []" "\<not> wasDeleted (ko_meta ref_observeOnly)"
    "sp_connectionDetails (ko_spec ref_observeOnly) = []"
    "rd_policy (sp_readiness (ko_spec ref_observeOnly)) = ReadinessPolicySuccessfulCreate"
    by (simp_all add: ref_observeOnly_def wasDeleted_def ref_object_def)
  have m: "parseManifest ref_lib ref_observeOnly = Ok ref_configMap"
    by (simp add: ref_observeOnly_def parseManifest_def rawBytes_def defaultName_def)
  let ?o = "setAtProviderRaw ref_manifest ref_observeOnly"
  have at: "setAtProvider ref_lib ref_cel ref_external ref_configMap (ref_observeOnly, w) = (Ok (), (?o, w))" for w
    by (simp add: setAtProvider_def sanitized_def isSecret_def ref_marshal_def updateConditionFromObserved_def
        ref_observeOnly_def)
  have m': "parseManifest ref_lib ?o = Ok ref_configMap"
    by (simp add: ref_observeOnly_def parseManifest_def rawBytes_def defaultName_def)
  have w: "\<not> mayWrite ?o" "\<not> mayWrite (setReady Available ?o)"
    by (simp_all add: mayWrite_def managementPolicies_def ref_observeOnly_def)
  have run: "\<exists>obs. Observe ref_lib ref_cel Namespaced ref_external (ref_observeOnly, [keyOf ref_configMap \<mapsto> ref_configMap]) =
     (Ok obs, (setReady Available ?o, [keyOf ref_configMap \<mapsto> ref_configMap])) \<and> eo_resourceExists obs"
    by (simp add: Observe_def observeManifest_def observeCurrent_def resolveReferencies_def watchIfNeeded_def
        shouldWatch_def withObj_def spec m m' at keyOf_def PatchingResourceSyncer_def Patching_GetDesiredState_def
        Patching_GetObservedState_def handleObservation_def upToDate_def readyOnSync_def connectionDetails_def w Let_def)
  then obtain obs where obs: "Observe ref_lib ref_cel Namespaced ref_external (ref_observeOnly, [keyOf ref_configMap \<mapsto> ref_configMap]) =
     (Ok obs, (setReady Available ?o, [keyOf ref_configMap \<mapsto> ref_configMap]))" "eo_resourceExists obs" by blast
  from Observe_only_never_drifts [OF obs(1) w(2) obs(2)] obs show ?thesis by auto
qed

section \<open>References gate the observation\<close>

text \<open>What \<open>Get\<close> says of the resource that a reference names.\<close>

definition getReferenced :: "'s kclient \<Rightarrow> reference \<Rightarrow> 's \<Rightarrow> unstructured res \<times> 's" where
  "getReferenced K ref s =
     (case getReferenceInfo ref of (apiVersion, kind, ns, name) \<Rightarrow> k_get K apiVersion kind (ns, name) s)"

lemma resolveOne_Ok:
  assumes "resolveOne L E ref st = (Ok g, st')"
  shows "\<exists>u. getReferenced (ex_localClient E) ref (snd st) = (Ok u, snd st')"
proof -
  obtain a k n m where i: "getReferenceInfo ref = (a, k, n, m)" by (cases "getReferenceInfo ref")
  obtain x t where g: "k_get (ex_localClient E) a k (n, m) (snd st) = (x, t)"
    by (cases "k_get (ex_localClient E) a k (n, m) (snd st)")
  then show ?thesis
    using assms
    by (auto simp: resolveOne_def getReferenced_def i g res_simps withObj_def Let_def split: if_splits res.splits)
qed

lemma resolveLoop_Ok:
  assumes "resolveLoop L E refs gvks st = (Ok gs, st')" "ref \<in> set refs" "\<not> emptyReference ref"
  shows "\<exists>s u t. getReferenced (ex_localClient E) ref s = (Ok u, t)"
  using assms
proof (induction refs arbitrary: gvks st)
  case (Cons r refs)
  show ?case
  proof (cases "emptyReference r")
    case True
    with Cons.prems have "resolveLoop L E refs gvks st = (Ok gs, st')" "ref \<in> set refs" by auto
    with Cons.IH [of gvks st] Cons.prems(3) show ?thesis by blast
  next
    case False
    with Cons.prems obtain g st1 where one: "resolveOne L E r st = (Ok g, st1)"
      and rest: "resolveLoop L E refs (gvks @ [g]) st1 = (Ok gs, st')"
      by (auto simp: res_simps)
    show ?thesis
    proof (cases "ref = r")
      case True
      with resolveOne_Ok [OF one] show ?thesis by blast
    next
      case False
      with Cons.prems have "ref \<in> set refs" by simp
      with Cons.IH [OF rest] Cons.prems(3) show ?thesis by blast
    qed
  qed
qed simp

text \<open>The local Gets of the references are all that a failing resolution has done.\<close>

lemma resolveOne_local:
  assumes "resolveOne L E ref st = (r, st')"
  shows "readStep (ex_localClient E) (snd st) (snd st')"
proof -
  obtain a k n m where i: "getReferenceInfo ref = (a, k, n, m)" by (cases "getReferenceInfo ref")
  obtain x t where g: "k_get (ex_localClient E) a k (n, m) (snd st) = (x, t)"
    by (cases "k_get (ex_localClient E) a k (n, m) (snd st)")
  have "snd st' = t"
    using assms by (auto simp: resolveOne_def i g withObj_def Let_def split: res_splits if_splits res.splits)
  then show ?thesis using readStep.get [OF g] by simp
qed

lemma resolveLoop_local:
  "resolveLoop L E refs gvks st = (r, st') \<Longrightarrow> (readStep (ex_localClient E))\<^sup>*\<^sup>* (snd st) (snd st')"
proof (induction refs arbitrary: gvks st)
  case (Cons ref refs)
  show ?case
  proof (cases "emptyReference ref")
    case False
    obtain x u where one: "resolveOne L E ref st = (x, u)" by (cases "resolveOne L E ref st")
    have "(readStep (ex_localClient E))\<^sup>*\<^sup>* (snd u) (snd st')"
      using Cons False one by (cases x) (auto dest: Cons.IH)
    with resolveOne_local [OF one] show ?thesis by (rule converse_rtranclp_into_rtranclp)
  qed (use Cons in simp)
qed simp



section \<open>Secrets in the status\<close>

text \<open>
  Documented behaviour of \<open>SetValue\<close> on a top-level field: the value it had does not matter; and the
  status conditions of an object do not depend on its \<open>data\<close>.
\<close>

definition withData :: "json option \<Rightarrow> unstructured \<Rightarrow> unstructured" where
  "withData d u = u\<lparr>u_content := (u_content u)(''data'' := d)\<rparr>"

definition dataLaws :: "klib \<Rightarrow> bool" where
  "dataLaws L \<longleftrightarrow>
     (\<forall>u d v. lib_setValue L (withData d u) ''data'' v = lib_setValue L u ''data'' v) \<and>
     (\<forall>u d. lib_statusConditions L (withData d u) = lib_statusConditions L u)"

lemma withData_simps [simp]:
  "u_kind (withData d u) = u_kind u" "u_apiVersion (withData d u) = u_apiVersion u"
  "isSecret (withData d u) = isSecret u"
  "withData d u\<lparr>u_managedFields := ms\<rparr> = withData d (u\<lparr>u_managedFields := ms\<rparr>)"
  by (simp_all add: withData_def isSecret_def)

lemma sanitized_data:
  assumes "dataLaws L" "ex_sanitizeSecrets E" "isSecret u"
  shows "sanitized L E (withData d u) = sanitized L E u"
  using assms by (simp add: sanitized_def dataLaws_def Let_def)


definition ref_secret :: unstructured where
  "ref_secret = emptyUnstructured\<lparr>u_apiVersion := ''v1'', u_kind := ''Secret'', u_name := ''db''\<rparr>"


section \<open>The deletion path\<close>

text \<open>The Object of every step of \<open>Observe\<close> keeps its metadata when no field is patched into it.\<close>

lemma handleObservation_deleted:
  assumes "wasDeleted (ko_meta (fst st))"
  shows "handleObservation L E lastState desired st =
     (Ok \<lparr>eo_resourceExists = True, eo_resourceUpToDate = upToDate L (fst st) lastState desired,
          eo_connectionDetails = None\<rparr>,
      ((if upToDate L (fst st) lastState desired then readyOnSync (fst st) else fst st), snd st))"
  using assms by (simp add: handleObservation_def readyOnSync_def Let_def)

lemma observeManifest_deleted:
  assumes "wasDeleted (ko_meta (fst st))" "observeManifest L C sc E m st = (Ok obs, st')"
  shows "eo_connectionDetails obs = None"
  using assms(2)
proof (cases rule: observeManifest_OkE)
  case (missing s e t)
  then show ?thesis by (simp add: notExists_def)
next
  case (found s current t obj1 s1 last s2 desired s3)
  then have "wasDeleted (ko_meta obj1)" using assms(1) setAtProvider_Ok(2) [OF found(2)] by simp
  then show ?thesis using found(5) handleObservation_deleted [of "(obj1, s3)" L E last desired] by auto
qed

text \<open>Only the resolution of references uses the local client.\<close>

lemma localClient_unused:
  "sanitized L (E\<lparr>ex_localClient := K\<rparr>) u = sanitized L E u"
  "watchIfNeeded (E\<lparr>ex_localClient := K\<rparr>) rc pc gvks st = watchIfNeeded E rc pc gvks st"
  "shouldWatch (E\<lparr>ex_localClient := K\<rparr>) obj = shouldWatch E obj"
  "handleObservation L (E\<lparr>ex_localClient := K\<rparr>) l d st = handleObservation L E l d st"
  by (simp_all add: sanitized_def watchIfNeeded_def shouldWatch_def handleObservation_def Let_def)

lemma localClient_unused_status:
  "setAtProvider L C (E\<lparr>ex_localClient := K\<rparr>) u st = setAtProvider L C E u st"
  unfolding setAtProvider_def localClient_unused by simp

lemma localClient_unused_observe:
  "observeCurrent L C (E\<lparr>ex_localClient := K\<rparr>) m u st = observeCurrent L C E m u st"
  unfolding observeCurrent_def localClient_unused localClient_unused_status by simp

text \<open>
  Deletion does not depend on references. For an Object that is being deleted, Observe does the same
  whatever the control plane would answer to a Get, and whatever the references are resolved to; it
  returns no connection details.
\<close>

theorem Observe_deleted_ignores_references:
  assumes "wasDeleted (ko_meta obj)"
  shows "Observe L C sc (E\<lparr>ex_localClient := K\<rparr>) (obj, s) = Observe L C sc E (obj, s) \<and>
     (case fst (Observe L C sc E (obj, s)) of Ok obs \<Rightarrow> eo_connectionDetails obs = None | _ \<Rightarrow> True)"
proof
  let ?E = "E\<lparr>ex_localClient := K\<rparr>"
  have E: "observeManifest L C sc ?E m st = observeManifest L C sc E m st" for m st
    unfolding observeManifest_def localClient_unused localClient_unused_observe by simp
  with assms show "Observe L C sc ?E (obj, s) = Observe L C sc E (obj, s)" by (simp add: Observe_def)
  show "case fst (Observe L C sc E (obj, s)) of Ok obs \<Rightarrow> eo_connectionDetails obs = None | _ \<Rightarrow> True"
  proof -
    obtain r st' where Pair: "Observe L C sc E (obj, s) = (r, st')" by (metis prod.exhaust)
    have "eo_connectionDetails obs = None" if "r = Ok obs" for obs
    proof -
      from Pair that assms obtain m where m: "observeManifest L C sc E m (obj, s) = (Ok obs, st')"
        by (auto simp: Observe_def res_simps)
      then show ?thesis using observeManifest_deleted [of "(obj, s)"] assms by simp
    qed
    with Pair show ?thesis by (simp split: res.splits)
  qed
qed

definition ref_deleted :: kobject where
  "ref_deleted = (ref_dependent\<lparr>ko_meta := (ko_meta ref_dependent)\<lparr>om_deletionTimestamp := Some 1\<rparr>\<rparr>)"

definition ref_unreachable :: "refWorld kclient" where
  "ref_unreachable = ref_client\<lparr>k_get := \<lambda>a k n w. (Err (ErrNew ''connection refused''), w)\<rparr>"

lemma Observe_deleted_ignores_references_witness:
  "Observe ref_lib ref_cel Namespaced (ref_external\<lparr>ex_localClient := ref_unreachable\<rparr>) (ref_deleted, Map.empty) =
     Observe ref_lib ref_cel Namespaced ref_external (ref_deleted, Map.empty)"
  using Observe_deleted_ignores_references [of ref_deleted ref_lib ref_cel Namespaced ref_unreachable ref_external Map.empty]
  by (simp add: ref_deleted_def wasDeleted_def)

section \<open>Connection details\<close>

lemma connectionDetailsLoop_keeps:
  assumes "connectionDetailsLoop L K cds mcd s = (Ok r, t)" "k \<notin> cd_toConnectionSecretKey ` set cds"
  shows "r k = mcd k"
  using assms
proof (induction cds arbitrary: mcd s)
  case (Cons cd cds)
  from Cons.prems(1) obtain fv s1 where
    "connectionDetailsLoop L K cds (mcd(cd_toConnectionSecretKey cd \<mapsto> fv)) s1 = (Ok r, t)"
    by (auto simp: Let_def res_simps)
  from Cons.IH [OF this] Cons.prems(2) show ?case by simp
qed simp

lemma connectionDetailsLoop_value:
  assumes "connectionDetailsLoop L K cds mcd s = (Ok r, t)" "cd \<in> set cds"
    and "distinct (map cd_toConnectionSecretKey cds)"
  shows "\<exists>u v fv s1 s2. k_get K (or_apiVersion (cd_ref cd)) (or_kind (cd_ref cd))
        (or_namespace (cd_ref cd), or_name (cd_ref cd)) s1 = (Ok u, s2) \<and>
      lib_getValue L u (or_fieldPath (cd_ref cd)) = Ok v \<and>
      detailValue cd (lib_formatValue L v) = Ok fv \<and> r (cd_toConnectionSecretKey cd) = Some fv"
  using assms
proof (induction cds arbitrary: mcd s)
  case (Cons c cds)
  from Cons.prems(1) obtain u v fv s1 where
    c: "k_get K (or_apiVersion (cd_ref c)) (or_kind (cd_ref c)) (or_namespace (cd_ref c), or_name (cd_ref c)) s = (Ok u, s1)"
    "lib_getValue L u (or_fieldPath (cd_ref c)) = Ok v" "detailValue c (lib_formatValue L v) = Ok fv"
    and rest: "connectionDetailsLoop L K cds (mcd(cd_toConnectionSecretKey c \<mapsto> fv)) s1 = (Ok r, t)"
    by (auto simp: Let_def res_simps unstructuredFromObjectRef_def)
  show ?case
  proof (cases "cd = c")
    case True
    have "r (cd_toConnectionSecretKey c) = Some fv"
      using connectionDetailsLoop_keeps [OF rest, of "cd_toConnectionSecretKey c"] Cons.prems(3) by simp
    with c True show ?thesis by blast
  next
    case False
    with Cons.prems have "cd \<in> set cds" "distinct (map cd_toConnectionSecretKey cds)" by auto
    with Cons.IH [OF rest] show ?thesis .
  qed
qed simp

text \<open>
  C34. Connection details hold the referenced values, secret data decoded exactly once: when they are
  collected for distinct keys, each entry is the value that a Get of the referenced object returned at
  the field path, printed; for a data field of a v1 Secret whose printed value is the base64 of some
  bytes, the entry is those bytes.
\<close>

theorem connectionDetails_decoded_once:
  assumes "connectionDetails L K cds s = (Ok mcd, t)" "cd \<in> set cds"
    and "distinct (map cd_toConnectionSecretKey cds)"
  shows "\<exists>u v s1 s2 fv. k_get K (or_apiVersion (cd_ref cd)) (or_kind (cd_ref cd))
        (or_namespace (cd_ref cd), or_name (cd_ref cd)) s1 = (Ok u, s2) \<and>
      lib_getValue L u (or_fieldPath (cd_ref cd)) = Ok v \<and>
      mcd (cd_toConnectionSecretKey cd) = Some fv \<and>
      (if secretData cd then \<forall>bs. lib_formatValue L v = EncodeToString bs \<longrightarrow> fv = bs
       else fv = lib_formatValue L v)"
proof -
  obtain u v fv s1 s2 where get: "k_get K (or_apiVersion (cd_ref cd)) (or_kind (cd_ref cd))
        (or_namespace (cd_ref cd), or_name (cd_ref cd)) s1 = (Ok u, s2)"
    "lib_getValue L u (or_fieldPath (cd_ref cd)) = Ok v"
    and fv: "detailValue cd (lib_formatValue L v) = Ok fv" "mcd (cd_toConnectionSecretKey cd) = Some fv"
    using connectionDetailsLoop_value [OF assms(1) [unfolded connectionDetails_def] assms(2,3)] by blast
  have "if secretData cd then \<forall>bs. lib_formatValue L v = EncodeToString bs \<longrightarrow> fv = bs
       else fv = lib_formatValue L v"
    using fv(1) by (auto simp: detailValue_def Decode_Encode split: if_splits)
  with get fv(2) show ?thesis by blast
qed

definition ref_passwordDetail :: connectionDetail where
  "ref_passwordDetail =
     \<lparr>cd_ref = \<lparr>or_kind = ''Secret'', or_namespace = ''apps'', or_name = ''db'', or_uid = [], or_apiVersion = ''v1'',
        or_resourceVersion = [], or_fieldPath = ''data.password''\<rparr>,
      cd_toConnectionSecretKey = ''password''\<rparr>"

definition ref_dbSecret :: unstructured where
  "ref_dbSecret = emptyUnstructured\<lparr>u_apiVersion := ''v1'', u_kind := ''Secret'', u_namespace := ''apps'',
     u_name := ''db'', u_content := [''data.password'' \<mapsto> JString ''cGFzcw=='']\<rparr>"

lemma ref_password: "DecodeString ''cGFzcw=='' = Some ''pass''" "EncodeToString ''pass'' = ''cGFzcw==''"
  by code_simp+

lemma ref_connectionDetails:
  "connectionDetails ref_lib ref_client [ref_passwordDetail] [(''v1'', ''Secret'', (''apps'', ''db'')) \<mapsto> ref_dbSecret] =
     (Ok [''password'' \<mapsto> ''pass''], [(''v1'', ''Secret'', (''apps'', ''db'')) \<mapsto> ref_dbSecret])"
  by (simp add: connectionDetails_def unstructuredFromObjectRef_def ref_passwordDetail_def ref_dbSecret_def
      detailValue_def secretData_def hasPrefix_def ref_password)

lemma connectionDetails_decoded_once_witness:
  "\<exists>u v s1 s2 fv. k_get ref_client ''v1'' ''Secret'' (''apps'', ''db'') s1 = (Ok u, s2) \<and>
     lib_getValue ref_lib u ''data.password'' = Ok v \<and> Some ''pass'' = Some fv \<and>
     (\<forall>bs. lib_formatValue ref_lib v = EncodeToString bs \<longrightarrow> fv = bs)"
  using connectionDetails_decoded_once [OF ref_connectionDetails, of ref_passwordDetail]
  by (simp add: ref_passwordDetail_def secretData_def hasPrefix_def)

section \<open>Delete\<close>

text \<open>A server on which a resource whose deletion was accepted is gone, or can be deleted again.\<close>

definition deletesGone :: "'s kclient \<Rightarrow> bool" where
  "deletesGone K \<longleftrightarrow>
     (\<forall>policy u s t. k_delete K policy u s = (Ok (), t) \<longrightarrow>
        (case k_delete K policy u t of
           (Ok _, _) \<Rightarrow> True | (Err e, _) \<Rightarrow> isNotFound e | (Panic _, _) \<Rightarrow> False))"

lemma deletesGone_ref: "deletesGone ref_client"
  by (auto simp: deletesGone_def split: option.splits)

text \<open>
  Deletion is idempotent and tolerates a missing resource: deleting a resource that is not found
  succeeds, and after an accepted deletion another one succeeds; the request carries the propagation
  policy of the Object.
\<close>

theorem Delete_idempotent:
  assumes "deletesGone (ex_client E)" "ex_desiredStateCacheCleanupFn E = None"
    and "parseManifest L obj = Ok m"
  shows "(\<forall>e t. k_delete (ex_client E) (op_deletionPropagationPolicy (sp_forProvider (ko_spec obj))) m s = (Err e, t) \<longrightarrow>
       isNotFound e \<longrightarrow> Delete L E (obj, s) = (Ok (), (obj, t))) \<and>
     (\<forall>t. k_delete (ex_client E) (op_deletionPropagationPolicy (sp_forProvider (ko_spec obj))) m s = (Ok (), t) \<longrightarrow>
       Delete L E (obj, s) = (Ok (), (obj, t)) \<and> isOk (fst (Delete L E (obj, t))))"
proof -
  let ?del = "k_delete (ex_client E) (op_deletionPropagationPolicy (sp_forProvider (ko_spec obj))) m"
  have D: "Delete L E (obj, s) = (case ?del s of (r, t) \<Rightarrow> (mapErr (ErrWrap errDeleteObject) (ignoreNotFound r), (obj, t)))" for s
    using assms(2,3) by (simp add: Delete_def Let_def)
  have "isOk (fst (Delete L E (obj, t)))" if "?del s = (Ok (), t)" for t
    using assms(1) that D [of t]
    by (cases "?del t"; cases "fst (?del t)") (fastforce simp: deletesGone_def ignoreNotFound_def)+
  then show ?thesis using D [of s] by (auto simp: ignoreNotFound_def)
qed

lemma Delete_idempotent_witness:
  "Delete ref_lib ref_external (ref_object ''settings'' ref_manifest, [keyOf ref_configMap \<mapsto> ref_configMap]) =
     (Ok (), (ref_object ''settings'' ref_manifest, Map.empty)) \<and>
   isOk (fst (Delete ref_lib ref_external (ref_object ''settings'' ref_manifest, Map.empty)))"
  using Delete_idempotent [of ref_external ref_lib "ref_object ''settings'' ref_manifest" ref_configMap
      "[keyOf ref_configMap \<mapsto> ref_configMap]"]
  by (simp add: deletesGone_ref)

end
