(* ===== verification/Finalizer.thy ===== *)
theory Finalizer
  imports Object_Ops Ref_World
begin

text \<open>
  \<open>objFinalizer\<close> of \<open>internal/controller/*/object/object.go\<close>: the finalizer of an Object and the ones it
  puts on the resources its references name, so that they outlive it.
\<close>

section \<open>Operations\<close>

abbreviation objFinalizerName :: string where
  "objFinalizerName \<equiv> ''finalizer.managedresource.crossplane.io''"

definition refFinalizerName :: "string \<Rightarrow> string" where
  "refFinalizerName uid = refFinalizerNamePrefix @ uid"

type_synonym 's refFinalizerFn = "unstructured \<Rightarrow> string \<Rightarrow> 's \<Rightarrow> unit res \<times> 's"

text \<open>The loop over the references; a missing resource may be skipped.\<close>

fun refFinalizerLoop ::
  "'s kclient \<Rightarrow> string \<Rightarrow> 's refFinalizerFn \<Rightarrow> bool \<Rightarrow> reference list \<Rightarrow> 's \<Rightarrow> unit res \<times> 's" where
  "refFinalizerLoop K uid finalizerFn ignoreNotFound [] s = (Ok (), s)"
| "refFinalizerLoop K uid finalizerFn ignoreNotFound (ref # refs) s =
     (if emptyReference ref then refFinalizerLoop K uid finalizerFn ignoreNotFound refs s
      else
        (case getReferenceInfo ref of
           (refAPIVersion, refKind, refNamespace, refName) \<Rightarrow>
             (case k_get K refAPIVersion refKind (refNamespace, refName) s of
                (Err e, s) \<Rightarrow>
                  if ignoreNotFound \<and> isNotFound e
                  then refFinalizerLoop K uid finalizerFn ignoreNotFound refs s
                  else (Err (ErrWrap errGetReferencedResource e), s)
              | (Panic p, s) \<Rightarrow> (Panic p, s)
              | (Ok res, s) \<Rightarrow>
                  tryS (finalizerFn res (refFinalizerName uid) s) id (\<lambda>_ s.
                    refFinalizerLoop K uid finalizerFn ignoreNotFound refs s))))"

definition handleRefFinalizer ::
  "'s kclient \<Rightarrow> kobject \<Rightarrow> 's refFinalizerFn \<Rightarrow> bool \<Rightarrow> 's \<Rightarrow> unit res \<times> 's" where
  "handleRefFinalizer K obj finalizerFn ignoreNotFound s =
     refFinalizerLoop K (koUID obj) finalizerFn ignoreNotFound (sp_references (ko_spec obj)) s"

definition addRefFinalizer :: "klib \<Rightarrow> 's kclient \<Rightarrow> 's refFinalizerFn" where
  "addRefFinalizer L K res finalizer s =
     (if \<not> lib_finExists L (u_finalizers res) finalizer then
        tryS (k_update K (res\<lparr>u_finalizers := lib_finAdd L (u_finalizers res) finalizer\<rparr>) s)
          (ErrWrap errAddReferenceFinalizer) (\<lambda>_ s. (Ok (), s))
      else (Ok (), s))"

definition removeRefFinalizer :: "klib \<Rightarrow> 's kclient \<Rightarrow> 's refFinalizerFn" where
  "removeRefFinalizer L K res finalizer s =
     (if lib_finExists L (u_finalizers res) finalizer then
        tryS (k_update K (res\<lparr>u_finalizers := lib_finRemove L (u_finalizers res) finalizer\<rparr>) s)
          (ErrWrap errRemoveReferenceFinalizer) (\<lambda>_ s. (Ok (), s))
      else (Ok (), s))"

text \<open>
  \<open>AddFinalizer\<close>: the Object first, then its references. The Object is updated in place, so that it is
  what the server returned afterwards; a failing update leaves the finalizer on the copy in memory.
\<close>

definition AddFinalizer :: "klib \<Rightarrow> 's kclient \<Rightarrow> kobject \<times> 's \<Rightarrow> unit res \<times> (kobject \<times> 's)" where
  "AddFinalizer L K st =
     (let fs = om_finalizers (ko_meta (fst st)) in
      if lib_finExists L fs objFinalizerName then (Ok (), st)
      else
        (let obj = setFinalizers (lib_finAdd L fs objFinalizerName) (fst st) in
         (case k_updateObject K obj (snd st) of
            (Err e, s) \<Rightarrow> (Err (ErrWrap errAddFinalizer e), (obj, s))
          | (Panic p, s) \<Rightarrow> (Panic p, (obj, s))
          | (Ok obj, s) \<Rightarrow>
              (case handleRefFinalizer K obj (addRefFinalizer L K) False s of
                 (r, s) \<Rightarrow> (mapErr (ErrWrap errAddFinalizer) r, (obj, s))))))"

definition RemoveFinalizer :: "klib \<Rightarrow> 's kclient \<Rightarrow> kobject \<times> 's \<Rightarrow> unit res \<times> (kobject \<times> 's)" where
  "RemoveFinalizer L K st =
     (case handleRefFinalizer K (fst st) (removeRefFinalizer L K) True (snd st) of
        (Err e, s) \<Rightarrow> (Err (ErrWrap errRemoveFinalizer e), (fst st, s))
      | (Panic p, s) \<Rightarrow> (Panic p, (fst st, s))
      | (Ok _, s) \<Rightarrow>
          (let fs = om_finalizers (ko_meta (fst st)) in
           if \<not> lib_finExists L fs objFinalizerName then (Ok (), (fst st, s))
           else
             (let obj = setFinalizers (lib_finRemove L fs objFinalizerName) (fst st) in
              (case k_updateObject K obj s of
                 (Ok obj, s) \<Rightarrow> (Ok (), (obj, s))
               | (Err e, s) \<Rightarrow> (Err (ErrWrap errRemoveFinalizer e), (obj, s))
               | (Panic p, s) \<Rightarrow> (Panic p, (obj, s))))))"

section \<open>A store of finalizers\<close>

text \<open>
  What the finalizers of the referenced resources are, as a Get reads them: a client of which Get does
  not change the store, and Update changes the object it was read from and no other. The laws are those
  of an API server without other writers.
\<close>

definition getReads :: "'s kclient \<Rightarrow> ('s \<Rightarrow> refKey \<Rightarrow> string list option) \<Rightarrow> bool" where
  "getReads K fin \<longleftrightarrow>
     (\<forall>a k n s r t. k_get K a k n s = (r, t) \<longrightarrow> fin t = fin s \<and>
        (case r of
           Ok u \<Rightarrow> keyOf u = (a, k, n) \<and> fin s (a, k, n) = Some (u_finalizers u)
         | Err e \<Rightarrow> isNotFound e \<longrightarrow> fin s (a, k, n) = None
         | Panic _ \<Rightarrow> True))"

definition updateWrites :: "'s kclient \<Rightarrow> ('s \<Rightarrow> refKey \<Rightarrow> string list option) \<Rightarrow> bool" where
  "updateWrites K fin \<longleftrightarrow>
     (\<forall>u s r t. k_update K u s = (r, t) \<longrightarrow>
        fin t = (if isOk r then (fin s)(keyOf u \<mapsto> u_finalizers u) else fin s))"

definition updateObjectWrites :: "'s kclient \<Rightarrow> ('s \<Rightarrow> refKey \<Rightarrow> string list option) \<Rightarrow> bool" where
  "updateObjectWrites K fin \<longleftrightarrow>
     (\<forall>obj s r t. k_updateObject K obj s = (r, t) \<longrightarrow> fin t = fin s \<and>
        (case r of Ok obj' \<Rightarrow> ko_meta obj' = ko_meta obj \<and> ko_spec obj' = ko_spec obj | _ \<Rightarrow> True))"

definition finStore :: "'s kclient \<Rightarrow> ('s \<Rightarrow> refKey \<Rightarrow> string list option) \<Rightarrow> bool" where
  "finStore K fin \<longleftrightarrow> getReads K fin \<and> updateWrites K fin \<and> updateObjectWrites K fin"

lemma finStoreD:
  assumes "finStore K fin"
  shows "k_get K a k n s = (r, t) \<Longrightarrow> fin t = fin s"
    and "k_get K a k n s = (Ok u, t) \<Longrightarrow> keyOf u = (a, k, n) \<and> fin s (a, k, n) = Some (u_finalizers u)"
    and "k_get K a k n s = (Err e, t) \<Longrightarrow> isNotFound e \<Longrightarrow> fin s (a, k, n) = None"
    and "k_update K u s = (Ok x, t) \<Longrightarrow> fin t = (fin s)(keyOf u \<mapsto> u_finalizers u)"
    and "k_updateObject K obj s = (x', t) \<Longrightarrow> fin t = fin s"
    and "k_updateObject K obj s = (Ok obj', t) \<Longrightarrow> ko_meta obj' = ko_meta obj \<and> ko_spec obj' = ko_spec obj"
proof -
  from assms have laws: "getReads K fin" "updateWrites K fin" "updateObjectWrites K fin"
    by (simp_all add: finStore_def)
  have get: "fin t = fin s \<and>
        (case r of
           Ok u \<Rightarrow> keyOf u = (a, k, n) \<and> fin s (a, k, n) = Some (u_finalizers u)
         | Err e \<Rightarrow> isNotFound e \<longrightarrow> fin s (a, k, n) = None
         | Panic _ \<Rightarrow> True)" if "k_get K a k n s = (r, t)" for r
    using laws(1) that unfolding getReads_def by blast
  have obj: "fin t = fin s \<and> (case r of Ok obj' \<Rightarrow> ko_meta obj' = ko_meta obj \<and> ko_spec obj' = ko_spec obj | _ \<Rightarrow> True)"
    if "k_updateObject K obj s = (r, t)" for r
    using laws(3) that unfolding updateObjectWrites_def by blast
  show "k_get K a k n s = (r, t) \<Longrightarrow> fin t = fin s" by (drule get) simp
  show "k_get K a k n s = (Ok u, t) \<Longrightarrow> keyOf u = (a, k, n) \<and> fin s (a, k, n) = Some (u_finalizers u)"
    by (drule get) simp
  show "k_get K a k n s = (Err e, t) \<Longrightarrow> isNotFound e \<Longrightarrow> fin s (a, k, n) = None" by (drule get) simp
  show "k_update K u s = (Ok x, t) \<Longrightarrow> fin t = (fin s)(keyOf u \<mapsto> u_finalizers u)"
    using laws(2) unfolding updateWrites_def by (metis isOk.simps(1))
  show "k_updateObject K obj s = (x', t) \<Longrightarrow> fin t = fin s" by (drule obj) simp
  show "k_updateObject K obj s = (Ok obj', t) \<Longrightarrow> ko_meta obj' = ko_meta obj \<and> ko_spec obj' = ko_spec obj"
    by (drule obj) simp
qed

definition refKeyOf :: "reference \<Rightarrow> refKey" where
  "refKeyOf ref = (case getReferenceInfo ref of (a, k, ns, n) \<Rightarrow> (a, k, (ns, n)))"

definition marked :: "klib \<Rightarrow> string \<Rightarrow> string list option \<Rightarrow> bool" where
  "marked L f fs \<longleftrightarrow> (case fs of None \<Rightarrow> False | Some l \<Rightarrow> lib_finExists L l f)"

lemma marked_simps [simp]:
  "\<not> marked L f None" "marked L f (Some l) = lib_finExists L l f"
  by (simp_all add: marked_def)

text \<open>What the two functions do to the mark \<open>f\<close> of one resource, and to any other mark.\<close>

lemma addRefFinalizer_marks:
  assumes "finStore K fin" "finalizerLaws L" "fin s (keyOf res) = Some (u_finalizers res)"
    and "addRefFinalizer L K res f s = (Ok (), t)"
  shows "marked L f (fin t (keyOf res))" "marked L f (fin s k) \<Longrightarrow> marked L f (fin t k)"
    "g \<noteq> f \<Longrightarrow> marked L g (fin t k) = marked L g (fin s k)"
proof -
  have "(lib_finExists L (u_finalizers res) f \<and> t = s) \<or>
      fin t = (fin s)(keyOf res \<mapsto> lib_finAdd L (u_finalizers res) f)"
    using assms(4) finStoreD(4) [OF assms(1)]
    by (auto simp: addRefFinalizer_def res_simps keyOf_def split: if_splits)
  then show "marked L f (fin t (keyOf res))" "marked L f (fin s k) \<Longrightarrow> marked L f (fin t k)"
    "g \<noteq> f \<Longrightarrow> marked L g (fin t k) = marked L g (fin s k)"
    using assms(3) finalizerLawsD [OF assms(2)] by (auto split: if_splits)
qed

lemma removeRefFinalizer_marks:
  assumes "finStore K fin" "finalizerLaws L" "fin s (keyOf res) = Some (u_finalizers res)"
    and "removeRefFinalizer L K res f s = (Ok (), t)"
  shows "\<not> marked L f (fin t (keyOf res))" "\<not> marked L f (fin s k) \<Longrightarrow> \<not> marked L f (fin t k)"
    "g \<noteq> f \<Longrightarrow> marked L g (fin t k) = marked L g (fin s k)"
proof -
  have "(\<not> lib_finExists L (u_finalizers res) f \<and> t = s) \<or>
      fin t = (fin s)(keyOf res \<mapsto> lib_finRemove L (u_finalizers res) f)"
    using assms(4) finStoreD(4) [OF assms(1)]
    by (auto simp: removeRefFinalizer_def res_simps keyOf_def split: if_splits)
  then show "\<not> marked L f (fin t (keyOf res))" "\<not> marked L f (fin s k) \<Longrightarrow> \<not> marked L f (fin t k)"
    "g \<noteq> f \<Longrightarrow> marked L g (fin t k) = marked L g (fin s k)"
    using assms(3) finalizerLawsD [OF assms(2)] by (auto split: if_splits)
qed

text \<open>
  The loop: a property \<open>Q\<close> of a resource that the function establishes for the resource it is given,
  and keeps for all, holds of every reference afterwards.
\<close>

lemma refFinalizerLoop_Ok:
  assumes "finStore K fin"
    and each: "\<And>res s t. fin s (keyOf res) = Some (u_finalizers res) \<Longrightarrow> fn res (refFinalizerName uid) s = (Ok (), t) \<Longrightarrow>
      Q (fin t (keyOf res)) \<and> (\<forall>k. Q (fin s k) \<longrightarrow> Q (fin t k)) \<and> (\<forall>k. P (fin t k) = P (fin s k))"
    and missing: "ignoreNF \<Longrightarrow> Q None"
    and "refFinalizerLoop K uid fn ignoreNF refs s = (Ok (), t)"
  shows "(\<forall>ref \<in> set refs. emptyReference ref \<or> Q (fin t (refKeyOf ref))) \<and>
    (\<forall>k. Q (fin s k) \<longrightarrow> Q (fin t k)) \<and> (\<forall>k. P (fin t k) = P (fin s k))"
  using assms(4)
proof (induction refs arbitrary: s)
  case Nil
  then show ?case by simp
next
  case (Cons ref refs)
  show ?case
  proof (cases "emptyReference ref")
    case True
    with Cons show ?thesis by simp
  next
    case False
    obtain a k ns n where i: "getReferenceInfo ref = (a, k, ns, n)" by (cases "getReferenceInfo ref")
    then have key: "refKeyOf ref = (a, k, (ns, n))" by (simp add: refKeyOf_def)
    obtain r s1 where g: "k_get K a k (ns, n) s = (r, s1)" by (cases "k_get K a k (ns, n) s")
    have s1: "fin s1 = fin s" using finStoreD(1) [OF assms(1) g] .
    show ?thesis
    proof (cases r)
      case (Ok res)
      with Cons.prems False i g obtain s2 where f: "fn res (refFinalizerName uid) s1 = (Ok (), s2)"
        and rest: "refFinalizerLoop K uid fn ignoreNF refs s2 = (Ok (), t)"
        by (auto simp: res_simps)
      have res: "keyOf res = refKeyOf ref" "fin s1 (keyOf res) = Some (u_finalizers res)"
        using finStoreD(2) [OF assms(1) g [unfolded Ok]] key s1 by auto
      have e: "Q (fin s2 (refKeyOf ref))" "\<And>k. Q (fin s k) \<Longrightarrow> Q (fin s2 k)" "\<And>k. P (fin s2 k) = P (fin s k)"
        using each [OF res(2) f] res(1) s1 by auto
      have ih: "\<forall>ref \<in> set refs. emptyReference ref \<or> Q (fin t (refKeyOf ref))"
        "\<And>k. Q (fin s2 k) \<Longrightarrow> Q (fin t k)" "\<And>k. P (fin t k) = P (fin s2 k)"
        using Cons.IH [OF rest] by auto
      show ?thesis using e ih by simp
    next
      case (Err er)
      with Cons.prems False i g have nf: "ignoreNF" "isNotFound er"
        and rest: "refFinalizerLoop K uid fn ignoreNF refs s1 = (Ok (), t)"
        by (auto split: if_splits)
      have "fin s (refKeyOf ref) = None" using finStoreD(3) [OF assms(1) g [unfolded Err] nf(2)] key by simp
      then have q: "Q (fin s1 (refKeyOf ref))" using missing nf(1) s1 by simp
      have ih: "\<forall>ref \<in> set refs. emptyReference ref \<or> Q (fin t (refKeyOf ref))"
        "\<And>k. Q (fin s1 k) \<Longrightarrow> Q (fin t k)" "\<And>k. P (fin t k) = P (fin s1 k)"
        using Cons.IH [OF rest] by auto
      show ?thesis using q ih s1 by simp
    qed (use Cons.prems False i g in simp)
  qed
qed

section \<open>Properties\<close>


text \<open>A cluster in memory whose Get fills in the key it was asked for.\<close>

definition withKey :: "string \<Rightarrow> string \<Rightarrow> nsname \<Rightarrow> unstructured \<Rightarrow> unstructured" where
  "withKey a k n u = u\<lparr>u_apiVersion := a, u_kind := k, u_namespace := fst n, u_name := snd n\<rparr>"

definition ref_finClient :: "refWorld kclient" where
  "ref_finClient = ref_client\<lparr>k_get := \<lambda>a k n w.
     (case w (a, k, n) of Some u \<Rightarrow> (Ok (withKey a k n u), w) | None \<Rightarrow> (Err notFoundError, w))\<rparr>"

definition ref_fin :: "refWorld \<Rightarrow> refKey \<Rightarrow> string list option" where
  "ref_fin w k = map_option u_finalizers (w k)"

lemma ref_finClient_simps [simp]:
  "k_get ref_finClient a k n w =
     (case w (a, k, n) of Some u \<Rightarrow> (Ok (withKey a k n u), w) | None \<Rightarrow> (Err notFoundError, w))"
  "k_update ref_finClient = k_update ref_client" "k_updateObject ref_finClient = k_updateObject ref_client"
  by (simp_all add: ref_finClient_def)

lemma finStore_ref: "finStore ref_finClient ref_fin"
proof -
  have "getReads ref_finClient ref_fin"
    by (auto simp: getReads_def ref_fin_def keyOf_def withKey_def split: option.splits)
  moreover have "updateWrites ref_finClient ref_fin"
    unfolding updateWrites_def ref_fin_def by (auto split: option.splits)
  moreover have "updateObjectWrites ref_finClient ref_fin"
    by (auto simp: updateObjectWrites_def)
  ultimately show ?thesis by (simp add: finStore_def)
qed

lemma ref_dependent_simps [simp]:
  "koUID ref_dependent = ''uid-settings''" "om_finalizers (ko_meta ref_dependent) = []"
  "sp_references (ko_spec ref_dependent) = [ref_namespaceRef]"
  by (simp_all add: ref_dependent_def ref_object_def)

definition ref_finalized :: kobject where
  "ref_finalized = setFinalizers [objFinalizerName] ref_dependent"

definition ref_refFinalizer :: string where
  "ref_refFinalizer = refFinalizerName ''uid-settings''"

abbreviation ref_namespaceKey :: refKey where
  "ref_namespaceKey \<equiv> (''v1'', ''Namespace'', ([], ''apps''))"

definition ref_markedNamespace :: unstructured where
  "ref_markedNamespace = ref_namespace\<lparr>u_finalizers := [''kubernetes'', ref_refFinalizer]\<rparr>"

lemma ref_namespace_simps [simp]:
  "withKey ''v1'' ''Namespace'' ([], ''apps'') ref_namespace = ref_namespace"
  "withKey ''v1'' ''Namespace'' ([], ''apps'') ref_markedNamespace = ref_markedNamespace"
  "keyOf ref_namespace = ref_namespaceKey" "keyOf ref_markedNamespace = ref_namespaceKey"
  "u_finalizers ref_namespace = [''kubernetes'']"
  "u_finalizers ref_markedNamespace = [''kubernetes'', ref_refFinalizer]"
  "ref_namespace\<lparr>u_finalizers := [''kubernetes'', ref_refFinalizer]\<rparr> = ref_markedNamespace"
  "ref_markedNamespace\<lparr>u_finalizers := [''kubernetes'']\<rparr> = ref_namespace"
  "ref_refFinalizer \<noteq> ''kubernetes''" "''kubernetes'' \<noteq> ref_refFinalizer"
  by (simp_all add: withKey_def keyOf_def ref_namespace_def ref_markedNamespace_def emptyUnstructured_def
      ref_refFinalizer_def refFinalizerName_def)

lemma ref_addRefFinalizer:
  "addRefFinalizer ref_lib ref_finClient ref_namespace ref_refFinalizer [ref_namespaceKey \<mapsto> ref_namespace] =
     (Ok (), [ref_namespaceKey \<mapsto> ref_markedNamespace])"
  by (simp add: addRefFinalizer_def keyOf_def)
    (simp add: ref_markedNamespace_def ref_namespace_def emptyUnstructured_def)

lemma ref_removeRefFinalizer:
  "removeRefFinalizer ref_lib ref_finClient ref_markedNamespace ref_refFinalizer [ref_namespaceKey \<mapsto> ref_markedNamespace] =
     (Ok (), [ref_namespaceKey \<mapsto> ref_namespace])"
  by (simp add: removeRefFinalizer_def)

lemma ref_AddFinalizer:
  "AddFinalizer ref_lib ref_finClient (ref_dependent, [ref_namespaceKey \<mapsto> ref_namespace]) =
     (Ok (), (ref_finalized, [ref_namespaceKey \<mapsto> ref_markedNamespace]))"
  by (simp add: AddFinalizer_def handleRefFinalizer_def ref_addRefFinalizer ref_finalized_def flip: ref_refFinalizer_def)


text \<open>
  C12. A successful \<open>RemoveFinalizer\<close> leaves no finalizer of this Object on any resource that a reference
  names, missing resources included, and none on the Object; the finalizers of other Objects are as
  before on every resource.
\<close>

theorem RemoveFinalizer_unmarks_references:
  assumes "finStore K fin" "finalizerLaws L"
    and run: "RemoveFinalizer L K (obj, s) = (Ok (), (obj', t))"
  shows "\<not> lib_finExists L (om_finalizers (ko_meta obj')) objFinalizerName \<and>
    (\<forall>ref \<in> set (sp_references (ko_spec obj)).
       emptyReference ref \<or> \<not> marked L (refFinalizerName (koUID obj)) (fin t (refKeyOf ref))) \<and>
    (\<forall>k g. g \<noteq> refFinalizerName (koUID obj) \<longrightarrow> marked L g (fin t k) = marked L g (fin s k))"
proof -
  let ?f = "refFinalizerName (koUID obj)"
  let ?o = "setFinalizers (lib_finRemove L (om_finalizers (ko_meta obj)) objFinalizerName) obj"
  obtain r s1 where loop: "handleRefFinalizer K obj (removeRefFinalizer L K) True s = (r, s1)"
    by (cases "handleRefFinalizer K obj (removeRefFinalizer L K) True s")
  with run have r: "r = Ok ()" by (cases r) (auto simp: RemoveFinalizer_def)
  have obj: "fin t = fin s1 \<and> \<not> lib_finExists L (om_finalizers (ko_meta obj')) objFinalizerName"
  proof (cases "lib_finExists L (om_finalizers (ko_meta obj)) objFinalizerName")
    case True
    obtain x s2 where u: "k_updateObject K ?o s1 = (x, s2)" by (cases "k_updateObject K ?o s1")
    with run loop r True obtain o1 where x: "x = Ok o1" "obj' = o1" "s2 = t"
      by (cases x) (auto simp: RemoveFinalizer_def Let_def)
    then show ?thesis
      using finStoreD(5,6) [OF assms(1)] u finalizerLawsD(2) [OF assms(2)] by (metis setFinalizers_simps(1))
  next
    case False
    with run loop r show ?thesis by (auto simp: RemoveFinalizer_def)
  qed
  have all: "(\<forall>ref \<in> set (sp_references (ko_spec obj)). emptyReference ref \<or> \<not> marked L ?f (fin s1 (refKeyOf ref))) \<and>
      (\<forall>k. \<not> marked L ?f (fin s k) \<longrightarrow> \<not> marked L ?f (fin s1 k)) \<and>
      (\<forall>k. (if g \<noteq> ?f then marked L g (fin s1 k) else True) = (if g \<noteq> ?f then marked L g (fin s k) else True))" for g
  proof (rule refFinalizerLoop_Ok [OF assms(1), where Q = "\<lambda>x. \<not> marked L ?f x" and P = "\<lambda>x. if g \<noteq> ?f then marked L g x else True"])
    show "refFinalizerLoop K (koUID obj) (removeRefFinalizer L K) True (sp_references (ko_spec obj)) s = (Ok (), s1)"
      using loop r by (simp add: handleRefFinalizer_def)
  qed (use removeRefFinalizer_marks [OF assms(1,2)] in auto)
  have other: "marked L g (fin s1 k) = marked L g (fin s k)" if "g \<noteq> ?f" for k g
    using spec [OF conjunct2 [OF conjunct2 [OF all [of g]]], of k] that by simp
  from obj have t: "fin t = fin s1" ..
  show ?thesis unfolding t using conjunct1 [OF all] obj other by blast
qed

lemma ref_RemoveFinalizer:
  "RemoveFinalizer ref_lib ref_finClient (ref_finalized, [ref_namespaceKey \<mapsto> ref_markedNamespace]) =
     (Ok (), (setFinalizers [] ref_dependent, [ref_namespaceKey \<mapsto> ref_namespace]))"
  by (simp add: RemoveFinalizer_def handleRefFinalizer_def ref_removeRefFinalizer ref_finalized_def flip: ref_refFinalizer_def)
    (simp add: setFinalizers_def)

lemma RemoveFinalizer_unmarks_references_witness:
  "\<not> marked ref_lib ref_refFinalizer (ref_fin [ref_namespaceKey \<mapsto> ref_namespace] (refKeyOf ref_namespaceRef))"
  using RemoveFinalizer_unmarks_references [OF finStore_ref ref_lib_laws(1) ref_RemoveFinalizer]
  by (simp add: ref_finalized_def flip: ref_refFinalizer_def)

text \<open>
  C38. A failure on a reference is not repaired by a retry: when the Object was updated but a referenced
  resource could not be read or updated, \<open>AddFinalizer\<close> fails and leaves the finalizer on the Object,
  so that the next call returns at once, without a request and with the references unmarked.
\<close>

theorem AddFinalizer_failure_not_retried:
  assumes "finStore K fin" "finalizerLaws L"
    and run: "AddFinalizer L K (obj, s) = (Err e, (obj', t))"
  shows "AddFinalizer L K (obj', u) = (Ok (), (obj', u))"
proof -
  let ?o = "setFinalizers (lib_finAdd L (om_finalizers (ko_meta obj)) objFinalizerName) obj"
  have n: "\<not> lib_finExists L (om_finalizers (ko_meta obj)) objFinalizerName"
    using run by (auto simp: AddFinalizer_def split: if_splits)
  obtain r s1 where u: "k_updateObject K ?o s = (r, s1)" by (cases "k_updateObject K ?o s")
  have "ko_meta obj' = ko_meta ?o"
  proof (cases r)
    case (Ok o1)
    then have "ko_meta o1 = ko_meta ?o" using finStoreD(6) [OF assms(1)] u by blast
    moreover have "obj' = o1" using run n u Ok by (auto simp: AddFinalizer_def Let_def split: prod.splits)
    ultimately show ?thesis by simp
  qed (use run n u in \<open>auto simp: AddFinalizer_def Let_def\<close>)
  then show ?thesis
    using finalizerLawsD(1) [OF assms(2)] by (simp add: AddFinalizer_def)
qed

lemma ref_AddFinalizer_fails:
  "AddFinalizer ref_lib ref_finClient (ref_dependent, Map.empty) =
     (Err (ErrWrap errAddFinalizer (ErrWrap errGetReferencedResource notFoundError)), (ref_finalized, Map.empty))"
  by (simp add: AddFinalizer_def handleRefFinalizer_def ref_finalized_def)

lemma AddFinalizer_failure_not_retried_witness:
  "AddFinalizer ref_lib ref_finClient (ref_finalized, [ref_namespaceKey \<mapsto> ref_namespace]) =
     (Ok (), (ref_finalized, [ref_namespaceKey \<mapsto> ref_namespace]))
   \<and> \<not> marked ref_lib ref_refFinalizer (ref_fin [ref_namespaceKey \<mapsto> ref_namespace] (refKeyOf ref_namespaceRef))"
  using AddFinalizer_failure_not_retried [OF finStore_ref ref_lib_laws(1) ref_AddFinalizer_fails]
  by (simp add: ref_fin_def refKeyOf_def)

end
