(* ===== verification/Conversion.thy ===== *)
theory Conversion
  imports External Ref_World
begin

text \<open>
  The deprecated version \<open>v1alpha1\<close> of the cluster-scoped Object
  (\<open>apis/cluster/object/v1alpha1/types.go\<close>), its conversion to and from the hub version
  \<open>v1alpha2\<close> (\<open>conversion.go\<close>) and its management policies (\<open>management_policy_hack.go\<close>).
\<close>

section \<open>The v1alpha1 types\<close>

record dependsOn1 =
  dep1_apiVersion :: string
  dep1_kind :: string
  dep1_name :: string
  dep1_namespace :: string

record patchesFrom1 =
  pf1_dependsOn :: dependsOn1
  pf1_fieldPath :: "string option"

record reference1 =
  ref1_dependsOn :: "dependsOn1 option"
  ref1_patchesFrom :: "patchesFrom1 option"
  ref1_toFieldPath :: "string option"

record connectionDetail1 =
  cd1_ref :: objectReference
  cd1_toConnectionSecretKey :: string

record resourceSpec1 =
  rs1_writeConnectionSecretToReference :: "secretReference option"
  rs1_providerConfigReference :: "pcReference option"
  rs1_providerReference :: "pcReference option"
  rs1_deletionPolicy :: string

record objectSpec1 =
  sp1_resourceSpec :: resourceSpec1
  sp1_connectionDetails :: "connectionDetail1 list"
  sp1_manifest :: rawExtension
  sp1_managementPolicy :: string
  sp1_references :: "reference1 list"
  sp1_readinessPolicy :: string
  sp1_watch :: bool

text \<open>The observation and the status have the fields of the hub version.\<close>

type_synonym objectObservation1 = rawExtension
type_synonym objectStatus1 = objectStatus

record object1 =
  o1_meta :: objectMeta
  o1_spec :: objectSpec1
  o1_status :: objectStatus1

text \<open>The values of \<open>ReadinessPolicy\<close> of the two versions.\<close>

definition readinessPolicies1 :: "string list" where
  "readinessPolicies1 =
     [ReadinessPolicySuccessfulCreate, ReadinessPolicyDeriveFromObject, ReadinessPolicyAllTrue]"

definition readinessPolicies_cluster :: "string list" where
  "readinessPolicies_cluster =
     [ReadinessPolicySuccessfulCreate, ReadinessPolicyDeriveFromObject, ReadinessPolicyAllTrue,
      ReadinessPolicyDeriveFromCelQuery]"

abbreviation Default :: string where "Default \<equiv> ''Default''"
abbreviation ObserveCreateUpdate :: string where "ObserveCreateUpdate \<equiv> ''ObserveCreateUpdate''"
abbreviation ObserveDelete :: string where "ObserveDelete \<equiv> ''ObserveDelete''"
abbreviation ObserveOnly :: string where "ObserveOnly \<equiv> ''Observe''"

datatype objectAction = ObjectActionCreate | ObjectActionUpdate | ObjectActionDelete

definition IsActionAllowed :: "string \<Rightarrow> objectAction \<Rightarrow> bool" where
  "IsActionAllowed p action =
     (if action = ObjectActionCreate \<or> action = ObjectActionUpdate then p = Default \<or> p = ObserveCreateUpdate
      else p = Default \<or> p = ObserveDelete)"

definition GetManagementPolicies1 :: "object1 \<Rightarrow> string list" where
  "GetManagementPolicies1 mg = [ManagementActionAll]"

definition SetManagementPolicies1 :: "string list \<Rightarrow> object1 \<Rightarrow> object1" where
  "SetManagementPolicies1 r mg = mg"

section \<open>Patches\<close>

text \<open>
  \<open>Reference.ApplyFromFieldPathPatch\<close> of v1alpha1 on a target of any type \<open>'o\<close>: \<open>pave\<close> is \<open>PaveObject\<close> and
  \<open>fromU\<close> is \<open>FromUnstructured\<close> for that type. The receiver is a pointer, so that the default of
  \<open>ToFieldPath\<close> stays in the reference, the second component.
\<close>

definition patchFieldValueToObject1 ::
  "klib \<Rightarrow> ('o \<Rightarrow> unstructured res) \<Rightarrow> (unstructured \<Rightarrow> 'o res) \<Rightarrow> string \<Rightarrow> json \<Rightarrow> 'o \<Rightarrow> 'o res" where
  "patchFieldValueToObject1 L pave fromU path v to =
     tryR (pave to) id (\<lambda>paved.
     tryR (lib_setValue L paved (''spec.forProvider.manifest.'' @ path) v) id fromU)"

definition defaultToFieldPath1 :: "reference1 \<Rightarrow> reference1 res" where
  "defaultToFieldPath1 r =
     (case ref1_toFieldPath r of
        Some _ \<Rightarrow> Ok r
      | None \<Rightarrow>
          (case ref1_patchesFrom r of
             None \<Rightarrow> Panic nilDereference
           | Some p \<Rightarrow> Ok (r\<lparr>ref1_toFieldPath := pf1_fieldPath p\<rparr>)))"

definition ApplyFromFieldPathPatch1 ::
  "klib \<Rightarrow> ('o \<Rightarrow> unstructured res) \<Rightarrow> (unstructured \<Rightarrow> 'o res) \<Rightarrow> unstructured \<Rightarrow> 'o \<Rightarrow> reference1
     \<Rightarrow> 'o res \<times> reference1" where
  "ApplyFromFieldPathPatch1 L pave fromU from to r0 =
     (case defaultToFieldPath1 r0 of
        Panic p \<Rightarrow> (Panic p, r0)
      | Err e \<Rightarrow> (Err e, r0)
      | Ok r \<Rightarrow>
          (tryR (lib_paveUnstructured L from) id (\<lambda>paved.
           (case ref1_patchesFrom r of
              None \<Rightarrow> Panic nilDereference
            | Some p \<Rightarrow>
                (case pf1_fieldPath p of
                   None \<Rightarrow> Panic nilDereference
                 | Some fp \<Rightarrow>
                     tryR (lib_getValue L paved fp) id (\<lambda>out.
                       (case ref1_toFieldPath r of
                          None \<Rightarrow> Panic nilDereference
                        | Some t \<Rightarrow> patchFieldValueToObject1 L pave fromU t out to))))), r))"

section \<open>Conversion to the hub\<close>

definition convertDependsOn :: "dependsOn1 \<Rightarrow> dependsOn" where
  "convertDependsOn d =
     \<lparr>dep_apiVersion = dep1_apiVersion d, dep_kind = dep1_kind d, dep_name = dep1_name d,
      dep_namespace = dep1_namespace d\<rparr>"

definition convertReference :: "reference1 \<Rightarrow> reference" where
  "convertReference r =
     \<lparr>ref_dependsOn = map_option convertDependsOn (ref1_dependsOn r),
      ref_patchesFrom = map_option (\<lambda>p.
        \<lparr>pf_dependsOn = convertDependsOn (pf1_dependsOn p), pf_fieldPath = pf1_fieldPath p\<rparr>) (ref1_patchesFrom r),
      ref_toFieldPath = ref1_toFieldPath r\<rparr>"

definition convertConnectionDetail :: "connectionDetail1 \<Rightarrow> connectionDetail" where
  "convertConnectionDetail cd =
     \<lparr>cd_ref = cd1_ref cd, cd_toConnectionSecretKey = cd1_toConnectionSecretKey cd\<rparr>"

definition convertPolicy :: "string \<Rightarrow> string list res" where
  "convertPolicy p =
     (if p = Default \<or> p = [] then Ok [ManagementActionAll]
      else if p = ObserveCreateUpdate then Ok [ManagementActionObserve, ManagementActionCreate, ManagementActionUpdate]
      else if p = ObserveDelete then Ok [ManagementActionObserve, ManagementActionDelete]
      else if p = ObserveOnly then Ok [ManagementActionObserve]
      else Err (ErrNew (''unknown management policy: '' @ p)))"

definition convertedSpec :: "objectSpec1 \<Rightarrow> objectSpec" where
  "convertedSpec sp =
     \<lparr>sp_writeConnectionSecretToReference = rs1_writeConnectionSecretToReference (sp1_resourceSpec sp),
      sp_providerConfigReference = rs1_providerConfigReference (sp1_resourceSpec sp),
      sp_managementPolicies = None,
      sp_deletionPolicy = rs1_deletionPolicy (sp1_resourceSpec sp),
      sp_connectionDetails = map convertConnectionDetail (sp1_connectionDetails sp),
      sp_forProvider = \<lparr>op_manifest = sp1_manifest sp, op_deletionPropagationPolicy = []\<rparr>,
      sp_references = map convertReference (sp1_references sp),
      sp_readiness = \<lparr>rd_policy = sp1_readinessPolicy sp, rd_celQuery = []\<rparr>,
      sp_watch = False\<rparr>"

definition ConvertTo :: "object1 \<Rightarrow> kobject res" where
  "ConvertTo src =
     tryR (convertPolicy (sp1_managementPolicy (o1_spec src))) id (\<lambda>policies.
       Ok \<lparr>ko_meta = o1_meta src,
           ko_spec = (convertedSpec (o1_spec src))\<lparr>sp_managementPolicies := Some policies\<rparr>,
           ko_status = o1_status src\<rparr>)"

section \<open>Conversion from the hub\<close>

definition convertDependsOn1 :: "dependsOn \<Rightarrow> dependsOn1" where
  "convertDependsOn1 d =
     \<lparr>dep1_apiVersion = dep_apiVersion d, dep1_kind = dep_kind d, dep1_name = dep_name d,
      dep1_namespace = dep_namespace d\<rparr>"

definition convertReference1 :: "reference \<Rightarrow> reference1" where
  "convertReference1 r =
     \<lparr>ref1_dependsOn = map_option convertDependsOn1 (ref_dependsOn r),
      ref1_patchesFrom = map_option (\<lambda>p.
        \<lparr>pf1_dependsOn = convertDependsOn1 (pf_dependsOn p), pf1_fieldPath = pf_fieldPath p\<rparr>) (ref_patchesFrom r),
      ref1_toFieldPath = ref_toFieldPath r\<rparr>"

definition convertConnectionDetail1 :: "connectionDetail \<Rightarrow> connectionDetail1" where
  "convertConnectionDetail1 cd =
     \<lparr>cd1_ref = cd_ref cd, cd1_toConnectionSecretKey = cd_toConnectionSecretKey cd\<rparr>"

text \<open>The switch over the set of actions; an unsupported combination leaves the policy empty.\<close>

definition hasAll :: "string list \<Rightarrow> string list \<Rightarrow> bool" where
  "hasAll ps qs \<longleftrightarrow> list_all (\<lambda>q. q \<in> set ps) qs"

definition hasAny :: "string list \<Rightarrow> string list \<Rightarrow> bool" where
  "hasAny ps qs \<longleftrightarrow> list_ex (\<lambda>q. q \<in> set ps) qs"

definition policyFromSet :: "string list \<Rightarrow> string" where
  "policyFromSet ps =
     (if ManagementActionAll \<in> set ps then Default
      else if hasAll ps [ManagementActionObserve, ManagementActionCreate, ManagementActionUpdate, ManagementActionDelete]
      then Default
      else if hasAll ps [ManagementActionObserve, ManagementActionCreate, ManagementActionUpdate] \<and>
              ManagementActionDelete \<notin> set ps
      then ObserveCreateUpdate
      else if hasAll ps [ManagementActionObserve, ManagementActionDelete] \<and>
              \<not> hasAny ps [ManagementActionCreate, ManagementActionUpdate]
      then ObserveDelete
      else if ManagementActionObserve \<in> set ps \<and>
              \<not> hasAny ps [ManagementActionCreate, ManagementActionUpdate, ManagementActionDelete]
      then ObserveOnly
      else [])"

definition policyFromHub :: "kobject \<Rightarrow> string" where
  "policyFromHub src =
     (if sp_managementPolicies (ko_spec src) = None \<and> om_creationTimestamp (ko_meta src) = None then Default
      else policyFromSet (managementPolicies src))"

definition ConvertFrom :: "kobject \<Rightarrow> object1" where
  "ConvertFrom src =
     \<lparr>o1_meta = ko_meta src,
      o1_spec =
        \<lparr>sp1_resourceSpec =
           \<lparr>rs1_writeConnectionSecretToReference = sp_writeConnectionSecretToReference (ko_spec src),
            rs1_providerConfigReference = sp_providerConfigReference (ko_spec src),
            rs1_providerReference = None,
            rs1_deletionPolicy = sp_deletionPolicy (ko_spec src)\<rparr>,
         sp1_connectionDetails = map convertConnectionDetail1 (sp_connectionDetails (ko_spec src)),
         sp1_manifest = op_manifest (sp_forProvider (ko_spec src)),
         sp1_managementPolicy = policyFromHub src,
         sp1_references = map convertReference1 (sp_references (ko_spec src)),
         sp1_readinessPolicy = rd_policy (sp_readiness (ko_spec src)),
         sp1_watch = False\<rparr>,
      o1_status = ko_status src\<rparr>"

section \<open>Facts\<close>

lemma convertDependsOn_inverse [simp]:
  "convertDependsOn1 (convertDependsOn d1) = d1" "convertDependsOn (convertDependsOn1 d) = d"
  by (simp_all add: convertDependsOn_def convertDependsOn1_def)

lemma convertDependsOn_comp [simp]:
  "convertDependsOn1 \<circ> convertDependsOn = id" "convertDependsOn \<circ> convertDependsOn1 = id"
  by (simp_all add: fun_eq_iff)

lemma map_option_record [simp]:
  "map_option (\<lambda>x. \<lparr>pf1_dependsOn = pf1_dependsOn x, pf1_fieldPath = pf1_fieldPath x\<rparr>) y1 = y1"
  "map_option (\<lambda>x. \<lparr>pf_dependsOn = pf_dependsOn x, pf_fieldPath = pf_fieldPath x\<rparr>) y = y"
  by (cases y1; simp) (cases y; simp)

lemma convertReference_inverse [simp]:
  "convertReference1 (convertReference r1) = r1" "convertReference (convertReference1 r) = r"
  by (simp_all add: convertReference_def convertReference1_def option.map_comp o_def option.map_ident)

lemma convertConnectionDetail_inverse [simp]:
  "convertConnectionDetail1 (convertConnectionDetail c1) = c1"
  "convertConnectionDetail (convertConnectionDetail1 c) = c"
  by (simp_all add: convertConnectionDetail_def convertConnectionDetail1_def)

lemma convertPolicy_cases:
  "isOk (convertPolicy p) \<longleftrightarrow> p \<in> {[], Default, ObserveCreateUpdate, ObserveDelete, ObserveOnly}"
  by (auto simp: convertPolicy_def)

lemma policyFromSet_convertPolicy:
  "convertPolicy p = Ok ps \<Longrightarrow> policyFromSet ps = (if p = [] then Default else p)"
  by (auto simp: convertPolicy_def policyFromSet_def hasAll_def hasAny_def split: if_splits)

section \<open>Properties\<close>

text \<open>
  The conversion to the hub fails exactly for a management policy outside the enumeration (the
  empty one counts as \<open>Default\<close>), and the error names it.
\<close>

theorem ConvertTo_fails_iff:
  "(\<forall>e. ConvertTo src = Err e \<longleftrightarrow>
      sp1_managementPolicy (o1_spec src) \<notin> {[], Default, ObserveCreateUpdate, ObserveDelete, ObserveOnly} \<and>
      e = ErrNew (''unknown management policy: '' @ sp1_managementPolicy (o1_spec src))) \<and>
   (\<forall>p. ConvertTo src \<noteq> Panic p)"
  by (auto simp: ConvertTo_def convertPolicy_def)

text \<open>
  C19. A v1alpha1 Object survives the round trip through the hub but for three fields: \<open>watch\<close> is reset,
  the deprecated provider reference is dropped, and an empty management policy becomes \<open>Default\<close>.
\<close>

theorem v1alpha1_roundtrip:
  assumes "ConvertTo src = Ok hub"
  shows "ConvertFrom hub =
    src\<lparr>o1_spec := (o1_spec src)\<lparr>
      sp1_resourceSpec := (sp1_resourceSpec (o1_spec src))\<lparr>rs1_providerReference := None\<rparr>,
      sp1_managementPolicy := (if sp1_managementPolicy (o1_spec src) = [] then Default
                               else sp1_managementPolicy (o1_spec src)),
      sp1_watch := False\<rparr>\<rparr>"
proof -
  from assms obtain ps where p: "convertPolicy (sp1_managementPolicy (o1_spec src)) = Ok ps"
    and hub: "hub = \<lparr>ko_meta = o1_meta src,
           ko_spec = (convertedSpec (o1_spec src))\<lparr>sp_managementPolicies := Some ps\<rparr>,
           ko_status = o1_status src\<rparr>"
    by (auto simp: ConvertTo_def res_simps)
  show ?thesis
    using policyFromSet_convertPolicy [OF p]
    by (simp add: hub ConvertFrom_def convertedSpec_def policyFromHub_def managementPolicies_def o_def)
qed

definition ref_object1 :: "string \<Rightarrow> object1" where
  "ref_object1 policy =
     \<lparr>o1_meta = ko_meta (ref_object ''settings'' ref_manifest),
      o1_spec =
        \<lparr>sp1_resourceSpec = \<lparr>rs1_writeConnectionSecretToReference = None, rs1_providerConfigReference = None,
            rs1_providerReference = None, rs1_deletionPolicy = ''Delete''\<rparr>,
         sp1_connectionDetails = [], sp1_manifest = Some ref_manifest, sp1_managementPolicy = policy,
         sp1_references = [], sp1_readinessPolicy = ReadinessPolicyAllTrue, sp1_watch = True\<rparr>,
      o1_status = ko_status (ref_object ''settings'' ref_manifest)\<rparr>"

lemma v1alpha1_roundtrip_witness:
  "\<exists>hub. ConvertTo (ref_object1 []) = Ok hub \<and>
     sp1_managementPolicy (o1_spec (ConvertFrom hub)) = Default \<and> \<not> sp1_watch (o1_spec (ConvertFrom hub))"
proof -
  obtain hub where hub: "ConvertTo (ref_object1 []) = Ok hub"
    by (simp add: ConvertTo_def ref_object1_def convertPolicy_def)
  from v1alpha1_roundtrip [OF hub] hub show ?thesis by (simp add: ref_object1_def)
qed

text \<open>What a list of policies allows: to observe, create, update and delete.\<close>

definition allows :: "string \<Rightarrow> string list \<Rightarrow> bool" where
  "allows a ps \<longleftrightarrow> a \<in> set ps \<or> ManagementActionAll \<in> set ps"

definition allowedActions :: "string list \<Rightarrow> bool \<times> bool \<times> bool \<times> bool" where
  "allowedActions ps =
     (allows ManagementActionObserve ps, allows ManagementActionCreate ps, allows ManagementActionUpdate ps,
      allows ManagementActionDelete ps)"

text \<open>v1alpha1 has a policy for those sets that observe, and create exactly if they update.\<close>

definition supportedActions :: "bool \<times> bool \<times> bool \<times> bool \<Rightarrow> bool" where
  "supportedActions as \<longleftrightarrow> (case as of (obs, create, update, delete) \<Rightarrow> obs \<and> (create \<longleftrightarrow> update))"

lemma policy_roundtrip:
  "\<exists>qs. convertPolicy (policyFromSet ps) = Ok qs \<and> allowedActions qs =
      (if supportedActions (allowedActions ps) then allowedActions ps else (True, True, True, True))"
  by (cases "ManagementActionAll \<in> set ps"; cases "ManagementActionObserve \<in> set ps";
      cases "ManagementActionCreate \<in> set ps"; cases "ManagementActionUpdate \<in> set ps";
      cases "ManagementActionDelete \<in> set ps")
    (simp_all add: policyFromSet_def hasAll_def hasAny_def convertPolicy_def allowedActions_def allows_def
      supportedActions_def)

text \<open>
  A hub Object read through v1alpha1 keeps what its management policies allow when they include
  Observe and allow to create exactly if they allow to update; any other combination comes back allowed
  to do everything, deletion included. The conversion back never fails.
\<close>

theorem hub_roundtrip_policies:
  assumes "sp_managementPolicies (ko_spec hub) = Some ps"
  shows "\<exists>hub' qs. ConvertTo (ConvertFrom hub) = Ok hub' \<and> sp_managementPolicies (ko_spec hub') = Some qs \<and>
    allowedActions qs =
      (if supportedActions (allowedActions ps) then allowedActions ps else (True, True, True, True))"
proof -
  let ?p = "policyFromSet ps"
  have p: "sp1_managementPolicy (o1_spec (ConvertFrom hub)) = ?p"
    using assms by (simp add: ConvertFrom_def policyFromHub_def managementPolicies_def)
  obtain qs where qs: "convertPolicy ?p = Ok qs" and eq: "allowedActions qs =
      (if supportedActions (allowedActions ps) then allowedActions ps else (True, True, True, True))"
    using policy_roundtrip [of ps] by blast
  show ?thesis using qs p eq by (simp add: ConvertTo_def)
qed

definition ref_createOnly :: kobject where
  "ref_createOnly = (ref_object ''settings'' ref_manifest)
     \<lparr>ko_spec := (ref_spec ref_manifest)\<lparr>sp_managementPolicies := Some [''Observe'', ''Create'']\<rparr>\<rparr>"

lemma hub_roundtrip_policies_witness:
  "\<exists>hub' qs. ConvertTo (ConvertFrom ref_createOnly) = Ok hub' \<and> sp_managementPolicies (ko_spec hub') = Some qs \<and>
     allows ManagementActionDelete qs \<and> \<not> allows ManagementActionDelete [''Observe'', ''Create'']"
proof -
  have "sp_managementPolicies (ko_spec ref_createOnly) = Some [''Observe'', ''Create'']"
    by (simp add: ref_createOnly_def)
  from hub_roundtrip_policies [OF this] show ?thesis
    by (auto simp: allowedActions_def supportedActions_def allows_def)
qed

text \<open>
  C20. The conversion preserves the meaning of the management policy: the hub policies of a converted
  Object allow to create, update or delete exactly if \<open>IsActionAllowed\<close> says so of the v1alpha1 policy;
  for the empty policy \<open>IsActionAllowed\<close> refuses everything where the hub allows everything.
\<close>

theorem ConvertTo_preserves_policy:
  assumes "ConvertTo src = Ok hub"
  shows "(IsActionAllowed (sp1_managementPolicy (o1_spec src)) ObjectActionCreate,
     IsActionAllowed (sp1_managementPolicy (o1_spec src)) ObjectActionUpdate,
     IsActionAllowed (sp1_managementPolicy (o1_spec src)) ObjectActionDelete) =
    (if sp1_managementPolicy (o1_spec src) = [] then (False, False, False)
     else (allows ManagementActionCreate (managementPolicies hub), allows ManagementActionUpdate (managementPolicies hub),
       allows ManagementActionDelete (managementPolicies hub))) \<and>
    (sp1_managementPolicy (o1_spec src) = [] \<longrightarrow> allowedActions (managementPolicies hub) = (True, True, True, True))"
  using assms
  by (auto simp: ConvertTo_def convertPolicy_def res_simps managementPolicies_def allowedActions_def
      allows_def IsActionAllowed_def split: if_splits)

lemma ConvertTo_preserves_policy_witness:
  "\<exists>hub. ConvertTo (ref_object1 ObserveDelete) = Ok hub \<and> allows ManagementActionDelete (managementPolicies hub) \<and>
     \<not> allows ManagementActionUpdate (managementPolicies hub)"
proof -
  obtain hub where hub: "ConvertTo (ref_object1 ObserveDelete) = Ok hub"
    by (simp add: ConvertTo_def ref_object1_def convertPolicy_def)
  from ConvertTo_preserves_policy [OF hub] hub show ?thesis by (simp add: ref_object1_def IsActionAllowed_def)
qed

section \<open>What an Object of v1alpha1 asks for is what its hub version does\<close>

text \<open>
  A reference patches the hub Object as it would have patched the Object of v1alpha1: the conversion of a
  reference, and the default that the patch stores in it, change neither the result nor the failure.
\<close>

theorem ApplyFromFieldPathPatch_converted:
  "fst (ApplyFromFieldPathPatch1 L (lib_paveObject L) (lib_fromUnstructured L) from to r) =
     ApplyFromFieldPathPatch L (convertReference r) from to \<and>
   ApplyFromFieldPathPatch L (convertReference (snd (ApplyFromFieldPathPatch1 L pave fromU from' to' r))) from to =
     ApplyFromFieldPathPatch L (convertReference r) from to"
  by (cases "ref1_toFieldPath r"; cases "ref1_patchesFrom r"; cases "lib_paveUnstructured L from")
    (auto simp: ApplyFromFieldPathPatch1_def ApplyFromFieldPathPatch_def convertReference_def defaultToFieldPath1_def
      patchFieldValueToObject1_def patchFieldValueToObject_def [abs_def] split: option.splits)

text \<open>
  Every readiness policy that v1alpha1 admits is one the controller knows after the conversion, so that
  the readiness of the Object is computed without an error.
\<close>

lemma known_readiness_policy:
  assumes "rd_policy (sp_readiness (ko_spec obj)) \<in> set readinessPolicies_cluster"
  shows "updateConditionFromObserved L C obj observed \<noteq> Err e"
  using assms checkDeriveFromCelQuery_no_Err [of L C obj observed]
  by (auto simp: readinessPolicies_cluster_def updateConditionFromObserved_def readyResult_def noError_def
      checkDeriveFromObject_def checkAllConditions_def split: res.splits)

theorem ConvertTo_readiness:
  assumes "ConvertTo src = Ok hub" "sp1_readinessPolicy (o1_spec src) \<in> set readinessPolicies1"
  shows "updateConditionFromObserved L C hub observed \<noteq> Err e"
proof (rule known_readiness_policy)
  show "rd_policy (sp_readiness (ko_spec hub)) \<in> set readinessPolicies_cluster"
    using assms by (auto simp: ConvertTo_def res_simps convertedSpec_def readinessPolicies1_def readinessPolicies_cluster_def)
qed

end
