(* ===== verification/Keyed_Store.thy ===== *)
theory Keyed_Store
  imports Prelude
begin

text \<open>
  The interface of the provider's stores that create an entry on first use and return it from then
  on: the desired-state caches per managed resource, the parser caches per provider config, the
  Nebius token sources per credentials and the reused token sources per refresh token. A client
  relies on the laws below and not on the store behind them.
\<close>

section \<open>Load or create\<close>

locale keyed_store =
  fixes find :: "'s \<Rightarrow> 'k \<Rightarrow> 'v option"
    and load :: "'k \<Rightarrow> 's \<Rightarrow> 'v res \<times> 's"
  assumes load_hit: "find s k = Some v \<Longrightarrow> load k s = (Ok v, s)"
    and load_miss: "find s k = None \<Longrightarrow> load k s = (Ok v, t) \<Longrightarrow> find t k = Some v"
    and load_fail: "load k s = (r, t) \<Longrightarrow> \<not> isOk r \<Longrightarrow> find t k = find s k"
    and load_frame: "load k s = (r, t) \<Longrightarrow> k' \<noteq> k \<Longrightarrow> find t k' = find s k'"
begin

text \<open>What a load returns is in the store afterwards.\<close>

lemma load_found: "load k s = (Ok v, t) \<Longrightarrow> find t k = Some v"
  by (cases "find s k") (auto simp: load_hit intro: load_miss)

lemma load_twice: "load k s = (Ok v, t) \<Longrightarrow> load k t = (Ok v, t)"
  by (rule load_hit) (rule load_found)

text \<open>No load, of any key and with any outcome, drops or replaces an entry.\<close>

lemma load_keeps:
  assumes "load k' s = (r, t)" "find s k = Some v"
  shows "find t k = Some v"
proof (cases "k' = k")
  case True
  with assms load_hit [of s k v] show ?thesis by simp
next
  case False
  with assms load_frame show ?thesis by metis
qed

primrec run_loads :: "'k list \<Rightarrow> 's \<Rightarrow> 's" where
  "run_loads [] s = s"
| "run_loads (k # ks) s = run_loads ks (snd (load k s))"

lemma run_loads_keeps: "find s k = Some v \<Longrightarrow> find (run_loads ks s) k = Some v"
  by (induction ks arbitrary: s) (auto intro: load_keeps [OF prod.collapse [symmetric]])

text \<open>Once loaded, a key gives the same value whatever was loaded in between.\<close>

lemma load_stable:
  assumes "load k s = (Ok v, t)"
  shows "load k (run_loads ks t) = (Ok v, run_loads ks t)"
  using assms by (intro load_hit run_loads_keeps load_found)

end

text \<open>A store whose entries can be removed.\<close>

locale removable_store = keyed_store find load
  for find :: "'s \<Rightarrow> 'k \<Rightarrow> 'v option" and load :: "'k \<Rightarrow> 's \<Rightarrow> 'v res \<times> 's" +
  fixes remove :: "'k \<Rightarrow> 's \<Rightarrow> 's"
  assumes find_remove: "find (remove k s) k' = (if k' = k then None else find s k')"
begin

lemma load_after_remove_other:
  assumes "load k s = (Ok v, t)" "k' \<noteq> k"
  shows "load k (remove k' t) = (Ok v, remove k' t)"
  using assms by (intro load_hit) (auto simp: find_remove dest: load_found)

lemma remove_idem: "find (remove k (remove k s)) k' = find (remove k s) k'"
  by (simp add: find_remove)

end

end
