(* ===== verification/State_Cache.thy ===== *)
theory State_Cache
  imports Kube_Types Keyed_Store Step_System
begin

text \<open>
  \<open>pkg/kube/client/ssa/cache/state/state_cache.go\<close>: the desired-state cache of a managed resource,
  keyed by the hash of the manifest, and the manager that holds one cache per resource UID. The
  manager hands out pointers, so the caches live in a heap; the double-checked locking of
  \<open>LoadOrNewForManaged\<close> is also modelled as a step relation of concurrent calls.
\<close>

section \<open>One cache\<close>

text \<open>A managed resource is an Object of either API group, or something else.\<close>

datatype managed = ClusterObject kobject | NamespacedObject kobject | OtherManaged string

record desiredStateCache =
  dc_extracted :: "unstructured option"
  dc_hash :: string

definition emptyCache :: desiredStateCache where
  "emptyCache = \<lparr>dc_extracted = None, dc_hash = []\<rparr>"

definition manifestHash :: "klib \<Rightarrow> kobject \<Rightarrow> string" where
  "manifestHash L obj = lib_sha256Hex L (rawBytes (koManifest obj))"

fun managedHash :: "klib \<Rightarrow> managed \<Rightarrow> string option" where
  "managedHash L (ClusterObject obj) = Some (manifestHash L obj)"
| "managedHash L (NamespacedObject obj) = Some (manifestHash L obj)"
| "managedHash L (OtherManaged _) = None"

definition GetStateFor :: "klib \<Rightarrow> managed \<Rightarrow> desiredStateCache \<Rightarrow> unstructured option \<times> bool" where
  "GetStateFor L mg dc =
     (case managedHash L mg of
        None \<Rightarrow> (None, False)
      | Some h \<Rightarrow>
          (if dc_extracted dc \<noteq> None \<and> dc_hash dc = h then (dc_extracted dc, True) else (None, False)))"

definition SetStateFor ::
  "klib \<Rightarrow> managed \<Rightarrow> unstructured option \<Rightarrow> desiredStateCache \<Rightarrow> desiredStateCache" where
  "SetStateFor L mg state dc =
     (case managedHash L mg of
        None \<Rightarrow> dc
      | Some h \<Rightarrow> dc\<lparr>dc_extracted := state, dc_hash := h\<rparr>)"

text \<open>The interface \<open>Cache\<close>: what a client may rely on, whatever the cache holds.\<close>

locale state_cache =
  fixes getState :: "'m \<Rightarrow> 'c \<Rightarrow> 'v option \<times> bool"
    and setState :: "'m \<Rightarrow> 'v option \<Rightarrow> 'c \<Rightarrow> 'c"
    and key :: "'m \<Rightarrow> 'h option"
  assumes get_ok: "getState m c = (v, b) \<Longrightarrow> b \<longleftrightarrow> v \<noteq> None"
    and get_keyed: "key m = key m' \<Longrightarrow> getState m c = getState m' c"
    and get_set: "key m = Some h \<Longrightarrow> key m' = Some h' \<Longrightarrow>
      getState m' (setState m v c) = (if h' = h then (v, v \<noteq> None) else (None, False))"
    and set_unkeyed: "key m = None \<Longrightarrow> setState m v c = c"
begin

text \<open>A hit after a store is a hit on the value stored, for the key it was stored under.\<close>

lemma hit_is_last_stored:
  assumes "key m = Some h" "key m' \<noteq> None" "getState m' (setState m v c) = (w, True)"
  shows "key m' = Some h \<and> w = v \<and> v \<noteq> None"
  using assms get_set [of m h m' _ v c] by (auto split: if_splits)

text \<open>Storing nil invalidates the entry.\<close>

lemma set_None_misses:
  "key m = Some h \<Longrightarrow> key m' \<noteq> None \<Longrightarrow> getState m' (setState m None c) = (None, False)"
  using get_set [of m h m' _ None c] by auto

end

interpretation dsc: state_cache "GetStateFor L" "SetStateFor L" "managedHash L" for L
proof unfold_locales
  fix m c v b
  assume "GetStateFor L m c = (v, b)"
  then show "b = (v \<noteq> None)"
    unfolding GetStateFor_def by (cases "managedHash L m") (simp_all split: if_splits, metis)
qed (auto simp: GetStateFor_def SetStateFor_def split: option.splits)

section \<open>The manager\<close>

record cacheManager =
  cm_store :: "string \<rightharpoonup> nat"
  cm_heap :: "nat \<rightharpoonup> desiredStateCache"
  cm_next :: nat

definition NewDesiredStateCacheManager :: cacheManager where
  "NewDesiredStateCacheManager = \<lparr>cm_store = Map.empty, cm_heap = Map.empty, cm_next = 0\<rparr>"

text \<open>Addresses below \<open>cm_next\<close> are allocated, and the store points to allocated caches.\<close>

definition wfManager :: "cacheManager \<Rightarrow> bool" where
  "wfManager m \<longleftrightarrow>
     (\<forall>a. cm_heap m a \<noteq> None \<longleftrightarrow> a < cm_next m) \<and>
     (\<forall>u a. cm_store m u = Some a \<longrightarrow> a < cm_next m) \<and>
     (\<forall>u v a. cm_store m u = Some a \<longrightarrow> cm_store m v = Some a \<longrightarrow> u = v)"

text \<open>The part of \<open>LoadOrNewForManaged\<close> under the write lock: recheck, then create.\<close>

definition loadLocked :: "string \<Rightarrow> cacheManager \<Rightarrow> nat \<times> cacheManager" where
  "loadLocked uid m =
     (case cm_store m uid of
        Some a \<Rightarrow> (a, m)
      | None \<Rightarrow>
          (cm_next m,
           m\<lparr>cm_store := (cm_store m)(uid \<mapsto> cm_next m),
             cm_heap := (cm_heap m)(cm_next m \<mapsto> emptyCache),
             cm_next := Suc (cm_next m)\<rparr>))"

definition LoadOrNewForManaged :: "string \<Rightarrow> cacheManager \<Rightarrow> nat \<times> cacheManager" where
  "LoadOrNewForManaged uid m =
     (case cm_store m uid of
        Some a \<Rightarrow> (a, m)
      | None \<Rightarrow> loadLocked uid m)"

definition RemoveManaged :: "string \<Rightarrow> cacheManager \<Rightarrow> cacheManager" where
  "RemoveManaged uid m = m\<lparr>cm_store := (cm_store m)(uid := None)\<rparr>"

definition loadCache :: "string \<Rightarrow> cacheManager \<Rightarrow> nat res \<times> cacheManager" where
  "loadCache uid m = (case LoadOrNewForManaged uid m of (a, m') \<Rightarrow> (Ok a, m'))"

interpretation dscm: removable_store cm_store loadCache RemoveManaged
  by unfold_locales
    (auto simp: loadCache_def LoadOrNewForManaged_def loadLocked_def RemoveManaged_def
      split: option.splits)

lemma wfManager_New: "wfManager NewDesiredStateCacheManager"
  by (simp add: wfManager_def NewDesiredStateCacheManager_def)

lemma wfManager_loadLocked: "wfManager m \<Longrightarrow> wfManager (snd (loadLocked uid m))"
  by (auto simp: wfManager_def loadLocked_def less_Suc_eq split: option.splits)

lemma wfManager_LoadOrNew: "wfManager m \<Longrightarrow> wfManager (snd (LoadOrNewForManaged uid m))"
  by (simp add: LoadOrNewForManaged_def wfManager_loadLocked split: option.splits)

lemma wfManager_Remove: "wfManager m \<Longrightarrow> wfManager (RemoveManaged uid m)"
  by (auto simp: wfManager_def RemoveManaged_def)

lemma LoadOrNew_allocated:
  assumes "wfManager m" "LoadOrNewForManaged uid m = (a, m')"
  shows "a \<in> dom (cm_heap m')" "cm_store m' uid = Some a"
proof -
  show st: "cm_store m' uid = Some a"
    using dscm.load_found [of uid m a m'] assms(2) by (simp add: loadCache_def)
  from wfManager_LoadOrNew [OF assms(1), of uid] assms(2) have "wfManager m'" by simp
  then show "a \<in> dom (cm_heap m')" using st by (auto simp: wfManager_def)
qed

text \<open>Reading and writing through a pointer the manager returned.\<close>

definition readCache :: "nat \<Rightarrow> cacheManager \<Rightarrow> desiredStateCache" where
  "readCache a m = (case cm_heap m a of Some dc \<Rightarrow> dc | None \<Rightarrow> emptyCache)"

definition writeCache :: "nat \<Rightarrow> desiredStateCache \<Rightarrow> cacheManager \<Rightarrow> cacheManager" where
  "writeCache a dc m =
     (case cm_heap m a of Some _ \<Rightarrow> m\<lparr>cm_heap := (cm_heap m)(a \<mapsto> dc)\<rparr> | None \<Rightarrow> m)"

lemma wfManager_writeCache: "wfManager m \<Longrightarrow> wfManager (writeCache a dc m)"
  by (auto simp: wfManager_def writeCache_def split: option.splits)

lemma readCache_writeCache:
  "a \<in> dom (cm_heap m) \<Longrightarrow> readCache b (writeCache a dc m) = (if b = a then dc else readCache b m)"
  by (auto simp: readCache_def writeCache_def)

lemma cm_store_writeCache [simp]: "cm_store (writeCache a dc m) = cm_store m"
  by (simp add: writeCache_def split: option.splits)

section \<open>Concurrent calls\<close>

text \<open>
  A call of \<open>LoadOrNewForManaged\<close> reads the store under the read lock; if it misses, it later takes
  the write lock, in which it rechecks and creates. Calls interleave in any order, also with
  \<open>Remove\<close> of other resources.
\<close>

datatype loadCall =
    Calling string
  | Missed string
  | Returned string nat

type_synonym loadSystem = "cacheManager \<times> (nat \<Rightarrow> loadCall)"

inductive loadStep :: "string set \<Rightarrow> loadSystem \<Rightarrow> loadSystem \<Rightarrow> bool" for removed :: "string set" where
  read_hit: "calls i = Calling u \<Longrightarrow> cm_store m u = Some a \<Longrightarrow>
     loadStep removed (m, calls) (m, calls(i := Returned u a))"
| read_miss: "calls i = Calling u \<Longrightarrow> cm_store m u = None \<Longrightarrow>
     loadStep removed (m, calls) (m, calls(i := Missed u))"
| write_locked: "calls i = Missed u \<Longrightarrow> loadLocked u m = (a, m') \<Longrightarrow>
     loadStep removed (m, calls) (m', calls(i := Returned u a))"
| remove: "u \<in> removed \<Longrightarrow> loadStep removed (m, calls) (RemoveManaged u m, calls)"

definition loadStart :: "loadSystem \<Rightarrow> bool" where
  "loadStart s \<longleftrightarrow> wfManager (fst s) \<and> (\<forall>i. \<exists>u. snd s i = Calling u)"

abbreviation loadReachable :: "string set \<Rightarrow> loadSystem \<Rightarrow> bool" where
  "loadReachable removed \<equiv> reachable loadStart (loadStep removed)"

text \<open>A returned pointer is the one stored, for every resource that is not being removed.\<close>

definition loadInv :: "string set \<Rightarrow> loadSystem \<Rightarrow> bool" where
  "loadInv removed s \<longleftrightarrow> wfManager (fst s) \<and>
     (\<forall>i u a. snd s i = Returned u a \<longrightarrow> u \<notin> removed \<longrightarrow> cm_store (fst s) u = Some a)"

lemma loadLocked_store:
  assumes "loadLocked u m = (a, m')"
  shows "cm_store m' u = Some a" "cm_store m v = Some b \<Longrightarrow> cm_store m' v = Some b"
  using assms by (auto simp: loadLocked_def split: option.splits if_splits)

lemma loadStep_inv: "loadStep removed s t \<Longrightarrow> loadInv removed s \<Longrightarrow> loadInv removed t"
proof (induction rule: loadStep.induct)
  case (write_locked calls i u m a m')
  then have "wfManager m'"
    using wfManager_loadLocked [of m u] by (simp add: loadInv_def)
  with write_locked show ?case
    by (auto simp: loadInv_def dest: loadLocked_store)
next
  case (remove u m calls)
  then show ?case
    by (auto simp: loadInv_def wfManager_Remove) (auto simp: RemoveManaged_def)
qed (auto simp: loadInv_def)

lemma loadStart_inv: "loadStart s \<Longrightarrow> loadInv removed s"
  unfolding loadStart_def loadInv_def by (metis loadCall.distinct(3))

interpretation load_system: step_invariant loadStart "loadStep removed" "loadInv removed" for removed
  by unfold_locales (auto intro: loadStart_inv loadStep_inv)

text \<open>
  C27. Two reconciles of the same managed resource work on the same cache, however their calls of
  \<open>LoadOrNewForManaged\<close> and those for other resources interleave with each other and with removals of
  other resources: the pointers returned are equal, and equal to the one stored.
\<close>

theorem LoadOrNew_concurrent_agree:
  assumes "loadReachable removed (m, calls)" "u \<notin> removed"
    and "calls i = Returned u a" "calls j = Returned u b"
  shows "a = b \<and> cm_store m u = Some a"
proof -
  have st: "cm_store m u = Some c" if "calls k = Returned u c" for k c
    using load_system.reachable_inv [OF assms(1)] assms(2) that by (auto simp: loadInv_def)
  from st [OF assms(3)] st [OF assms(4)] show ?thesis by simp
qed

lemma LoadOrNew_concurrent_agree_witness:
  "\<exists>m calls. loadReachable {''other''} (m, calls) \<and> calls 0 = Returned ''uid'' 0 \<and> calls 1 = Returned ''uid'' 0"
proof -
  let ?R = "loadReachable {''other''}"
  let ?N = NewDesiredStateCacheManager
  let ?m = "snd (loadLocked ''uid'' ?N)"
  let ?f = "\<lambda>i :: nat. Calling ''uid''"
  have 0: "?R (?N, ?f)" by (rule reachable.init) (simp add: loadStart_def wfManager_New)
  have 1: "?R (?N, ?f(0 := Missed ''uid''))"
    by (rule reachable.step [OF 0], rule loadStep.read_miss) (simp_all add: NewDesiredStateCacheManager_def)
  have 2: "?R (?N, ?f(0 := Missed ''uid'', 1 := Missed ''uid''))"
    by (rule reachable.step [OF 1], rule loadStep.read_miss) (simp_all add: NewDesiredStateCacheManager_def)
  have 3: "?R (?m, ?f(0 := Missed ''uid'', 1 := Missed ''uid'', 0 := Returned ''uid'' 0))"
    by (rule reachable.step [OF 2], rule loadStep.write_locked)
      (simp_all add: loadLocked_def NewDesiredStateCacheManager_def)
  have 4: "?R (?m, ?f(0 := Missed ''uid'', 1 := Missed ''uid'', 0 := Returned ''uid'' 0, 1 := Returned ''uid'' 0))"
    by (rule reachable.step [OF 3], rule loadStep.write_locked)
      (simp_all add: loadLocked_def NewDesiredStateCacheManager_def)
  let ?g = "?f(0 := Missed ''uid'', 1 := Missed ''uid'', 0 := Returned ''uid'' 0, 1 := Returned ''uid'' 0)"
  from LoadOrNew_concurrent_agree [OF 4, of "''uid''" 0 0 1 0] have "cm_store ?m ''uid'' = Some 0" by simp
  with 4 show ?thesis by (intro exI [of _ ?m] exI [of _ ?g]) simp
qed

end
