(* ===== verification/Extractor.thy ===== *)
theory Extractor
  imports Kube_Types Keyed_Store Clean_Error
begin

text \<open>
  \<open>pkg/kube/client/ssa/cache/extractor\<close>: the parser of a group-version's OpenAPI schema, its cache
  per provider config with the ETags of the discovery document, and the extraction of the fields a
  field manager owns. The HTTP client, the JSON decoder, the schema conversion and
  \<open>managedfields.ExtractInto\<close> are parameters; \<open>'p\<close> is the type of \<open>typed.Parser\<close>.
\<close>

section \<open>The GVK parser (gvk_parser.go)\<close>

type_synonym groupVersion = "string \<times> string"

record 'p gvkParser =
  gp_gvks :: "gvk \<rightharpoonup> string"
  gp_parser :: 'p

text \<open>A type is the parser with the name of the schema; a missing one is a nil pointer.\<close>

definition parserType :: "'p gvkParser \<Rightarrow> gvk \<Rightarrow> ('p \<times> string) option" where
  "parserType p g =
     (case gp_gvks p g of None \<Rightarrow> None | Some typeName \<Rightarrow> Some (gp_parser p, typeName))"

text \<open>A type assertion to \<open>string\<close> of a map entry; a missing entry is the nil interface.\<close>

fun stringAt :: "string \<Rightarrow> (string \<times> json) list \<Rightarrow> string option" where
  "stringAt k kvs = (case map_of kvs k of Some (JString s) \<Rightarrow> Some s | _ \<Rightarrow> None)"

fun parseGVKEntries :: "json list \<Rightarrow> gvk list" where
  "parseGVKEntries [] = []"
| "parseGVKEntries (JObject kvs # js) =
     (case stringAt ''group'' kvs of
        None \<Rightarrow> parseGVKEntries js
      | Some g \<Rightarrow>
          (case stringAt ''version'' kvs of
             None \<Rightarrow> parseGVKEntries js
           | Some v \<Rightarrow>
               (case stringAt ''kind'' kvs of
                  None \<Rightarrow> parseGVKEntries js
                | Some k \<Rightarrow>
                    \<lparr>gvk_group = g, gvk_version = v, gvk_kind = k\<rparr> # parseGVKEntries js)))"
| "parseGVKEntries (_ # js) = parseGVKEntries js"

abbreviation groupVersionKindExtensionKey :: string where
  "groupVersionKindExtensionKey \<equiv> ''x-kubernetes-group-version-kind''"

definition parseGroupVersionKind :: "(string \<times> json) list \<Rightarrow> gvk list" where
  "parseGroupVersionKind extensions =
     (case map_of extensions groupVersionKindExtensionKey of
        Some (JArray js) \<Rightarrow> parseGVKEntries js
      | _ \<Rightarrow> [])"

text \<open>
  A reference of a schema, by what the accessors of \<open>spec.Ref\<close> return (\<open>rf_pointer\<close> holds the decoded
  tokens of the pointer), and a schema: its extensions and the references the walker visits.
\<close>

record sref =
  rf_string :: string
  rf_remoteURI :: string
  rf_canonical :: bool
  rf_pointer :: "string list option"
  rf_hasURL :: bool
  rf_fragmentOnly :: bool

record schema =
  sch_extensions :: "(string \<times> json) list"
  sch_refs :: "sref option list"

type_synonym components = "(string \<times> schema) list"

text \<open>The inner loop of \<open>NewGVKParser\<close>: a kind seen before is an error.\<close>

fun addGVKs :: "(gvk \<Rightarrow> string) \<Rightarrow> string \<Rightarrow> gvk list \<Rightarrow> (gvk \<rightharpoonup> string) \<Rightarrow> (gvk \<rightharpoonup> string) res" where
  "addGVKs str modelName [] m = Ok m"
| "addGVKs str modelName (g # gs) m =
     (if gvk_kind g \<noteq> [] then
        (if m g \<noteq> None then Err (ErrNew (''duplicate entry for '' @ str g))
         else addGVKs str modelName gs (m(g \<mapsto> modelName)))
      else addGVKs str modelName gs m)"

fun addComponents :: "(gvk \<Rightarrow> string) \<Rightarrow> components \<Rightarrow> (gvk \<rightharpoonup> string) \<Rightarrow> (gvk \<rightharpoonup> string) res" where
  "addComponents str [] m = Ok m"
| "addComponents str ((modelName, ss) # cs) m =
     tryR (addGVKs str modelName (parseGroupVersionKind (sch_extensions ss)) m) id (addComponents str cs)"

section \<open>Library functions\<close>

datatype schemaRequest =
    RequestURI string string
  | AbsPath string string "(string \<times> string) list"

text \<open>
  \<open>x_discoveryRaw\<close> is the GET of \<open>/openapi/v3\<close> and \<open>x_discoveryPaths\<close> the decoded document (path and
  server-relative URL); \<open>x_urlParse\<close> is \<open>url.Parse\<close> (path and query); \<open>x_fetch\<close> sends a schema
  request; \<open>x_openapi\<close> decodes an OpenAPI document into the schemas of its components (the components
  are a pointer); \<open>x_gvkString\<close> prints a group-version-kind; \<open>x_aggregate\<close> is \<open>kerrors.NewAggregate\<close>; \<open>x_toSchema\<close> is
  \<open>schemaconv.ToSchemaFromOpenAPI\<close>; \<open>x_extractInto\<close> is \<open>managedfields.ExtractInto\<close>.
\<close>

record ('w, 'p) xlib =
  x_rootPath :: string
  x_discoveryRaw :: "'w \<Rightarrow> string res \<times> 'w"
  x_discoveryPaths :: "string \<Rightarrow> (string \<times> string) list res"
  x_urlParse :: "string \<Rightarrow> (string \<times> (string \<times> string) list) res"
  x_fetch :: "schemaRequest \<Rightarrow> 'w \<Rightarrow> string res \<times> 'w"
  x_openapi :: "string \<Rightarrow> components option res"
  x_aggregate :: "goerr list \<Rightarrow> goerr option"
  x_gvkString :: "gvk \<Rightarrow> string"
  x_toSchema :: "components \<Rightarrow> bool \<Rightarrow> 'p res"
  x_extractInto :: "unstructured \<Rightarrow> 'p \<times> string \<Rightarrow> string \<Rightarrow> string \<Rightarrow> unstructured res"

definition NewGVKParser :: "('w, 'p) xlib \<Rightarrow> components \<Rightarrow> bool \<Rightarrow> 'p gvkParser res" where
  "NewGVKParser X comps preserveUnknownFields =
     tryR (x_toSchema X comps preserveUnknownFields) (ErrWrap ''failed to convert models to schema'') (\<lambda>p.
     tryR (addComponents (x_gvkString X) comps Map.empty) id (\<lambda>m.
       Ok \<lparr>gp_gvks = m, gp_parser = p\<rparr>))"

section \<open>Requests (openapi_groupversion.go)\<close>

record oapiGroupVersion =
  og_serverRelativeURL :: string
  og_useClientPrefix :: bool

definition newCustomOAPIGroupVersion :: "string \<Rightarrow> bool \<Rightarrow> oapiGroupVersion" where
  "newCustomOAPIGroupVersion url useClientPrefix =
     \<lparr>og_serverRelativeURL = url, og_useClientPrefix = useClientPrefix\<rparr>"

definition schemaOf ::
  "('w, 'p) xlib \<Rightarrow> oapiGroupVersion \<Rightarrow> string \<Rightarrow> 'w \<Rightarrow> string res \<times> 'w" where
  "schemaOf X g contentType w =
     (if \<not> og_useClientPrefix g then x_fetch X (RequestURI (og_serverRelativeURL g) contentType) w
      else
        tryS (liftR (x_urlParse X (og_serverRelativeURL g)) w) id (\<lambda>(path, query) w.
          x_fetch X (AbsPath path contentType query) w))"

section \<open>Discovery and references (caching_unstructured_extractor.go)\<close>

text \<open>\<open>Query().Get("hash")\<close>: the first value, empty if there is none.\<close>

definition hashParam :: "(string \<times> string) list \<Rightarrow> string" where
  "hashParam query = (case map_of query ''hash'' of Some v \<Rightarrow> v | None \<Rightarrow> [])"

definition trimSlash :: "string \<Rightarrow> string" where
  "trimSlash s = (if s \<noteq> [] \<and> last s = CHR ''/'' then butlast s else s)"

fun discoveryLoop ::
  "('w, 'p) xlib \<Rightarrow> (string \<times> string) list \<Rightarrow> (string \<rightharpoonup> oapiGroupVersion) \<Rightarrow> (string \<rightharpoonup> string)
     \<Rightarrow> ((string \<rightharpoonup> oapiGroupVersion) \<times> (string \<rightharpoonup> string)) res" where
  "discoveryLoop X [] gvs etags = Ok (gvs, etags)"
| "discoveryLoop X ((path, url) # ps) gvs etags =
     tryR (x_urlParse X url) id (\<lambda>parsed.
       let rel = trimPrefix url (trimSlash (x_rootPath X));
           useClientPrefix = hasPrefix rel ''/openapi/v3'' in
       discoveryLoop X ps (gvs(path \<mapsto> newCustomOAPIGroupVersion rel useClientPrefix))
         (etags(path \<mapsto> hashParam (snd parsed))))"

definition discoveryPaths ::
  "('w, 'p) xlib \<Rightarrow> 'w \<Rightarrow> ((string \<rightharpoonup> oapiGroupVersion) \<times> (string \<rightharpoonup> string)) res \<times> 'w" where
  "discoveryPaths X w =
     tryS (x_discoveryRaw X w) id (\<lambda>data w.
     tryS (liftR (x_discoveryPaths X data) w) id (\<lambda>paths w.
       (discoveryLoop X paths Map.empty Map.empty, w)))"

definition gvRelativeAPIPath :: "klib \<Rightarrow> groupVersion \<Rightarrow> string" where
  "gvRelativeAPIPath L gv =
     (if fst gv = [] then ''api/'' @ snd gv else ''apis/'' @ lib_gvString L (fst gv) (snd gv))"

text \<open>\<open>validateRefSelfContainedFn\<close>: the error a reference contributes, if any.\<close>

definition validateRef :: "components \<Rightarrow> sref option \<Rightarrow> goerr option" where
  "validateRef schemas ref =
     (case ref of
        None \<Rightarrow> None
      | Some r \<Rightarrow>
          if rf_string r = [] then None
          else if rf_remoteURI r \<noteq> [] then
            Some (ErrNew (''only local references are supported, got remote URI: '' @ rf_string r))
          else if rf_canonical r then
            Some (ErrNew (''only local references are supported, got canonical path: '' @ rf_string r))
          else if rf_pointer r \<noteq> None \<and> rf_hasURL r \<and> rf_fragmentOnly r then
            (case rf_pointer r of
               Some [t0, t1, t2] \<Rightarrow>
                 if t0 \<noteq> ''components'' \<or> t1 \<noteq> ''schemas'' then
                   Some (ErrNew (''expected local ref with #/components/schemas/{componentName}, got: '' @ rf_string r))
                 else if map_of schemas t2 = None then
                   Some (ErrNew (''local reference '' @ rf_string r @ '' cannot be found in OpenAPI schemas''))
                 else None
             | _ \<Rightarrow>
                 Some (ErrNew (''expected local ref with #/components/schemas/{componentName}, got: '' @ rf_string r)))
          else Some (ErrNew (''only local references are supported, got: '' @ rf_string r)))"

definition refErrors :: "components \<Rightarrow> goerr list" where
  "refErrors schemas =
     concat (map (\<lambda>(name, ss). List.map_filter (validateRef schemas) (sch_refs ss)) schemas)"

definition newParserFromOpenAPIGroupVersion ::
  "('w, 'p) xlib \<Rightarrow> oapiGroupVersion \<Rightarrow> 'w \<Rightarrow> 'p gvkParser res \<times> 'w" where
  "newParserFromOpenAPIGroupVersion X g w =
     tryS (schemaOf X g ''application/json'' w) (ErrWrap ''cannot get OpenAPI schema'') (\<lambda>s w.
     tryS (liftR (x_openapi X s) w) (ErrWrap ''cannot unmarshal OpenAPI schema'') (\<lambda>oapi w.
       (case oapi of
          None \<Rightarrow> (Panic ''invalid memory address or nil pointer dereference'', w)
        | Some schemas \<Rightarrow>
            (case x_aggregate X (refErrors schemas) of
               Some e \<Rightarrow> (Err (ErrWrap ''cannot validate references in OpenAPI schemas'' e), w)
             | None \<Rightarrow> (NewGVKParser X schemas False, w)))))"

section \<open>The parser cache\<close>

record 'p parserEntry =
  pe_parser :: "'p gvkParser"
  pe_etag :: string

type_synonym 'p parserCache = "groupVersion \<rightharpoonup> 'p parserEntry"

text \<open>Entries whose path is not discovered, or with another ETag, are deleted.\<close>

definition invalidateStale ::
  "klib \<Rightarrow> (string \<rightharpoonup> string) \<Rightarrow> 'p parserCache \<Rightarrow> 'p parserCache" where
  "invalidateStale L etags c =
     (\<lambda>gv. case c gv of
        None \<Rightarrow> None
      | Some entry \<Rightarrow>
          (case etags (gvRelativeAPIPath L gv) of
             None \<Rightarrow> None
           | Some etag \<Rightarrow> (if etag \<noteq> pe_etag entry then None else Some entry)))"

text \<open>A cache hit needs an entry with the discovered ETag, and the ETag must not be empty.\<close>

definition cacheHit :: "string \<Rightarrow> 'p parserEntry option \<Rightarrow> 'p gvkParser option" where
  "cacheHit etag entry =
     (case entry of
        Some e \<Rightarrow> (if pe_etag e = etag \<and> etag \<noteq> [] then Some (pe_parser e) else None)
      | None \<Rightarrow> None)"

text \<open>
  The function run by \<open>singleflight.Do\<close>: a fresh parser is cached only when the discovery gave an
  ETag. (Concurrent calls of the same group-version, which the singleflight group deduplicates, are
  modelled in \<open>Parser_Races\<close>.)
\<close>

definition fetchParser ::
  "('w, 'p) xlib \<Rightarrow> groupVersion \<Rightarrow> oapiGroupVersion \<Rightarrow> string \<Rightarrow> 'p parserCache \<times> 'w
     \<Rightarrow> 'p gvkParser res \<times> ('p parserCache \<times> 'w)" where
  "fetchParser X gv oapiGV etag s =
     (case newParserFromOpenAPIGroupVersion X oapiGV (snd s) of
        (r, w) \<Rightarrow>
          tryS (r, (fst s, w)) id (\<lambda>p (c, w).
            (Ok p, (if etag \<noteq> [] then c(gv \<mapsto> \<lparr>pe_parser = p, pe_etag = etag\<rparr>) else c, w))))"

definition getParserForGV ::
  "klib \<Rightarrow> ('w, 'p) xlib \<Rightarrow> groupVersion \<Rightarrow> 'p parserCache \<times> 'w
     \<Rightarrow> 'p gvkParser res \<times> ('p parserCache \<times> 'w)" where
  "getParserForGV L X gv s =
     (case discoveryPaths X (snd s) of
        (r, w0) \<Rightarrow>
          tryS (r, (fst s, w0)) id (\<lambda>(gvs, etags) (c0, w).
            let c = invalidateStale L etags c0; gvPath = gvRelativeAPIPath L gv in
            (case gvs gvPath of
               None \<Rightarrow> (Err (ErrNew (''cannot find GroupVersion '' @ goQuote gvPath @ '' in discovery'')), (c, w))
             | Some oapiGV \<Rightarrow>
                 (case etags gvPath of
                    None \<Rightarrow> (Err (ErrNew (''cannot find ETag for GroupVersion '' @ goQuote gvPath @ '' in discovery'')), (c, w))
                  | Some etag \<Rightarrow>
                      (case cacheHit etag (c gv) of
                         Some p \<Rightarrow> (Ok p, (c, w))
                       | None \<Rightarrow> fetchParser X gv oapiGV etag (c, w))))))"

text \<open>
  \<open>extractUnstructured\<close>: the type is dereferenced without a nil test. \<open>Extract\<close> and
  \<open>ExtractStatus\<close> differ in the subresource.
\<close>

definition extractUnstructured ::
  "klib \<Rightarrow> ('w, 'p) xlib \<Rightarrow> unstructured \<Rightarrow> string \<Rightarrow> string \<Rightarrow> 'p parserCache \<times> 'w
     \<Rightarrow> unstructured res \<times> ('p parserCache \<times> 'w)" where
  "extractUnstructured L X object fieldManager subresource s =
     (let g = lib_gvkOf L object in
      tryS (getParserForGV L X (gvk_group g, gvk_version g) s) id (\<lambda>parser s.
        (case parserType parser g of
           None \<Rightarrow> (Panic ''invalid memory address or nil pointer dereference'', s)
         | Some objectType \<Rightarrow>
             tryS (liftR (x_extractInto X object objectType fieldManager subresource) s)
               (ErrWrap ''failed calling ExtractInto for unstructured'') (\<lambda>result s.
               (Ok (result\<lparr>u_name := u_name object, u_namespace := u_namespace object,
                      u_kind := u_kind object, u_apiVersion := u_apiVersion object\<rparr>), s)))))"

definition Extract ::
  "klib \<Rightarrow> ('w, 'p) xlib \<Rightarrow> unstructured \<Rightarrow> string \<Rightarrow> 'p parserCache \<times> 'w
     \<Rightarrow> unstructured res \<times> ('p parserCache \<times> 'w)" where
  "Extract L X object fieldManager = extractUnstructured L X object fieldManager []"

definition ExtractStatus ::
  "klib \<Rightarrow> ('w, 'p) xlib \<Rightarrow> unstructured \<Rightarrow> string \<Rightarrow> 'p parserCache \<times> 'w
     \<Rightarrow> unstructured res \<times> ('p parserCache \<times> 'w)" where
  "ExtractStatus L X object fieldManager = extractUnstructured L X object fieldManager ''status''"

section \<open>Facts: the index of kinds\<close>

lemma addGVKs_eq_Ok:
  "addGVKs str n gs m = Ok m' \<longleftrightarrow>
     (let ks = filter (\<lambda>g. gvk_kind g \<noteq> []) gs in
      distinct ks \<and> set ks \<inter> dom m = {} \<and> m' = (\<lambda>g. if g \<in> set ks then Some n else m g))"
proof (induction gs arbitrary: m)
  case Nil
  then show ?case by auto
next
  case (Cons g gs)
  show ?case
  proof (cases "gvk_kind g \<noteq> [] \<and> m g = None")
    case True
    then have step: "addGVKs str n (g # gs) m = addGVKs str n gs (m(g \<mapsto> n))" by simp
    have ks: "filter (\<lambda>g. gvk_kind g \<noteq> []) (g # gs) = g # filter (\<lambda>g. gvk_kind g \<noteq> []) gs"
      using True by simp
    show ?thesis
      unfolding step Cons.IH ks Let_def
      using True by (auto simp: fun_eq_iff domIff split: if_splits)
  next
    case False
    then show ?thesis by (auto simp: Let_def Cons.IH fun_eq_iff domIff)
  qed
qed

text \<open>The kinds of a component, and those of a document.\<close>

definition componentGVKs :: "string \<times> schema \<Rightarrow> gvk list" where
  "componentGVKs c = filter (\<lambda>g. gvk_kind g \<noteq> []) (parseGroupVersionKind (sch_extensions (snd c)))"

definition documentGVKs :: "components \<Rightarrow> gvk list" where
  "documentGVKs cs = concat (map componentGVKs cs)"

lemma addComponents_eq_Ok:
  "addComponents str cs m = Ok m' \<longleftrightarrow>
     distinct (documentGVKs cs) \<and> set (documentGVKs cs) \<inter> dom m = {} \<and>
     m' = (\<lambda>g. case find (\<lambda>c. g \<in> set (componentGVKs c)) cs of
                 Some c \<Rightarrow> Some (fst c) | None \<Rightarrow> m g)"
proof (induction cs arbitrary: m)
  case Nil
  then show ?case by (auto simp: documentGVKs_def)
next
  case (Cons c cs)
  obtain n ss where c: "c = (n, ss)" by (cases c)
  let ?ks = "componentGVKs c"
  have ks: "filter (\<lambda>g. gvk_kind g \<noteq> []) (parseGroupVersionKind (sch_extensions ss)) = ?ks"
    by (simp add: componentGVKs_def c)
  let ?m = "\<lambda>g. if g \<in> set ?ks then Some n else m g"
  have step: "addComponents str (c # cs) m = Ok m' \<longleftrightarrow>
      distinct ?ks \<and> set ?ks \<inter> dom m = {} \<and> addComponents str cs ?m = Ok m'"
    unfolding c by (simp add: res_simps addGVKs_eq_Ok Let_def ks [unfolded c])
  have dom: "dom ?m = set ?ks \<union> dom m" by (auto split: if_splits)
  have upd: "(\<lambda>g. case find (\<lambda>c. g \<in> set (componentGVKs c)) cs of Some c \<Rightarrow> Some (fst c) | None \<Rightarrow> ?m g) =
      (\<lambda>g. case find (\<lambda>c. g \<in> set (componentGVKs c)) (c # cs) of Some c \<Rightarrow> Some (fst c) | None \<Rightarrow> m g)"
    if "set ?ks \<inter> set (documentGVKs cs) = {}"
  proof
    fix g
    show "(case find (\<lambda>c. g \<in> set (componentGVKs c)) cs of Some c \<Rightarrow> Some (fst c) | None \<Rightarrow> ?m g) =
      (case find (\<lambda>c. g \<in> set (componentGVKs c)) (c # cs) of Some c \<Rightarrow> Some (fst c) | None \<Rightarrow> m g)"
    proof (cases "g \<in> set ?ks")
      case True
      with that have "g \<notin> set (documentGVKs cs)" by auto
      then have "find (\<lambda>c. g \<in> set (componentGVKs c)) cs = None"
        by (auto simp: find_None_iff documentGVKs_def)
      with True show ?thesis by (simp add: c)
    qed simp
  qed
  have doc: "documentGVKs (c # cs) = ?ks @ documentGVKs cs" by (simp add: documentGVKs_def)
  show ?case unfolding step Cons.IH dom doc using upd by auto
qed

section \<open>Facts: the cache\<close>

lemma invalidateStale_Some:
  "invalidateStale L etags c gv = Some e \<longleftrightarrow>
     c gv = Some e \<and> etags (gvRelativeAPIPath L gv) = Some (pe_etag e)"
  by (auto simp: invalidateStale_def split: option.splits)

lemma cacheHit_Some:
  "cacheHit etag entry = Some p \<longleftrightarrow>
     etag \<noteq> [] \<and> (\<exists>e. entry = Some e \<and> pe_etag e = etag \<and> pe_parser e = p)"
  by (auto simp: cacheHit_def split: option.splits)

text \<open>Entries of the cache have an ETag.\<close>

definition cacheTagged :: "'p parserCache \<Rightarrow> bool" where
  "cacheTagged c \<longleftrightarrow> (\<forall>gv e. c gv = Some e \<longrightarrow> pe_etag e \<noteq> [])"

text \<open>
  Provenance: \<open>built gv etag p\<close> says that \<open>p\<close> was built from a schema of \<open>gv\<close> served under \<open>etag\<close>.
\<close>

definition cacheBuilt :: "(groupVersion \<Rightarrow> string \<Rightarrow> 'p gvkParser \<Rightarrow> bool) \<Rightarrow> 'p parserCache \<Rightarrow> bool" where
  "cacheBuilt built c \<longleftrightarrow> (\<forall>gv e. c gv = Some e \<longrightarrow> built gv (pe_etag e) (pe_parser e))"

lemma cacheBuilt_invalidate: "cacheBuilt built c \<Longrightarrow> cacheBuilt built (invalidateStale L etags c)"
  by (simp add: cacheBuilt_def invalidateStale_Some)

lemma cacheTagged_invalidate: "cacheTagged c \<Longrightarrow> cacheTagged (invalidateStale L etags c)"
  unfolding cacheTagged_def invalidateStale_Some by blast

lemma fetchParser_cache:
  assumes "fetchParser X gv oapiGV etag (c, w) = (r, (c', w'))"
  shows "c' = c \<or> (\<exists>p. r = Ok p \<and> etag \<noteq> [] \<and> c' = c(gv \<mapsto> \<lparr>pe_parser = p, pe_etag = etag\<rparr>))"
  using assms by (auto simp: fetchParser_def split: res_splits prod.splits if_splits)

lemma fetchParser_Ok:
  "fetchParser X gv oapiGV etag (c, w) = (Ok p, (c', w')) \<longleftrightarrow>
     newParserFromOpenAPIGroupVersion X oapiGV w = (Ok p, w') \<and>
     c' = (if etag \<noteq> [] then c(gv \<mapsto> \<lparr>pe_parser = p, pe_etag = etag\<rparr>) else c)"
  by (auto simp: fetchParser_def res_simps split: prod.splits)

text \<open>What a successful \<open>getParserForGV\<close> went through.\<close>

lemma getParserForGV_OkE:
  assumes "getParserForGV L X gv (c0, w0) = (Ok p, (c', w'))"
  obtains gvs etags w oapiGV etag where
    "discoveryPaths X w0 = (Ok (gvs, etags), w)"
    "gvs (gvRelativeAPIPath L gv) = Some oapiGV" "etags (gvRelativeAPIPath L gv) = Some etag"
    "(cacheHit etag (invalidateStale L etags c0 gv) = Some p \<and> c' = invalidateStale L etags c0 \<and> w' = w) \<or>
     (cacheHit etag (invalidateStale L etags c0 gv) = None \<and>
      fetchParser X gv oapiGV etag (invalidateStale L etags c0, w) = (Ok p, (c', w')))"
proof -
  obtain r w where d: "discoveryPaths X w0 = (r, w)" by (cases "discoveryPaths X w0")
  with assms obtain gvs etags where r: "r = Ok (gvs, etags)"
    by (auto simp: getParserForGV_def res_simps)
  from assms d r obtain oapiGV etag where
    g: "gvs (gvRelativeAPIPath L gv) = Some oapiGV" and e: "etags (gvRelativeAPIPath L gv) = Some etag"
    by (auto simp: getParserForGV_def Let_def split: option.splits)
  show ?thesis
    by (rule that [OF d [unfolded r] g e])
      (use assms d r g e in \<open>auto simp: getParserForGV_def Let_def split: option.splits\<close>)
qed

section \<open>The cache manager (gvk_parser_cache.go)\<close>

record 'p parserCacheManager =
  pm_cacheStore :: "string \<rightharpoonup> nat"
  pm_heap :: "nat \<rightharpoonup> 'p parserCache"
  pm_next :: nat

text \<open>An option changes the new manager (\<open>GVKParserCacheManagerOption\<close>); the options are applied in order.\<close>

type_synonym 'p parserCacheManagerOption = "'p parserCacheManager \<Rightarrow> 'p parserCacheManager"

definition NewGVKParserCacheManager :: "'p parserCacheManagerOption list \<Rightarrow> 'p parserCacheManager" where
  "NewGVKParserCacheManager opts =
     foldl (\<lambda>c f. f c) \<lparr>pm_cacheStore = Map.empty, pm_heap = Map.empty, pm_next = 0\<rparr> opts"

definition LoadOrNewCacheForProviderConfig ::
  "string \<Rightarrow> 'p parserCacheManager \<Rightarrow> nat res \<times> 'p parserCacheManager" where
  "LoadOrNewCacheForProviderConfig uid m =
     (case pm_cacheStore m uid of
        Some a \<Rightarrow> (Ok a, m)
      | None \<Rightarrow>
          (Ok (pm_next m),
           m\<lparr>pm_cacheStore := (pm_cacheStore m)(uid \<mapsto> pm_next m),
             pm_heap := (pm_heap m)(pm_next m \<mapsto> Map.empty),
             pm_next := Suc (pm_next m)\<rparr>))"

definition RemoveCache :: "string \<Rightarrow> 'p parserCacheManager \<Rightarrow> 'p parserCacheManager" where
  "RemoveCache uid m = m\<lparr>pm_cacheStore := (pm_cacheStore m)(uid := None)\<rparr>"

interpretation gpcm: removable_store pm_cacheStore LoadOrNewCacheForProviderConfig RemoveCache
  by unfold_locales
    (auto simp: LoadOrNewCacheForProviderConfig_def RemoveCache_def split: option.splits)

definition readParserCache :: "nat \<Rightarrow> 'p parserCacheManager \<Rightarrow> 'p parserCache" where
  "readParserCache a m = (case pm_heap m a of Some c \<Rightarrow> c | None \<Rightarrow> Map.empty)"

definition writeParserCache ::
  "nat \<Rightarrow> 'p parserCache \<Rightarrow> 'p parserCacheManager \<Rightarrow> 'p parserCacheManager" where
  "writeParserCache a c m =
     (case pm_heap m a of Some _ \<Rightarrow> m\<lparr>pm_heap := (pm_heap m)(a \<mapsto> c)\<rparr> | None \<Rightarrow> m)"

end
