(* ===== verification/Token_Stores.thy ===== *)
theory Token_Stores
  imports Kube_Types Keyed_Store Ref_World Step_System
begin

text \<open>
  The stores that keep token sources across reconciles: \<open>SDKStore\<close> of
  \<open>pkg/kube/client/nebius/store.go\<close>, which builds a source under the write lock, and
  \<open>ReuseSourceStore\<close> of \<open>pkg/kube/client/token/store.go\<close>, which does not recheck before it writes.
  Both as functions and as step relations of concurrent calls. \<open>'src\<close> is the type of a token source.
\<close>

section \<open>The Nebius store\<close>

type_synonym ('k, 'src) sources = "'k \<rightharpoonup> 'src"

definition NewSDKStore :: "('k, 'src) sources" where
  "NewSDKStore = Map.empty"

definition hashCredentials :: "klib \<Rightarrow> string \<Rightarrow> string" where
  "hashCredentials L credentials = lib_sha256Hex L credentials"

text \<open>Under the write lock: look again, then build and store.\<close>

definition sourceLocked ::
  "('w \<Rightarrow> 'src res \<times> 'w) \<Rightarrow> 'k \<Rightarrow> ('k, 'src) sources \<times> 'w \<Rightarrow> 'src res \<times> (('k, 'src) sources \<times> 'w)" where
  "sourceLocked build key s =
     (case fst s key of
        Some src \<Rightarrow> (Ok src, s)
      | None \<Rightarrow>
          (case build (snd s) of
             (Ok src, w) \<Rightarrow> (Ok src, ((fst s)(key \<mapsto> src), w))
           | (Err e, w) \<Rightarrow> (Err e, (fst s, w))
           | (Panic p, w) \<Rightarrow> (Panic p, (fst s, w))))"

definition sourceForKey ::
  "('w \<Rightarrow> 'src res \<times> 'w) \<Rightarrow> 'k \<Rightarrow> ('k, 'src) sources \<times> 'w \<Rightarrow> 'src res \<times> (('k, 'src) sources \<times> 'w)" where
  "sourceForKey build key s =
     (case fst s key of
        Some src \<Rightarrow> (Ok src, s)
      | None \<Rightarrow> sourceLocked build key s)"

definition SourceForCredentials ::
  "klib \<Rightarrow> string \<Rightarrow> ('w \<Rightarrow> 'src res \<times> 'w) \<Rightarrow> (string, 'src) sources \<times> 'w
     \<Rightarrow> 'src res \<times> ((string, 'src) sources \<times> 'w)" where
  "SourceForCredentials L credentials build s = sourceForKey build (hashCredentials L credentials) s"

lemma sourceForKey_run:
  assumes "sourceForKey build k s = (r, t)"
  shows "fst s k = Some v \<Longrightarrow> r = Ok v \<and> t = s"
    and "r = Ok v \<Longrightarrow> fst t k = Some v"
    and "\<not> isOk r \<Longrightarrow> fst t = fst s"
    and "k' \<noteq> k \<Longrightarrow> fst t k' = fst s k'"
proof -
  have "(\<exists>v. fst s k = Some v \<and> r = Ok v \<and> t = s) \<or>
      (fst s k = None \<and> (\<exists>v w. r = Ok v \<and> t = ((fst s)(k \<mapsto> v), w))) \<or>
      (fst s k = None \<and> \<not> isOk r \<and> fst t = fst s)"
    using assms
    by (cases "fst s k"; cases "fst (build (snd s))")
      (auto simp: sourceForKey_def sourceLocked_def split: prod.splits res.splits)
  then show "fst s k = Some v \<Longrightarrow> r = Ok v \<and> t = s" "r = Ok v \<Longrightarrow> fst t k = Some v"
    "\<not> isOk r \<Longrightarrow> fst t = fst s" "k' \<noteq> k \<Longrightarrow> fst t k' = fst s k'"
    by auto
qed

interpretation sdk: keyed_store fst "sourceForKey build" for build :: "'w \<Rightarrow> 'src res \<times> 'w"
proof (unfold_locales, goal_cases)
  case (1 s k v)
  then show ?case by (simp add: sourceForKey_def)
next
  case (2 s k v t)
  then show ?case using sourceForKey_run(2) [of build k s "Ok v" t v] by simp
next
  case (3 k s r t)
  then show ?case using sourceForKey_run(3) [of build k s r t] by simp
next
  case (4 k s r t k')
  then show ?case using sourceForKey_run(4) [of build k s r t k'] by simp
qed

text \<open>Concurrent calls: read under the read lock, then build under the write lock.\<close>

datatype ('k, 'src) sourceCall =
    Asking 'k
  | Missing 'k
  | Got 'k 'src
  | Failed 'k

text \<open>The state: the store, the log of the builds, newest first, and the calls.\<close>

type_synonym ('k, 'src) sourceSystem =
  "('k, 'src) sources \<times> ('k \<times> 'src) list \<times> (nat \<Rightarrow> ('k, 'src) sourceCall)"

inductive sdkStep :: "('k, 'src) sourceSystem \<Rightarrow> ('k, 'src) sourceSystem \<Rightarrow> bool" where
  hit: "calls i = Asking k \<Longrightarrow> m k = Some src \<Longrightarrow> sdkStep (m, log, calls) (m, log, calls(i := Got k src))"
| miss: "calls i = Asking k \<Longrightarrow> m k = None \<Longrightarrow> sdkStep (m, log, calls) (m, log, calls(i := Missing k))"
| recheck: "calls i = Missing k \<Longrightarrow> m k = Some src \<Longrightarrow> sdkStep (m, log, calls) (m, log, calls(i := Got k src))"
| build: "calls i = Missing k \<Longrightarrow> m k = None \<Longrightarrow>
     sdkStep (m, log, calls) (m(k \<mapsto> src), (k, src) # log, calls(i := Got k src))"
| fail: "calls i = Missing k \<Longrightarrow> m k = None \<Longrightarrow> sdkStep (m, log, calls) (m, log, calls(i := Failed k))"

definition sdkStart :: "('k, 'src) sourceSystem \<Rightarrow> bool" where
  "sdkStart s \<longleftrightarrow> (case s of (m, log, calls) \<Rightarrow> m = NewSDKStore \<and> log = [] \<and> (\<forall>i. \<exists>k. calls i = Asking k))"

abbreviation sdkReachable :: "('k, 'src) sourceSystem \<Rightarrow> bool" where
  "sdkReachable \<equiv> reachable sdkStart sdkStep"

text \<open>The log is the graph of the store, without a second build of a key.\<close>

definition sdkInv :: "('k, 'src) sourceSystem \<Rightarrow> bool" where
  "sdkInv s \<longleftrightarrow>
     (case s of (m, log, calls) \<Rightarrow>
        distinct (map fst log) \<and> map_of log = m \<and> (\<forall>i k src. calls i = Got k src \<longrightarrow> m k = Some src))"

lemma sdkStep_inv: "sdkStep s t \<Longrightarrow> sdkInv s \<Longrightarrow> sdkInv t"
proof (induction rule: sdkStep.induct)
  case (build calls i k m log src)
  then have "k \<notin> fst ` set log" by (auto simp: sdkInv_def map_of_eq_None_iff)
  with build show ?case by (auto simp: sdkInv_def)
qed (auto simp: sdkInv_def)

lemma sdkStart_inv: "sdkStart s \<Longrightarrow> sdkInv s"
  by (auto simp: sdkStart_def sdkInv_def NewSDKStore_def) (metis sourceCall.distinct(3))

interpretation sdk_system: step_invariant sdkStart sdkStep sdkInv
  by unfold_locales (auto intro: sdkStart_inv sdkStep_inv)

section \<open>The store of reused sources\<close>

text \<open>
  A source made by \<open>oauth2.ReuseTokenSource\<close> is a fresh pointer to a wrapper of the given source:
  the number of the allocation and the source it wraps.
\<close>

record 'src reuseSource =
  ru_id :: nat
  ru_base :: 'src

record 'src reuseStore =
  rt_sources :: "string \<rightharpoonup> 'src reuseSource"
  rt_next :: nat

definition NewReuseSourceStore :: "'src reuseStore" where
  "NewReuseSourceStore = \<lparr>rt_sources = Map.empty, rt_next = 0\<rparr>"

definition hashToken :: "klib \<Rightarrow> string \<Rightarrow> string" where
  "hashToken L token = lib_sha256Hex L token"

definition reuseTokenSource :: "'src \<Rightarrow> 'src reuseStore \<Rightarrow> 'src reuseSource \<times> 'src reuseStore" where
  "reuseTokenSource src s =
     (\<lparr>ru_id = rt_next s, ru_base = src\<rparr>, s\<lparr>rt_next := Suc (rt_next s)\<rparr>)"

definition putSource :: "string \<Rightarrow> 'src reuseSource \<Rightarrow> 'src reuseStore \<Rightarrow> 'src reuseStore" where
  "putSource key source s = s\<lparr>rt_sources := (rt_sources s)(key \<mapsto> source)\<rparr>"

definition reuseForKey :: "'src \<Rightarrow> string \<Rightarrow> 'src reuseStore \<Rightarrow> 'src reuseSource res \<times> 'src reuseStore" where
  "reuseForKey src key s =
     (case rt_sources s key of
        Some source \<Rightarrow> (Ok source, s)
      | None \<Rightarrow> (case reuseTokenSource src s of (source, s) \<Rightarrow> (Ok source, putSource key source s)))"

definition SourceForRefreshToken ::
  "klib \<Rightarrow> string \<Rightarrow> 'src \<Rightarrow> 'src reuseStore \<Rightarrow> 'src reuseSource res \<times> 'src reuseStore" where
  "SourceForRefreshToken L refreshToken src s = reuseForKey src (hashToken L refreshToken) s"

interpretation reuse: keyed_store rt_sources "reuseForKey src" for src
  by unfold_locales (auto simp: reuseForKey_def reuseTokenSource_def putSource_def split: option.splits)

text \<open>Concurrent calls: read, create a source without a lock, then write without looking again.\<close>

datatype 'src reuseCall =
    AskingToken string
  | Creating string
  | Writing string "'src reuseSource"
  | Holding string "'src reuseSource"

type_synonym 'src reuseSystem = "'src reuseStore \<times> (nat \<Rightarrow> 'src reuseCall)"

inductive reuseStep :: "'src \<Rightarrow> 'src reuseSystem \<Rightarrow> 'src reuseSystem \<Rightarrow> bool" for src :: 'src where
  hit: "calls i = AskingToken k \<Longrightarrow> rt_sources s k = Some x \<Longrightarrow>
     reuseStep src (s, calls) (s, calls(i := Holding k x))"
| miss: "calls i = AskingToken k \<Longrightarrow> rt_sources s k = None \<Longrightarrow>
     reuseStep src (s, calls) (s, calls(i := Creating k))"
| create: "calls i = Creating k \<Longrightarrow> reuseTokenSource src s = (x, s') \<Longrightarrow>
     reuseStep src (s, calls) (s', calls(i := Writing k x))"
| put: "calls i = Writing k x \<Longrightarrow>
     reuseStep src (s, calls) (putSource k x s, calls(i := Holding k x))"

section \<open>Properties\<close>

text \<open>
  C26. One Nebius client per credentials: however concurrent calls interleave, no key is built twice,
  and all calls that got a source for a key got the same one, the one in the store.
\<close>

theorem SDKStore_builds_once:
  assumes "sdkReachable (m, log, calls)"
  shows "distinct (map fst log) \<and>
    (\<forall>i j k x y. calls i = Got k x \<longrightarrow> calls j = Got k y \<longrightarrow> x = y \<and> m k = Some x)"
proof -
  from sdk_system.reachable_inv [OF assms] have "distinct (map fst log)"
    and got: "\<And>i k x. calls i = Got k x \<Longrightarrow> m k = Some x"
    by (auto simp: sdkInv_def)
  moreover have "x = y \<and> m k = Some x" if "calls i = Got k x" "calls j = Got k y" for i j k x y
    using got [OF that(1)] got [OF that(2)] by simp
  ultimately show ?thesis by blast
qed

lemma SDKStore_builds_once_witness:
  "\<exists>m log calls. sdkReachable (m, log, calls) \<and> calls 0 = Got ''k'' (1::nat) \<and> calls 1 = Got ''k'' 1 \<and>
     length log = 1 \<and> distinct (map fst log)"
proof -
  let ?c0 = "\<lambda>_. Asking ''k'' :: (string, nat) sourceCall"
  let ?c1 = "?c0(0 := Missing ''k'')" let ?c2 = "?c1(1 := Missing ''k'')"
  let ?c3 = "?c2(0 := Got ''k'' 1)" let ?c4 = "?c3(1 := Got ''k'' 1)"
  have "sdkReachable (Map.empty, [], ?c0)" by (rule reachable.init) (simp add: sdkStart_def NewSDKStore_def)
  then have "sdkReachable (Map.empty, [], ?c1)" by (rule reachable.step) (rule sdkStep.miss, simp_all)
  then have "sdkReachable (Map.empty, [], ?c2)" by (rule reachable.step) (rule sdkStep.miss, simp_all)
  then have "sdkReachable (Map.empty(''k'' \<mapsto> 1), [(''k'', 1)], ?c3)"
    by (rule reachable.step) (rule sdkStep.build, simp_all)
  then have r: "sdkReachable (Map.empty(''k'' \<mapsto> 1), [(''k'', 1)], ?c4)"
    by (rule reachable.step) (rule sdkStep.recheck, simp_all)
  from SDKStore_builds_once [OF r] have "distinct (map fst [(''k'', 1 :: nat)])" by (rule conjunct1)
  moreover have "?c4 0 = Got ''k'' 1" "?c4 1 = Got ''k'' 1" "length [(''k'', 1 :: nat)] = 1" by simp_all
  ultimately show ?thesis using r by blast
qed

text \<open>
  The store of reused sources does not have this property: from an empty store, two concurrent
  calls for one refresh token can both miss and end with different sources, only the later of which
  stays in the store.
\<close>

theorem ReuseSourceStore_race:
  "\<exists>t calls x y. (reuseStep src)\<^sup>*\<^sup>* (NewReuseSourceStore, \<lambda>_. AskingToken k) (t, calls) \<and>
     calls 0 = Holding k x \<and> calls 1 = Holding k y \<and> x \<noteq> y \<and> rt_sources t k = Some y"
proof -
  let ?s0 = "NewReuseSourceStore :: 'a reuseStore"
  let ?x = "\<lparr>ru_id = 0, ru_base = src\<rparr>" let ?y = "\<lparr>ru_id = 1, ru_base = src\<rparr>"
  let ?s1 = "?s0\<lparr>rt_next := 1\<rparr>" let ?s2 = "?s0\<lparr>rt_next := 2\<rparr>"
  let ?c0 = "(\<lambda>_. AskingToken k) :: nat \<Rightarrow> 'a reuseCall"
  let ?c1 = "?c0(0 := Creating k)" let ?c2 = "?c1(1 := Creating k)"
  let ?c3 = "?c2(0 := Writing k ?x)" let ?c4 = "?c3(1 := Writing k ?y)"
  let ?c5 = "?c4(0 := Holding k ?x)" let ?c6 = "?c5(1 := Holding k ?y)"
  have 1: "reuseStep src (?s0, ?c0) (?s0, ?c1)"
    by (rule reuseStep.miss) (simp_all add: NewReuseSourceStore_def)
  have 2: "reuseStep src (?s0, ?c1) (?s0, ?c2)"
    by (rule reuseStep.miss) (simp_all add: NewReuseSourceStore_def)
  have 3: "reuseStep src (?s0, ?c2) (?s1, ?c3)"
    by (rule reuseStep.create) (simp_all add: NewReuseSourceStore_def reuseTokenSource_def)
  have 4: "reuseStep src (?s1, ?c3) (?s2, ?c4)"
    by (rule reuseStep.create) (simp_all add: NewReuseSourceStore_def reuseTokenSource_def)
  have 5: "reuseStep src (?s2, ?c4) (putSource k ?x ?s2, ?c5)"
    by (rule reuseStep.put) simp
  have 6: "reuseStep src (putSource k ?x ?s2, ?c5) (putSource k ?y (putSource k ?x ?s2), ?c6)"
    by (rule reuseStep.put) simp
  have "(reuseStep src)\<^sup>*\<^sup>* (?s0, ?c0) (putSource k ?y (putSource k ?x ?s2), ?c6)"
    by (rule converse_rtranclp_into_rtranclp [where r = "reuseStep src", OF 1], rule converse_rtranclp_into_rtranclp [where r = "reuseStep src", OF 2],
        rule converse_rtranclp_into_rtranclp [where r = "reuseStep src", OF 3], rule converse_rtranclp_into_rtranclp [where r = "reuseStep src", OF 4],
        rule converse_rtranclp_into_rtranclp [where r = "reuseStep src", OF 5], rule r_into_rtranclp [where r = "reuseStep src", OF 6])
  moreover have "?c6 0 = Holding k ?x" "?c6 1 = Holding k ?y" "?x \<noteq> ?y"
    "rt_sources (putSource k ?y (putSource k ?x ?s2)) k = Some ?y"
    by (simp_all add: putSource_def)
  ultimately show ?thesis by blast
qed

text \<open>
  Sequentially, one source per refresh token for good: after a call for a refresh token, every later
  call for it returns the same source and creates none, whatever other tokens were served in between,
  and whatever source it is given; two organizations that use one token therefore share the source of
  the first.
\<close>

theorem SourceForRefreshToken_shared:
  assumes "SourceForRefreshToken L token src s = (Ok x, t)"
  shows "SourceForRefreshToken L token src' (reuse.run_loads src ks t) = (Ok x, reuse.run_loads src ks t) \<and>
    (rt_sources s (hashToken L token) = None \<longrightarrow> ru_base x = src)"
proof
  have "rt_sources (reuse.run_loads src ks t) (hashToken L token) = Some x"
    using assms reuse.load_found reuse.run_loads_keeps unfolding SourceForRefreshToken_def by metis
  then show "SourceForRefreshToken L token src' (reuse.run_loads src ks t) = (Ok x, reuse.run_loads src ks t)"
    by (simp add: SourceForRefreshToken_def reuseForKey_def)
  show "rt_sources s (hashToken L token) = None \<longrightarrow> ru_base x = src"
    using assms by (auto simp: SourceForRefreshToken_def reuseForKey_def reuseTokenSource_def)
qed

lemma SourceForRefreshToken_shared_witness:
  "\<exists>x t. SourceForRefreshToken ref_lib ''token'' ''org-a'' NewReuseSourceStore = (Ok x, t) \<and> ru_base x = ''org-a'' \<and>
     SourceForRefreshToken ref_lib ''token'' ''org-b'' t = (Ok x, t)"
proof -
  obtain x t where run: "SourceForRefreshToken ref_lib ''token'' ''org-a'' NewReuseSourceStore = (Ok x, t)"
    by (simp add: SourceForRefreshToken_def reuseForKey_def reuseTokenSource_def NewReuseSourceStore_def)
  from SourceForRefreshToken_shared [OF run, of "''org-b''" "[]"] run show ?thesis
    by (auto simp: NewReuseSourceStore_def)
qed

end
