(* ===== verification/Rest_Config.thy ===== *)
theory Rest_Config
  imports Token_Stores
begin

text \<open>
  \<open>pkg/kube/client\<close>: from a provider config to the REST config of a cluster. The kubeconfig is turned
  into a REST config (\<open>client.go\<close>), and the identity of the provider config adds a transport wrapper
  (\<open>gke\<close>, \<open>azure\<close>, \<open>upbound\<close>, \<open>aws\<close>, \<open>nebius\<close>). The credential extractor, the kubeconfig loader and
  the clouds' SDKs are parameters.
\<close>

section \<open>Messages of client.go\<close>

abbreviation errGetCreds :: string where
  "errGetCreds \<equiv> ''cannot get credentials''"
abbreviation errCreateRestConfig :: string where
  "errCreateRestConfig \<equiv> ''cannot create new REST config using provider secret''"
abbreviation errExtractGoogleCredentials :: string where
  "errExtractGoogleCredentials \<equiv> ''cannot extract Google Application Credentials''"
abbreviation errInjectGoogleCredentials :: string where
  "errInjectGoogleCredentials \<equiv> ''cannot wrap REST client with Google Application Credentials''"
abbreviation errExtractAzureCredentials :: string where
  "errExtractAzureCredentials \<equiv> ''failed to extract Azure Application Credentials''"
abbreviation errInjectAzureCredentials :: string where
  "errInjectAzureCredentials \<equiv> ''failed to wrap REST client with Azure Application Credentials''"
abbreviation errExtractUpboundCredentials :: string where
  "errExtractUpboundCredentials \<equiv> ''failed to extract Upbound token''"
abbreviation errInjectUpboundCredentials :: string where
  "errInjectUpboundCredentials \<equiv> ''failed to wrap REST client with Upbound token''"
abbreviation errInjectAWSCredentials :: string where
  "errInjectAWSCredentials \<equiv> ''failed to wrap REST client with AWS credentials''"
abbreviation errExtractNebiusCredentials :: string where
  "errExtractNebiusCredentials \<equiv> ''failed to extract Nebius service account credentials''"
abbreviation errInjectNebiusCredentials :: string where
  "errInjectNebiusCredentials \<equiv> ''failed to wrap REST client with Nebius service account credentials''"
abbreviation errParseProxyURL :: string where
  "errParseProxyURL \<equiv> ''cannot parse proxy URL from kubeconfig''"

section \<open>Provider config and kubeconfig\<close>

abbreviation CredentialsSourceInjectedIdentity :: string where
  "CredentialsSourceInjectedIdentity \<equiv> ''InjectedIdentity''"

abbreviation IdentityTypeGoogleApplicationCredentials :: string where
  "IdentityTypeGoogleApplicationCredentials \<equiv> ''GoogleApplicationCredentials''"
abbreviation IdentityTypeAzureServicePrincipalCredentials :: string where
  "IdentityTypeAzureServicePrincipalCredentials \<equiv> ''AzureServicePrincipalCredentials''"
abbreviation IdentityTypeAzureWorkloadIdentityCredentials :: string where
  "IdentityTypeAzureWorkloadIdentityCredentials \<equiv> ''AzureWorkloadIdentityCredentials''"
abbreviation IdentityTypeUpboundTokens :: string where
  "IdentityTypeUpboundTokens \<equiv> ''UpboundTokens''"
abbreviation IdentityTypeAWSWebIdentityCredentials :: string where
  "IdentityTypeAWSWebIdentityCredentials \<equiv> ''AWSWebIdentityCredentials''"
abbreviation IdentityTypeNebiusServiceAccountCredentials :: string where
  "IdentityTypeNebiusServiceAccountCredentials \<equiv> ''NebiusServiceAccountCredentials''"

text \<open>Credentials: the source and the selectors, which only the extractor reads.\<close>

record providerCredentials =
  pcd_source :: string
  pcd_selectors :: string

record providerIdentity =
  pid_type :: string
  pid_credentials :: providerCredentials

record providerConfigSpec =
  pcs_credentials :: providerCredentials
  pcs_identity :: "providerIdentity option"

record execConfig =
  ec_apiVersion :: string
  ec_command :: string
  ec_args :: "string list"
  ec_env :: "(string \<times> string) list"

record kubeContext =
  ctx_cluster :: string
  ctx_authInfo :: string

record kubeCluster =
  kcl_server :: string
  kcl_insecureSkipTLSVerify :: bool
  kcl_tlsServerName :: string
  kcl_certificateAuthorityData :: string
  kcl_proxyURL :: string

record authInfo =
  ai_username :: string
  ai_password :: string
  ai_token :: string
  ai_tokenFile :: string
  ai_impersonate :: string
  ai_impersonateGroups :: "string list"
  ai_impersonateUserExtra :: "string \<rightharpoonup> string list"
  ai_authProvider :: "string option"
  ai_exec :: "execConfig option"
  ai_clientCertificateData :: string
  ai_clientKeyData :: string

record apiConfig =
  ac_currentContext :: string
  ac_contexts :: "string \<rightharpoonup> kubeContext"
  ac_clusters :: "string \<rightharpoonup> kubeCluster"
  ac_authInfos :: "string \<rightharpoonup> authInfo"

section \<open>REST configs\<close>

record azureOptions =
  az_serverID :: string
  az_loginMethod :: string
  az_clientID :: string
  az_clientSecret :: string
  az_tenantID :: string
  az_clientCert :: string
  az_clientCertPassword :: string
  az_federatedTokenFile :: string
  az_authorityHost :: string

text \<open>
  A transport wrapper by the token source it injects; \<open>'ts\<close> is a source of \<open>oauth2\<close>, \<open>'ns\<close> one of the
  Nebius SDK. The wrapper of Upbound asks the store when the transport is built.
\<close>

datatype ('ts, 'ns) wrapper =
    GoogleWrapper 'ts
  | AzureWrapper azureOptions
  | UpboundWrapper string string
  | AwsWrapper string
  | NebiusWrapper 'ns

record ('ts, 'ns) restConfig =
  rc_host :: string
  rc_username :: string
  rc_password :: string
  rc_bearerToken :: string
  rc_bearerTokenFile :: string
  rc_impersonate :: "string \<times> string list \<times> (string \<rightharpoonup> string list)"
  rc_authProvider :: "string option"
  rc_execProvider :: "execConfig option"
  rc_tls :: "bool \<times> string \<times> string \<times> string \<times> string"
  rc_proxy :: "string option"
  rc_burst :: nat
  rc_qps :: nat
  rc_wrappers :: "('ts, 'ns) wrapper list"

text \<open>\<open>rest.Config.Wrap\<close> adds a wrapper around those that are there.\<close>

definition wrapTransport :: "('ts, 'ns) wrapper \<Rightarrow> ('ts, 'ns) restConfig \<Rightarrow> ('ts, 'ns) restConfig" where
  "wrapTransport w rc = rc\<lparr>rc_wrappers := rc_wrappers rc @ [w]\<rparr>"

text \<open>
  The library functions: \<open>rest.InClusterConfig\<close>, \<open>resource.CommonCredentialExtractor\<close> (whose bytes may be
  nil), \<open>clientcmd.Load\<close>, \<open>url.Parse\<close>, JSON decoding into a raw message and into a string map,
  the Google, Azure, AWS and Nebius SDKs. \<open>cl_nebiusCredentials\<close> decodes a \<open>credentialsFile\<close>, and \<open>cl_nebiusNew\<close>
  is \<open>gosdk.New\<close> with the credentials of a service account: private key, public key id and account id.
\<close>

record credentialsFile =
  cf_privateKey :: string
  cf_publicKeyID :: string
  cf_serviceAccountID :: string

record ('w, 'ts, 'ns) clib =
  cl_inCluster :: "('ts, 'ns) restConfig res"
  cl_extractCredentials :: "string \<Rightarrow> string \<Rightarrow> 'w \<Rightarrow> string option res \<times> 'w"
  cl_load :: "string \<Rightarrow> apiConfig res"
  cl_parseURL :: "string \<Rightarrow> string res"
  cl_rawMessage :: "string \<Rightarrow> unit res"
  cl_stringMap :: "string \<Rightarrow> (string \<rightharpoonup> string) res"
  cl_googleFromJSON :: "string list \<Rightarrow> string \<Rightarrow> 'ts res"
  cl_accessTokenValid :: "string \<Rightarrow> bool"
  cl_staticTokenSource :: "string \<Rightarrow> 'ts"
  cl_googleDefault :: "string list \<Rightarrow> 'ts res"
  cl_parseServerID :: "string list \<Rightarrow> string res"
  cl_azureTokenProvider :: "azureOptions \<Rightarrow> unit res"
  cl_awsDefaultConfig :: "unit res"
  cl_isARN :: "string \<Rightarrow> bool"
  cl_arnResource :: "string \<Rightarrow> string res"
  cl_nebiusCredentials :: "string \<Rightarrow> credentialsFile res"
  cl_nebiusNew :: "string \<Rightarrow> string \<Rightarrow> string \<Rightarrow> 'w \<Rightarrow> 'ns res \<times> 'w"

text \<open>\<open>strings.TrimSpace\<close> on ASCII text: tab, newline, vertical tab, form feed, return, space.\<close>

definition spaceChar :: "char \<Rightarrow> bool" where
  "spaceChar c \<longleftrightarrow> of_char c \<in> {9 :: nat, 10, 11, 12, 13, 32}"

definition trimSpace :: "string \<Rightarrow> string" where
  "trimSpace s = rev (dropWhile spaceChar (rev (dropWhile spaceChar s)))"

section \<open>From the kubeconfig (client.go)\<close>

definition emptyAuthInfo :: authInfo where
  "emptyAuthInfo =
     \<lparr>ai_username = [], ai_password = [], ai_token = [], ai_tokenFile = [], ai_impersonate = [],
      ai_impersonateGroups = [], ai_impersonateUserExtra = Map.empty, ai_authProvider = None, ai_exec = None,
      ai_clientCertificateData = [], ai_clientKeyData = []\<rparr>"

definition restConfigOf :: "kubeCluster \<Rightarrow> authInfo \<Rightarrow> ('ts, 'ns) restConfig" where
  "restConfigOf cluster user =
     \<lparr>rc_host = kcl_server cluster,
      rc_username = ai_username user,
      rc_password = ai_password user,
      rc_bearerToken = ai_token user,
      rc_bearerTokenFile = ai_tokenFile user,
      rc_impersonate = (ai_impersonate user, ai_impersonateGroups user, ai_impersonateUserExtra user),
      rc_authProvider = ai_authProvider user,
      rc_execProvider = ai_exec user,
      rc_tls = (kcl_insecureSkipTLSVerify cluster, kcl_tlsServerName cluster, ai_clientCertificateData user,
        ai_clientKeyData user, kcl_certificateAuthorityData cluster),
      rc_proxy = None,
      rc_burst = 300,
      rc_qps = 50,
      rc_wrappers = []\<rparr>"

text \<open>The context of the current name is a nil pointer when it is missing.\<close>

definition fromAPIConfig :: "('w, 'ts, 'ns) clib \<Rightarrow> apiConfig \<Rightarrow> ('ts, 'ns) restConfig res" where
  "fromAPIConfig B c =
     (if ac_currentContext c = [] then Err (ErrNew ''currentContext not set in kubeconfig'')
      else
        (case ac_contexts c (ac_currentContext c) of
           None \<Rightarrow> Panic ''invalid memory address or nil pointer dereference''
         | Some ctx \<Rightarrow>
             (case ac_clusters c (ctx_cluster ctx) of
                None \<Rightarrow> Err (ErrNew (''cluster for currentContext ('' @ ac_currentContext c @ '') not found''))
              | Some cluster \<Rightarrow>
                  (let user = (case ac_authInfos c (ctx_authInfo ctx) of None \<Rightarrow> emptyAuthInfo | Some u \<Rightarrow> u);
                       config = restConfigOf cluster user in
                   if kcl_proxyURL cluster \<noteq> [] then
                     tryR (cl_parseURL B (kcl_proxyURL cluster)) (ErrWrap errParseProxyURL)
                       (\<lambda>proxyURL. Ok (config\<lparr>rc_proxy := Some proxyURL\<rparr>))
                   else Ok config))))"

section \<open>The identities\<close>

text \<open>gke.go: nil credentials mean the injected identity.\<close>

definition DefaultScopes :: "string list" where
  "DefaultScopes =
     [''https://www.googleapis.com/auth/cloud-platform'', ''https://www.googleapis.com/auth/userinfo.email'']"

definition isJSON :: "('w, 'ts, 'ns) clib \<Rightarrow> string \<Rightarrow> bool" where
  "isJSON B b \<longleftrightarrow> cl_rawMessage B b = Ok ()"

definition gke_WrapRESTConfig ::
  "('w, 'ts, 'ns) clib \<Rightarrow> ('ts, 'ns) restConfig \<Rightarrow> string option \<Rightarrow> string list \<Rightarrow> ('ts, 'ns) restConfig res" where
  "gke_WrapRESTConfig B rc credentials scopes =
     (case credentials of
        Some creds \<Rightarrow>
          if isJSON B creds then
            tryR (cl_googleFromJSON B scopes creds) (ErrWrap ''cannot load Google Application Credentials from JSON'')
              (\<lambda>ts. Ok (wrapTransport (GoogleWrapper ts) rc))
          else if \<not> cl_accessTokenValid B creds then Err (ErrNew ''Access token invalid'')
          else Ok (wrapTransport (GoogleWrapper (cl_staticTokenSource B creds)) rc)
      | None \<Rightarrow>
          tryR (cl_googleDefault B scopes) (ErrWrap ''failed to extract default credentials source'')
            (\<lambda>ts. Ok (wrapTransport (GoogleWrapper ts) rc)))"

text \<open>The keys of the credentials of azure.go.\<close>

abbreviation CredentialsKeyClientID :: string where
  "CredentialsKeyClientID \<equiv> ''clientId''"
abbreviation CredentialsKeyClientSecret :: string where
  "CredentialsKeyClientSecret \<equiv> ''clientSecret''"
abbreviation CredentialsKeyTenantID :: string where
  "CredentialsKeyTenantID \<equiv> ''tenantId''"
abbreviation CredentialsKeyClientCert :: string where
  "CredentialsKeyClientCert \<equiv> ''clientCertificate''"
abbreviation CredentialsKeyClientCertPass :: string where
  "CredentialsKeyClientCertPass \<equiv> ''clientCertificatePassword''"
abbreviation CredentialsKeyFederatedTokenFile :: string where
  "CredentialsKeyFederatedTokenFile \<equiv> ''federatedTokenFile''"
abbreviation CredentialsKeyAuthorityHost :: string where
  "CredentialsKeyAuthorityHost \<equiv> ''authorityHost''"
abbreviation CredentialsKeyServerID :: string where
  "CredentialsKeyServerID \<equiv> ''serverId''"

text \<open>azure.go: a map lookup of a missing key gives the empty string.\<close>

definition strAt :: "(string \<rightharpoonup> string) \<Rightarrow> string \<Rightarrow> string" where
  "strAt m k = (case m k of None \<Rightarrow> [] | Some v \<Rightarrow> v)"

definition kubeloginTokenOptionsFromRESTConfig ::
  "('w, 'ts, 'ns) clib \<Rightarrow> execConfig \<Rightarrow> azureOptions res" where
  "kubeloginTokenOptionsFromRESTConfig B ex =
     tryR (cl_parseServerID B (ec_args ex)) (ErrWrap ''could not parse execProvider arguments in kubeconfig'') (\<lambda>serverID.
       Ok \<lparr>az_serverID = serverID, az_loginMethod = [], az_clientID = [], az_clientSecret = [], az_tenantID = [],
           az_clientCert = [], az_clientCertPassword = [], az_federatedTokenFile = [], az_authorityHost = []\<rparr>)"

definition servicePrincipalOptions :: "(string \<rightharpoonup> string) \<Rightarrow> azureOptions \<Rightarrow> azureOptions" where
  "servicePrincipalOptions m opts0 =
     (let opts = opts0\<lparr>az_loginMethod := ''spn'', az_clientID := strAt m CredentialsKeyClientID,
            az_clientSecret := strAt m CredentialsKeyClientSecret, az_tenantID := strAt m CredentialsKeyTenantID\<rparr> in
      (case m CredentialsKeyClientCert of
         None \<Rightarrow> opts
       | Some cert \<Rightarrow>
           (case m CredentialsKeyClientCertPass of
              None \<Rightarrow> opts\<lparr>az_clientCert := cert\<rparr>
            | Some certpass \<Rightarrow> opts\<lparr>az_clientCert := cert, az_clientCertPassword := certpass\<rparr>)))"

definition workloadIdentityOptions :: "(string \<rightharpoonup> string) \<Rightarrow> azureOptions \<Rightarrow> azureOptions" where
  "workloadIdentityOptions m opts =
     opts\<lparr>az_loginMethod := ''workloadidentity'', az_clientID := strAt m CredentialsKeyClientID, az_tenantID := strAt m CredentialsKeyTenantID,
       az_serverID := strAt m CredentialsKeyServerID, az_federatedTokenFile := strAt m CredentialsKeyFederatedTokenFile,
       az_authorityHost := strAt m CredentialsKeyAuthorityHost\<rparr>"

definition azureLogin :: "string \<Rightarrow> (string \<rightharpoonup> string) \<Rightarrow> azureOptions \<Rightarrow> azureOptions" where
  "azureLogin identityType m opts =
     (if identityType = IdentityTypeAzureServicePrincipalCredentials then servicePrincipalOptions m opts
      else if identityType = IdentityTypeAzureWorkloadIdentityCredentials then workloadIdentityOptions m opts
      else opts)"

definition azure_WrapRESTConfig ::
  "('w, 'ts, 'ns) clib \<Rightarrow> ('ts, 'ns) restConfig \<Rightarrow> string option \<Rightarrow> string \<Rightarrow> ('ts, 'ns) restConfig res" where
  "azure_WrapRESTConfig B rc credentials identityType =
     tryR (cl_stringMap B (rawBytes credentials)) id (\<lambda>m.
       (case rc_execProvider rc of
          None \<Rightarrow>
            Err (ErrNew ''an identity configuration was specified but the provided kubeconfig does not have execProvider section'')
        | Some ex \<Rightarrow>
            if length (ec_args ex) < 1 then
              Err (ErrNew ''an identity configuration was specified but the provided kubeconfig does not have execProvider section'')
            else
              tryR (kubeloginTokenOptionsFromRESTConfig B ex) id (\<lambda>opts0.
                let rc = rc\<lparr>rc_execProvider := None\<rparr>; opts = azureLogin identityType m opts0 in
                tryR (cl_azureTokenProvider B opts) (ErrWrap ''cannot build azure token provider'') (\<lambda>_.
                  Ok (wrapTransport (AzureWrapper opts) rc)))))"

abbreviation envVarOrganization :: string where
  "envVarOrganization \<equiv> ''ORGANIZATION''"

text \<open>upbound.go: the organization is the third argument or, with precedence, an environment variable.\<close>

definition upboundOrg :: "execConfig \<Rightarrow> string" where
  "upboundOrg ex =
     (let org = (if 2 < length (ec_args ex) then ec_args ex ! 2 else []) in
      (case find (\<lambda>env. fst env = envVarOrganization) (ec_env ex) of
         Some env \<Rightarrow> snd env
       | None \<Rightarrow> org))"

definition upbound_WrapRESTConfig ::
  "('ts, 'ns) restConfig \<Rightarrow> string \<Rightarrow> ('ts, 'ns) restConfig res" where
  "upbound_WrapRESTConfig rc token =
     (case rc_execProvider rc of
        None \<Rightarrow>
          Err (ErrNew ''an identity configuration was specified but the provided kubeconfig does not have execProvider section'')
      | Some ex \<Rightarrow>
          if ec_apiVersion ex \<noteq> ''client.authentication.k8s.io/v1'' then
            Err (ErrNew ''execProvider APIVersion is not client.authentication.k8s.io/v1'')
          else if ec_command ex \<noteq> ''up'' \<or> length (ec_args ex) < 2 \<or>
                  (ec_args ex ! 0 \<noteq> ''org'' \<and> ec_args ex ! 0 \<noteq> ''organization'') \<or> ec_args ex ! 1 \<noteq> ''token'' then
            Err (ErrNew ''execProvider command is not up organization (org) token'')
          else
            (let org = upboundOrg ex in
             if org = [] then
               Err (ErrNew ''organization name not provided in execProvider args or ORGANIZATION env var'')
             else Ok (wrapTransport (UpboundWrapper token org) (rc\<lparr>rc_execProvider := None\<rparr>))))"

text \<open>aws.go: the cluster name is the last part of the resource of an ARN.\<close>

definition extractClusterNameFromARN :: "('w, 'ts, 'ns) clib \<Rightarrow> string \<Rightarrow> string res" where
  "extractClusterNameFromARN B arnString =
     (if \<not> cl_isARN B arnString then Ok arnString
      else
        tryR (cl_arnResource B arnString) (ErrWrap ''failed to parse ARN'') (\<lambda>resource.
          let parts = splitOn (CHR ''/'') resource in
          if length parts < 2 then Err (ErrNew (''invalid EKS cluster ARN resource format: '' @ resource))
          else Ok (parts ! (length parts - 1))))"

definition aws_WrapRESTConfig ::
  "('w, 'ts, 'ns) clib \<Rightarrow> ('ts, 'ns) restConfig \<Rightarrow> string \<Rightarrow> ('ts, 'ns) restConfig res" where
  "aws_WrapRESTConfig B rc clusterNameFromKubeconfig =
     tryR (extractClusterNameFromARN B clusterNameFromKubeconfig)
       (ErrWrap ''failed to extract cluster name from kubeconfig'') (\<lambda>clusterName.
     tryR (cl_awsDefaultConfig B) (ErrWrap ''failed to load AWS config using default credentials chain'') (\<lambda>_.
       Ok ((wrapTransport (AwsWrapper clusterName) rc)\<lparr>rc_execProvider := None\<rparr>)))"

text \<open>nebius.go: the three fields of the credentials must not be empty.\<close>

definition parseCredentials :: "('w, 'ts, 'ns) clib \<Rightarrow> string \<Rightarrow> credentialsFile res" where
  "parseCredentials B credentials =
     tryR (cl_nebiusCredentials B credentials) (ErrWrap ''cannot parse Nebius service account credentials'') (\<lambda>cf.
       if cf_privateKey cf = [] \<or> cf_publicKeyID cf = [] \<or> cf_serviceAccountID cf = [] then
         Err (ErrNew ''Nebius service account credentials must contain non-empty private_key, public_key_id and account_id'')
       else Ok cf)"

definition newTokenSource ::
  "('w, 'ts, 'ns) clib \<Rightarrow> string \<Rightarrow> string \<Rightarrow> string \<Rightarrow> 'w \<Rightarrow> 'ns res \<times> 'w" where
  "newTokenSource B privateKey publicKeyID serviceAccountID w =
     tryS (cl_nebiusNew B privateKey publicKeyID serviceAccountID w) id (\<lambda>sdk w. (Ok sdk, w))"

text \<open>The sources are those of the store; without a store (\<open>False\<close>) the source is built anew.\<close>

definition nebiusSource ::
  "klib \<Rightarrow> bool \<Rightarrow> string \<Rightarrow> ('w \<Rightarrow> 'ns res \<times> 'w) \<Rightarrow> (string, 'ns) sources \<times> 'w
     \<Rightarrow> 'ns res \<times> ((string, 'ns) sources \<times> 'w)" where
  "nebiusSource L store credentials build s =
     (if store then SourceForCredentials L credentials build s
      else (case build (snd s) of (r, w) \<Rightarrow> (r, (fst s, w))))"

definition nebius_WrapRESTConfig ::
  "klib \<Rightarrow> ('w, 'ts, 'ns) clib \<Rightarrow> ('ts, 'ns) restConfig \<Rightarrow> string \<Rightarrow> bool \<Rightarrow> (string, 'ns) sources \<times> 'w
     \<Rightarrow> ('ts, 'ns) restConfig res \<times> ((string, 'ns) sources \<times> 'w)" where
  "nebius_WrapRESTConfig L B rc credentials store s =
     tryS (liftR (parseCredentials B credentials) s) id (\<lambda>sc s.
       let build = newTokenSource B (cf_privateKey sc) (cf_publicKeyID sc) (cf_serviceAccountID sc) in
       tryS (nebiusSource L store credentials build s) (ErrWrap ''cannot build Nebius IAM token source'') (\<lambda>src s.
         (Ok (wrapTransport (NebiusWrapper src) (rc\<lparr>rc_execProvider := None\<rparr>)), s)))"

section \<open>The REST config of a provider config\<close>

type_synonym ('w, 'ns) authState = "(string, 'ns) sources \<times> 'w"

definition extractFor ::
  "('w, 'ts, 'ns) clib \<Rightarrow> providerCredentials \<Rightarrow> ('w, 'ns) authState \<Rightarrow> string option res \<times> ('w, 'ns) authState" where
  "extractFor B cd s =
     (case cl_extractCredentials B (pcd_source cd) (pcd_selectors cd) (snd s) of (r, w) \<Rightarrow> (r, (fst s, w)))"

definition notSupported :: "string \<Rightarrow> string \<Rightarrow> goerr" where
  "notSupported source identity =
     ErrNew (source @ '' is not supported as identity source for identity type '' @ identity)"

text \<open>The cluster name of the current context, for AWS; empty with the in-cluster config.\<close>

definition contextCluster :: "apiConfig option \<Rightarrow> string" where
  "contextCluster ac =
     (case ac of
        None \<Rightarrow> []
      | Some c \<Rightarrow>
          (if ac_currentContext c \<noteq> [] then
             (case ac_contexts c (ac_currentContext c) of Some ctx \<Rightarrow> ctx_cluster ctx | None \<Rightarrow> [])
           else []))"

text \<open>The switch over the identity types.\<close>

definition injectIdentity ::
  "klib \<Rightarrow> ('w, 'ts, 'ns) clib \<Rightarrow> providerIdentity \<Rightarrow> apiConfig option \<Rightarrow> ('ts, 'ns) restConfig
     \<Rightarrow> ('w, 'ns) authState \<Rightarrow> ('ts, 'ns) restConfig res \<times> ('w, 'ns) authState" where
  "injectIdentity L B idn ac rc s =
     (let t = pid_type idn; cd = pid_credentials idn;
          injected = (pcd_source cd = CredentialsSourceInjectedIdentity) in
      if t = IdentityTypeGoogleApplicationCredentials then
        (if injected then
           (mapErr (ErrWrap errInjectGoogleCredentials) (gke_WrapRESTConfig B rc None DefaultScopes), s)
         else
           tryS (extractFor B cd s) (ErrWrap errExtractGoogleCredentials) (\<lambda>creds s.
             (mapErr (ErrWrap errInjectGoogleCredentials) (gke_WrapRESTConfig B rc creds DefaultScopes), s)))
      else if t = IdentityTypeAzureServicePrincipalCredentials \<or> t = IdentityTypeAzureWorkloadIdentityCredentials then
        (if injected then
           (Err (notSupported CredentialsSourceInjectedIdentity IdentityTypeAzureServicePrincipalCredentials), s)
         else
           tryS (extractFor B cd s) (ErrWrap errExtractAzureCredentials) (\<lambda>creds s.
             (mapErr (ErrWrap errInjectAzureCredentials) (azure_WrapRESTConfig B rc creds t), s)))
      else if t = IdentityTypeUpboundTokens then
        (if injected then (Err (notSupported CredentialsSourceInjectedIdentity IdentityTypeUpboundTokens), s)
         else
           tryS (extractFor B cd s) (ErrWrap errExtractUpboundCredentials) (\<lambda>staticToken s.
             (mapErr (ErrWrap errInjectUpboundCredentials)
                (upbound_WrapRESTConfig rc (trimSpace (rawBytes staticToken))), s)))
      else if t = IdentityTypeAWSWebIdentityCredentials then
        (if injected then
           (mapErr (ErrWrap errInjectAWSCredentials) (aws_WrapRESTConfig B rc (contextCluster ac)), s)
         else (Err (notSupported (pcd_source cd) IdentityTypeAWSWebIdentityCredentials), s))
      else if t = IdentityTypeNebiusServiceAccountCredentials then
        (if injected then (Err (notSupported CredentialsSourceInjectedIdentity IdentityTypeNebiusServiceAccountCredentials), s)
         else
           tryS (extractFor B cd s) (ErrWrap errExtractNebiusCredentials) (\<lambda>creds s.
           tryS (nebius_WrapRESTConfig L B rc (rawBytes creds) True s)
             (ErrWrap errInjectNebiusCredentials) (\<lambda>rc s. (Ok rc, s))))
      else (Err (ErrNew (''unknown identity type: '' @ t)), s))"

definition baseConfig ::
  "('w, 'ts, 'ns) clib \<Rightarrow> providerCredentials \<Rightarrow> ('w, 'ns) authState
     \<Rightarrow> (('ts, 'ns) restConfig \<times> apiConfig option) res \<times> ('w, 'ns) authState" where
  "baseConfig B cd s =
     (if pcd_source cd = CredentialsSourceInjectedIdentity then
        tryS (liftR (cl_inCluster B) s) (ErrWrap errCreateRestConfig) (\<lambda>rc s.
          (Ok (rc, None), s))
      else
        tryS (extractFor B cd s) (ErrWrap errGetCreds) (\<lambda>kc s.
        tryS (liftR (cl_load B (rawBytes kc)) s) (ErrWrap ''failed to load kubeconfig'') (\<lambda>ac s.
        tryS (liftR (fromAPIConfig B ac) s) (ErrWrap errCreateRestConfig) (\<lambda>rc s.
          (Ok (rc, Some ac), s)))))"

definition restForProviderConfig ::
  "klib \<Rightarrow> ('w, 'ts, 'ns) clib \<Rightarrow> providerConfigSpec \<Rightarrow> ('w, 'ns) authState
     \<Rightarrow> ('ts, 'ns) restConfig res \<times> ('w, 'ns) authState" where
  "restForProviderConfig L B pc s =
     tryS (baseConfig B (pcs_credentials pc) s) id (\<lambda>(rc, ac) s.
       (case pcs_identity pc of
          None \<Rightarrow> (Ok rc, s)
        | Some idn \<Rightarrow> injectIdentity L B idn ac rc s))"

text \<open>
  The interface \<open>Builder\<close> has one method, so that a builder is its function, and \<open>BuilderFn\<close> makes a function a builder.
\<close>

type_synonym ('v, 'k, 'rc) builder = "providerConfigSpec \<Rightarrow> 'v \<Rightarrow> ('k \<times> 'rc) res \<times> 'v"

definition BuilderFn_KubeForProviderConfig :: "('v, 'k, 'rc) builder \<Rightarrow> ('v, 'k, 'rc) builder" where
  "BuilderFn_KubeForProviderConfig fn pc = fn pc"

text \<open>\<open>client.New\<close> is a parameter, as it connects to the cluster.\<close>

definition KubeForProviderConfig ::
  "klib \<Rightarrow> ('w, 'ts, 'ns) clib \<Rightarrow> (('ts, 'ns) restConfig \<Rightarrow> 'w \<Rightarrow> 'k res \<times> 'w) \<Rightarrow> providerConfigSpec
     \<Rightarrow> ('w, 'ns) authState \<Rightarrow> ('k \<times> ('ts, 'ns) restConfig) res \<times> ('w, 'ns) authState" where
  "KubeForProviderConfig L B newClient pc s =
     tryS (restForProviderConfig L B pc s) (ErrWrap ''cannot get REST config for provider'') (\<lambda>rc s.
       (case newClient rc (snd s) of
          (Ok k, w) \<Rightarrow> (Ok (k, rc), (fst s, w))
        | (Err e, w) \<Rightarrow> (Err (ErrWrap ''cannot create Kubernetes client for provider'' e), (fst s, w))
        | (Panic p, w) \<Rightarrow> (Panic p, (fst s, w))))"

section \<open>Facts\<close>

text \<open>Which wrapper belongs to which identity, and which sources of credentials it accepts.\<close>

fun wrapperFor :: "string \<Rightarrow> ('ts, 'ns) wrapper \<Rightarrow> bool" where
  "wrapperFor t (GoogleWrapper _) = (t = IdentityTypeGoogleApplicationCredentials)"
| "wrapperFor t (AzureWrapper _) =
     (t = IdentityTypeAzureServicePrincipalCredentials \<or> t = IdentityTypeAzureWorkloadIdentityCredentials)"
| "wrapperFor t (UpboundWrapper _ _) = (t = IdentityTypeUpboundTokens)"
| "wrapperFor t (AwsWrapper _) = (t = IdentityTypeAWSWebIdentityCredentials)"
| "wrapperFor t (NebiusWrapper _) = (t = IdentityTypeNebiusServiceAccountCredentials)"

definition supportedIdentity :: "providerIdentity \<Rightarrow> bool" where
  "supportedIdentity idn \<longleftrightarrow>
     (let t = pid_type idn; injected = (pcd_source (pid_credentials idn) = CredentialsSourceInjectedIdentity) in
      t = IdentityTypeGoogleApplicationCredentials \<or>
      (t = IdentityTypeAWSWebIdentityCredentials \<and> injected) \<or>
      (t \<in> {IdentityTypeAzureServicePrincipalCredentials, IdentityTypeAzureWorkloadIdentityCredentials,
           IdentityTypeUpboundTokens, IdentityTypeNebiusServiceAccountCredentials} \<and> \<not> injected))"

text \<open>\<open>rc\<close> is \<open>rc0\<close> with one more wrapper, and without the exec plugin unless Google provides the token.\<close>

definition injectedWrapper :: "string \<Rightarrow> ('ts, 'ns) restConfig \<Rightarrow> ('ts, 'ns) restConfig \<Rightarrow> bool" where
  "injectedWrapper t rc0 rc \<longleftrightarrow>
     (\<exists>w. wrapperFor t w \<and>
        rc = rc0\<lparr>rc_wrappers := rc_wrappers rc0 @ [w],
                 rc_execProvider := (if t = IdentityTypeGoogleApplicationCredentials then rc_execProvider rc0 else None)\<rparr>)"

lemma injectedWrapperI:
  assumes "wrapperFor t w"
    and "rc = (wrapTransport w rc0)\<lparr>rc_execProvider :=
      (if t = IdentityTypeGoogleApplicationCredentials then rc_execProvider rc0 else None)\<rparr>"
  shows "injectedWrapper t rc0 rc"
  unfolding injectedWrapper_def using assms by (intro exI [of _ w]) (simp add: wrapTransport_def)

lemma gke_Ok:
  assumes "gke_WrapRESTConfig B rc0 creds scopes = Ok rc"
  shows "injectedWrapper IdentityTypeGoogleApplicationCredentials rc0 rc"
proof -
  from assms obtain ts where "rc = wrapTransport (GoogleWrapper ts) rc0"
    by (auto simp: gke_WrapRESTConfig_def res_simps split: option.splits if_splits)
  then show ?thesis by (intro injectedWrapperI [of _ "GoogleWrapper ts"]) (simp_all add: wrapTransport_def)
qed

lemma azure_Ok:
  assumes "azure_WrapRESTConfig B rc0 creds t = Ok rc"
    and "t = IdentityTypeAzureServicePrincipalCredentials \<or> t = IdentityTypeAzureWorkloadIdentityCredentials"
  shows "injectedWrapper t rc0 rc"
proof -
  from assms(1) obtain opts where "rc = wrapTransport (AzureWrapper opts) (rc0\<lparr>rc_execProvider := None\<rparr>)"
    by (auto simp: azure_WrapRESTConfig_def res_simps Let_def split: option.splits if_splits)
  with assms(2) show ?thesis
    by (intro injectedWrapperI [of _ "AzureWrapper opts"]) (auto simp: wrapTransport_def)
qed

lemma upbound_Ok:
  assumes "upbound_WrapRESTConfig rc0 token = Ok rc"
  shows "injectedWrapper IdentityTypeUpboundTokens rc0 rc"
proof -
  from assms obtain org where "rc = wrapTransport (UpboundWrapper token org) (rc0\<lparr>rc_execProvider := None\<rparr>)"
    by (auto simp: upbound_WrapRESTConfig_def Let_def split: option.splits if_splits)
  then show ?thesis by (intro injectedWrapperI [of _ "UpboundWrapper token org"]) (simp_all add: wrapTransport_def)
qed

lemma aws_Ok:
  assumes "aws_WrapRESTConfig B rc0 name = Ok rc"
  shows "injectedWrapper IdentityTypeAWSWebIdentityCredentials rc0 rc"
proof -
  from assms obtain c where "rc = (wrapTransport (AwsWrapper c) rc0)\<lparr>rc_execProvider := None\<rparr>"
    by (auto simp: aws_WrapRESTConfig_def res_simps)
  then show ?thesis by (intro injectedWrapperI [of _ "AwsWrapper c"]) simp_all
qed

lemma nebius_Ok:
  assumes "nebius_WrapRESTConfig L B rc0 creds store s = (Ok rc, t)"
  shows "injectedWrapper IdentityTypeNebiusServiceAccountCredentials rc0 rc"
proof -
  from assms obtain src where "rc = wrapTransport (NebiusWrapper src) (rc0\<lparr>rc_execProvider := None\<rparr>)"
    by (auto simp: nebius_WrapRESTConfig_def Let_def res_simps)
  then show ?thesis by (intro injectedWrapperI [of _ "NebiusWrapper src"]) (simp_all add: wrapTransport_def)
qed

lemma injectIdentity_Ok:
  assumes "injectIdentity L B idn ac rc0 s = (Ok rc, t)"
  shows "supportedIdentity idn \<and> injectedWrapper (pid_type idn) rc0 rc"
proof -
  consider "pid_type idn = IdentityTypeGoogleApplicationCredentials"
    | "pid_type idn = IdentityTypeAzureServicePrincipalCredentials \<or> pid_type idn = IdentityTypeAzureWorkloadIdentityCredentials"
    | "pid_type idn = IdentityTypeUpboundTokens" | "pid_type idn = IdentityTypeAWSWebIdentityCredentials"
    | "pid_type idn = IdentityTypeNebiusServiceAccountCredentials"
    using assms by (auto simp: injectIdentity_def Let_def split: if_splits)
  then show ?thesis
  proof cases
    case 1
    then show ?thesis
      using assms
      by (auto simp: injectIdentity_def Let_def res_simps supportedIdentity_def dest: gke_Ok split: if_splits)
  next
    case 2
    then have "pcd_source (pid_credentials idn) \<noteq> CredentialsSourceInjectedIdentity"
      and "\<exists>creds. azure_WrapRESTConfig B rc0 creds (pid_type idn) = Ok rc"
      using assms by (auto simp: injectIdentity_def Let_def res_simps split: if_splits)
    with 2 azure_Ok [of B rc0 _ "pid_type idn" rc] show ?thesis by (auto simp: supportedIdentity_def Let_def)
  next
    case 3
    then show ?thesis
      using assms
      by (auto simp: injectIdentity_def Let_def res_simps supportedIdentity_def dest: upbound_Ok split: if_splits)
  next
    case 4
    then show ?thesis
      using assms
      by (auto simp: injectIdentity_def Let_def res_simps supportedIdentity_def dest: aws_Ok split: if_splits)
  next
    case 5
    then show ?thesis
      using assms
      by (auto simp: injectIdentity_def Let_def res_simps supportedIdentity_def dest: nebius_Ok split: if_splits)
  qed
qed

section \<open>Properties\<close>


definition ref_cluster :: kubeCluster where
  "ref_cluster =
     \<lparr>kcl_server = ''https://in-cluster'', kcl_insecureSkipTLSVerify = False, kcl_tlsServerName = [],
      kcl_certificateAuthorityData = ''ca'', kcl_proxyURL = []\<rparr>"

definition ref_clib :: "(unit, string, nat) clib" where
  "ref_clib =
     \<lparr>cl_inCluster = Ok (restConfigOf ref_cluster emptyAuthInfo),
      cl_extractCredentials = \<lambda>src sel w. (Ok (Some sel), w),
      cl_load = \<lambda>kc. Err (ErrNew ''bad kubeconfig''),
      cl_parseURL = \<lambda>u. Ok u,
      cl_rawMessage = \<lambda>s. Err (ErrNew ''invalid character''),
      cl_stringMap = \<lambda>s. Ok Map.empty,
      cl_googleFromJSON = \<lambda>scopes s. Ok s,
      cl_accessTokenValid = \<lambda>s. s \<noteq> [],
      cl_staticTokenSource = \<lambda>s. s,
      cl_googleDefault = \<lambda>scopes. Ok ''default'',
      cl_parseServerID = \<lambda>as. Ok [],
      cl_azureTokenProvider = \<lambda>opts. Ok (),
      cl_awsDefaultConfig = Ok (),
      cl_isARN = \<lambda>s. s \<noteq> [],
      cl_arnResource = \<lambda>s. Ok s,
      cl_nebiusCredentials = \<lambda>s. Ok \<lparr>cf_privateKey = s, cf_publicKeyID = s, cf_serviceAccountID = s\<rparr>,
      cl_nebiusNew = \<lambda>key keyID account w. (Ok 0, w)\<rparr>"

definition ref_googleConfig :: providerConfigSpec where
  "ref_googleConfig =
     \<lparr>pcs_credentials = \<lparr>pcd_source = ''InjectedIdentity'', pcd_selectors = []\<rparr>,
      pcs_identity = Some \<lparr>pid_type = ''GoogleApplicationCredentials'',
        pid_credentials = \<lparr>pcd_source = ''Secret'', pcd_selectors = ''token''\<rparr>\<rparr>\<rparr>"


text \<open>
  \<open>fromAPIConfig\<close> on every kubeconfig: it succeeds only with the cluster of the current context, a
  missing user being an empty one; an empty current context and a missing cluster are errors, but a
  current context that is not in the file makes it dereference a nil pointer, and nothing else does.
\<close>

theorem fromAPIConfig_outcome:
  assumes "\<And>u p. cl_parseURL B u \<noteq> Panic p"
  shows "((\<exists>p. fromAPIConfig B c = Panic p) \<longleftrightarrow>
      ac_currentContext c \<noteq> [] \<and> ac_contexts c (ac_currentContext c) = None) \<and>
    (\<forall>rc. fromAPIConfig B c = Ok rc \<longrightarrow>
      (\<exists>ctx cluster. ac_contexts c (ac_currentContext c) = Some ctx \<and> ac_clusters c (ctx_cluster ctx) = Some cluster \<and>
        rc_host rc = kcl_server cluster \<and>
        rc_execProvider rc = (case ac_authInfos c (ctx_authInfo ctx) of None \<Rightarrow> None | Some u \<Rightarrow> ai_exec u)))"
proof
  show "(\<exists>p. fromAPIConfig B c = Panic p) \<longleftrightarrow>
      ac_currentContext c \<noteq> [] \<and> ac_contexts c (ac_currentContext c) = None"
    using assms by (auto simp: fromAPIConfig_def Let_def split: option.splits res_splits if_splits)
  show "\<forall>rc. fromAPIConfig B c = Ok rc \<longrightarrow>
      (\<exists>ctx cluster. ac_contexts c (ac_currentContext c) = Some ctx \<and> ac_clusters c (ctx_cluster ctx) = Some cluster \<and>
        rc_host rc = kcl_server cluster \<and>
        rc_execProvider rc = (case ac_authInfos c (ctx_authInfo ctx) of None \<Rightarrow> None | Some u \<Rightarrow> ai_exec u))"
    by (auto simp: fromAPIConfig_def Let_def restConfigOf_def emptyAuthInfo_def res_simps
        split: option.splits if_splits)
qed

definition ref_danglingConfig :: apiConfig where
  "ref_danglingConfig =
     \<lparr>ac_currentContext = ''prod'', ac_contexts = Map.empty, ac_clusters = Map.empty, ac_authInfos = Map.empty\<rparr>"

lemma fromAPIConfig_outcome_witness: "\<exists>p. fromAPIConfig ref_clib ref_danglingConfig = Panic p"
  using fromAPIConfig_outcome [of ref_clib ref_danglingConfig] by (simp add: ref_clib_def ref_danglingConfig_def)

text \<open>
  The cluster name for EKS tokens: a plain name is used as it is; of an ARN whose resource is
  \<open>cluster/name\<close> it is the name; an ARN resource without a slash is an error.
\<close>

theorem extractClusterName_outcome:
  "(\<not> cl_isARN B s \<longrightarrow> extractClusterNameFromARN B s = Ok s) \<and>
   (\<forall>n. cl_isARN B s \<longrightarrow> cl_arnResource B s = Ok (''cluster/'' @ n) \<longrightarrow> CHR ''/'' \<notin> set n \<longrightarrow>
      extractClusterNameFromARN B s = Ok n) \<and>
   (\<forall>r. cl_isARN B s \<longrightarrow> cl_arnResource B s = Ok r \<longrightarrow> CHR ''/'' \<notin> set r \<longrightarrow>
      \<not> isOk (extractClusterNameFromARN B s))"
proof (intro conjI allI impI)
  fix n
  assume "cl_isARN B s" "cl_arnResource B s = Ok (''cluster/'' @ n)" "CHR ''/'' \<notin> set n"
  moreover from this(3) have "splitOn (CHR ''/'') (''cluster/'' @ n) = [''cluster'', n]"
    by (simp add: splitOn_no_sep)
  ultimately show "extractClusterNameFromARN B s = Ok n"
    by (simp add: extractClusterNameFromARN_def Let_def)
qed (simp_all add: extractClusterNameFromARN_def Let_def splitOn_no_sep)

lemma extractClusterName_outcome_witness:
  "extractClusterNameFromARN ref_clib ''cluster/prod'' = Ok ''prod'' \<and>
   \<not> isOk (extractClusterNameFromARN ref_clib ''prod'')"
  using extractClusterName_outcome [of ref_clib "''cluster/prod''"] extractClusterName_outcome [of ref_clib "''prod''"]
  by (simp add: ref_clib_def)

text \<open>
  A Nebius SDK client is built once per credentials: after a config was built with some
  credentials, building another config with them leaves the store and the outside world alone and
  injects the same token source.
\<close>

theorem nebius_source_reused:
  assumes "nebius_WrapRESTConfig L B rc0 creds True s = (Ok rc, t)"
  shows "\<exists>src. rc = wrapTransport (NebiusWrapper src) (rc0\<lparr>rc_execProvider := None\<rparr>) \<and>
    nebius_WrapRESTConfig L B rc1 creds True t =
      (Ok (wrapTransport (NebiusWrapper src) (rc1\<lparr>rc_execProvider := None\<rparr>)), t)"
proof -
  from assms obtain sc src where p: "parseCredentials B creds = Ok sc"
    and load: "SourceForCredentials L creds (newTokenSource B (cf_privateKey sc) (cf_publicKeyID sc) (cf_serviceAccountID sc)) s =
      (Ok src, t)"
    and rc: "rc = wrapTransport (NebiusWrapper src) (rc0\<lparr>rc_execProvider := None\<rparr>)"
    by (auto simp: nebius_WrapRESTConfig_def nebiusSource_def Let_def res_simps)
  have "SourceForCredentials L creds (newTokenSource B (cf_privateKey sc) (cf_publicKeyID sc) (cf_serviceAccountID sc)) t =
      (Ok src, t)"
    using load unfolding SourceForCredentials_def by (rule sdk.load_twice)
  with p rc show ?thesis by (intro exI [of _ src]) (simp add: nebius_WrapRESTConfig_def nebiusSource_def Let_def)
qed

lemma nebius_source_reused_witness:
  "\<exists>rc t src. nebius_WrapRESTConfig ref_lib ref_clib (restConfigOf ref_cluster emptyAuthInfo) ''key'' True (NewSDKStore, ()) = (Ok rc, t) \<and>
     nebius_WrapRESTConfig ref_lib ref_clib rc ''key'' True t =
       (Ok (wrapTransport (NebiusWrapper src) (rc\<lparr>rc_execProvider := None\<rparr>)), t)"
proof -
  obtain rc t where run: "nebius_WrapRESTConfig ref_lib ref_clib (restConfigOf ref_cluster emptyAuthInfo) ''key'' True
      (NewSDKStore, ()) = (Ok rc, t)"
    by (simp add: nebius_WrapRESTConfig_def nebiusSource_def newTokenSource_def parseCredentials_def ref_clib_def
        SourceForCredentials_def sourceForKey_def sourceLocked_def NewSDKStore_def Let_def)
  from nebius_source_reused [OF run, of rc] run show ?thesis by auto
qed

text \<open>Without a store nothing is kept: the sources stay as they are.\<close>

lemma nebius_without_store:
  assumes "nebius_WrapRESTConfig L B rc0 creds False s = (r, t)"
  shows "fst t = fst s"
  using assms
  by (cases "parseCredentials B creds"; cases s)
    (auto simp: nebius_WrapRESTConfig_def nebiusSource_def Let_def liftR_def split: prod.splits res_splits)

text \<open>
  The Upbound identity reads the organization from the exec plugin it replaces: it is accepted only
  for \<open>up org token\<close> of the v1 client API with an organization, the first environment entry
  \<open>ORGANIZATION\<close> taking precedence over the third argument.
\<close>

theorem upbound_organization:
  assumes "upbound_WrapRESTConfig rc token = Ok rc'"
  shows "\<exists>ex rest org. rc_execProvider rc = Some ex \<and> ec_apiVersion ex = ''client.authentication.k8s.io/v1'' \<and>
    (ec_args ex = [''org'', ''token''] @ rest \<or> ec_args ex = [''organization'', ''token''] @ rest) \<and>
    ec_command ex = ''up'' \<and> org \<noteq> [] \<and>
    (case map_of (ec_env ex) ''ORGANIZATION'' of Some v \<Rightarrow> org = v | None \<Rightarrow> rest \<noteq> [] \<and> org = hd rest) \<and>
    rc' = wrapTransport (UpboundWrapper token org) (rc\<lparr>rc_execProvider := None\<rparr>)"
proof -
  from assms obtain ex where ex: "rc_execProvider rc = Some ex"
    and v: "ec_apiVersion ex = ''client.authentication.k8s.io/v1''" "ec_command ex = ''up''"
    and args: "\<not> length (ec_args ex) < 2" "ec_args ex ! 0 = ''org'' \<or> ec_args ex ! 0 = ''organization''"
      "ec_args ex ! 1 = ''token''"
    and org: "upboundOrg ex \<noteq> []"
    and rc': "rc' = wrapTransport (UpboundWrapper token (upboundOrg ex)) (rc\<lparr>rc_execProvider := None\<rparr>)"
    by (auto simp: upbound_WrapRESTConfig_def Let_def split: option.splits if_splits)
  from args(1) obtain a b rest where l: "ec_args ex = a # b # rest"
    by (cases "ec_args ex"; cases "tl (ec_args ex)") auto
  have env: "map_option snd (find (\<lambda>e. fst e = ''ORGANIZATION'') es) = map_of es ''ORGANIZATION''"
    for es :: "(string \<times> string) list"
    by (induction es) auto
  have "case map_of (ec_env ex) ''ORGANIZATION'' of Some v \<Rightarrow> upboundOrg ex = v
    | None \<Rightarrow> rest \<noteq> [] \<and> upboundOrg ex = hd rest"
    using org l env [of "ec_env ex"]
    by (cases rest; cases "map_of (ec_env ex) ''ORGANIZATION''") (auto simp: upboundOrg_def split: option.splits)
  with ex v args(2,3) l org rc' show ?thesis by auto
qed

definition ref_upConfig :: "(string, nat) restConfig" where
  "ref_upConfig = (restConfigOf ref_cluster emptyAuthInfo)\<lparr>rc_execProvider :=
     Some \<lparr>ec_apiVersion = ''client.authentication.k8s.io/v1'', ec_command = ''up'',
       ec_args = [''org'', ''token'', ''acme''], ec_env = [(''ORGANIZATION'', ''initech'')]\<rparr>\<rparr>"

lemma upbound_organization_witness:
  "\<exists>rc'. upbound_WrapRESTConfig ref_upConfig ''t'' = Ok rc' \<and>
     rc' = wrapTransport (UpboundWrapper ''t'' ''initech'') (ref_upConfig\<lparr>rc_execProvider := None\<rparr>)"
proof -
  obtain rc' where run: "upbound_WrapRESTConfig ref_upConfig ''t'' = Ok rc'"
    by (simp add: upbound_WrapRESTConfig_def ref_upConfig_def upboundOrg_def)
  from upbound_organization [OF run] run show ?thesis by (auto simp: ref_upConfig_def)
qed

end
