(* ===== verification/Connector.thy ===== *)
theory Connector
  imports External State_Cache Extractor Rest_Config
begin

text \<open>
  \<open>connector\<close> of \<open>internal/controller/*/object/object.go\<close>: \<open>Connect\<close> wires the components together over
  the state of the process, which is the outside world, the desired-state caches, the parser caches
  and the informers.
\<close>

section \<open>The state of the process\<close>

record ('w, 'p) process =
  pr_world :: 'w
  pr_stateCaches :: cacheManager
  pr_parsers :: "'p parserCacheManager"
  pr_informers :: resourceInformers

definition onWorld :: "('w \<Rightarrow> 'a res \<times> 'w) \<Rightarrow> ('w, 'p) process \<Rightarrow> 'a res \<times> ('w, 'p) process" where
  "onWorld f s = (case f (pr_world s) of (r, w) \<Rightarrow> (r, s\<lparr>pr_world := w\<rparr>))"

text \<open>A client changes the world only.\<close>

definition worldClient :: "'w kclient \<Rightarrow> ('w, 'p) process kclient" where
  "worldClient K =
     \<lparr>k_get = \<lambda>a k n. onWorld (k_get K a k n),
      k_update = \<lambda>u. onWorld (k_update K u),
      k_apply = \<lambda>u. onWorld (k_apply K u),
      k_ssa = \<lambda>dry owner u. onWorld (k_ssa K dry owner u),
      k_jsonPatch = \<lambda>u patch. onWorld (k_jsonPatch K u patch),
      k_delete = \<lambda>policy u. onWorld (k_delete K policy u),
      k_updateObject = \<lambda>obj. onWorld (k_updateObject K obj)\<rparr>"

section \<open>Caches\<close>

definition managedOf :: "scope \<Rightarrow> kobject \<Rightarrow> managed" where
  "managedOf sc obj = (case sc of Namespaced \<Rightarrow> NamespacedObject obj | ClusterScoped \<Rightarrow> ClusterObject obj)"

lemma managedHash_managedOf [simp]: "managedHash L (managedOf sc obj) = Some (manifestHash L obj)"
  by (simp add: managedOf_def split: scope.split)

text \<open>The \<open>*DesiredStateCache\<close> at an address, behind the interface \<open>state.Cache\<close>.\<close>

definition stateCacheRef :: "klib \<Rightarrow> scope \<Rightarrow> nat \<Rightarrow> ('w, 'p) process cacheRef" where
  "stateCacheRef L sc a =
     \<lparr>cr_GetStateFor = \<lambda>obj s. GetStateFor L (managedOf sc obj) (readCache a (pr_stateCaches s)),
      cr_SetStateFor = \<lambda>obj v s. s\<lparr>pr_stateCaches :=
        writeCache a (SetStateFor L (managedOf sc obj) v (readCache a (pr_stateCaches s))) (pr_stateCaches s)\<rparr>\<rparr>"

text \<open>\<open>desiredStateCacheFn\<close> and \<open>desiredStateCacheCleanupFn\<close>: closures over the UID.\<close>

definition loadStateCache ::
  "klib \<Rightarrow> scope \<Rightarrow> string \<Rightarrow> ('w, 'p) process \<Rightarrow> ('w, 'p) process cacheRef \<times> ('w, 'p) process" where
  "loadStateCache L sc uid s =
     (case LoadOrNewForManaged uid (pr_stateCaches s) of
        (a, m) \<Rightarrow> (stateCacheRef L sc a, s\<lparr>pr_stateCaches := m\<rparr>))"

definition cleanupStateCache :: "string \<Rightarrow> ('w, 'p) process \<Rightarrow> ('w, 'p) process" where
  "cleanupStateCache uid s = s\<lparr>pr_stateCaches := RemoveManaged uid (pr_stateCaches s)\<rparr>"

text \<open>\<open>Extract\<close> of the extractor that \<open>NewCachingUnstructuredExtractor\<close> builds over a parser cache.\<close>

definition parserExtract ::
  "klib \<Rightarrow> ('w, 'p) xlib \<Rightarrow> nat \<Rightarrow> unstructured \<Rightarrow> string \<Rightarrow> ('w, 'p) process
     \<Rightarrow> unstructured res \<times> ('w, 'p) process" where
  "parserExtract L X a object fieldManager s =
     (case Extract L X object fieldManager (readParserCache a (pr_parsers s), pr_world s) of
        (r, (c, w)) \<Rightarrow> (r, s\<lparr>pr_world := w, pr_parsers := writeParserCache a c (pr_parsers s)\<rparr>))"

definition NewCachingUnstructuredExtractor ::
  "klib \<Rightarrow> ('w, 'p) xlib \<Rightarrow> nat
     \<Rightarrow> (unstructured \<Rightarrow> string \<Rightarrow> ('w, 'p) process \<Rightarrow> unstructured res \<times> ('w, 'p) process) res" where
  "NewCachingUnstructuredExtractor L X a = Ok (parserExtract L X a)"

declare NewCachingUnstructuredExtractor_def [simp]

text \<open>The message of a parser cache that cannot be loaded is a template over the name.\<close>

definition errLoadSSAParserCacheTemplate :: "string \<Rightarrow> string" where
  "errLoadSSAParserCacheTemplate name = ''cannot load parser cache for ProviderConfig '' @ name"

section \<open>The connector\<close>

text \<open>
  The interfaces the connector holds, as functions: the usage tracker, the \<open>Get\<close> of a (cluster)
  provider config with the local client, the client builder, the creation of a discovery client, and
  the kind observer with its default REST config (nil when watches are off).
\<close>

type_synonym 'w tracker = "managed \<Rightarrow> 'w \<Rightarrow> unit res \<times> 'w"

definition modernTrackerFn_Track :: "'w tracker \<Rightarrow> 'w tracker" where
  "modernTrackerFn_Track fn mg w = fn mg w"

definition legacyTrackerFn_Track :: "'w tracker \<Rightarrow> 'w tracker" where
  "legacyTrackerFn_Track fn mg w = fn mg w"

record providerConfig =
  pc_uid :: string
  pc_name :: string
  pc_spec :: providerConfigSpec

record ('w, 'rc, 'p) connector =
  cn_kube :: "'w kclient"
  cn_track :: "'w tracker"
  cn_getProviderConfig :: "string \<Rightarrow> nsname \<Rightarrow> 'w \<Rightarrow> providerConfig res \<times> 'w"
  cn_clientBuilder :: "providerConfigSpec \<Rightarrow> 'w \<Rightarrow> ('w kclient \<times> 'rc) res \<times> 'w"
  cn_discovery :: "'rc \<Rightarrow> ('w, 'p) xlib res"
  cn_kindObserver :: "('rc cacheLib \<times> 'rc) option"
  cn_sanitizeSecrets :: bool
  cn_removeManagedFields :: bool
  cn_ssaEnabled :: bool
  cn_legacyCSAFieldManagers :: "string list"

abbreviation ProviderConfigKind :: string where "ProviderConfigKind \<equiv> ''ProviderConfig''"
abbreviation ClusterProviderConfigKind :: string where "ClusterProviderConfigKind \<equiv> ''ClusterProviderConfig''"

definition resolveProviderConfig ::
  "('w, 'rc, 'p) connector \<Rightarrow> kobject \<Rightarrow> 'w \<Rightarrow> providerConfig res \<times> 'w" where
  "resolveProviderConfig N obj w =
     (case sp_providerConfigReference (ko_spec obj) of
        None \<Rightarrow> (Panic nilDereference, w)
      | Some r \<Rightarrow>
          if pcr_kind r = ProviderConfigKind then
            tryS (cn_getProviderConfig N ProviderConfigKind (koNamespace obj, pcr_name r) w)
              (ErrWrap errGetProviderConfig) (\<lambda>npc w. (Ok npc, w))
          else if pcr_kind r = ClusterProviderConfigKind then
            tryS (cn_getProviderConfig N ClusterProviderConfigKind ([], pcr_name r) w)
              (ErrWrap errGetProviderConfig) (\<lambda>cpc w. (Ok cpc, w))
          else (Err (ErrNew (''unknown provider config kind: '' @ goQuote (pcr_kind r))), w))"

text \<open>The cluster-scoped controller knows one kind, whose objects have no namespace.\<close>

definition resolveProviderConfig_cluster ::
  "('w, 'rc, 'p) connector \<Rightarrow> kobject \<Rightarrow> 'w \<Rightarrow> providerConfig res \<times> 'w" where
  "resolveProviderConfig_cluster N obj w =
     (case sp_providerConfigReference (ko_spec obj) of
        None \<Rightarrow> (Panic nilDereference, w)
      | Some r \<Rightarrow>
          tryS (cn_getProviderConfig N ProviderConfigKind ([], pcr_name r) w)
            (ErrWrap errGetProviderConfig) (\<lambda>pc w. (Ok pc, w)))"

definition observerOf ::
  "('w, 'rc, 'p) connector \<Rightarrow> (('w, 'p) process, 'rc) kindObserver option" where
  "observerOf N =
     map_option (\<lambda>(K, config) rc pc gvks s.
       s\<lparr>pr_informers := WatchResources K config rc pc gvks (pr_informers s)\<rparr>) (cn_kindObserver N)"

text \<open>The external client with the patching syncer, and its upgrade to server-side apply.\<close>

definition patchingExternal ::
  "klib \<Rightarrow> ('w, 'rc, 'p) connector \<Rightarrow> 'w kclient \<Rightarrow> 'rc \<Rightarrow> (('w, 'p) process, 'rc) external" where
  "patchingExternal L N k rc =
     \<lparr>ex_client = worldClient k,
      ex_rest = rc,
      ex_localClient = worldClient (cn_kube N),
      ex_syncer = PatchingResourceSyncer L (worldClient k),
      ex_kindObserver = observerOf N,
      ex_sanitizeSecrets = cn_sanitizeSecrets N,
      ex_removeManagedFields = cn_removeManagedFields N,
      ex_desiredStateCacheCleanupFn = None\<rparr>"

definition newSSASyncer ::
  "klib \<Rightarrow> scope \<Rightarrow> string list \<Rightarrow> 'w kclient \<Rightarrow> string
     \<Rightarrow> (unstructured \<Rightarrow> string \<Rightarrow> ('w, 'p) process \<Rightarrow> unstructured res \<times> ('w, 'p) process)
     \<Rightarrow> ('w, 'p) process ssaSyncer" where
  "newSSASyncer L sc legacy k uid newExtractor =
     \<lparr>ss_client = worldClient k,
      ss_extract = newExtractor,
      ss_desiredStateCacheFn = loadStateCache L sc uid,
      ss_legacyCSAFieldManagers = legacy\<rparr>"

text \<open>The same with the extractor over the parser cache at an address.\<close>

definition connectedSSA ::
  "klib \<Rightarrow> ('w, 'p) xlib \<Rightarrow> scope \<Rightarrow> string list \<Rightarrow> 'w kclient \<Rightarrow> string \<Rightarrow> nat \<Rightarrow> ('w, 'p) process ssaSyncer" where
  "connectedSSA L X sc legacy k uid parserCache =
     \<lparr>ss_client = worldClient k,
      ss_extract = parserExtract L X parserCache,
      ss_desiredStateCacheFn = loadStateCache L sc uid,
      ss_legacyCSAFieldManagers = legacy\<rparr>"

lemma newSSASyncer_connected [simp]:
  "newSSASyncer L sc legacy k uid (parserExtract L X a) = connectedSSA L X sc legacy k uid a"
  by (simp add: newSSASyncer_def connectedSSA_def)

definition enableSSA ::
  "klib \<Rightarrow> scope \<Rightarrow> ('w, 'rc, 'p) connector \<Rightarrow> string \<Rightarrow> providerConfig \<Rightarrow> 'w kclient \<Rightarrow> 'rc
     \<Rightarrow> (('w, 'p) process, 'rc) external \<Rightarrow> ('w, 'p) process
     \<Rightarrow> (('w, 'p) process, 'rc) external res \<times> ('w, 'p) process" where
  "enableSSA L sc N uid pc k rc e s =
     tryS (liftR (cn_discovery N rc) s) (ErrWrap errCreateDiscoveryClient) (\<lambda>X s.
       (case LoadOrNewCacheForProviderConfig (pc_uid pc) (pr_parsers s) of
          (r, m) \<Rightarrow>
            tryS (r, s\<lparr>pr_parsers := m\<rparr>)
              (ErrWrap (errLoadSSAParserCacheTemplate (pc_name pc))) (\<lambda>parserCache s.
            tryS (liftR (NewCachingUnstructuredExtractor L X parserCache) s)
              (ErrWrap errCreateSSAExtractor) (\<lambda>newExtractor s.
              (Ok (e\<lparr>ex_syncer := SSAResourceSyncer L
                      (newSSASyncer L sc (cn_legacyCSAFieldManagers N) k uid newExtractor),
                     ex_desiredStateCacheCleanupFn := Some (cleanupStateCache uid)\<rparr>), s)))))"

text \<open>The type assertion on the managed resource.\<close>

fun objectOf :: "scope \<Rightarrow> managed \<Rightarrow> kobject option" where
  "objectOf Namespaced (NamespacedObject obj) = Some obj"
| "objectOf ClusterScoped (ClusterObject obj) = Some obj"
| "objectOf _ _ = None"

definition Connect ::
  "klib \<Rightarrow> scope \<Rightarrow> ('w, 'rc, 'p) connector \<Rightarrow> managed \<Rightarrow> ('w, 'p) process
     \<Rightarrow> (('w, 'p) process, 'rc) external res \<times> ('w, 'p) process" where
  "Connect L sc N mg s =
     (case objectOf sc mg of
        None \<Rightarrow> (Err (ErrNew errNotKubernetesObject), s)
      | Some obj \<Rightarrow>
          tryS (onWorld (cn_track N mg) s) (ErrWrap errTrackPCUsage) (\<lambda>_ s.
          tryS (onWorld (case sc of Namespaced \<Rightarrow> resolveProviderConfig N obj
                         | ClusterScoped \<Rightarrow> resolveProviderConfig_cluster N obj) s) id (\<lambda>pc s.
          tryS (onWorld (cn_clientBuilder N (pc_spec pc)) s)
            (ErrWrap errBuildKubeForProviderConfig) (\<lambda>(k, rc) s.
            let e = patchingExternal L N k rc in
            if cn_ssaEnabled N then enableSSA L sc N (koUID obj) pc k rc e s else (Ok e, s)))))"

definition Connect_cluster ::
  "klib \<Rightarrow> ('w, 'rc, 'p) connector \<Rightarrow> managed \<Rightarrow> ('w, 'p) process
     \<Rightarrow> (('w, 'p) process, 'rc) external res \<times> ('w, 'p) process" where
  "Connect_cluster L N mg s = Connect L ClusterScoped N mg s"

section \<open>The client builder\<close>

text \<open>
  The builder the controllers are set up with: the world is the memory of the Nebius token sources
  with everything outside the process, as \<open>Rest_Config\<close> has it.
\<close>

definition identityAwareBuilder ::
  "klib \<Rightarrow> ('v, 'ts, 'ns) clib \<Rightarrow> (('ts, 'ns) restConfig \<Rightarrow> 'v \<Rightarrow> ('v, 'ns) authState kclient res \<times> 'v)
     \<Rightarrow> providerConfigSpec \<Rightarrow> ('v, 'ns) authState
     \<Rightarrow> (('v, 'ns) authState kclient \<times> ('ts, 'ns) restConfig) res \<times> ('v, 'ns) authState" where
  "identityAwareBuilder L B newClient = KubeForProviderConfig L B newClient"

end
