(* ===== verification/Cluster_Scope.thy ===== *)
theory Cluster_Scope
  imports Connector Finalizer
begin

text \<open>
  The cluster-scoped controller, \<open>internal/controller/cluster/object\<close>. Its functions are those of the
  namespaced package, line by line, over the type \<open>v1alpha2.Object\<close>, which has the same fields; what
  differs (the key of a provider config, the request of an Object, \<open>Connect\<close>) takes the scope as an
  argument elsewhere. Here the functions of the package get their names, and the handlers of both
  scopes the type assertion on the managed resource that they start with.
\<close>

section \<open>The handlers of a managed resource\<close>

text \<open>
  \<open>obj, ok := mg.(*Object)\<close>: anything else is refused before any work; the Object is a pointer, so what
  the handler does to it is seen in the managed resource.
\<close>

definition onObject ::
  "scope \<Rightarrow> (kobject \<times> 's \<Rightarrow> 'a res \<times> (kobject \<times> 's)) \<Rightarrow> managed \<times> 's \<Rightarrow> 'a res \<times> (managed \<times> 's)" where
  "onObject sc f st =
     (case objectOf sc (fst st) of
        None \<Rightarrow> (Err (ErrNew errNotKubernetesObject), st)
      | Some obj \<Rightarrow> (case f (obj, snd st) of (r, (obj, s)) \<Rightarrow> (r, (managedOf sc obj, s))))"

text \<open>\<open>managed.ExternalClient\<close> and the finalizer, as the managed reconciler holds them.\<close>

record 's externalClient =
  ec_Observe :: "managed \<times> 's \<Rightarrow> externalObservation res \<times> (managed \<times> 's)"
  ec_Create :: "managed \<times> 's \<Rightarrow> unit res \<times> (managed \<times> 's)"
  ec_Update :: "managed \<times> 's \<Rightarrow> unit res \<times> (managed \<times> 's)"
  ec_Delete :: "managed \<times> 's \<Rightarrow> unit res \<times> (managed \<times> 's)"

definition externalClientOf :: "klib \<Rightarrow> celEnv \<Rightarrow> scope \<Rightarrow> ('s, 'rc) external \<Rightarrow> 's externalClient" where
  "externalClientOf L C sc E =
     \<lparr>ec_Observe = onObject sc (Observe L C sc E), ec_Create = onObject sc (Create L C E),
      ec_Update = onObject sc (Update L C E), ec_Delete = onObject sc (Delete L E)\<rparr>"

definition Create_cluster ::
  "klib \<Rightarrow> celEnv \<Rightarrow> ('s, 'rc) external \<Rightarrow> managed \<times> 's \<Rightarrow> unit res \<times> (managed \<times> 's)" where
  "Create_cluster L C E = onObject ClusterScoped (Create L C E)"

definition Update_cluster ::
  "klib \<Rightarrow> celEnv \<Rightarrow> ('s, 'rc) external \<Rightarrow> managed \<times> 's \<Rightarrow> unit res \<times> (managed \<times> 's)" where
  "Update_cluster L C E = onObject ClusterScoped (Update L C E)"

definition Delete_cluster ::
  "klib \<Rightarrow> ('s, 'rc) external \<Rightarrow> managed \<times> 's \<Rightarrow> unit res \<times> (managed \<times> 's)" where
  "Delete_cluster L E = onObject ClusterScoped (Delete L E)"

definition AddFinalizer_cluster ::
  "klib \<Rightarrow> 's kclient \<Rightarrow> managed \<times> 's \<Rightarrow> unit res \<times> (managed \<times> 's)" where
  "AddFinalizer_cluster L K = onObject ClusterScoped (AddFinalizer L K)"

definition RemoveFinalizer_cluster ::
  "klib \<Rightarrow> 's kclient \<Rightarrow> managed \<times> 's \<Rightarrow> unit res \<times> (managed \<times> 's)" where
  "RemoveFinalizer_cluster L K = onObject ClusterScoped (RemoveFinalizer L K)"

section \<open>The types of the package\<close>

text \<open>
  The structs have the fields of the namespaced ones, with \<open>v1alpha2.Object\<close> for the Object and
  \<open>legacyTracker\<close> for the tracker.
\<close>

type_synonym ('s, 'rc) kindObserver_cluster = "('s, 'rc) kindObserver"
type_synonym 's resourceSyncer_cluster = "'s resourceSyncer"
type_synonym 's ssaSyncer_cluster = "'s ssaSyncer"
type_synonym ('w, 'rc, 'p) connector_cluster = "('w, 'rc, 'p) connector"
type_synonym ('s, 'rc) external_cluster = "('s, 'rc) external"
type_synonym gvkWithConfig_cluster = gvkWithConfig
type_synonym resourceCache_cluster = resourceCache
type_synonym resourceInformers_cluster = resourceInformers

definition Disconnect_cluster :: "kobject \<times> 's \<Rightarrow> unit res \<times> (kobject \<times> 's)" where
  "Disconnect_cluster st = (Ok (), st)"

definition pointerRegex_cluster :: "string \<Rightarrow> string option" where
  "pointerRegex_cluster = pointerRegex"

section \<open>Helpers (object.go, syncer.go, cleanerr.go)\<close>

definition ssaFieldOwner_cluster ::
  "string \<Rightarrow> string" where
  "ssaFieldOwner_cluster = ssaFieldOwner"

definition parseManifest_cluster ::
  "klib \<Rightarrow> kobject \<Rightarrow> unstructured res" where
  "parseManifest_cluster = parseManifest"

definition parseStatus_cluster ::
  "klib \<Rightarrow> kobject \<Rightarrow> unstructured option res" where
  "parseStatus_cluster = parseStatus"

definition getReferenceInfo_cluster ::
  "reference \<Rightarrow> string \<times> string \<times> string \<times> string" where
  "getReferenceInfo_cluster = getReferenceInfo"

definition unstructuredFromObjectRef_cluster ::
  "objectReference \<Rightarrow> unstructured" where
  "unstructuredFromObjectRef_cluster = unstructuredFromObjectRef"

definition cleanErrorMessage_cluster ::
  "goerr \<Rightarrow> string" where
  "cleanErrorMessage_cluster = cleanErrorMessage"

definition CleanErr_cluster ::
  "goerr option \<Rightarrow> goerr option" where
  "CleanErr_cluster = CleanErr"

text \<open>\<open>apis/cluster/object/v1alpha2/types.go\<close>.\<close>

definition ApplyFromFieldPathPatch_cluster ::
  "klib \<Rightarrow> reference \<Rightarrow> unstructured \<Rightarrow> kobject \<Rightarrow> kobject res" where
  "ApplyFromFieldPathPatch_cluster = ApplyFromFieldPathPatch"

definition patchFieldValueToObject_cluster ::
  "klib \<Rightarrow> string \<Rightarrow> json \<Rightarrow> kobject \<Rightarrow> kobject res" where
  "patchFieldValueToObject_cluster = patchFieldValueToObject"

section \<open>Readiness (object.go)\<close>

definition checkDeriveFromObject_cluster ::
  "klib \<Rightarrow> unstructured \<Rightarrow> bool res" where
  "checkDeriveFromObject_cluster = checkDeriveFromObject"

definition checkAllConditions_cluster ::
  "klib \<Rightarrow> unstructured \<Rightarrow> bool res" where
  "checkAllConditions_cluster = checkAllConditions"

definition checkDeriveFromCelQuery_cluster ::
  "klib \<Rightarrow> celEnv \<Rightarrow> kobject \<Rightarrow> unstructured \<Rightarrow> (bool \<times> goerr option) res" where
  "checkDeriveFromCelQuery_cluster = checkDeriveFromCelQuery"

definition updateConditionFromObserved_cluster ::
  "klib \<Rightarrow> celEnv \<Rightarrow> kobject \<Rightarrow> unstructured \<Rightarrow> kobject res" where
  "updateConditionFromObserved_cluster = updateConditionFromObserved"

section \<open>Syncers (syncer.go)\<close>

definition Patching_GetObservedState_cluster ::
  "klib \<Rightarrow> kobject \<Rightarrow> unstructured option \<Rightarrow> unstructured option res" where
  "Patching_GetObservedState_cluster = Patching_GetObservedState"

definition Patching_GetDesiredState_cluster ::
  "klib \<Rightarrow> kobject \<Rightarrow> unstructured option res" where
  "Patching_GetDesiredState_cluster = Patching_GetDesiredState"

definition Patching_SyncResource_cluster ::
  "klib \<Rightarrow> 's kclient \<Rightarrow> kobject \<Rightarrow> unstructured \<Rightarrow> 's \<Rightarrow> unstructured res \<times> 's" where
  "Patching_SyncResource_cluster = Patching_SyncResource"

definition isFinalizersOnlyManagedFieldsEntry_cluster ::
  "klib \<Rightarrow> mfe \<Rightarrow> bool" where
  "isFinalizersOnlyManagedFieldsEntry_cluster = isFinalizersOnlyManagedFieldsEntry"

definition needSSAFieldManagerUpgrade_cluster ::
  "klib \<Rightarrow> string list \<Rightarrow> unstructured option \<Rightarrow> bool" where
  "needSSAFieldManagerUpgrade_cluster = needSSAFieldManagerUpgrade"

definition maybeUpgradeFieldManagers_cluster ::
  "klib \<Rightarrow> 's ssaSyncer \<Rightarrow> kobject \<Rightarrow> 's \<Rightarrow> unit res \<times> 's" where
  "maybeUpgradeFieldManagers_cluster = maybeUpgradeFieldManagers"

definition SSA_GetObservedState_cluster ::
  "'s ssaSyncer \<Rightarrow> kobject \<Rightarrow> unstructured option \<Rightarrow> 's \<Rightarrow> unstructured option res \<times> 's" where
  "SSA_GetObservedState_cluster = SSA_GetObservedState"

definition SSA_GetDesiredState_cluster ::
  "klib \<Rightarrow> 's ssaSyncer \<Rightarrow> kobject \<Rightarrow> unstructured \<Rightarrow> 's \<Rightarrow> unstructured option res \<times> 's" where
  "SSA_GetDesiredState_cluster = SSA_GetDesiredState"

definition SSA_SyncResource_cluster ::
  "klib \<Rightarrow> 's ssaSyncer \<Rightarrow> kobject \<Rightarrow> unstructured \<Rightarrow> 's \<Rightarrow> unstructured res \<times> 's" where
  "SSA_SyncResource_cluster = SSA_SyncResource"

section \<open>Observation and references (object.go)\<close>

definition shouldWatch_cluster ::
  "('s, 'rc) external \<Rightarrow> kobject \<Rightarrow> bool" where
  "shouldWatch_cluster = shouldWatch"

definition setAtProvider_cluster ::
  "klib \<Rightarrow> celEnv \<Rightarrow> ('s, 'rc) external \<Rightarrow> unstructured \<Rightarrow> kobject \<times> 's \<Rightarrow> unit res \<times> (kobject \<times> 's)" where
  "setAtProvider_cluster = setAtProvider"

definition resolveReferencies_cluster ::
  "klib \<Rightarrow> ('s, 'rc) external \<Rightarrow> kobject \<times> 's \<Rightarrow> unit res \<times> (kobject \<times> 's)" where
  "resolveReferencies_cluster = resolveReferencies"

definition connectionDetails_cluster ::
  "klib \<Rightarrow> 's kclient \<Rightarrow> connectionDetail list \<Rightarrow> 's \<Rightarrow> connDetails res \<times> 's" where
  "connectionDetails_cluster = connectionDetails"

definition handleObservation_cluster ::
  "klib \<Rightarrow> ('s, 'rc) external \<Rightarrow> unstructured option \<Rightarrow> unstructured option \<Rightarrow> kobject \<times> 's
     \<Rightarrow> externalObservation res \<times> (kobject \<times> 's)" where
  "handleObservation_cluster = handleObservation"

definition handleRefFinalizer_cluster ::
  "'s kclient \<Rightarrow> kobject \<Rightarrow> 's refFinalizerFn \<Rightarrow> bool \<Rightarrow> 's \<Rightarrow> unit res \<times> 's" where
  "handleRefFinalizer_cluster = handleRefFinalizer"

section \<open>Indexes and informers (indexes.go, informers.go)\<close>

definition refKeyProviderGVK_cluster ::
  "string \<Rightarrow> string \<Rightarrow> string \<Rightarrow> string \<Rightarrow> string" where
  "refKeyProviderGVK_cluster = refKeyProviderGVK"

definition refKeyProviderNamespacedNameGVK_cluster ::
  "string \<Rightarrow> string \<Rightarrow> string \<Rightarrow> string \<Rightarrow> string \<Rightarrow> string" where
  "refKeyProviderNamespacedNameGVK_cluster = refKeyProviderNamespacedNameGVK"

definition parseAPIVersion_cluster ::
  "string \<Rightarrow> string \<times> string" where
  "parseAPIVersion_cluster = parseAPIVersion"

definition Start_cluster ::
  "resourceInformers \<Rightarrow> unit res \<times> resourceInformers" where
  "Start_cluster = Start"

definition WatchResources_cluster ::
  "'rc cacheLib \<Rightarrow> 'rc \<Rightarrow> 'rc option \<Rightarrow> string \<Rightarrow> gvk list \<Rightarrow> resourceInformers \<Rightarrow> resourceInformers" where
  "WatchResources_cluster = WatchResources"

definition cleanupResourceInformers_cluster ::
  "(string \<Rightarrow> kobject list res) \<Rightarrow> (gvkWithConfig \<times> nat) list \<Rightarrow> resourceInformers \<Rightarrow> resourceInformers" where
  "cleanupResourceInformers_cluster = cleanupResourceInformers"

section \<open>Facts\<close>

text \<open>A handler leaves the kind of the managed resource as it is, and refuses any other kind.\<close>

lemma onObject_other: "objectOf sc mg = None \<Longrightarrow> onObject sc f (mg, s) = (Err (ErrNew errNotKubernetesObject), (mg, s))"
  by (simp add: onObject_def)

lemma objectOf_managedOf [simp]: "objectOf sc (managedOf sc obj) = Some obj"
  by (cases sc) (simp_all add: managedOf_def)

lemma onObject_managedOf [simp]:
  "onObject sc f (managedOf sc obj, s) = (case f (obj, s) of (r, (obj, s)) \<Rightarrow> (r, (managedOf sc obj, s)))"
  by (simp add: onObject_def)

end
