(* ===== verification/Handlers.thy ===== *)
theory Handlers
  imports Cluster_Scope Observation
begin

text \<open>What the managed reconciler may rely on, whatever resource it passes and whatever happens.\<close>

text \<open>An observation the reconciler can interpret: connection details only of an existing, synced resource.\<close>

definition wfObservation :: "externalObservation \<Rightarrow> bool" where
  "wfObservation ob \<longleftrightarrow>
     (eo_resourceUpToDate ob \<longrightarrow> eo_resourceExists ob) \<and>
     (eo_connectionDetails ob \<noteq> None \<longrightarrow> eo_resourceUpToDate ob)"

lemma handleObservation_wf:
  "handleObservation L E lastState desired st = (Ok ob, st') \<Longrightarrow> wfObservation ob"
  by (auto simp: handleObservation_def wfObservation_def Let_def res_simps split: if_splits)

lemma Observe_wf:
  assumes "Observe L C sc E st = (Ok ob, st')"
  shows "wfObservation ob"
  using assms
proof (cases rule: Observe_OkE)
  case (1 st1 m)
  from 1(2) show ?thesis
  proof (cases rule: observeManifest_OkE)
    case (missing s e t)
    then show ?thesis by (simp add: wfObservation_def notExists_def)
  next
    case found
    from found(5) show ?thesis by (rule handleObservation_wf)
  qed
qed

lemma onObject_typed:
  assumes "onObject sc f (mg, s) = (r, (mg', t))"
  shows "(objectOf sc mg = None \<and> r = Err (ErrNew ''managed resource is not an Object custom resource'') \<and> mg' = mg \<and> t = s) \<or>
    (\<exists>obj obj'. objectOf sc mg = Some obj \<and> mg' = managedOf sc obj' \<and> f (obj, s) = (r, (obj', t)))"
  using assms by (auto simp: onObject_def split: option.splits prod.splits)

text \<open>
  C37. The handlers keep the type of the managed resource: each refuses, without doing anything, a
  resource that is not an Object of its scope, and leaves an Object of its scope one; and what \<open>Observe\<close>
  reports is well formed.
\<close>

theorem handlers_typed:
  assumes X: "X = externalClientOf L C sc E"
    and observe: "ec_Observe X (mg, s) = (ro, (mgo, so))"
    and act: "h \<in> {ec_Create X, ec_Update X, ec_Delete X}" "h (mg, s) = (ra, (mga, sa))"
  shows "(objectOf sc mg = None \<longrightarrow>
      ro = Err (ErrNew ''managed resource is not an Object custom resource'') \<and> mgo = mg \<and> so = s \<and>
      ra = Err (ErrNew ''managed resource is not an Object custom resource'') \<and> mga = mg \<and> sa = s) \<and>
    (objectOf sc mg \<noteq> None \<longrightarrow> objectOf sc mgo \<noteq> None \<and> objectOf sc mga \<noteq> None) \<and>
    (\<forall>ob. ro = Ok ob \<longrightarrow> wfObservation ob)"
proof -
  have o: "onObject sc (Observe L C sc E) (mg, s) = (ro, (mgo, so))"
    using observe by (simp add: X externalClientOf_def)
  obtain f where a: "onObject sc f (mg, s) = (ra, (mga, sa))"
    using act by (auto simp: X externalClientOf_def)
  show ?thesis
    using onObject_typed [OF o] onObject_typed [OF a] by (auto dest: Observe_wf)
qed

theorem handlers_typed_witness:
  "let X = externalClientOf ref_lib ref_cel Namespaced ref_external;
       mg = ClusterObject (ref_object ''settings'' ref_manifest) in
   fst (ec_Observe X (mg, Map.empty)) = Err (ErrNew ''managed resource is not an Object custom resource'') \<and>
   snd (ec_Delete X (mg, Map.empty)) = (mg, Map.empty)"
proof -
  let ?X = "externalClientOf ref_lib ref_cel Namespaced ref_external"
  let ?mg = "ClusterObject (ref_object ''settings'' ref_manifest)"
  obtain ro mgo so ra mga sa where
    "ec_Observe ?X (?mg, Map.empty) = (ro, (mgo, so))" "ec_Delete ?X (?mg, Map.empty) = (ra, (mga, sa))"
    by (metis prod.exhaust_sel)
  from this handlers_typed [where h = "ec_Delete ?X", OF refl this(1) _ this(2)] show ?thesis by simp
qed

end
