(* ===== verification/Utf8.thy ===== *)
theory Utf8
  imports Prelude
begin

text \<open>
  The part of Go's \<open>unicode/utf8\<close> that ranging over a string, \<open>utf8.RuneLen\<close> and \<open>bytes.Buffer.WriteRune\<close>
  use: decoding of a string of bytes (characters) into runes, where every byte that starts no valid
  sequence gives \<open>RuneError\<close>, and the encoding of runes.
\<close>

definition RuneError :: nat where "RuneError = 0xFFFD"

definition surrogate :: "nat \<Rightarrow> bool" where
  "surrogate r \<longleftrightarrow> 0xD800 \<le> r \<and> r \<le> 0xDFFF"

definition validRune :: "nat \<Rightarrow> bool" where
  "validRune r \<longleftrightarrow> r \<le> 0x10FFFF \<and> \<not> surrogate r"

definition RuneLen :: "nat \<Rightarrow> int" where
  "RuneLen r =
     (if r < 0x80 then 1 else if r < 0x800 then 2 else if surrogate r then -1
      else if r < 0x10000 then 3 else if r \<le> 0x10FFFF then 4 else -1)"

definition chr :: "nat \<Rightarrow> char" where
  "chr n = char_of n"

definition cont :: "nat \<Rightarrow> nat \<Rightarrow> char \<Rightarrow> bool" where
  "cont lo hi c \<longleftrightarrow> lo \<le> of_char c \<and> of_char c \<le> hi"

definition validEncoding :: "nat \<Rightarrow> string" where
  "validEncoding r =
     (if r < 0x80 then [chr r]
      else if r < 0x800 then [chr (0xC0 + r div 64), chr (0x80 + r mod 64)]
      else if r < 0x10000 then [chr (0xE0 + r div 64 div 64), chr (0x80 + r div 64 mod 64), chr (0x80 + r mod 64)]
      else [chr (0xF0 + r div 64 div 64 div 64), chr (0x80 + r div 64 div 64 mod 64), chr (0x80 + r div 64 mod 64),
            chr (0x80 + r mod 64)])"

definition encodeRune :: "nat \<Rightarrow> string" where
  "encodeRune r = validEncoding (if validRune r then r else RuneError)"

text \<open>The second byte is restricted for the first bytes whose range of runes is cut.\<close>

definition secondLow :: "nat \<Rightarrow> nat" where
  "secondLow b = (if b = 0xE0 then 0xA0 else if b = 0xF0 then 0x90 else 0x80)"

definition secondHigh :: "nat \<Rightarrow> nat" where
  "secondHigh b = (if b = 0xED then 0x9F else if b = 0xF4 then 0x8F else 0xBF)"

definition decodeRune :: "char \<Rightarrow> string \<Rightarrow> nat \<times> nat" where
  "decodeRune c cs =
     (let b = of_char c; bad = (RuneError, 1) in
      if b < 0x80 then (b, 1)
      else if 0xC2 \<le> b \<and> b \<le> 0xDF then
        (case cs of
           c1 # _ \<Rightarrow> if cont 0x80 0xBF c1 then ((b - 0xC0) * 64 + (of_char c1 - 0x80), 2) else bad
         | _ \<Rightarrow> bad)
      else if 0xE0 \<le> b \<and> b \<le> 0xEF then
        (case cs of
           c1 # c2 # _ \<Rightarrow>
             if cont (secondLow b) (secondHigh b) c1 \<and> cont 0x80 0xBF c2
             then (((b - 0xE0) * 64 + (of_char c1 - 0x80)) * 64 + (of_char c2 - 0x80), 3) else bad
         | _ \<Rightarrow> bad)
      else if 0xF0 \<le> b \<and> b \<le> 0xF4 then
        (case cs of
           c1 # c2 # c3 # _ \<Rightarrow>
             if cont (secondLow b) (secondHigh b) c1 \<and> cont 0x80 0xBF c2 \<and> cont 0x80 0xBF c3
             then ((((b - 0xF0) * 64 + (of_char c1 - 0x80)) * 64 + (of_char c2 - 0x80)) * 64 + (of_char c3 - 0x80), 4)
             else bad
         | _ \<Rightarrow> bad)
      else bad)"

fun decodeRunes :: "string \<Rightarrow> nat list" where
  "decodeRunes [] = []"
| "decodeRunes (c # cs) = (case decodeRune c cs of (r, w) \<Rightarrow> r # decodeRunes (drop (w - 1) cs))"

definition encodeRunes :: "nat list \<Rightarrow> string" where
  "encodeRunes rs = concat (map encodeRune rs)"

section \<open>Facts\<close>

lemma of_char_chr [simp]: "n < 256 \<Longrightarrow> of_char (chr n) = n"
  by (simp add: chr_def)

lemma encodeRunes_simps [simp]:
  "encodeRunes [] = []" "encodeRunes (r # rs) = encodeRune r @ encodeRunes rs"
  "encodeRunes (rs @ ss) = encodeRunes rs @ encodeRunes ss"
  by (simp_all add: encodeRunes_def)

lemma RuneLen_encodeRune: "validRune r \<Longrightarrow> RuneLen r = int (length (encodeRune r))"
  by (auto simp: RuneLen_def encodeRune_def validEncoding_def validRune_def)

text \<open>The runes of a string are valid, and an ASCII rune is a byte of the string.\<close>

lemma validRune_multibyte:
  "x < 32 \<Longrightarrow> y < 64 \<Longrightarrow> validRune (x * 64 + y)"
  "x < 16 \<Longrightarrow> y < 64 \<Longrightarrow> z < 64 \<Longrightarrow> x = 13 \<longrightarrow> y < 32 \<Longrightarrow> validRune ((x * 64 + y) * 64 + z)"
  "x < 5 \<Longrightarrow> y < 64 \<Longrightarrow> z < 64 \<Longrightarrow> u < 64 \<Longrightarrow> 1 \<le> x \<or> 16 \<le> y \<Longrightarrow> x = 4 \<longrightarrow> y < 16 \<Longrightarrow>
     validRune (((x * 64 + y) * 64 + z) * 64 + u)"
proof -
  show "validRune (x * 64 + y)" if "x < 32" "y < 64"
    using that by (simp add: validRune_def surrogate_def)
  show "validRune ((x * 64 + y) * 64 + z)" if "x < 16" "y < 64" "z < 64" "x = 13 \<longrightarrow> y < 32"
  proof -
    have "x < 13 \<or> x = 13 \<and> y < 32 \<or> 13 < x" using that(4) by linarith
    then consider "x < 13" | "x = 13" "y < 32" | "13 < x" by blast
    then show ?thesis using that(1-3) by cases (auto simp: validRune_def surrogate_def)
  qed
  show "validRune (((x * 64 + y) * 64 + z) * 64 + u)"
    if "x < 5" "y < 64" "z < 64" "u < 64" "1 \<le> x \<or> 16 \<le> y" "x = 4 \<longrightarrow> y < 16"
  proof -
    have "x = 0 \<and> 16 \<le> y \<or> 1 \<le> x \<and> x < 4 \<or> x = 4 \<and> y < 16" using that(1,5,6) by linarith
    then consider "x = 0" "16 \<le> y" | "1 \<le> x" "x < 4" | "x = 4" "y < 16" by blast
    then show ?thesis using that(1-4) by cases (auto simp: validRune_def surrogate_def)
  qed
qed

lemma decodeRune_valid: "validRune (fst (decodeRune c cs))"
proof -
  define b where "b = (of_char c :: nat)"
  have bad: "validRune RuneError" by (simp add: RuneError_def validRune_def surrogate_def)
  have six: "of_char d - (0x80::nat) < 64" if "cont lo hi d" "hi \<le> 0xBF" for lo hi d
    using that unfolding cont_def by linarith
  have cut: "b - 0xE0 = 13 \<longleftrightarrow> b = 0xED" "b - 0xF0 = 4 \<longleftrightarrow> b = 0xF4" by arith+
  have high: "secondHigh b \<le> 0xBF" by (simp add: secondHigh_def)
  consider "b < 0x80" | "0x80 \<le> b" "0xC2 \<le> b \<and> b \<le> 0xDF" | "0xE0 \<le> b \<and> b \<le> 0xEF" | "0xF0 \<le> b \<and> b \<le> 0xF4"
    | "\<not> b < 0x80 \<and> \<not> (0xC2 \<le> b \<and> b \<le> 0xDF) \<and> \<not> (0xE0 \<le> b \<and> b \<le> 0xEF) \<and> \<not> (0xF0 \<le> b \<and> b \<le> 0xF4)"
    by linarith
  then show ?thesis
  proof cases
    case 1
    then show ?thesis by (simp add: decodeRune_def b_def [symmetric] validRune_def surrogate_def)
  next
    case 2
    then have "validRune ((b - 0xC0) * 64 + (of_char d - 0x80))" if "cont 0x80 0xBF d" for d
      using six [OF that] by (intro validRune_multibyte(1)) auto
    with 2 bad show ?thesis by (simp add: decodeRune_def b_def [symmetric] Let_def split: list.split)
  next
    case 3
    then have "validRune (((b - 0xE0) * 64 + (of_char d - 0x80)) * 64 + (of_char e - 0x80))"
      if "cont (secondLow b) (secondHigh b) d" "cont 0x80 0xBF e" for d e
      using six [OF that(1) high] six [OF that(2)] that(1)
      by (intro validRune_multibyte(2)) (auto simp: cut cont_def secondHigh_def)
    with 3 bad show ?thesis by (simp add: decodeRune_def b_def [symmetric] Let_def split: list.split)
  next
    case 4
    then have "validRune ((((b - 0xF0) * 64 + (of_char d - 0x80)) * 64 + (of_char e - 0x80)) * 64 + (of_char f - 0x80))"
      if "cont (secondLow b) (secondHigh b) d" "cont 0x80 0xBF e" "cont 0x80 0xBF f" for d e f
      using six [OF that(1) high] six [OF that(2)] six [OF that(3)] that(1)
      by (intro validRune_multibyte(3)) (auto simp: cut cont_def secondLow_def secondHigh_def split: if_splits)
    with 4 bad show ?thesis by (simp add: decodeRune_def b_def [symmetric] Let_def split: list.split)
  next
    case 5
    with bad show ?thesis by (auto simp: decodeRune_def b_def [symmetric] Let_def)
  qed
qed

lemma decodeRunes_valid: "r \<in> set (decodeRunes s) \<Longrightarrow> validRune r"
proof (induction s rule: decodeRunes.induct)
  case (2 c cs)
  obtain q w where d: "decodeRune c cs = (q, w)" by (cases "decodeRune c cs")
  with 2(2) have "r = q \<or> r \<in> set (decodeRunes (drop (w - 1) cs))" by simp
  with d decodeRune_valid [of c cs] "2.IH" [OF d [symmetric]] show ?case by auto
qed simp

lemma decodeRune_multibyte:
  assumes "\<not> of_char c < (0x80::nat)"
  shows "0x80 \<le> fst (decodeRune c cs)"
proof -
  define b where "b = (of_char c :: nat)"
  have low: "0x80 \<le> ((b - n) * 64 + (of_char d - (0x80::nat))) * 64 + k \<and>
      0x80 \<le> (((b - n) * 64 + (of_char d - (0x80::nat))) * 64 + k) * 64 + l"
    if "cont (secondLow b) hi d" "n < b \<or> 0x90 \<le> secondLow b" for d hi n k l
  proof -
    have "1 \<le> b - n \<or> 16 \<le> of_char d - (0x80::nat)" using that by (auto simp: cont_def)
    moreover have "0x80 \<le> (x * 64 + y) * 64 + k \<and> 0x80 \<le> ((x * 64 + y) * 64 + k) * 64 + l" if "1 \<le> x \<or> 16 \<le> y" for x y
      using that by auto
    ultimately show ?thesis by blast
  qed
  consider "0xC2 \<le> b \<and> b \<le> 0xDF" | "0xE0 \<le> b \<and> b \<le> 0xEF" | "0xF0 \<le> b \<and> b \<le> 0xF4"
    | "\<not> (0xC2 \<le> b \<and> b \<le> 0xDF) \<and> \<not> (0xE0 \<le> b \<and> b \<le> 0xEF) \<and> \<not> (0xF0 \<le> b \<and> b \<le> 0xF4)"
    by blast
  then show ?thesis
  proof cases
    case 1
    then have "2 \<le> b - 0xC0" by arith
    with 1 show ?thesis by (auto simp: decodeRune_def b_def [symmetric] Let_def RuneError_def split: list.split)
  next
    case 2
    then have "0xE0 < b \<or> 0x90 \<le> secondLow b" by (auto simp: secondLow_def)
    with 2 low [of _ _ "0xE0"] show ?thesis
      by (auto simp: decodeRune_def b_def [symmetric] Let_def RuneError_def split: list.split)
  next
    case 3
    then have "0xF0 < b \<or> 0x90 \<le> secondLow b" by (auto simp: secondLow_def)
    with 3 low [of _ _ "0xF0"] show ?thesis
      by (auto simp: decodeRune_def b_def [symmetric] Let_def RuneError_def split: list.split)
  next
    case 4
    with assms show ?thesis by (auto simp: decodeRune_def b_def [symmetric] Let_def RuneError_def)
  qed
qed

lemma decodeRune_ascii: "fst (decodeRune c cs) < 0x80 \<Longrightarrow> of_char c = fst (decodeRune c cs)"
  using decodeRune_multibyte [of c cs] by (cases "of_char c < (0x80::nat)") (simp_all add: decodeRune_def)

lemma decodeRunes_ascii: "r \<in> set (decodeRunes s) \<Longrightarrow> r < 0x80 \<Longrightarrow> chr r \<in> set s"
proof (induction s rule: decodeRunes.induct)
  case (2 c cs)
  obtain q w where d: "decodeRune c cs = (q, w)" by (cases "decodeRune c cs")
  then consider "r = q" | "r \<in> set (decodeRunes (drop (w - 1) cs))" using 2 by auto
  then show ?case
  proof cases
    case 1
    with d 2(3) decodeRune_ascii [of c cs] have "r = of_char c" by simp
    then show ?thesis by (simp add: chr_def)
  next
    case 2
    then show ?thesis using "2.IH" [OF d [symmetric]] d \<open>r < 0x80\<close> by (auto dest: in_set_dropD)
  qed
qed simp

lemma encodeRune_ascii: "chr n \<in> set (encodeRune r) \<Longrightarrow> n < 0x80 \<Longrightarrow> r = n"
proof -
  have eq: "m = n" if "chr n = chr m" "m < 256" "n < 0x80" for m
    using that of_char_chr [of m] of_char_chr [of n] by simp
  assume "chr n \<in> set (encodeRune r)" "n < 0x80"
  moreover have "r \<le> 0x10FFFF" if "validRune r" using that by (simp add: validRune_def)
  ultimately show ?thesis
    by (auto simp: encodeRune_def validEncoding_def RuneError_def split: if_splits dest!: eq)
qed

text \<open>Decoding undoes encoding.\<close>

lemma rune_digits:
  fixes r :: nat
  shows "r div 64 * 64 + r mod 64 = r" "r div 64 div 64 * 64 + r div 64 mod 64 = r div 64"
    "r div 64 div 64 div 64 * 64 + r div 64 div 64 mod 64 = r div 64 div 64" "r mod 64 < 64" "r div 64 mod 64 < 64"
    "r div 64 div 64 mod 64 < 64"
  by (simp_all add: div_mult_mod_eq)

lemma decodeRune_encode:
  assumes "validRune r"
  shows "\<exists>c cs. encodeRune r = c # cs \<and> (\<forall>t. decodeRune c (cs @ t) = (r, Suc (length cs)))"
proof -
  have enc: "encodeRune r = validEncoding r" using assms by (simp add: encodeRune_def)
  have v: "r \<le> 0x10FFFF" "r < 0xD800 \<or> 0xDFFF < r" using assms by (auto simp: validRune_def surrogate_def)
  note d = rune_digits [of r]
  consider "r < 0x80" | "0x80 \<le> r" "r < 0x800" | "0x800 \<le> r" "r < 0x10000" | "0x10000 \<le> r" by linarith
  then show ?thesis
  proof cases
    case 1
    then show ?thesis by (simp add: enc validEncoding_def decodeRune_def)
  next
    case 2
    then have "2 \<le> r div 64" "r div 64 < 32" using d by linarith+
    moreover have "\<not> r < 0x80" "r mod 64 \<le> 63" using 2 d(4) by simp_all
    ultimately show ?thesis using 2 d(1) by (auto simp: enc validEncoding_def decodeRune_def cont_def Let_def)
  next
    case 3
    then have b: "r div 64 div 64 < 16" using d by linarith
    have low: "32 \<le> r div 64 mod 64" if "r div 64 div 64 = 0" using that d 3 by linarith
    have high: "r div 64 mod 64 < 32" if "r div 64 div 64 = 13" using that d v(2) by linarith
    have "r div 64 div 64 \<le> 15" "r div 64 mod 64 \<le> 63" "r mod 64 \<le> 63" using b d by linarith+
    with 3 d(1-3) low high show ?thesis
      by (auto simp: enc validEncoding_def decodeRune_def cont_def secondLow_def secondHigh_def Let_def)
  next
    case 4
    then have b: "r div 64 div 64 div 64 < 5" using d v(1) by linarith
    have low: "16 \<le> r div 64 div 64 mod 64" if "r div 64 div 64 div 64 = 0" using that d 4 by linarith
    have high: "r div 64 div 64 mod 64 < 16" if "r div 64 div 64 div 64 = 4" using that d v(1) by linarith
    have "r div 64 div 64 div 64 \<le> 4" "r div 64 div 64 mod 64 \<le> 63" "r div 64 mod 64 \<le> 63" "r mod 64 \<le> 63"
      using b d by linarith+
    with 4 d(1-3) low high show ?thesis
      by (auto simp: enc validEncoding_def decodeRune_def cont_def secondLow_def secondHigh_def Let_def)
  qed
qed

lemma decodeRunes_encode: "list_all validRune rs \<Longrightarrow> decodeRunes (encodeRunes rs) = rs"
proof (induction rs)
  case (Cons r rs)
  with decodeRune_encode [of r] show ?case by auto
qed simp

end
