(* ===== verification/Field_Manager.thy ===== *)
theory Field_Manager
  imports Utf8
begin

text \<open>
  \<open>internal/controller/fieldmanager.go\<close>: the name under which the client-side syncer of older releases
  owned fields, as the API server derived it from the user agent. The tables of \<open>unicode.IsPrint\<close>, the
  limit of the validation package (128) and the user agent of client-go are parameters.
\<close>

text \<open>The loop over the runes of the part before the first slash; the buffer only grows.\<close>

fun prefixLoop :: "(nat \<Rightarrow> bool) \<Rightarrow> nat \<Rightarrow> string \<Rightarrow> nat list \<Rightarrow> string" where
  "prefixLoop isPrint maxLength buf [] = buf"
| "prefixLoop isPrint maxLength buf (r # rs) =
     (if \<not> isPrint r then prefixLoop isPrint maxLength buf rs
      else if int maxLength < int (length buf) + RuneLen r then buf
      else prefixLoop isPrint maxLength (buf @ encodeRune r) rs)"

definition prefixFromUserAgent :: "(nat \<Rightarrow> bool) \<Rightarrow> nat \<Rightarrow> string \<Rightarrow> string" where
  "prefixFromUserAgent isPrint maxLength u =
     (let m = splitOn (CHR 0x2F) u ! 0 in prefixLoop isPrint maxLength [] (decodeRunes m))"

definition DefaultCSAFieldManager :: "(nat \<Rightarrow> bool) \<Rightarrow> nat \<Rightarrow> string \<Rightarrow> string" where
  "DefaultCSAFieldManager isPrint maxLength userAgent = prefixFromUserAgent isPrint maxLength userAgent"

section \<open>What is kept\<close>

text \<open>The printable runes before the slash, of which a prefix is kept.\<close>

definition printableRunes :: "(nat \<Rightarrow> bool) \<Rightarrow> string \<Rightarrow> nat list" where
  "printableRunes isPrint u = filter isPrint (decodeRunes (takeWhile (\<lambda>c. c \<noteq> CHR 0x2F) u))"

lemma splitOn_first: "splitOn c s ! 0 = takeWhile (\<lambda>x. x \<noteq> c) s"
proof (induction s)
  case (Cons x xs)
  then show ?case by (cases "splitOn c xs") auto
qed simp

lemma chr_slash: "chr 0x2F = CHR 0x2F"
  unfolding chr_def by code_simp

lemma prefixLoop_prefix:
  assumes "list_all validRune rs" "length buf \<le> maxLength"
  shows "\<exists>k \<le> length (filter isPrint rs).
    prefixLoop isPrint maxLength buf rs = buf @ encodeRunes (take k (filter isPrint rs)) \<and>
    length (prefixLoop isPrint maxLength buf rs) \<le> maxLength \<and>
    (k < length (filter isPrint rs) \<longrightarrow>
       maxLength < length (prefixLoop isPrint maxLength buf rs) + length (encodeRune (filter isPrint rs ! k)))"
  using assms
proof (induction rs arbitrary: buf)
  case (Cons r rs)
  then have v: "validRune r" "list_all validRune rs" by simp_all
  consider "\<not> isPrint r" | "isPrint r" "maxLength < length buf + length (encodeRune r)"
    | "isPrint r" "length (buf @ encodeRune r) \<le> maxLength"
    by fastforce
  then show ?case
  proof cases
    case 1
    with Cons show ?thesis by simp
  next
    case 2
    with Cons.prems(2) show ?thesis
      by (intro exI [of _ 0]) (simp add: RuneLen_encodeRune [OF v(1)])
  next
    case 3
    from Cons.IH [OF v(2) 3(2)] obtain k where k: "k \<le> length (filter isPrint rs)"
      "prefixLoop isPrint maxLength (buf @ encodeRune r) rs =
         (buf @ encodeRune r) @ encodeRunes (take k (filter isPrint rs))"
      "length (prefixLoop isPrint maxLength (buf @ encodeRune r) rs) \<le> maxLength"
      "k < length (filter isPrint rs) \<longrightarrow> maxLength < length (prefixLoop isPrint maxLength (buf @ encodeRune r) rs) +
         length (encodeRune (filter isPrint rs ! k))"
      by blast
    with 3 show ?thesis
      by (intro exI [of _ "Suc k"]) (simp add: RuneLen_encodeRune [OF v(1)])
  qed
qed simp

text \<open>
  C33. The default field manager is the longest prefix of the printable part of the user agent before
  its first slash that fits the limit of the API server: at most the limit in bytes, cut between runes
  (what is kept decodes to printable runes), free of slashes, and the next rune would not have fitted.
\<close>

theorem prefixFromUserAgent_bounds:
  "\<exists>k. let runes = printableRunes isPrint u; out = prefixFromUserAgent isPrint maxLength u in
     out = encodeRunes (take k runes) \<and> decodeRunes out = take k runes \<and> length out \<le> maxLength \<and>
     CHR 0x2F \<notin> set out \<and>
     (k < length runes \<longrightarrow> maxLength < length out + length (encodeRune (runes ! k)))"
proof -
  let ?m = "takeWhile (\<lambda>c. c \<noteq> CHR 0x2F) u"
  let ?runes = "printableRunes isPrint u" and ?out = "prefixFromUserAgent isPrint maxLength u"
  have out: "prefixLoop isPrint maxLength [] (decodeRunes ?m) = ?out"
    by (simp add: prefixFromUserAgent_def splitOn_first)
  have runes: "filter isPrint (decodeRunes ?m) = ?runes"
    by (simp add: printableRunes_def)
  have valid: "list_all validRune (decodeRunes ?m)"
    using decodeRunes_valid by (auto simp: list_all_iff)
  obtain k where k: "?out = encodeRunes (take k ?runes)" "length ?out \<le> maxLength"
    "k < length ?runes \<longrightarrow> maxLength < length ?out + length (encodeRune (?runes ! k))"
    using prefixLoop_prefix [OF valid, of "[]" maxLength isPrint] unfolding out runes append_Nil list.size by blast
  have kept: "set (take k ?runes) \<subseteq> set (decodeRunes ?m)"
    using set_take_subset [of k ?runes] by (auto simp flip: runes)
  then have "decodeRunes ?out = take k ?runes"
    using decodeRunes_encode [of "take k ?runes"] valid unfolding k(1) by (auto simp: list_all_iff)
  moreover have "CHR 0x2F \<notin> set ?out"
  proof
    assume "CHR 0x2F \<in> set ?out"
    then obtain r where r: "r \<in> set (take k ?runes)" "chr 0x2F \<in> set (encodeRune r)"
      unfolding k(1) by (auto simp: encodeRunes_def chr_slash)
    then have "0x2F \<in> set (decodeRunes ?m)" using encodeRune_ascii [OF r(2)] kept by auto
    from decodeRunes_ascii [OF this] show False by (auto simp: chr_slash dest: set_takeWhileD)
  qed
  ultimately show ?thesis unfolding Let_def using k by blast
qed

lemma chr_examples:
  "char_of (109::nat) = CHR ''m''" "char_of (103::nat) = CHR ''g''"
  by code_simp+

theorem prefixFromUserAgent_bounds_witness:
  "\<exists>k. encodeRunes (take k (printableRunes (\<lambda>r. 32 \<le> r) (''m'' @ [CHR 0x07] @ ''gr1/v2''))) = ''mg'' \<and> k < 4 \<and>
     2 < length ''mg'' + length (encodeRune (printableRunes (\<lambda>r. 32 \<le> r) (''m'' @ [CHR 0x07] @ ''gr1/v2'') ! k))"
proof -
  let ?u = "''m'' @ [CHR 0x07] @ ''gr1/v2''"
  have out: "prefixFromUserAgent (\<lambda>r. 32 \<le> r) 2 ?u = ''mg''"
    by (simp add: chr_examples decodeRune_def RuneLen_def encodeRune_def encodeRunes_def validEncoding_def
        validRune_def surrogate_def chr_def printableRunes_def prefixFromUserAgent_def)
  have runes: "length (printableRunes (\<lambda>r. 32 \<le> r) ?u) = 4"
    by (simp add: chr_examples decodeRune_def RuneLen_def encodeRune_def encodeRunes_def validEncoding_def
        validRune_def surrogate_def chr_def printableRunes_def prefixFromUserAgent_def)
  have whole: "length (encodeRunes (printableRunes (\<lambda>r. 32 \<le> r) ?u)) = 4"
    by (simp add: chr_examples decodeRune_def RuneLen_def encodeRune_def encodeRunes_def validEncoding_def
        validRune_def surrogate_def chr_def printableRunes_def prefixFromUserAgent_def)
  from prefixFromUserAgent_bounds [of "\<lambda>r. 32 \<le> r" ?u 2] obtain k
    where "''mg'' = encodeRunes (take k (printableRunes (\<lambda>r. 32 \<le> r) ?u))"
      "k < 4 \<longrightarrow> 2 < length ''mg'' + length (encodeRune (printableRunes (\<lambda>r. 32 \<le> r) ?u ! k))"
    unfolding out runes Let_def by blast
  moreover have "k < 4"
  proof (rule ccontr)
    assume "\<not> k < 4"
    then have "encodeRunes (printableRunes (\<lambda>r. 32 \<le> r) ?u) = ''mg''" using calculation(1) runes by simp
    with whole show False by simp
  qed
  ultimately show ?thesis by metis
qed

end
