(* ===== verification/Controller_Setup.thy ===== *)
theory Controller_Setup
  imports Complex_Main Field_Manager Connector Indexes
begin

text \<open>
  How the controllers are put together: \<open>Setup\<close> and \<open>SetupGated\<close> of \<open>internal/controller/*/kubernetes.go\<close>,
  \<open>*/config/config.go\<close>, \<open>*/object/object.go\<close> and \<open>*/observedobjectcollection/reconciler.go\<close>. The
  controller manager and the CRD gate are parameters; what is handed to them is a value. Logging,
  metrics and rate limits are left out. Durations are nanoseconds; a \<open>float64\<close> is an exact rational.
\<close>

section \<open>Options (internal/controller/options.go, internal/features/features.go)\<close>

record providerOptions =
  po_sanitizeSecrets :: bool
  po_removeManagedFields :: bool
  po_pollJitter :: int
  po_pollJitterPercentage :: nat
  po_legacyCSAFieldManagers :: "string list"

abbreviation EnableAlphaWatches :: string where "EnableAlphaWatches \<equiv> ''EnableAlphaWatches''"
abbreviation EnableBetaServerSideApply :: string where "EnableBetaServerSideApply \<equiv> ''EnableBetaServerSideApply''"
abbreviation EnableBetaManagementPolicies :: string where "EnableBetaManagementPolicies \<equiv> ''EnableBetaManagementPolicies''"
abbreviation EnableAlphaChangeLogs :: string where "EnableAlphaChangeLogs \<equiv> ''EnableAlphaChangeLogs''"

record controllerOptions =
  co_pollInterval :: int
  co_features :: "string list"

definition Enabled :: "string \<Rightarrow> controllerOptions \<Rightarrow> bool" where
  "Enabled f o' \<longleftrightarrow> f \<in> set (co_features o')"

section \<open>What is handed to the manager\<close>

record ('w, 'rc, 'p) objectController =
  oc_scope :: scope
  oc_connector :: "('w, 'rc, 'p) connector"
  oc_pollInterval :: int
  oc_pollJitterPercentage :: nat
  oc_managementPolicies :: bool
  oc_changeLogs :: bool
  oc_watchesRawSource :: bool

datatype ('w, 'rc, 'p) controllerSpec =
    ProviderConfigController gvk gvk gvk
  | ObjectController "('w, 'rc, 'p) objectController"
  | CollectionController scope int int

datatype runnable = CleanupInformers | StateRecorder

record ('s, 'w, 'rc, 'p) managerLib =
  mg_indexField :: "string \<Rightarrow> (kobject \<Rightarrow> string list res) \<Rightarrow> 's \<Rightarrow> unit res \<times> 's"
  mg_add :: "runnable \<Rightarrow> 's \<Rightarrow> unit res \<times> 's"
  mg_complete :: "('w, 'rc, 'p) controllerSpec \<Rightarrow> 's \<Rightarrow> unit res \<times> 's"
  mg_register :: "('s \<Rightarrow> unit res \<times> 's) \<Rightarrow> gvk list \<Rightarrow> 's \<Rightarrow> 's"

text \<open>
  The user agent of client-go with what the default field manager is computed from, the connector's
  clients, and the config and cache library of the informers.
\<close>

record ('w, 'rc, 'p) controllerDeps =
  cd_isPrint :: "nat \<Rightarrow> bool"
  cd_maxLength :: nat
  cd_userAgent :: string
  cd_kube :: "'w kclient"
  cd_track :: "managed \<Rightarrow> 'w \<Rightarrow> unit res \<times> 'w"
  cd_getProviderConfig :: "string \<Rightarrow> nsname \<Rightarrow> 'w \<Rightarrow> providerConfig res \<times> 'w"
  cd_clientBuilder :: "providerConfigSpec \<Rightarrow> 'w \<Rightarrow> ('w kclient \<times> 'rc) res \<times> 'w"
  cd_discovery :: "'rc \<Rightarrow> ('w, 'p) xlib res"
  cd_informers :: "'rc cacheLib \<times> 'rc"

section \<open>Poll intervals\<close>

text \<open>\<open>time.Duration(x)\<close> of a float truncates towards zero.\<close>

definition durationOf :: "rat \<Rightarrow> int" where
  "durationOf x = (if 0 \<le> x then \<lfloor>x\<rfloor> else \<lceil>x\<rceil>)"

text \<open>The hook of the Object controller; \<open>rand\<close> is the value of \<open>rand.Float64\<close>.\<close>

definition pollIntervalHook :: "nat \<Rightarrow> rat \<Rightarrow> kobject \<Rightarrow> int \<Rightarrow> int" where
  "pollIntervalHook pollJitterPercentage rand mg pollInterval =
     (let pollInterval = (if os_conditions (ko_status mg) TypeReady \<noteq> Some Available then 30 * 10 ^ 9 else pollInterval);
          pollJitter = durationOf (of_int pollInterval * (of_nat pollJitterPercentage / 100)) in
      pollInterval + durationOf ((rand - 1 / 2) * 2 * of_int pollJitter))"

definition collectionPollInterval :: "int \<Rightarrow> int \<Rightarrow> rat \<Rightarrow> int" where
  "collectionPollInterval pollInterval pollJitter rand =
     pollInterval + durationOf ((rand - 1 / 2) * 2 * of_int pollJitter)"

section \<open>The Object controller\<close>

definition newConnector ::
  "('w, 'rc, 'p) controllerDeps \<Rightarrow> controllerOptions \<Rightarrow> bool \<Rightarrow> bool \<Rightarrow> string list \<Rightarrow> ('w, 'rc, 'p) connector" where
  "newConnector D o' sanitizeSecrets removeManagedFields legacyCSAFieldManagers =
     (let conn = \<lparr>cn_kube = cd_kube D, cn_track = cd_track D, cn_getProviderConfig = cd_getProviderConfig D,
            cn_clientBuilder = cd_clientBuilder D, cn_discovery = cd_discovery D, cn_kindObserver = None,
            cn_sanitizeSecrets = sanitizeSecrets, cn_removeManagedFields = removeManagedFields,
            cn_ssaEnabled = False, cn_legacyCSAFieldManagers = []\<rparr> in
      if Enabled EnableBetaServerSideApply o' then
        (let defaultCSAFieldManager = DefaultCSAFieldManager (cd_isPrint D) (cd_maxLength D) (cd_userAgent D) in
         conn\<lparr>cn_ssaEnabled := True,
              cn_legacyCSAFieldManagers := defaultCSAFieldManager # legacyCSAFieldManagers\<rparr>)
      else conn)"

definition setupWatches ::
  "klib \<Rightarrow> ('s, 'w, 'rc, 'p) managerLib \<Rightarrow> scope \<Rightarrow> 's \<Rightarrow> unit res \<times> 's" where
  "setupWatches L M sc s =
     tryS (mg_indexField M resourceRefGVKsIndex (IndexByProviderGVK L sc) s)
       (ErrWrap ''cannot add index for object reference GVKs'') (\<lambda>_ s.
     tryS (mg_indexField M resourceRefsIndex (IndexByProviderNamespacedNameGVK L sc) s)
       (ErrWrap ''cannot add index for object references'') (\<lambda>_ s.
     tryS (mg_add M CleanupInformers s)
       (ErrWrap ''cannot add cleanup referenced resource informers runnable'') (\<lambda>_ s. (Ok (), s))))"

definition object_Setup ::
  "klib \<Rightarrow> ('s, 'w, 'rc, 'p) managerLib \<Rightarrow> scope \<Rightarrow> ('w, 'rc, 'p) controllerDeps \<Rightarrow> controllerOptions
     \<Rightarrow> bool \<Rightarrow> bool \<Rightarrow> nat \<Rightarrow> string list \<Rightarrow> 's \<Rightarrow> unit res \<times> 's" where
  "object_Setup L M sc D o' sanitizeSecrets removeManagedFields pollJitterPercentage legacyCSAFieldManagers s =
     (let conn = newConnector D o' sanitizeSecrets removeManagedFields legacyCSAFieldManagers;
          watches = Enabled EnableAlphaWatches o' in
      tryS (if watches then setupWatches L M sc s else (Ok (), s)) id (\<lambda>_ s.
        let conn = (if watches then conn\<lparr>cn_kindObserver := Some (cd_informers D)\<rparr> else conn) in
        tryS (mg_add M StateRecorder s) id (\<lambda>_ s.
          mg_complete M (ObjectController
            \<lparr>oc_scope = sc, oc_connector = conn, oc_pollInterval = co_pollInterval o',
             oc_pollJitterPercentage = pollJitterPercentage,
             oc_managementPolicies = Enabled EnableBetaManagementPolicies o',
             oc_changeLogs = Enabled EnableAlphaChangeLogs o',
             oc_watchesRawSource = watches\<rparr>) s)))"

section \<open>The other controllers\<close>

definition apiGroup :: "scope \<Rightarrow> string" where
  "apiGroup sc = (case sc of ClusterScoped \<Rightarrow> ''kubernetes.crossplane.io'' | Namespaced \<Rightarrow> ''kubernetes.m.crossplane.io'')"

text \<open>\<open>SchemeGroupVersion.WithKind\<close>; only the cluster-scoped Object is at v1alpha2.\<close>

definition providerGVK :: "scope \<Rightarrow> string \<Rightarrow> gvk" where
  "providerGVK sc kind =
     \<lparr>gvk_group = apiGroup sc,
      gvk_version = (if sc = ClusterScoped \<and> kind = ''Object'' then ''v1alpha2'' else ''v1alpha1''),
      gvk_kind = kind\<rparr>"

definition setupProviderConfig ::
  "('s, 'w, 'rc, 'p) managerLib \<Rightarrow> scope \<Rightarrow> string \<Rightarrow> 's \<Rightarrow> unit res \<times> 's" where
  "setupProviderConfig M sc kind s =
     mg_complete M (ProviderConfigController (providerGVK sc kind) (providerGVK sc ''ProviderConfigUsage'')
       (providerGVK sc ''ProviderConfigUsageList'')) s"

definition config_Setup :: "('s, 'w, 'rc, 'p) managerLib \<Rightarrow> 's \<Rightarrow> unit res \<times> 's" where
  "config_Setup M s =
     tryS (setupProviderConfig M Namespaced ProviderConfigKind s) id (\<lambda>_ s.
       setupProviderConfig M Namespaced ClusterProviderConfigKind s)"

definition config_Setup_cluster :: "('s, 'w, 'rc, 'p) managerLib \<Rightarrow> 's \<Rightarrow> unit res \<times> 's" where
  "config_Setup_cluster M s = setupProviderConfig M ClusterScoped ProviderConfigKind s"

definition collection_Setup ::
  "('s, 'w, 'rc, 'p) managerLib \<Rightarrow> scope \<Rightarrow> controllerOptions \<Rightarrow> int \<Rightarrow> 's \<Rightarrow> unit res \<times> 's" where
  "collection_Setup M sc o' pollJitter s = mg_complete M (CollectionController sc (co_pollInterval o') pollJitter) s"

section \<open>Setup of a scope\<close>

definition Setup ::
  "klib \<Rightarrow> ('s, 'w, 'rc, 'p) managerLib \<Rightarrow> scope \<Rightarrow> ('w, 'rc, 'p) controllerDeps \<Rightarrow> controllerOptions
     \<Rightarrow> providerOptions \<Rightarrow> 's \<Rightarrow> unit res \<times> 's" where
  "Setup L M sc D o' po s =
     tryS ((case sc of Namespaced \<Rightarrow> config_Setup | ClusterScoped \<Rightarrow> config_Setup_cluster) M s) id (\<lambda>_ s.
     tryS (object_Setup L M sc D o' (po_sanitizeSecrets po) (po_removeManagedFields po)
       (po_pollJitterPercentage po) (po_legacyCSAFieldManagers po) s) id (\<lambda>_ s.
     tryS (collection_Setup M sc o' (po_pollJitter po) s) id (\<lambda>_ s. (Ok (), s))))"

text \<open>A gated setup runs when its kinds exist; its error is logged.\<close>

definition logged :: "('s \<Rightarrow> unit res \<times> 's) \<Rightarrow> 's \<Rightarrow> unit res \<times> 's" where
  "logged f s = (case f s of (Err e, s) \<Rightarrow> (Ok (), s) | r \<Rightarrow> r)"

definition config_SetupGated :: "('s, 'w, 'rc, 'p) managerLib \<Rightarrow> 's \<Rightarrow> unit res \<times> 's" where
  "config_SetupGated M s =
     (Ok (), mg_register M (logged (config_Setup M))
       [providerGVK Namespaced ClusterProviderConfigKind, providerGVK Namespaced ProviderConfigKind,
        providerGVK Namespaced ''ProviderConfigUsage''] s)"

definition config_SetupGated_cluster :: "('s, 'w, 'rc, 'p) managerLib \<Rightarrow> 's \<Rightarrow> unit res \<times> 's" where
  "config_SetupGated_cluster M s =
     (Ok (), mg_register M (logged (config_Setup_cluster M))
       [providerGVK ClusterScoped ProviderConfigKind, providerGVK ClusterScoped ''ProviderConfigUsage''] s)"

definition object_SetupGated ::
  "klib \<Rightarrow> ('s, 'w, 'rc, 'p) managerLib \<Rightarrow> scope \<Rightarrow> ('w, 'rc, 'p) controllerDeps \<Rightarrow> controllerOptions
     \<Rightarrow> bool \<Rightarrow> bool \<Rightarrow> nat \<Rightarrow> string list \<Rightarrow> 's \<Rightarrow> unit res \<times> 's" where
  "object_SetupGated L M sc D o' sanitizeSecrets removeManagedFields pollJitterPercentage legacyCSAFieldManagers s =
     (Ok (), mg_register M
       (logged (object_Setup L M sc D o' sanitizeSecrets removeManagedFields pollJitterPercentage legacyCSAFieldManagers))
       [providerGVK sc ''Object''] s)"

definition collection_SetupGated ::
  "('s, 'w, 'rc, 'p) managerLib \<Rightarrow> scope \<Rightarrow> controllerOptions \<Rightarrow> int \<Rightarrow> 's \<Rightarrow> unit res \<times> 's" where
  "collection_SetupGated M sc o' pollJitter s =
     (Ok (), mg_register M (logged (collection_Setup M sc o' pollJitter))
       [providerGVK sc ''ObservedObjectCollection''] s)"

definition SetupGated ::
  "klib \<Rightarrow> ('s, 'w, 'rc, 'p) managerLib \<Rightarrow> scope \<Rightarrow> ('w, 'rc, 'p) controllerDeps \<Rightarrow> controllerOptions
     \<Rightarrow> providerOptions \<Rightarrow> 's \<Rightarrow> unit res \<times> 's" where
  "SetupGated L M sc D o' po s =
     tryS ((case sc of Namespaced \<Rightarrow> config_SetupGated | ClusterScoped \<Rightarrow> config_SetupGated_cluster) M s) id (\<lambda>_ s.
     tryS (object_SetupGated L M sc D o' (po_sanitizeSecrets po) (po_removeManagedFields po)
       (po_pollJitterPercentage po) (po_legacyCSAFieldManagers po) s) id (\<lambda>_ s.
     tryS (collection_SetupGated M sc o' (po_pollJitter po) s) id (\<lambda>_ s. (Ok (), s))))"

section \<open>The cluster-scoped package\<close>

definition object_Setup_cluster ::
  "klib \<Rightarrow> ('s, 'w, 'rc, 'p) managerLib \<Rightarrow> ('w, 'rc, 'p) controllerDeps \<Rightarrow> controllerOptions
     \<Rightarrow> bool \<Rightarrow> bool \<Rightarrow> nat \<Rightarrow> string list \<Rightarrow> 's \<Rightarrow> unit res \<times> 's" where
  "object_Setup_cluster L M = object_Setup L M ClusterScoped"

definition object_SetupGated_cluster ::
  "klib \<Rightarrow> ('s, 'w, 'rc, 'p) managerLib \<Rightarrow> ('w, 'rc, 'p) controllerDeps \<Rightarrow> controllerOptions
     \<Rightarrow> bool \<Rightarrow> bool \<Rightarrow> nat \<Rightarrow> string list \<Rightarrow> 's \<Rightarrow> unit res \<times> 's" where
  "object_SetupGated_cluster L M = object_SetupGated L M ClusterScoped"

definition collection_Setup_cluster ::
  "('s, 'w, 'rc, 'p) managerLib \<Rightarrow> controllerOptions \<Rightarrow> int \<Rightarrow> 's \<Rightarrow> unit res \<times> 's" where
  "collection_Setup_cluster M = collection_Setup M ClusterScoped"

definition collection_SetupGated_cluster ::
  "('s, 'w, 'rc, 'p) managerLib \<Rightarrow> controllerOptions \<Rightarrow> int \<Rightarrow> 's \<Rightarrow> unit res \<times> 's" where
  "collection_SetupGated_cluster M = collection_SetupGated M ClusterScoped"

definition Setup_cluster ::
  "klib \<Rightarrow> ('s, 'w, 'rc, 'p) managerLib \<Rightarrow> ('w, 'rc, 'p) controllerDeps \<Rightarrow> controllerOptions
     \<Rightarrow> providerOptions \<Rightarrow> 's \<Rightarrow> unit res \<times> 's" where
  "Setup_cluster L M = Setup L M ClusterScoped"

definition SetupGated_cluster ::
  "klib \<Rightarrow> ('s, 'w, 'rc, 'p) managerLib \<Rightarrow> ('w, 'rc, 'p) controllerDeps \<Rightarrow> controllerOptions
     \<Rightarrow> providerOptions \<Rightarrow> 's \<Rightarrow> unit res \<times> 's" where
  "SetupGated_cluster L M = SetupGated L M ClusterScoped"

end
