(* ===== verification/Scheme.thy ===== *)
theory Scheme
  imports Controller_Setup
begin

text \<open>
  The registration of the API types: \<open>register.go\<close> of every API package, and \<open>AddToSchemes\<close> of
  \<open>apis/cluster/kubernetes.go\<close> and \<open>apis/namespaced/kubernetes.go\<close>, which \<open>main\<close> adds to the scheme of the manager.
\<close>

section \<open>Scheme builders\<close>

text \<open>A struct by its package and its name; a builder is the group version with the types it was given.\<close>

record goType =
  gt_package :: string
  gt_name :: string

record schemeBuilder =
  sb_package :: string
  sb_group :: string
  sb_version :: string
  sb_types :: "goType list"

definition newBuilder :: "string \<Rightarrow> string \<Rightarrow> string \<Rightarrow> schemeBuilder" where
  "newBuilder package grp version =
     \<lparr>sb_package = package, sb_group = grp, sb_version = version, sb_types = []\<rparr>"

text \<open>\<open>SchemeBuilder.Register\<close> of structs of the package; their kinds are the names of the structs.\<close>

definition Register :: "string list \<Rightarrow> schemeBuilder \<Rightarrow> schemeBuilder" where
  "Register names b =
     b\<lparr>sb_types := sb_types b @ map (\<lambda>n. \<lparr>gt_package = sb_package b, gt_name = n\<rparr>) names\<rparr>"

definition WithKind :: "schemeBuilder \<Rightarrow> string \<Rightarrow> gvk" where
  "WithKind b kind = \<lparr>gvk_group = sb_group b, gvk_version = sb_version b, gvk_kind = kind\<rparr>"

section \<open>The packages\<close>

definition cluster_config_SchemeBuilder :: schemeBuilder where
  "cluster_config_SchemeBuilder =
     Register [''ProviderConfigUsage'', ''ProviderConfigUsageList'']
      (Register [''ProviderConfig'', ''ProviderConfigList'']
        (newBuilder ''apis/cluster/v1alpha1'' ''kubernetes.crossplane.io'' ''v1alpha1''))"

definition cluster_object_v1alpha1_SchemeBuilder :: schemeBuilder where
  "cluster_object_v1alpha1_SchemeBuilder =
     Register [''Object'', ''ObjectList'']
      (newBuilder ''apis/cluster/object/v1alpha1'' ''kubernetes.crossplane.io'' ''v1alpha1'')"

definition cluster_object_v1alpha2_SchemeBuilder :: schemeBuilder where
  "cluster_object_v1alpha2_SchemeBuilder =
     Register [''Object'', ''ObjectList'']
      (newBuilder ''apis/cluster/object/v1alpha2'' ''kubernetes.crossplane.io'' ''v1alpha2'')"

definition cluster_collection_SchemeBuilder :: schemeBuilder where
  "cluster_collection_SchemeBuilder =
     Register [''ObservedObjectCollection'', ''ObservedObjectCollectionList'']
      (newBuilder ''apis/cluster/observedobjectcollection/v1alpha1'' ''kubernetes.crossplane.io'' ''v1alpha1'')"

definition namespaced_config_SchemeBuilder :: schemeBuilder where
  "namespaced_config_SchemeBuilder =
     Register [''ProviderConfigUsage'', ''ProviderConfigUsageList'']
      (Register [''ClusterProviderConfig'', ''ClusterProviderConfigList'']
        (Register [''ProviderConfig'', ''ProviderConfigList'']
          (newBuilder ''apis/namespaced/v1alpha1'' ''kubernetes.m.crossplane.io'' ''v1alpha1'')))"

definition namespaced_object_SchemeBuilder :: schemeBuilder where
  "namespaced_object_SchemeBuilder =
     Register [''Object'', ''ObjectList'']
      (newBuilder ''apis/namespaced/object/v1alpha1'' ''kubernetes.m.crossplane.io'' ''v1alpha1'')"

definition namespaced_collection_SchemeBuilder :: schemeBuilder where
  "namespaced_collection_SchemeBuilder =
     Register [''ObservedObjectCollection'', ''ObservedObjectCollectionList'']
      (newBuilder ''apis/namespaced/observedobjectcollection/v1alpha1'' ''kubernetes.m.crossplane.io'' ''v1alpha1'')"

lemmas builder_defs = cluster_config_SchemeBuilder_def cluster_object_v1alpha1_SchemeBuilder_def
  cluster_object_v1alpha2_SchemeBuilder_def cluster_collection_SchemeBuilder_def namespaced_config_SchemeBuilder_def
  namespaced_object_SchemeBuilder_def namespaced_collection_SchemeBuilder_def Register_def newBuilder_def

section \<open>Kind metadata\<close>

text \<open>
  The variables \<open><Kind>Kind\<close>, \<open><Kind>GroupKind\<close>, \<open><Kind>KindAPIVersion\<close> and \<open><Kind>GroupVersionKind\<close> of each package; how
  the API machinery prints a group kind and a group version is a parameter.
\<close>

record schemaStrings =
  ss_groupKind :: "string \<Rightarrow> string \<Rightarrow> string"
  ss_groupVersion :: "string \<Rightarrow> string \<Rightarrow> string"

record kindMeta =
  km_Kind :: string
  km_GroupKind :: string
  km_KindAPIVersion :: string
  km_GroupVersionKind :: gvk

definition kindMetadata :: "schemaStrings \<Rightarrow> schemeBuilder \<Rightarrow> string \<Rightarrow> kindMeta" where
  "kindMetadata T b kind =
     \<lparr>km_Kind = kind,
      km_GroupKind = ss_groupKind T (sb_group b) kind,
      km_KindAPIVersion = kind @ ''.'' @ ss_groupVersion T (sb_group b) (sb_version b),
      km_GroupVersionKind = WithKind b kind\<rparr>"

definition cluster_config_kinds :: "schemaStrings \<Rightarrow> kindMeta list" where
  "cluster_config_kinds T = map (kindMetadata T cluster_config_SchemeBuilder)
     [''ProviderConfig'', ''ProviderConfigUsage'', ''ProviderConfigUsageList'']"

definition cluster_object_v1alpha1_kinds :: "schemaStrings \<Rightarrow> kindMeta list" where
  "cluster_object_v1alpha1_kinds T = map (kindMetadata T cluster_object_v1alpha1_SchemeBuilder)
     [''Object'']"

definition cluster_object_v1alpha2_kinds :: "schemaStrings \<Rightarrow> kindMeta list" where
  "cluster_object_v1alpha2_kinds T = map (kindMetadata T cluster_object_v1alpha2_SchemeBuilder)
     [''Object'']"

definition cluster_collection_kinds :: "schemaStrings \<Rightarrow> kindMeta list" where
  "cluster_collection_kinds T = map (kindMetadata T cluster_collection_SchemeBuilder)
     [''ObservedObjectCollection'']"

definition namespaced_config_kinds :: "schemaStrings \<Rightarrow> kindMeta list" where
  "namespaced_config_kinds T = map (kindMetadata T namespaced_config_SchemeBuilder)
     [''ProviderConfig'', ''ClusterProviderConfig'', ''ProviderConfigUsage'', ''ProviderConfigUsageList'']"

definition namespaced_object_kinds :: "schemaStrings \<Rightarrow> kindMeta list" where
  "namespaced_object_kinds T = map (kindMetadata T namespaced_object_SchemeBuilder)
     [''Object'']"

definition namespaced_collection_kinds :: "schemaStrings \<Rightarrow> kindMeta list" where
  "namespaced_collection_kinds T = map (kindMetadata T namespaced_collection_SchemeBuilder)
     [''ObservedObjectCollection'']"

lemmas kinds_defs = cluster_config_kinds_def cluster_object_v1alpha1_kinds_def cluster_object_v1alpha2_kinds_def
  cluster_collection_kinds_def namespaced_config_kinds_def namespaced_object_kinds_def namespaced_collection_kinds_def
  kindMetadata_def

text \<open>Each of them names a type that the builder of its package registers.\<close>

lemma kinds_registered:
  "list_all (\<lambda>m. \<lparr>gt_package = sb_package b, gt_name = km_Kind m\<rparr> \<in> set (sb_types b) \<and>
     km_GroupVersionKind m = WithKind b (km_Kind m)) ks"
  if "(b, ks) \<in> {(cluster_config_SchemeBuilder, cluster_config_kinds T),
    (cluster_object_v1alpha1_SchemeBuilder, cluster_object_v1alpha1_kinds T),
    (cluster_object_v1alpha2_SchemeBuilder, cluster_object_v1alpha2_kinds T),
    (cluster_collection_SchemeBuilder, cluster_collection_kinds T),
    (namespaced_config_SchemeBuilder, namespaced_config_kinds T),
    (namespaced_object_SchemeBuilder, namespaced_object_kinds T),
    (namespaced_collection_SchemeBuilder, namespaced_collection_kinds T)}"
  using that by (elim insertE emptyE) (simp_all add: kinds_defs builder_defs)

section \<open>Adding them\<close>

text \<open>
  The scheme is a parameter: \<open>runtime.SchemeBuilder.AddToScheme\<close> on a list of builders, and the struct that a
  scheme knows for a kind.
\<close>

record 's schemeLib =
  sl_addAll :: "schemeBuilder list \<Rightarrow> 's \<Rightarrow> unit res \<times> 's"
  sl_known :: "'s \<Rightarrow> gvk \<Rightarrow> goType option"

definition AddToSchemes_cluster :: "schemeBuilder list" where
  "AddToSchemes_cluster =
     [cluster_config_SchemeBuilder, cluster_object_v1alpha1_SchemeBuilder, cluster_object_v1alpha2_SchemeBuilder,
      cluster_collection_SchemeBuilder]"

definition AddToScheme_cluster :: "'s schemeLib \<Rightarrow> 's \<Rightarrow> unit res \<times> 's" where
  "AddToScheme_cluster S s = sl_addAll S AddToSchemes_cluster s"

definition AddToSchemes_namespaced :: "schemeBuilder list" where
  "AddToSchemes_namespaced =
     [namespaced_config_SchemeBuilder, namespaced_object_SchemeBuilder, namespaced_collection_SchemeBuilder]"

definition AddToScheme_namespaced :: "'s schemeLib \<Rightarrow> 's \<Rightarrow> unit res \<times> 's" where
  "AddToScheme_namespaced S s = sl_addAll S AddToSchemes_namespaced s"

text \<open>What \<open>main\<close> does with both.\<close>

definition addAPIs :: "'s schemeLib \<Rightarrow> 's \<Rightarrow> unit res \<times> 's" where
  "addAPIs S s =
     tryS (AddToScheme_cluster S s) (ErrWrap ''Cannot add Template APIs to scheme'') (\<lambda>_ s.
     tryS (AddToScheme_namespaced S s) (ErrWrap ''Cannot add Template APIs to scheme'') (\<lambda>_ s. (Ok (), s)))"

section \<open>Every kind is known\<close>

definition registered :: "schemeBuilder list \<Rightarrow> (gvk \<times> goType) list" where
  "registered bs = concat (map (\<lambda>b. map (\<lambda>ty. (WithKind b (gt_name ty), ty)) (sb_types b)) bs)"

text \<open>The kinds that the API machinery adds to every group version.\<close>

definition metaKinds :: "string list" where
  "metaKinds = [''WatchEvent'', ''ListOptions'', ''GetOptions'', ''DeleteOptions'', ''CreateOptions'', ''UpdateOptions'',
     ''PatchOptions'']"

text \<open>No two types of the builders, and none of them and one that is known, have the same kind.\<close>

definition noClash :: "('g \<Rightarrow> goType option) \<Rightarrow> ('g \<times> goType) list \<Rightarrow> bool" where
  "noClash known es \<longleftrightarrow>
     distinct (map fst es) \<and> (\<forall>(g, ty) \<in> set es. known g = None \<and> gt_name ty \<notin> set metaKinds)"

lemma noClashI:
  "distinct (map fst es) \<Longrightarrow> (\<And>g ty. (g, ty) \<in> set es \<Longrightarrow> known g = None) \<Longrightarrow>
     (\<And>g ty. (g, ty) \<in> set es \<Longrightarrow> gt_name ty \<notin> set metaKinds) \<Longrightarrow> noClash known es"
  by (auto simp: noClash_def)

text \<open>
  Adding panics when a kind is registered for two structs, and otherwise makes the types known, keeps what was known,
  and leaves other group versions alone.
\<close>

definition schemeLaw :: "'s schemeLib \<Rightarrow> bool" where
  "schemeLaw S \<longleftrightarrow>
     (\<forall>bs s. noClash (sl_known S s) (registered bs) \<longrightarrow>
        (\<exists>t. sl_addAll S bs s = (Ok (), t) \<and>
           (\<forall>(g, ty) \<in> set (registered bs). sl_known S t g = Some ty) \<and>
           (\<forall>g. (\<forall>b \<in> set bs. (gvk_group g, gvk_version g) \<noteq> (sb_group b, sb_version b)) \<longrightarrow> sl_known S t g = sl_known S s g)))"

lemma schemeLawD:
  assumes "schemeLaw S" "noClash (sl_known S s) (registered bs)"
  obtains t where "sl_addAll S bs s = (Ok (), t)" "\<And>g ty. (g, ty) \<in> set (registered bs) \<Longrightarrow> sl_known S t g = Some ty"
    "\<And>g. (\<And>b. b \<in> set bs \<Longrightarrow> (gvk_group g, gvk_version g) \<noteq> (sb_group b, sb_version b)) \<Longrightarrow> sl_known S t g = sl_known S s g"
  using assms unfolding schemeLaw_def by fastforce

lemmas registered_simps = registered_def AddToSchemes_cluster_def AddToSchemes_namespaced_def builder_defs WithKind_def

lemma registered_distinct:
  "distinct (map fst (registered AddToSchemes_cluster))" "distinct (map fst (registered AddToSchemes_namespaced))"
  by (simp_all add: registered_simps)

lemma registered_names:
  "(g, ty) \<in> set (registered AddToSchemes_cluster) \<Longrightarrow> gvk_group g = apiGroup ClusterScoped \<and> gt_name ty \<notin> set metaKinds"
  "(g, ty) \<in> set (registered AddToSchemes_namespaced) \<Longrightarrow> gvk_group g = apiGroup Namespaced \<and> gt_name ty \<notin> set metaKinds"
  by (auto simp: registered_simps metaKinds_def apiGroup_def)

lemma builder_groups:
  "b \<in> set AddToSchemes_cluster \<Longrightarrow> sb_group b = apiGroup ClusterScoped"
  "b \<in> set AddToSchemes_namespaced \<Longrightarrow> sb_group b = apiGroup Namespaced"
  by (auto simp: registered_simps apiGroup_def)

text \<open>The kinds that the controllers of a scope work with, by the packages that declare them.\<close>

definition kindPackages :: "scope \<Rightarrow> (string \<times> string) list" where
  "kindPackages sc =
     (case sc of
        ClusterScoped \<Rightarrow>
          [(''ProviderConfig'', ''apis/cluster/v1alpha1''), (''ProviderConfigUsage'', ''apis/cluster/v1alpha1''),
           (''ProviderConfigUsageList'', ''apis/cluster/v1alpha1''), (''Object'', ''apis/cluster/object/v1alpha2''),
           (''ObservedObjectCollection'', ''apis/cluster/observedobjectcollection/v1alpha1'')]
      | Namespaced \<Rightarrow>
          [(''ProviderConfig'', ''apis/namespaced/v1alpha1''), (''ClusterProviderConfig'', ''apis/namespaced/v1alpha1''),
           (''ProviderConfigUsage'', ''apis/namespaced/v1alpha1''),
           (''ProviderConfigUsageList'', ''apis/namespaced/v1alpha1''), (''Object'', ''apis/namespaced/object/v1alpha1''),
           (''ObservedObjectCollection'', ''apis/namespaced/observedobjectcollection/v1alpha1'')])"

lemma kindPackages_registered:
  "list_all (\<lambda>(kind, pkg). (providerGVK ClusterScoped kind, \<lparr>gt_package = pkg, gt_name = kind\<rparr>)
     \<in> set (registered AddToSchemes_cluster)) (kindPackages ClusterScoped)"
  "list_all (\<lambda>(kind, pkg). (providerGVK Namespaced kind, \<lparr>gt_package = pkg, gt_name = kind\<rparr>)
     \<in> set (registered AddToSchemes_namespaced)) (kindPackages Namespaced)"
  by (simp_all add: kindPackages_def registered_simps providerGVK_def apiGroup_def)

text \<open>
  The types of all API packages fit into one scheme: adding both scopes to a scheme that knows no kind of their
  groups does not panic, no kind is registered twice, and then the scheme knows every kind for which the controllers
  are set up or wait, and the v1alpha1 Object of the conversion webhook, as the struct of the package that handles it.
\<close>

lemma addAPIs_known:
  assumes law: "schemeLaw S" and fresh: "\<And>g sc. gvk_group g = apiGroup sc \<Longrightarrow> sl_known S s g = None"
  shows "\<exists>t. addAPIs S s = (Ok (), t) \<and>
    (\<forall>sc. \<forall>(kind, pkg) \<in> set (kindPackages sc).
       sl_known S t (providerGVK sc kind) = Some \<lparr>gt_package = pkg, gt_name = kind\<rparr>) \<and>
    sl_known S t (WithKind cluster_object_v1alpha1_SchemeBuilder ''Object'') =
      Some \<lparr>gt_package = ''apis/cluster/object/v1alpha1'', gt_name = ''Object''\<rparr>"
proof -
  have groups: "apiGroup Namespaced \<noteq> apiGroup ClusterScoped" by (simp add: apiGroup_def)
  have "noClash (sl_known S s) (registered AddToSchemes_cluster)"
    by (rule noClashI [OF registered_distinct(1)]) (use registered_names(1) fresh in blast)+
  from schemeLawD [OF law this] obtain s1 where 1: "sl_addAll S AddToSchemes_cluster s = (Ok (), s1)"
    "\<And>g ty. (g, ty) \<in> set (registered AddToSchemes_cluster) \<Longrightarrow> sl_known S s1 g = Some ty"
    "\<And>g. gvk_group g \<noteq> apiGroup ClusterScoped \<Longrightarrow> sl_known S s1 g = sl_known S s g"
    using builder_groups(1) by (metis prod.inject)
  have "noClash (sl_known S s1) (registered AddToSchemes_namespaced)"
  proof (rule noClashI [OF registered_distinct(2)])
    fix g ty assume "(g, ty) \<in> set (registered AddToSchemes_namespaced)"
    note name = registered_names(2) [OF this]
    then show "gt_name ty \<notin> set metaKinds" by simp
    have "sl_known S s1 g = sl_known S s g" using name groups by (intro 1(3)) simp
    then show "sl_known S s1 g = None" using name fresh by simp
  qed
  from schemeLawD [OF law this] obtain t where 2: "sl_addAll S AddToSchemes_namespaced s1 = (Ok (), t)"
    "\<And>g ty. (g, ty) \<in> set (registered AddToSchemes_namespaced) \<Longrightarrow> sl_known S t g = Some ty"
    "\<And>g. gvk_group g \<noteq> apiGroup Namespaced \<Longrightarrow> sl_known S t g = sl_known S s1 g"
    using builder_groups(2) by (metis prod.inject)
  have cluster: "sl_known S t g = Some ty" if "(g, ty) \<in> set (registered AddToSchemes_cluster)" for g ty
    using 1(2) 2(3) that registered_names(1) [OF that] groups by metis
  have kinds: "\<forall>sc. \<forall>(kind, pkg) \<in> set (kindPackages sc).
      sl_known S t (providerGVK sc kind) = Some \<lparr>gt_package = pkg, gt_name = kind\<rparr>"
    unfolding all_scope using cluster 2(2) kindPackages_registered by (auto simp only: list_all_iff)
  have "(WithKind cluster_object_v1alpha1_SchemeBuilder ''Object'',
      \<lparr>gt_package = ''apis/cluster/object/v1alpha1'', gt_name = ''Object''\<rparr>) \<in> set (registered AddToSchemes_cluster)"
    by (simp add: registered_simps)
  with cluster kinds 1(1) 2(1) show ?thesis
    by (intro exI [of _ t]) (simp add: addAPIs_def AddToScheme_cluster_def AddToScheme_namespaced_def split_beta)
qed

text \<open>A scheme that is a map, without the kinds of the API machinery.\<close>

definition ref_scheme :: "(gvk \<rightharpoonup> goType) schemeLib" where
  "ref_scheme = \<lparr>sl_addAll = \<lambda>bs s. (Ok (), s ++ map_of (registered bs)), sl_known = id\<rparr>"

lemma schemeLaw_ref: "schemeLaw ref_scheme"
proof -
  have "map_of (registered bs) g = None" if "\<forall>b \<in> set bs. (gvk_group g, gvk_version g) \<noteq> (sb_group b, sb_version b)" for bs g
    using that by (force simp: map_of_eq_None_iff registered_def WithKind_def)
  then show ?thesis
    by (auto simp: schemeLaw_def ref_scheme_def noClash_def map_add_def map_of_is_SomeI split: option.splits)
qed

lemma addAPIs_known_witness:
  "\<exists>t. addAPIs ref_scheme Map.empty = (Ok (), t) \<and>
     t (providerGVK ClusterScoped ''Object'') = Some \<lparr>gt_package = ''apis/cluster/object/v1alpha2'', gt_name = ''Object''\<rparr>"
proof -
  from addAPIs_known [OF schemeLaw_ref, of Map.empty] obtain t where
    t: "addAPIs ref_scheme Map.empty = (Ok (), t)"
    "\<forall>sc. \<forall>(kind, pkg) \<in> set (kindPackages sc).
      sl_known ref_scheme t (providerGVK sc kind) = Some \<lparr>gt_package = pkg, gt_name = kind\<rparr>"
    by (auto simp: ref_scheme_def)
  have "(''Object'', ''apis/cluster/object/v1alpha2'') \<in> set (kindPackages ClusterScoped)"
    by (simp add: kindPackages_def)
  with t(2) have "sl_known ref_scheme t (providerGVK ClusterScoped ''Object'') =
      Some \<lparr>gt_package = ''apis/cluster/object/v1alpha2'', gt_name = ''Object''\<rparr>" by blast
  with t(1) show ?thesis by (simp add: ref_scheme_def)
qed

end
