(* ===== verification/Provider_Main.thy ===== *)
theory Provider_Main
  imports Scheme
begin

text \<open>
  \<open>cmd/provider/main.go\<close>: from the parsed flags to the started controller manager. A fatal error ends
  the process and is an \<open>Err\<close>. The calls of controller-runtime and crossplane-runtime are parameters
  over an abstract state; logging and metrics are left out. The scheme of the manager is the parameter of
  \<open>Scheme\<close>, to which \<open>addAPIs\<close> adds the types of the provider; \<open>mn_addToScheme\<close> adds API groups of Kubernetes.
\<close>

record flags =
  fl_pollInterval :: int
  fl_pollJitterPercentage :: nat
  fl_sanitizeSecrets :: bool
  fl_changelogsSocketPath :: string
  fl_enableManagementPolicies :: bool
  fl_enableWatches :: bool
  fl_enableServerSideApply :: bool
  fl_enableChangeLogs :: bool
  fl_removeManagedFields :: bool
  fl_legacyCSAFieldManagers :: "string list"

record 's mainLib =
  mn_getConfig :: "'s \<Rightarrow> unit res \<times> 's"
  mn_getenv :: "string \<Rightarrow> string"
  mn_newManager :: "string \<Rightarrow> 's \<Rightarrow> unit res \<times> 's"
  mn_webhookReadyz :: "'s \<Rightarrow> unit res \<times> 's"
  mn_scheme :: "'s schemeLib"
  mn_addToScheme :: "string \<Rightarrow> 's \<Rightarrow> unit res \<times> 's"
  mn_newChangeLogger :: "string \<Rightarrow> 's \<Rightarrow> unit res \<times> 's"
  mn_objectWebhook :: "'s \<Rightarrow> unit res \<times> 's"
  mn_createReview :: "string \<Rightarrow> 's \<Rightarrow> bool res \<times> 's"
  mn_gateSetup :: "'s \<Rightarrow> unit res \<times> 's"
  mn_addReadyz :: "'s \<Rightarrow> unit res \<times> 's"
  mn_addHealthz :: "'s \<Rightarrow> unit res \<times> 's"
  mn_start :: "'s \<Rightarrow> unit res \<times> 's"

section \<open>Access to CRDs\<close>

text \<open>One access review per verb; the first one that is denied decides.\<close>

abbreviation crdVerbs :: "string list" where "crdVerbs \<equiv> [''get'', ''list'', ''watch'']"

fun verbsLoop :: "'s mainLib \<Rightarrow> string list \<Rightarrow> 's \<Rightarrow> bool res \<times> 's" where
  "verbsLoop N [] s = (Ok True, s)"
| "verbsLoop N (verb # verbs) s =
     tryS (mn_createReview N verb s)
       (ErrWrap ''unable to perform RBAC check for verb [get list watch] on CustomResourceDefinitions'') (\<lambda>allowed s.
       if \<not> allowed then (Ok False, s) else verbsLoop N verbs s)"

definition canWatchCRD :: "'s mainLib \<Rightarrow> 's \<Rightarrow> bool res \<times> 's" where
  "canWatchCRD N s = tryS (mn_addToScheme N ''authorization.k8s.io'' s) id (\<lambda>_ s. verbsLoop N crdVerbs s)"

section \<open>The process\<close>

text \<open>\<open>internal/bootcheck/default.go\<close>, the check of a build without tags, and \<open>init\<close>, which runs it before \<open>main\<close>.\<close>

definition CheckEnv :: "unit res" where
  "CheckEnv = Ok ()"

definition bootcheck_init :: "unit res" where
  "bootcheck_init = tryR CheckEnv (ErrWrap ''bootcheck failed. provider will not be started'') Ok"

lemma bootcheck_init_Ok: "bootcheck_init = Ok ()"
  by (simp add: bootcheck_init_def CheckEnv_def)

abbreviation webhookTLSCertDirEnvVar :: string where
  "webhookTLSCertDirEnvVar \<equiv> ''WEBHOOK_TLS_CERT_DIR''"
abbreviation tlsServerCertDirEnvVar :: string where
  "tlsServerCertDirEnvVar \<equiv> ''TLS_SERVER_CERTS_DIR''"
abbreviation tlsServerCertDir :: string where
  "tlsServerCertDir \<equiv> ''/tls/server''"

definition webhookCertDir :: "'s mainLib \<Rightarrow> string" where
  "webhookCertDir N =
     (let certDir = mn_getenv N webhookTLSCertDirEnvVar in
      if certDir = [] then
        (let certDir = mn_getenv N tlsServerCertDirEnvVar in
         if certDir = [] then tlsServerCertDir else certDir)
      else certDir)"

definition setupHealthProbes :: "'s mainLib \<Rightarrow> 's \<Rightarrow> unit res \<times> 's" where
  "setupHealthProbes N s =
     tryS (mn_addReadyz N s) (ErrWrap ''cannot add readiness probe'') (\<lambda>_ s.
     tryS (mn_addHealthz N s) (ErrWrap ''cannot add liveness probe'') (\<lambda>_ s. (Ok (), s)))"

definition mainFeatures :: "flags \<Rightarrow> string list" where
  "mainFeatures F =
     (if fl_enableManagementPolicies F then [EnableBetaManagementPolicies] else []) @
     (if fl_enableWatches F then [EnableAlphaWatches] else []) @
     (if fl_enableServerSideApply F then [EnableBetaServerSideApply] else []) @
     (if fl_enableChangeLogs F then [EnableAlphaChangeLogs] else [])"

definition mainControllerOptions :: "flags \<Rightarrow> controllerOptions" where
  "mainControllerOptions F = \<lparr>co_pollInterval = fl_pollInterval F, co_features = mainFeatures F\<rparr>"

definition mainProviderOptions :: "flags \<Rightarrow> providerOptions" where
  "mainProviderOptions F =
     \<lparr>po_sanitizeSecrets = fl_sanitizeSecrets F, po_removeManagedFields = fl_removeManagedFields F,
      po_pollJitter = durationOf (of_int (fl_pollInterval F) * (of_nat (fl_pollJitterPercentage F) / 100)),
      po_pollJitterPercentage = fl_pollJitterPercentage F,
      po_legacyCSAFieldManagers = (if fl_enableServerSideApply F then fl_legacyCSAFieldManagers F else [])\<rparr>"

text \<open>The controllers of both scopes, behind the CRD gate when CRDs can be watched.\<close>

definition setupControllers ::
  "klib \<Rightarrow> 's mainLib \<Rightarrow> ('s, 'w, 'rc, 'p) managerLib \<Rightarrow> ('w, 'rc, 'p) controllerDeps \<Rightarrow> flags \<Rightarrow> 's
     \<Rightarrow> unit res \<times> 's" where
  "setupControllers L N M D F s =
     (let o' = mainControllerOptions F; po = mainProviderOptions F;
          clusterErr = ErrWrap ''Cannot setup cluster-scoped controller'';
          namespacedErr = ErrWrap ''Cannot setup namespaced controller'' in
      tryS (canWatchCRD N s) (ErrWrap ''SafeStart precheck failed'') (\<lambda>canSafeStart s.
        if canSafeStart then
          tryS (mn_gateSetup N s) (ErrWrap ''Cannot setup CRD gate'') (\<lambda>_ s.
          tryS (SetupGated L M ClusterScoped D o' po s) clusterErr (\<lambda>_ s.
          tryS (SetupGated L M Namespaced D o' po s) namespacedErr (\<lambda>_ s. (Ok (), s))))
        else
          tryS (Setup L M ClusterScoped D o' po s) clusterErr (\<lambda>_ s.
          tryS (Setup L M Namespaced D o' po s) namespacedErr (\<lambda>_ s. (Ok (), s)))))"

text \<open>The parts of \<open>main\<close> around them: the change logs, the conversion webhook, and the start.\<close>

definition setupChangeLogs :: "'s mainLib \<Rightarrow> flags \<Rightarrow> 's \<Rightarrow> unit res \<times> 's" where
  "setupChangeLogs N F s =
     (if fl_enableChangeLogs F then
        tryS (mn_newChangeLogger N (''unix://'' @ fl_changelogsSocketPath F) s)
          (ErrWrap (''failed to create change logs client connection at '' @ fl_changelogsSocketPath F)) (\<lambda>_ s. (Ok (), s))
      else (Ok (), s))"

definition setupObjectWebhook :: "'s mainLib \<Rightarrow> 's \<Rightarrow> unit res \<times> 's" where
  "setupObjectWebhook N s = tryS (mn_objectWebhook N s) (ErrWrap ''Cannot create Object webhook'') (\<lambda>_ s. (Ok (), s))"

definition startManager :: "'s mainLib \<Rightarrow> 's \<Rightarrow> unit res \<times> 's" where
  "startManager N s =
     tryS (setupHealthProbes N s) (ErrWrap ''Cannot setup health probes'') (\<lambda>_ s.
     tryS (mn_start N s) (ErrWrap ''Cannot start controller manager'') (\<lambda>_ s. (Ok (), s)))"

definition main ::
  "klib \<Rightarrow> 's mainLib \<Rightarrow> ('s, 'w, 'rc, 'p) managerLib \<Rightarrow> ('w, 'rc, 'p) controllerDeps \<Rightarrow> flags \<Rightarrow> 's
     \<Rightarrow> unit res \<times> 's" where
  "main L N M D F s =
     (if 100 \<le> fl_pollJitterPercentage F
      then (Err (ErrNew (''invalid --poll-jitter-percentage '' @ decimal (fl_pollJitterPercentage F) @
        '' must be less than 100'')), s)
      else
        tryS (mn_getConfig N s) (ErrWrap ''Cannot get API server rest config'') (\<lambda>_ s.
        tryS (mn_newManager N (webhookCertDir N) s) (ErrWrap ''Cannot create controller manager'') (\<lambda>_ s.
        tryS (mn_webhookReadyz N s)
          (ErrWrap ''Cannot add webhook server readyz checker to controller manager'') (\<lambda>_ s.
        tryS (addAPIs (mn_scheme N) s) id (\<lambda>_ s.
        tryS (mn_addToScheme N ''apiextensions.k8s.io'' s)
          (ErrWrap ''Cannot register k8s apiextensions APIs to scheme'') (\<lambda>_ s.
        tryS (setupChangeLogs N F s) id (\<lambda>_ s.
        tryS (setupObjectWebhook N s) id (\<lambda>_ s.
        tryS (setupControllers L N M D F s) id (\<lambda>_ s. startManager N s)))))))))"

end
