(* ===== verification/Ref_Process.thy ===== *)
theory Ref_Process
  imports Connector Ref_World
begin

text \<open>
  A small instance of the parameters of \<open>Connector\<close>: an API server whose OpenAPI document describes
  one kind, and a connector with server-side apply on the cluster in memory of \<open>Ref_World\<close>.
\<close>

section \<open>The OpenAPI server\<close>

definition ref_components :: components where
  "ref_components =
     [(''io.k8s.api.core.v1.ConfigMap'',
       \<lparr>sch_extensions = [(groupVersionKindExtensionKey,
          JArray [JObject [(''group'', JString []), (''version'', JString ''v1''), (''kind'', JString ''ConfigMap'')]])],
        sch_refs = [None]\<rparr>)]"

definition ref_xlib :: "(refWorld, unit) xlib" where
  "ref_xlib =
     \<lparr>x_rootPath = ''/'',
      x_discoveryRaw = \<lambda>w. (Ok ''discovery'', w),
      x_discoveryPaths = \<lambda>data. Ok [(''api/v1'', ''/openapi/v3/api/v1'')],
      x_urlParse = \<lambda>url. Ok (url, [(''hash'', ''e1'')]),
      x_fetch = \<lambda>req w. (Ok ''document'', w),
      x_openapi = \<lambda>doc. Ok (Some ref_components),
      x_aggregate = \<lambda>es. (case es of [] \<Rightarrow> None | e # _ \<Rightarrow> Some e),
      x_gvkString = gvk_kind,
      x_toSchema = \<lambda>cs b. Ok (),
      x_extractInto = \<lambda>u tp owner sub. Ok (u\<lparr>u_managedFields := []\<rparr>)\<rparr>"

lemma ref_xlib_simps [simp]:
  "x_rootPath ref_xlib = ''/''"
  "x_discoveryRaw ref_xlib w = (Ok ''discovery'', w)"
  "x_discoveryPaths ref_xlib data = Ok [(''api/v1'', ''/openapi/v3/api/v1'')]"
  "x_urlParse ref_xlib url = Ok (url, [(''hash'', ''e1'')])"
  "x_fetch ref_xlib req w = (Ok ''document'', w)"
  "x_openapi ref_xlib doc = Ok (Some ref_components)"
  "x_aggregate ref_xlib [] = None"
  "x_toSchema ref_xlib cs b = Ok ()"
  "x_extractInto ref_xlib u tp owner sub = Ok (u\<lparr>u_managedFields := []\<rparr>)"
  by (simp_all add: ref_xlib_def)

abbreviation ref_configMapGVK :: gvk where
  "ref_configMapGVK \<equiv> \<lparr>gvk_group = [], gvk_version = ''v1'', gvk_kind = ''ConfigMap''\<rparr>"

definition ref_parser :: "unit gvkParser" where
  "ref_parser = \<lparr>gp_gvks = [ref_configMapGVK \<mapsto> ''io.k8s.api.core.v1.ConfigMap''], gp_parser = ()\<rparr>"

lemma ref_gvkOf_configMap [simp]: "ref_gvkOf ref_configMap = ref_configMapGVK"
  by (simp add: ref_gvkOf_def parseAPIVersion_def splitN2_def)

lemma ref_newParser [simp]: "newParserFromOpenAPIGroupVersion ref_xlib g w = (Ok ref_parser, w)"
  by (simp add: newParserFromOpenAPIGroupVersion_def schemaOf_def NewGVKParser_def refErrors_def ref_components_def
      validateRef_def List.map_filter_def parseGroupVersionKind_def ref_parser_def liftR_def)

lemma ref_discoveryPaths:
  "discoveryPaths ref_xlib w =
     (Ok ([''api/v1'' \<mapsto> newCustomOAPIGroupVersion ''/openapi/v3/api/v1'' True], [''api/v1'' \<mapsto> ''e1'']), w)"
  by (simp add: discoveryPaths_def trimSlash_def trimPrefix_def hasPrefix_def hashParam_def)

lemma ref_configMap_same:
  "ref_configMap\<lparr>u_apiVersion := ''v1'', u_kind := ''ConfigMap'', u_namespace := ''apps'', u_name := ''settings'',
     u_managedFields := []\<rparr> = ref_configMap"
  by (simp add: ref_configMap_def emptyUnstructured_def)

lemma ref_Extract_empty:
  "Extract ref_lib ref_xlib ref_configMap owner (Map.empty, w) =
     (Ok ref_configMap, ([([], ''v1'') \<mapsto> \<lparr>pe_parser = ref_parser, pe_etag = ''e1''\<rparr>], w))"
  by (simp add: Extract_def extractUnstructured_def getParserForGV_def ref_discoveryPaths gvRelativeAPIPath_def
      invalidateStale_def cacheHit_def fetchParser_def parserType_def ref_parser_def ref_configMap_same
      Let_def)

section \<open>The connector\<close>

definition ref_providerConfig :: providerConfig where
  "ref_providerConfig =
     \<lparr>pc_uid = ''pc-1'', pc_name = ''default'',
      pc_spec = \<lparr>pcs_credentials = \<lparr>pcd_source = ''InjectedIdentity'', pcd_selectors = []\<rparr>, pcs_identity = None\<rparr>\<rparr>"

definition ref_connector :: "(refWorld, unit, unit) connector" where
  "ref_connector =
     \<lparr>cn_kube = ref_client,
      cn_track = \<lambda>mg w. (Ok (), w),
      cn_getProviderConfig = \<lambda>kind key w. (Ok ref_providerConfig, w),
      cn_clientBuilder = \<lambda>spec w. (Ok (ref_client, ()), w),
      cn_discovery = \<lambda>rc. Ok ref_xlib,
      cn_kindObserver = None,
      cn_sanitizeSecrets = True,
      cn_removeManagedFields = True,
      cn_ssaEnabled = True,
      cn_legacyCSAFieldManagers = [''crossplane-kubernetes-provider'']\<rparr>"

lemma ref_connector_simps [simp]:
  "cn_ssaEnabled ref_connector" "cn_legacyCSAFieldManagers ref_connector = [''crossplane-kubernetes-provider'']"
  "cn_kube ref_connector = ref_client" "cn_track ref_connector mg w = (Ok (), w)"
  "cn_getProviderConfig ref_connector kind key w = (Ok ref_providerConfig, w)"
  "cn_clientBuilder ref_connector spec w = (Ok (ref_client, ()), w)"
  "cn_discovery ref_connector rc = Ok ref_xlib"
  by (simp_all add: ref_connector_def)

definition ref_process :: "(refWorld, unit) process" where
  "ref_process =
     \<lparr>pr_world = Map.empty, pr_stateCaches = NewDesiredStateCacheManager,
      pr_parsers = NewGVKParserCacheManager [], pr_informers = newInformers\<rparr>"

abbreviation ref_managed :: managed where
  "ref_managed \<equiv> NamespacedObject (ref_object ''settings'' ref_manifest)"

abbreviation ref_ssa :: "string \<Rightarrow> (refWorld, unit) process ssaSyncer" where
  "ref_ssa uid \<equiv> connectedSSA ref_lib ref_xlib Namespaced [''crossplane-kubernetes-provider''] ref_client uid 0"

text \<open>The first reconcile: Connect gives address 0, and the desired state is the manifest.\<close>

definition ref_connected :: "(refWorld, unit) process" where
  "ref_connected = ref_process\<lparr>pr_parsers :=
     \<lparr>pm_cacheStore = [''pc-1'' \<mapsto> 0], pm_heap = [0 \<mapsto> Map.empty], pm_next = 1\<rparr>\<rparr>"

lemma ref_Connect:
  "\<exists>E. Connect ref_lib Namespaced ref_connector ref_managed ref_process = (Ok E, ref_connected) \<and>
     ex_syncer E = SSAResourceSyncer ref_lib (ref_ssa ''uid-settings'')"
  by (simp add: Connect_def onWorld_def resolveProviderConfig_def enableSSA_def ref_process_def ref_connected_def
      LoadOrNewCacheForProviderConfig_def NewGVKParserCacheManager_def ref_providerConfig_def)

lemma ref_Connect_ok: "\<exists>E v. Connect ref_lib Namespaced ref_connector ref_managed s = (Ok E, v)"
  by (cases "pm_cacheStore (pr_parsers s) ''pc-1''")
    (simp_all add: Connect_def onWorld_def resolveProviderConfig_def enableSSA_def
      LoadOrNewCacheForProviderConfig_def ref_providerConfig_def)

lemma ref_GetDesiredState:
  "\<exists>t. SSA_GetDesiredState ref_lib (ref_ssa ''uid-settings'') (ref_object ''settings'' ref_manifest) ref_configMap
     ref_connected = (Ok (Some ref_configMap), t)"
  by (simp add: SSA_GetDesiredState_def connectedSSA_def loadStateCache_def LoadOrNewForManaged_def loadLocked_def
      ref_connected_def ref_process_def NewDesiredStateCacheManager_def stateCacheRef_def GetStateFor_def readCache_def
      emptyCache_def worldClient_def onWorld_def storeDesired_def needSSAFieldManagerUpgrade_def parserExtract_def
      readParserCache_def ref_Extract_empty)

end
