(* ===== verification/Desired_State.thy ===== *)
theory Desired_State
  imports Ref_Process
begin

text \<open>
  The desired state that the server-side-apply syncer of a connected client computes: how long it is
  served from the cache, where a cached state comes from, and what a needed upgrade of the field
  managers does.
\<close>

section \<open>Frames\<close>

lemma onWorld_frame:
  "onWorld f s = (r, t) \<Longrightarrow> pr_stateCaches t = pr_stateCaches s \<and> pr_parsers t = pr_parsers s \<and>
     pr_informers t = pr_informers s"
  by (auto simp: onWorld_def split: prod.splits)

lemma worldClient_ssa: "k_ssa (worldClient K) dry owner u = onWorld (k_ssa K dry owner u)"
  by (simp add: worldClient_def)

lemma parserExtract_frame: "parserExtract L X a u owner s = (r, t) \<Longrightarrow> pr_stateCaches t = pr_stateCaches s"
  by (auto simp: parserExtract_def split: prod.splits)

lemma Connect_frame:
  assumes "Connect L sc N mg s = (r, t)"
  shows "pr_stateCaches t = pr_stateCaches s" "pr_informers t = pr_informers s"
proof -
  have "pr_stateCaches t = pr_stateCaches s \<and> pr_informers t = pr_informers s"
    using assms unfolding Connect_def Let_def
    by (auto simp: enableSSA_def liftR_def dest!: onWorld_frame split: option.splits res_splits prod.splits if_splits)
  then show "pr_stateCaches t = pr_stateCaches s" "pr_informers t = pr_informers s" by simp_all
qed

lemma enableSSA_OkE:
  assumes "enableSSA L sc N uid pc k rc e s = (Ok E, t)"
  obtains X a where "cn_discovery N rc = Ok X"
    "ex_syncer E = SSAResourceSyncer L (connectedSSA L X sc (cn_legacyCSAFieldManagers N) k uid a)"
    "ex_desiredStateCacheCleanupFn E = Some (cleanupStateCache uid)"
    "ex_client E = ex_client e" "ex_localClient E = ex_localClient e" "ex_kindObserver E = ex_kindObserver e"
    "LoadOrNewCacheForProviderConfig (pc_uid pc) (pr_parsers s) = (Ok a, pr_parsers t)"
proof -
  obtain r m where l: "LoadOrNewCacheForProviderConfig (pc_uid pc) (pr_parsers s) = (r, m)"
    by (cases "LoadOrNewCacheForProviderConfig (pc_uid pc) (pr_parsers s)")
  from assms l obtain X a where X: "cn_discovery N rc = Ok X" and r: "r = Ok a"
    and e: "E = e\<lparr>ex_syncer := SSAResourceSyncer L (connectedSSA L X sc (cn_legacyCSAFieldManagers N) k uid a),
              ex_desiredStateCacheCleanupFn := Some (cleanupStateCache uid)\<rparr>" "t = s\<lparr>pr_parsers := m\<rparr>"
    by (auto simp: enableSSA_def res_simps)
  show ?thesis by (rule that [OF X, of a]) (use e l r in simp_all)
qed

lemma Connect_OkE:
  assumes "Connect L sc N mg s = (Ok E, t)" "cn_ssaEnabled N"
  obtains obj X k a where "objectOf sc mg = Some obj"
    "ex_syncer E = SSAResourceSyncer L (connectedSSA L X sc (cn_legacyCSAFieldManagers N) k (koUID obj) a)"
    "ex_desiredStateCacheCleanupFn E = Some (cleanupStateCache (koUID obj))"
proof -
  from assms obtain obj pc k rc e u where o: "objectOf sc mg = Some obj"
    and "enableSSA L sc N (koUID obj) pc k rc e u = (Ok E, t)"
    by (auto simp: Connect_def Let_def res_simps split: option.splits)
  from enableSSA_OkE [OF this(2)] that [OF o] show ?thesis by metis
qed

section \<open>The cached state\<close>

text \<open>The cache of a managed resource holds a state under a hash.\<close>

definition cachedFor :: "string \<Rightarrow> string \<Rightarrow> unstructured \<Rightarrow> cacheManager \<Rightarrow> bool" where
  "cachedFor uid h d m \<longleftrightarrow> wfManager m \<and>
     (\<exists>a. cm_store m uid = Some a \<and> readCache a m = \<lparr>dc_extracted = Some d, dc_hash = h\<rparr>)"

text \<open>
  Everything else the process does: other calls and memory, loads of any cache, writes through a
  pointer to another resource's cache, and the cleanup of other resources.
\<close>

inductive otherActivity :: "klib \<Rightarrow> string \<Rightarrow> ('w, 'p) process \<Rightarrow> ('w, 'p) process \<Rightarrow> bool"
  for L :: klib and uid :: string where
  memory: "pr_stateCaches t = pr_stateCaches s \<Longrightarrow> otherActivity L uid s t"
| load: "loadStateCache L sc uid' s = (c, t) \<Longrightarrow> otherActivity L uid s t"
| store: "cm_store (pr_stateCaches s) uid \<noteq> Some a \<Longrightarrow>
     otherActivity L uid s (cr_SetStateFor (stateCacheRef L sc a) obj v s)"
| cleanup: "uid' \<noteq> uid \<Longrightarrow> otherActivity L uid s (cleanupStateCache uid' s)"

lemma readCache_LoadOrNew:
  assumes "wfManager m" "LoadOrNewForManaged uid m = (a, m')" "cm_store m v = Some b"
  shows "readCache b m' = readCache b m" "cm_store m' v = Some b"
proof -
  show "cm_store m' v = Some b"
    using dscm.load_keeps [of uid m "Ok a" m' v b] assms by (simp add: loadCache_def)
  from assms have "b \<noteq> cm_next m" by (auto simp: wfManager_def)
  with assms(2) show "readCache b m' = readCache b m"
    by (auto simp: LoadOrNewForManaged_def loadLocked_def readCache_def split: option.splits)
qed

lemma otherActivity_cachedFor:
  assumes "otherActivity L uid s t" "cachedFor uid h d (pr_stateCaches s)"
  shows "cachedFor uid h d (pr_stateCaches t)"
  using assms
proof cases
  case (load sc uid' c)
  obtain a m where l: "LoadOrNewForManaged uid' (pr_stateCaches s) = (a, m)"
    by (cases "LoadOrNewForManaged uid' (pr_stateCaches s)")
  with load have t: "pr_stateCaches t = m" by (auto simp: loadStateCache_def)
  from assms(2) obtain b where wf: "wfManager (pr_stateCaches s)"
    and b: "cm_store (pr_stateCaches s) uid = Some b"
    "readCache b (pr_stateCaches s) = \<lparr>dc_extracted = Some d, dc_hash = h\<rparr>"
    by (auto simp: cachedFor_def)
  with readCache_LoadOrNew [OF wf l b(1)] wfManager_LoadOrNew [OF wf, of uid'] l show ?thesis
    by (auto simp: cachedFor_def t)
next
  case (store a sc obj v)
  from assms(2) obtain b where wf: "wfManager (pr_stateCaches s)"
    and b: "cm_store (pr_stateCaches s) uid = Some b"
    "readCache b (pr_stateCaches s) = \<lparr>dc_extracted = Some d, dc_hash = h\<rparr>"
    by (auto simp: cachedFor_def)
  with store have "b \<noteq> a" by simp
  then have "readCache b (writeCache a dc (pr_stateCaches s)) = readCache b (pr_stateCaches s)" for dc
    by (auto simp: readCache_def writeCache_def split: option.splits)
  with wf b store show ?thesis by (simp add: stateCacheRef_def cachedFor_def wfManager_writeCache)
next
  case (cleanup uid')
  with assms(2) show ?thesis
    by (auto simp: cachedFor_def cleanupStateCache_def wfManager_Remove)
      (simp add: RemoveManaged_def readCache_def)
qed simp

lemma otherActivities_cachedFor:
  "(otherActivity L uid)\<^sup>*\<^sup>* s t \<Longrightarrow> cachedFor uid h d (pr_stateCaches s) \<Longrightarrow> cachedFor uid h d (pr_stateCaches t)"
  by (induction rule: rtranclp_induct) (auto intro: otherActivity_cachedFor)

section \<open>Hits\<close>

lemma cachedFor_hit:
  assumes "cachedFor (uid::string) (manifestHash L obj) d (pr_stateCaches s)"
    and "\<not> needSSAFieldManagerUpgrade L legacy (Some d)"
  shows "SSA_GetDesiredState L (connectedSSA L X sc legacy k uid pa) obj manifest s = (Ok (Some d), s)"
proof -
  from assms(1) obtain a where a: "cm_store (pr_stateCaches s) uid = Some a"
    "readCache a (pr_stateCaches s) = \<lparr>dc_extracted = Some d, dc_hash = manifestHash L obj\<rparr>"
    by (auto simp: cachedFor_def)
  then show ?thesis using assms(2)
    by (simp add: SSA_GetDesiredState_def connectedSSA_def loadStateCache_def LoadOrNewForManaged_def
        stateCacheRef_def GetStateFor_def)
qed

text \<open>What a successful computation went through, and what it leaves in the cache.\<close>

lemma SSA_GetDesiredState_SomeE:
  assumes run: "SSA_GetDesiredState L (connectedSSA L X sc legacy k uid pa) obj manifest s = (Ok (Some d), t)"
    and wf: "wfManager (pr_stateCaches s)"
  obtains (hit) a m where "LoadOrNewForManaged uid (pr_stateCaches s) = (a, m)"
      "t = s\<lparr>pr_stateCaches := m\<rparr>" "readCache a m = \<lparr>dc_extracted = Some d, dc_hash = manifestHash L obj\<rparr>"
      "\<not> needSSAFieldManagerUpgrade L legacy (Some d)"
    | (miss) a m u dry v where "LoadOrNewForManaged uid (pr_stateCaches s) = (a, m)"
      "k_ssa (worldClient k) True (ssaFieldOwner (koName obj)) manifest (s\<lparr>pr_stateCaches := m\<rparr>) = (Ok dry, u)"
      "\<not> needSSAFieldManagerUpgrade L legacy (Some dry)"
      "parserExtract L X pa dry (ssaFieldOwner (koName obj)) u = (Ok d, v)"
      "pr_stateCaches v = m" "pr_stateCaches t = writeCache a \<lparr>dc_extracted = Some d, dc_hash = manifestHash L obj\<rparr> m"
proof -
  obtain a m where l: "LoadOrNewForManaged uid (pr_stateCaches s) = (a, m)"
    by (cases "LoadOrNewForManaged uid (pr_stateCaches s)")
  let ?s = "s\<lparr>pr_stateCaches := m\<rparr>"
  let ?S = "connectedSSA L X sc legacy k uid pa"
  show ?thesis
  proof (cases "\<exists>c. GetStateFor L (managedOf sc obj) (readCache a m) = (Some c, True) \<and>
      \<not> needSSAFieldManagerUpgrade L legacy (Some c)")
    case True
    then obtain c where c: "GetStateFor L (managedOf sc obj) (readCache a m) = (Some c, True)"
      "\<not> needSSAFieldManagerUpgrade L legacy (Some c)" by blast
    with run l have "c = d" "t = ?s"
      by (simp_all add: SSA_GetDesiredState_def connectedSSA_def loadStateCache_def stateCacheRef_def)
    with c have "readCache a m = \<lparr>dc_extracted = Some d, dc_hash = manifestHash L obj\<rparr>"
      by (cases "readCache a m") (auto simp: GetStateFor_def split: if_splits)
    with l \<open>t = ?s\<close> c(2) \<open>c = d\<close> show ?thesis by (intro hit) auto
  next
    case False
    obtain cd ok where g: "GetStateFor L (managedOf sc obj) (readCache a m) = (cd, ok)"
      by (cases "GetStateFor L (managedOf sc obj) (readCache a m)")
    from False g have miss': "\<not> (ok \<and> cd \<noteq> None \<and> \<not> needSSAFieldManagerUpgrade L legacy cd)"
      by (cases cd) auto
    have "SSA_GetDesiredState L ?S obj manifest s =
      tryS (k_ssa (worldClient k) True (ssaFieldOwner (koName obj)) manifest ?s)
        (\<lambda>e. ErrWrap ''cannot dry run SSA'' (ErrClean e)) (storeDesired L ?S (stateCacheRef L sc a) obj)"
      using l g by (subst SSA_GetDesiredState_def, simp add: connectedSSA_def loadStateCache_def stateCacheRef_def)
        (use miss' in auto)
    with run obtain dry u where dry: "k_ssa (worldClient k) True (ssaFieldOwner (koName obj)) manifest ?s = (Ok dry, u)"
      and st: "storeDesired L ?S (stateCacheRef L sc a) obj dry u = (Ok (Some d), t)"
      by (auto simp: res_simps)
    have u: "pr_stateCaches u = m" using onWorld_frame dry by (fastforce simp: worldClient_ssa)
    from st obtain v where ne: "\<not> needSSAFieldManagerUpgrade L legacy (Some dry)"
      and v: "parserExtract L X pa dry (ssaFieldOwner (koName obj)) u = (Ok d, v)"
      and t: "t = cr_SetStateFor (stateCacheRef L sc a) obj (Some d) v"
      by (auto simp: storeDesired_def connectedSSA_def split: if_splits prod.splits res.splits)
    have "pr_stateCaches v = m" using parserExtract_frame [OF v] u by simp
    moreover from this have "pr_stateCaches t = writeCache a \<lparr>dc_extracted = Some d, dc_hash = manifestHash L obj\<rparr> m"
      by (cases "readCache a m") (simp add: t stateCacheRef_def SetStateFor_def)
    ultimately show ?thesis by (intro miss [OF l dry ne v])
  qed
qed

lemma SSA_GetDesiredState_cachedFor:
  assumes run: "SSA_GetDesiredState L (connectedSSA L X sc legacy k uid pa) obj manifest s = (Ok (Some d), t)"
    and wf: "wfManager (pr_stateCaches s)"
  shows "cachedFor uid (manifestHash L obj) d (pr_stateCaches t)"
  using run wf
proof (cases rule: SSA_GetDesiredState_SomeE)
  case (hit a m)
  with wf LoadOrNew_allocated(2) [OF wf hit(1)] wfManager_LoadOrNew [OF wf, of uid] show ?thesis
    by (simp add: cachedFor_def)
next
  case (miss a m u dry v)
  note al = LoadOrNew_allocated [OF wf miss(1)]
  have "wfManager m" using wfManager_LoadOrNew [OF wf, of uid] miss(1) by simp
  with al miss(6) show ?thesis by (simp add: cachedFor_def wfManager_writeCache readCache_writeCache)
qed

section \<open>Properties\<close>

text \<open>
  C7. A desired state computed once is served from then on without another dry run: after a client
  connected for an Object computed it, and whatever other Objects' reconciles do meanwhile, a client
  connected later for the same Object gets the same desired state for the same manifest bytes, and
  the process and the cluster stay as they are.
\<close>

theorem SSA_desired_state_served_from_cache:
  assumes ssa: "cn_ssaEnabled N" "Connect L sc N mg s0 = (Ok E, s)" "objectOf sc mg = Some o1"
    and first: "rs_GetDesiredState (ex_syncer E) obj manifest s = (Ok (Some d), t)"
    and wf: "wfManager (pr_stateCaches s0)"
    and clean: "\<not> needSSAFieldManagerUpgrade L (cn_legacyCSAFieldManagers N) (Some d)"
    and meanwhile: "(otherActivity L (koUID o1))\<^sup>*\<^sup>* t u"
    and later: "Connect L sc N mg' u = (Ok E', v)" "objectOf sc mg' = Some o2" "koUID o2 = koUID o1"
    and bytes: "rawBytes (koManifest obj') = rawBytes (koManifest obj)"
  shows "rs_GetDesiredState (ex_syncer E') obj' manifest' v = (Ok (Some d), v)"
proof -
  let ?uid = "koUID o1" and ?h = "manifestHash L obj"
  obtain X k a where E: "ex_syncer E =
      SSAResourceSyncer L (connectedSSA L X sc (cn_legacyCSAFieldManagers N) k ?uid a)"
    using Connect_OkE [OF ssa(2,1)] ssa(3) by (metis option.inject)
  obtain X' k' a' where E': "ex_syncer E' =
      SSAResourceSyncer L (connectedSSA L X' sc (cn_legacyCSAFieldManagers N) k' ?uid a')"
    using Connect_OkE [OF later(1) ssa(1)] later(2,3) by (metis option.inject)
  have "wfManager (pr_stateCaches s)" using wf Connect_frame(1) [OF ssa(2)] by simp
  from SSA_GetDesiredState_cachedFor [OF _ this] first E have "cachedFor ?uid ?h d (pr_stateCaches t)"
    by (simp add: SSAResourceSyncer_def)
  from otherActivities_cachedFor [OF meanwhile this] have "cachedFor ?uid ?h d (pr_stateCaches v)"
    using Connect_frame(1) [OF later(1)] by simp
  moreover have "manifestHash L obj' = ?h" using bytes by (simp add: manifestHash_def)
  ultimately show ?thesis
    using cachedFor_hit [of ?uid L obj' d v] clean E' by (simp add: SSAResourceSyncer_def)
qed

lemma SSA_desired_state_served_from_cache_witness:
  "\<exists>(E' :: ((refWorld, unit) process, unit) external) t.
     rs_GetDesiredState (ex_syncer E') (ref_object ''settings'' ref_manifest) ref_namespace t = (Ok (Some ref_configMap), t)"
proof -
  obtain E where E: "Connect ref_lib Namespaced ref_connector ref_managed ref_process = (Ok E, ref_connected)"
    and syn: "ex_syncer E = SSAResourceSyncer ref_lib (ref_ssa ''uid-settings'')"
    using ref_Connect by blast
  obtain t where t: "rs_GetDesiredState (ex_syncer E) (ref_object ''settings'' ref_manifest) ref_configMap ref_connected =
      (Ok (Some ref_configMap), t)"
    using ref_GetDesiredState by (auto simp: syn SSAResourceSyncer_def)
  obtain E' v where E': "Connect ref_lib Namespaced ref_connector ref_managed t = (Ok E', v)"
    using ref_Connect_ok by blast
  have "rs_GetDesiredState (ex_syncer E') (ref_object ''settings'' ref_manifest) ref_namespace v =
      (Ok (Some ref_configMap), v)"
    by (rule SSA_desired_state_served_from_cache [OF _ E _ t _ _ rtranclp.rtrancl_refl E'])
      (simp_all add: needSSAFieldManagerUpgrade_def ref_process_def wfManager_New)
  then show ?thesis by blast
qed

definition cachesMade :: "(string \<Rightarrow> string \<Rightarrow> unstructured \<Rightarrow> bool) \<Rightarrow> cacheManager \<Rightarrow> bool" where
  "cachesMade made m \<longleftrightarrow>
     (\<forall>uid a d. cm_store m uid = Some a \<longrightarrow> dc_extracted (readCache a m) = Some d \<longrightarrow>
        made uid (dc_hash (readCache a m)) d)"

lemma cachesMadeD:
  "cachesMade made m \<Longrightarrow> cm_store m uid = Some a \<Longrightarrow> dc_extracted (readCache a m) = Some d \<Longrightarrow>
     made uid (dc_hash (readCache a m)) d"
  by (simp add: cachesMade_def)

lemma cachesMade_load:
  assumes "cachesMade made m" "wfManager m" "LoadOrNewForManaged uid m = (a, m')"
  shows "cachesMade made m'"
  unfolding cachesMade_def
proof (intro allI impI)
  fix u b d
  assume b: "cm_store m' u = Some b" and d: "dc_extracted (readCache b m') = Some d"
  show "made u (dc_hash (readCache b m')) d"
  proof (cases "cm_store m u = Some b")
    case True
    with readCache_LoadOrNew [OF assms(2,3) True] assms(1) d show ?thesis by (simp add: cachesMade_def)
  next
    case False
    with assms(3) b have "b = cm_next m" "readCache b m' = emptyCache"
      by (auto simp: LoadOrNewForManaged_def loadLocked_def readCache_def split: option.splits if_splits)
    with d show ?thesis by (simp add: emptyCache_def)
  qed
qed

lemma cachesMade_write:
  assumes "cachesMade made m" "wfManager m" "cm_store m uid = Some a" "made uid h d"
  shows "cachesMade made (writeCache a \<lparr>dc_extracted = Some d, dc_hash = h\<rparr> m)"
proof -
  have dom: "a \<in> dom (cm_heap m)" using assms(2,3) by (auto simp: wfManager_def)
  have "u = uid" if "cm_store m u = Some a" for u
    using assms(2,3) that by (auto simp: wfManager_def)
  with assms(1,4) dom show ?thesis by (auto simp: cachesMade_def readCache_writeCache)
qed

text \<open>
  C8. A served desired state is never one of another Object or another manifest: if every cached
  state was produced from a dry run for its resource and manifest hash (as \<open>made\<close> records), then so
  is the state returned, and the caches keep this.
\<close>

theorem SSA_desired_state_provenance:
  assumes run: "SSA_GetDesiredState L (connectedSSA L X sc legacy k uid pa) obj manifest s = (Ok (Some d), t)"
    and wf: "wfManager (pr_stateCaches s)" and cached: "cachesMade made (pr_stateCaches s)"
    and made: "\<And>x dry u y v. k_ssa (worldClient k) True (ssaFieldOwner (koName obj)) manifest x = (Ok dry, u) \<Longrightarrow>
      \<not> needSSAFieldManagerUpgrade L legacy (Some dry) \<Longrightarrow>
      parserExtract L X pa dry (ssaFieldOwner (koName obj)) u = (Ok y, v) \<Longrightarrow>
      made uid (manifestHash L obj) y"
  shows "made uid (manifestHash L obj) d \<and> cachesMade made (pr_stateCaches t)"
  using run wf
proof (cases rule: SSA_GetDesiredState_SomeE)
  case (hit a m)
  have "cachesMade made m" using cachesMade_load [OF cached wf hit(1)] .
  moreover from this have "made uid (dc_hash (readCache a m)) d"
    using LoadOrNew_allocated(2) [OF wf hit(1)] hit(3) by (intro cachesMadeD [of made m]) simp_all
  ultimately show ?thesis using hit(2,3) by simp
next
  case (miss a m u dry v)
  have "wfManager m" using wfManager_LoadOrNew [OF wf, of uid] miss(1) by simp
  with cachesMade_load [OF cached wf miss(1)] LoadOrNew_allocated(2) [OF wf miss(1)] miss made
  show ?thesis by (simp add: cachesMade_write)
qed

lemma parserExtract_name:
  "parserExtract L X pa u owner s = (Ok y, v) \<Longrightarrow> u_name y = u_name u"
  by (auto simp: parserExtract_def Extract_def extractUnstructured_def Let_def res_simps
      split: prod.splits option.splits res_splits)

lemma SSA_desired_state_provenance_witness:
  "\<exists>d t. SSA_GetDesiredState ref_lib (ref_ssa ''uid-settings'') (ref_object ''settings'' ref_manifest) ref_configMap
       ref_connected = (Ok (Some d), t) \<and> u_name d = ''settings'' \<and>
     cachesMade (\<lambda>uid h y. u_name y = ''settings'') (pr_stateCaches t)"
proof -
  obtain d t where run: "SSA_GetDesiredState ref_lib (ref_ssa ''uid-settings'')
      (ref_object ''settings'' ref_manifest) ref_configMap ref_connected = (Ok (Some d), t)"
    using ref_GetDesiredState by blast
  have "u_name d = ''settings'' \<and> cachesMade (\<lambda>uid h y. u_name y = ''settings'') (pr_stateCaches t)"
  proof (rule SSA_desired_state_provenance [OF run])
    show "wfManager (pr_stateCaches ref_connected)"
      by (simp add: ref_connected_def ref_process_def wfManager_New)
    show "cachesMade (\<lambda>uid h y. u_name y = ''settings'') (pr_stateCaches ref_connected)"
      by (simp add: cachesMade_def ref_connected_def ref_process_def NewDesiredStateCacheManager_def)
  qed (auto simp: worldClient_def onWorld_def dest: parserExtract_name)
  with run show ?thesis by blast
qed

text \<open>
  A resource with fields of a legacy client-side manager is treated as drifted: when the dry run
  shows such an entry and no cached state answers, the desired state is nil and the cache entry
  dropped, so that the next computation runs again and the resource counts as up to date only if the
  management policies forbid writing.
\<close>

theorem SSA_legacy_manager_forces_drift:
  assumes miss: "\<And>d. cachedFor uid (manifestHash L obj) d (pr_stateCaches s) \<Longrightarrow>
      needSSAFieldManagerUpgrade L legacy (Some d)"
    and wf: "wfManager (pr_stateCaches s)"
    and dry: "k_ssa k True (ssaFieldOwner (koName obj)) manifest (pr_world s) = (Ok dryRun, w)"
    and entry: "e \<in> set (u_managedFields dryRun)" "legacyEntry L legacy e"
  shows "\<exists>t. SSA_GetDesiredState L (connectedSSA L X sc legacy k uid pa) obj manifest s = (Ok None, t) \<and>
    (\<forall>d h. \<not> cachedFor uid h d (pr_stateCaches t)) \<and>
    (upToDate L obj lastState None \<longleftrightarrow> \<not> mayWrite obj)"
proof -
  obtain a m where l: "LoadOrNewForManaged uid (pr_stateCaches s) = (a, m)"
    by (cases "LoadOrNewForManaged uid (pr_stateCaches s)")
  note al = LoadOrNew_allocated [OF wf l]
  have need: "needSSAFieldManagerUpgrade L legacy (Some dryRun)"
    using entry by (auto simp: needSSAFieldManagerUpgrade_Some list_ex_iff)
  have nohit: "needSSAFieldManagerUpgrade L legacy (Some c)"
    if g: "GetStateFor L (managedOf sc obj) (readCache a m) = (Some c, ok)" for c ok
  proof -
    from g have rc: "readCache a m = \<lparr>dc_extracted = Some c, dc_hash = manifestHash L obj\<rparr>"
      by (cases "readCache a m") (auto simp: GetStateFor_def split: if_splits)
    have "m = pr_stateCaches s"
    proof (cases "cm_store (pr_stateCaches s) uid")
      case None
      with l have "readCache a m = emptyCache"
        by (auto simp: LoadOrNewForManaged_def loadLocked_def readCache_def)
      with rc show ?thesis by (simp add: emptyCache_def)
    qed (use l in \<open>simp add: LoadOrNewForManaged_def\<close>)
    with rc al(2) wf show ?thesis by (intro miss) (simp add: cachedFor_def)
  qed
  let ?t = "s\<lparr>pr_world := w, pr_stateCaches := writeCache a \<lparr>dc_extracted = None, dc_hash = manifestHash L obj\<rparr> m\<rparr>"
  have "SSA_GetDesiredState L (connectedSSA L X sc legacy k uid pa) obj manifest s = (Ok None, ?t)"
    by (cases "GetStateFor L (managedOf sc obj) (readCache a m)"; cases "fst (GetStateFor L (managedOf sc obj) (readCache a m))";
        cases "readCache a m")
      (use l dry need nohit in \<open>simp_all add: SSA_GetDesiredState_def connectedSSA_def loadStateCache_def stateCacheRef_def
        worldClient_ssa onWorld_def storeDesired_def SetStateFor_def\<close>)
  moreover have "\<not> cachedFor uid h d (pr_stateCaches ?t)" for d h
    using al by (simp add: cachedFor_def readCache_writeCache)
  moreover have "upToDate L obj lastState None \<longleftrightarrow> \<not> mayWrite obj"
    by (simp add: upToDate_def sameState_def split: option.split)
  ultimately show ?thesis by blast
qed

definition ref_legacyEntry :: mfe where
  "ref_legacyEntry =
     \<lparr>mfe_manager = ''crossplane-kubernetes-provider'', mfe_operation = ''Update'', mfe_subresource = [],
      mfe_fieldsV1 = None\<rparr>"

lemma SSA_legacy_manager_forces_drift_witness:
  "\<exists>t. SSA_GetDesiredState ref_lib (ref_ssa ''uid-settings'') (ref_object ''settings'' ref_manifest)
     (ref_configMap\<lparr>u_managedFields := [ref_legacyEntry]\<rparr>) ref_connected = (Ok None, t)"
proof -
  have "\<exists>t. SSA_GetDesiredState ref_lib (ref_ssa ''uid-settings'') (ref_object ''settings'' ref_manifest)
     (ref_configMap\<lparr>u_managedFields := [ref_legacyEntry]\<rparr>) ref_connected = (Ok None, t) \<and>
     (\<forall>d h. \<not> cachedFor ''uid-settings'' h d (pr_stateCaches t)) \<and>
     (upToDate ref_lib (ref_object ''settings'' ref_manifest) None None \<longleftrightarrow>
       \<not> mayWrite (ref_object ''settings'' ref_manifest))"
    by (rule SSA_legacy_manager_forces_drift [where e = ref_legacyEntry])
      (auto simp: ref_connected_def ref_process_def wfManager_def cachedFor_def NewDesiredStateCacheManager_def
        legacyEntry_def ref_legacyEntry_def isFinalizersOnlyManagedFieldsEntry_def)
  then show ?thesis by blast
qed

end
