(* ===== verification/Startup.thy ===== *)
theory Startup
  imports Provider_Main Desired_State
begin

text \<open>What holds of the started provider: its poll intervals, its controllers and its connectors.\<close>

section \<open>A provider in memory\<close>

text \<open>The state lists the completed controllers and the registered gates; every call succeeds.\<close>

record refManager =
  rm_built :: "(refWorld, unit, unit) controllerSpec list"
  rm_gated :: "gvk list list"
  rm_scheme :: "gvk \<rightharpoonup> goType"

definition ref_manager :: "(refManager, refWorld, unit, unit) managerLib" where
  "ref_manager =
     \<lparr>mg_indexField = \<lambda>k f s. (Ok (), s), mg_add = \<lambda>r s. (Ok (), s),
      mg_complete = \<lambda>c s. (Ok (), s\<lparr>rm_built := rm_built s @ [c]\<rparr>),
      mg_register = \<lambda>f g s. s\<lparr>rm_gated := rm_gated s @ [g]\<rparr>\<rparr>"

definition ref_managerScheme :: "refManager schemeLib" where
  "ref_managerScheme =
     \<lparr>sl_addAll = \<lambda>bs s. (Ok (), s\<lparr>rm_scheme := rm_scheme s ++ map_of (registered bs)\<rparr>), sl_known = rm_scheme\<rparr>"

definition ref_main :: "(string \<Rightarrow> bool) \<Rightarrow> refManager mainLib" where
  "ref_main allowed =
     \<lparr>mn_getConfig = Pair (Ok ()), mn_getenv = \<lambda>v. [], mn_newManager = \<lambda>d s. (Ok (), s\<lparr>rm_scheme := Map.empty\<rparr>),
      mn_webhookReadyz = Pair (Ok ()), mn_scheme = ref_managerScheme, mn_addToScheme = \<lambda>x. Pair (Ok ()), mn_newChangeLogger = \<lambda>x. Pair (Ok ()),
      mn_objectWebhook = Pair (Ok ()), mn_createReview = \<lambda>v. Pair (Ok (allowed v)), mn_gateSetup = Pair (Ok ()),
      mn_addReadyz = Pair (Ok ()), mn_addHealthz = Pair (Ok ()), mn_start = Pair (Ok ())\<rparr>"

definition ref_deps :: "(refWorld, unit, unit) controllerDeps" where
  "ref_deps =
     \<lparr>cd_isPrint = \<lambda>r. 32 \<le> r, cd_maxLength = 128, cd_userAgent = ''manager/v0.1 (linux)'', cd_kube = ref_client,
      cd_track = \<lambda>mg w. (Ok (), w), cd_getProviderConfig = \<lambda>kind key w. (Ok ref_providerConfig, w),
      cd_clientBuilder = \<lambda>spec w. (Ok (ref_client, ()), w), cd_discovery = \<lambda>rc. Ok ref_xlib,
      cd_informers = (\<lparr>cl_new = \<lambda>rc g. Ok (), cl_getInformer = \<lambda>rc g. Ok (), cl_addEventHandler = \<lambda>rc g. Ok ()\<rparr>, ())\<rparr>"

definition ref_flags :: flags where
  "ref_flags =
     \<lparr>fl_pollInterval = 600000000000, fl_pollJitterPercentage = 10, fl_sanitizeSecrets = False,
      fl_changelogsSocketPath = ''/var/run/changelogs/changelogs.sock'', fl_enableManagementPolicies = True,
      fl_enableWatches = True, fl_enableServerSideApply = True, fl_enableChangeLogs = False,
      fl_removeManagedFields = False, fl_legacyCSAFieldManagers = [''old'']\<rparr>"

lemmas ref_run = ref_managerScheme_def addAPIs_def AddToScheme_cluster_def AddToScheme_namespaced_def
  setupChangeLogs_def setupObjectWebhook_def startManager_def ref_manager_def ref_main_def canWatchCRD_def setupControllers_def SetupGated_def
  config_SetupGated_def config_SetupGated_cluster_def object_SetupGated_def collection_SetupGated_def
  setupHealthProbes_def ref_flags_def Setup_def config_Setup_def config_Setup_cluster_def setupProviderConfig_def
  object_Setup_def setupWatches_def collection_Setup_def

lemma ref_main_runs: "\<exists>t. main L (ref_main allowed) ref_manager D ref_flags s = (Ok (), t)"
  by (simp add: main_def ref_run Let_def)

section \<open>Poll intervals\<close>

lemma durationOf_abs: "\<bar>of_int (durationOf x)\<bar> \<le> \<bar>x\<bar>"
proof (cases "0 \<le> x")
  case True
  then have "0 \<le> (of_int \<lfloor>x\<rfloor> :: rat)" "of_int \<lfloor>x\<rfloor> \<le> x" by simp_all
  with True show ?thesis by (simp add: durationOf_def)
next
  case False
  then have "\<lceil>x\<rceil> \<le> 0" by (simp add: ceiling_le_iff)
  moreover have "x \<le> of_int \<lceil>x\<rceil>" by simp
  ultimately show ?thesis using False by (simp add: durationOf_def)
qed

lemma jitter_bounds:
  fixes base :: int and rand :: rat
  assumes "0 < base" "pct < 100" "0 \<le> rand" "rand < 1"
    and J: "J = durationOf (of_int base * (of_nat pct / 100))"
  shows "0 < base + durationOf ((rand - 1 / 2) * 2 * of_int J)"
    "100 * \<bar>durationOf ((rand - 1 / 2) * 2 * of_int J)\<bar> \<le> base * int pct"
proof -
  let ?d = "durationOf ((rand - 1 / 2) * 2 * of_int J)"
  have j: "\<bar>of_int J\<bar> \<le> (of_int base * (of_nat pct / 100) :: rat)"
    using durationOf_abs [of "of_int base * (of_nat pct / 100)"] assms(1) by (simp add: J)
  have "\<bar>(rand - 1 / 2) * 2\<bar> \<le> 1" using assms(3,4) by (simp add: abs_le_iff)
  then have "\<bar>(rand - 1 / 2) * 2\<bar> * \<bar>of_int J\<bar> \<le> 1 * \<bar>of_int J\<bar>"
    by (rule mult_right_mono) simp
  then have "\<bar>of_int ?d\<bar> \<le> \<bar>of_int J :: rat\<bar>"
    using durationOf_abs [of "(rand - 1 / 2) * 2 * of_int J"] by (simp add: abs_mult)
  with j have "100 * \<bar>of_int ?d\<bar> \<le> (of_int base * of_nat pct :: rat)" by simp
  then have "(of_int (100 * \<bar>?d\<bar>) :: rat) \<le> of_int (base * int pct)" by simp
  then show d: "100 * \<bar>?d\<bar> \<le> base * int pct" by (simp only: of_int_le_iff)
  have "base * int pct < base * 100" using assms(1,2) by (intro mult_strict_left_mono) simp_all
  with d show "0 < base + ?d" by linarith
qed

lemma main_jitter: "main L N M D F s = (Ok (), t) \<Longrightarrow> fl_pollJitterPercentage F < 100"
  by (simp add: main_def split: if_splits)

text \<open>The states that a \<open>main\<close> which ends without an error goes through.\<close>

lemma main_OkE:
  assumes "main L N M D F s = (Ok (), t)"
  obtains s1 s2 s3 s4 s5 s6 s7 s8 where "mn_getConfig N s = (Ok (), s1)"
    "mn_newManager N (webhookCertDir N) s1 = (Ok (), s2)" "mn_webhookReadyz N s2 = (Ok (), s3)"
    "addAPIs (mn_scheme N) s3 = (Ok (), s4)" "mn_addToScheme N ''apiextensions.k8s.io'' s4 = (Ok (), s5)"
    "setupChangeLogs N F s5 = (Ok (), s6)" "setupObjectWebhook N s6 = (Ok (), s7)"
    "setupControllers L N M D F s7 = (Ok (), s8)" "startManager N s8 = (Ok (), t)"
  using assms main_jitter [OF assms] by (auto simp: main_def res_simps)



section \<open>The controllers of the process\<close>

text \<open>
  A manager that records, in order, the controllers that were completed and the gates that were
  registered; an API server that answers an access review by the verb.
\<close>

definition keeps :: "('s \<Rightarrow> 'b) \<Rightarrow> ('s \<Rightarrow> 'g) \<Rightarrow> ('s \<Rightarrow> 'a \<times> 's) \<Rightarrow> bool" where
  "keeps built gated f \<longleftrightarrow> (\<forall>s. built (snd (f s)) = built s \<and> gated (snd (f s)) = gated s)"

definition recordsControllers ::
  "'s mainLib \<Rightarrow> ('s, 'w, 'rc, 'p) managerLib \<Rightarrow> ('s \<Rightarrow> ('w, 'rc, 'p) controllerSpec list)
     \<Rightarrow> ('s \<Rightarrow> gvk list list) \<Rightarrow> bool" where
  "recordsControllers N M built gated \<longleftrightarrow>
     (\<forall>k f. keeps built gated (mg_indexField M k f)) \<and> (\<forall>r. keeps built gated (mg_add M r)) \<and>
     (\<forall>c s s'. mg_complete M c s = (Ok (), s') \<longrightarrow> built s' = built s @ [c] \<and> gated s' = gated s) \<and>
     (\<forall>f g s. built (mg_register M f g s) = built s \<and> gated (mg_register M f g s) = gated s @ [g]) \<and>
     keeps built gated (mn_getConfig N) \<and> (\<forall>d. keeps built gated (mn_newManager N d)) \<and>
     keeps built gated (mn_webhookReadyz N) \<and> (\<forall>bs. keeps built gated (sl_addAll (mn_scheme N) bs)) \<and>
     (\<forall>x. keeps built gated (mn_addToScheme N x)) \<and>
     (\<forall>x. keeps built gated (mn_newChangeLogger N x)) \<and> keeps built gated (mn_objectWebhook N) \<and>
     keeps built gated (mn_gateSetup N) \<and> keeps built gated (mn_addReadyz N) \<and>
     keeps built gated (mn_addHealthz N) \<and> keeps built gated (mn_start N) \<and>
     (\<forall>v. keeps built gated (mn_createReview N v))"

definition reviewsBy :: "(string \<Rightarrow> bool) \<Rightarrow> 's mainLib \<Rightarrow> bool" where
  "reviewsBy allowed N \<longleftrightarrow> (\<forall>v s b t. mn_createReview N v s = (Ok b, t) \<longrightarrow> b = allowed v)"

lemma keepsD: "keeps built gated f \<Longrightarrow> f s = (r, t) \<Longrightarrow> built t = built s \<and> gated t = gated s"
  by (metis keeps_def snd_conv)

definition mainObjectController :: "scope \<Rightarrow> ('w, 'rc, 'p) controllerDeps \<Rightarrow> flags \<Rightarrow> ('w, 'rc, 'p) objectController" where
  "mainObjectController sc D F =
     \<lparr>oc_scope = sc,
      oc_connector = (newConnector D (mainControllerOptions F) (fl_sanitizeSecrets F) (fl_removeManagedFields F)
          (if fl_enableServerSideApply F then fl_legacyCSAFieldManagers F else []))
        \<lparr>cn_kindObserver := if fl_enableWatches F then Some (cd_informers D) else None\<rparr>,
      oc_pollInterval = fl_pollInterval F, oc_pollJitterPercentage = fl_pollJitterPercentage F,
      oc_managementPolicies = fl_enableManagementPolicies F, oc_changeLogs = fl_enableChangeLogs F,
      oc_watchesRawSource = fl_enableWatches F\<rparr>"

definition scopeControllers :: "scope \<Rightarrow> ('w, 'rc, 'p) controllerDeps \<Rightarrow> flags \<Rightarrow> ('w, 'rc, 'p) controllerSpec list" where
  "scopeControllers sc D F =
     map (\<lambda>kind. ProviderConfigController (providerGVK sc kind) (providerGVK sc ''ProviderConfigUsage'')
            (providerGVK sc ''ProviderConfigUsageList''))
       (case sc of ClusterScoped \<Rightarrow> [ProviderConfigKind] | Namespaced \<Rightarrow> [ProviderConfigKind, ClusterProviderConfigKind]) @
     [ObjectController (mainObjectController sc D F),
      CollectionController sc (fl_pollInterval F) (po_pollJitter (mainProviderOptions F))]"

definition scopeGates :: "scope \<Rightarrow> gvk list list" where
  "scopeGates sc =
     [map (providerGVK sc) (case sc of ClusterScoped \<Rightarrow> [ProviderConfigKind, ''ProviderConfigUsage'']
        | Namespaced \<Rightarrow> [ClusterProviderConfigKind, ProviderConfigKind, ''ProviderConfigUsage'']),
      [providerGVK sc ''Object''], [providerGVK sc ''ObservedObjectCollection'']]"

lemma mainFeatures_iff:
  "Enabled EnableAlphaWatches (mainControllerOptions F) = fl_enableWatches F"
  "Enabled EnableBetaServerSideApply (mainControllerOptions F) = fl_enableServerSideApply F"
  "Enabled EnableBetaManagementPolicies (mainControllerOptions F) = fl_enableManagementPolicies F"
  "Enabled EnableAlphaChangeLogs (mainControllerOptions F) = fl_enableChangeLogs F"
  "co_pollInterval (mainControllerOptions F) = fl_pollInterval F"
  by (simp_all add: Enabled_def mainControllerOptions_def mainFeatures_def)

lemma recordsControllersD:
  assumes "recordsControllers N M built gated"
  shows "mg_complete M c s = (Ok (), s') \<Longrightarrow> built s' = built s @ [c] \<and> gated s' = gated s"
    "built (mg_register M f g s) = built s \<and> gated (mg_register M f g s) = gated s @ [g]"
    "keeps built gated (mg_indexField M k ix)" "keeps built gated (mg_add M r)"
    "keeps built gated (sl_addAll (mn_scheme N) bs)" "keeps built gated (mn_getConfig N)" "keeps built gated (mn_newManager N d)"
    "keeps built gated (mn_webhookReadyz N)" "keeps built gated (mn_addToScheme N x)"
    "keeps built gated (mn_newChangeLogger N x)" "keeps built gated (mn_objectWebhook N)"
    "keeps built gated (mn_gateSetup N)" "keeps built gated (mn_addReadyz N)"
    "keeps built gated (mn_addHealthz N)" "keeps built gated (mn_start N)" "keeps built gated (mn_createReview N v)"
  using assms by (simp_all add: recordsControllers_def)

lemma setupWatches_keeps:
  assumes "recordsControllers N M built gated" "setupWatches L M sc s = (Ok (), t)"
  shows "built t = built s \<and> gated t = gated s"
proof -
  note k = recordsControllersD [OF assms(1)]
  from assms(2) obtain s1 s2 where "mg_indexField M ''objectsRefsGVKs'' (IndexByProviderGVK L sc) s = (Ok (), s1)"
    "mg_indexField M ''objectsRefs'' (IndexByProviderNamespacedNameGVK L sc) s1 = (Ok (), s2)"
    "mg_add M CleanupInformers s2 = (Ok (), t)"
    by (auto simp: setupWatches_def res_simps)
  from keepsD [OF k(3) this(1)] keepsD [OF k(3) this(2)] keepsD [OF k(4) this(3)] show ?thesis by simp
qed

lemma object_Setup_Ok:
  assumes rec: "recordsControllers N M built gated"
    and run: "object_Setup L M sc D (mainControllerOptions F) (fl_sanitizeSecrets F) (fl_removeManagedFields F)
      (fl_pollJitterPercentage F) (if fl_enableServerSideApply F then fl_legacyCSAFieldManagers F else []) s = (Ok (), t)"
  shows "built t = built s @ [ObjectController (mainObjectController sc D F)] \<and> gated t = gated s"
proof -
  note k = recordsControllersD [OF rec]
  have "cn_kindObserver (newConnector D o' a b c) = None" for o' a b c
    by (simp add: newConnector_def Let_def)
  then have idle: "newConnector D o' a b c\<lparr>cn_kindObserver := None\<rparr> = newConnector D o' a b c" for o' a b c
    by (metis connector.surjective connector.update_convs(6))
  from run obtain s1 s2 where s1: "(if fl_enableWatches F then setupWatches L M sc s else (Ok (), s)) = (Ok (), s1)"
    and s2: "mg_add M StateRecorder s1 = (Ok (), s2)"
    and c: "mg_complete M (ObjectController (mainObjectController sc D F)) s2 = (Ok (), t)"
    by (cases "fl_enableWatches F")
      (auto simp: object_Setup_def Let_def mainFeatures_iff res_simps mainObjectController_def idle)
  have "built s1 = built s \<and> gated s1 = gated s"
    using s1 setupWatches_keeps [OF rec] by (auto split: if_splits)
  with keepsD [OF k(4) s2] k(1) [OF c] show ?thesis by simp
qed

lemma setupProviderConfig_Ok:
  assumes "recordsControllers N M built gated" "setupProviderConfig M sc kind s = (Ok (), t)"
  shows "built t = built s @ [ProviderConfigController (providerGVK sc kind) (providerGVK sc ''ProviderConfigUsage'')
      (providerGVK sc ''ProviderConfigUsageList'')] \<and> gated t = gated s"
  using recordsControllersD(1) [OF assms(1)] assms(2) by (simp add: setupProviderConfig_def)

lemma Setup_Ok:
  assumes rec: "recordsControllers N M built gated"
    and run: "Setup L M sc D (mainControllerOptions F) (mainProviderOptions F) s = (Ok (), t)"
  shows "built t = built s @ scopeControllers sc D F \<and> gated t = gated s"
proof -
  from run obtain s1 s2
    where s1: "(case sc of Namespaced \<Rightarrow> config_Setup | ClusterScoped \<Rightarrow> config_Setup_cluster) M s = (Ok (), s1)"
    and s2: "object_Setup L M sc D (mainControllerOptions F) (fl_sanitizeSecrets F) (fl_removeManagedFields F)
      (fl_pollJitterPercentage F) (if fl_enableServerSideApply F then fl_legacyCSAFieldManagers F else []) s1 = (Ok (), s2)"
    and c: "collection_Setup M sc (mainControllerOptions F) (po_pollJitter (mainProviderOptions F)) s2 = (Ok (), t)"
    by (auto simp: Setup_def mainProviderOptions_def res_simps)
  have "built s1 = built s @ map (\<lambda>kind. ProviderConfigController (providerGVK sc kind)
        (providerGVK sc ''ProviderConfigUsage'') (providerGVK sc ''ProviderConfigUsageList''))
      (case sc of ClusterScoped \<Rightarrow> [ProviderConfigKind] | Namespaced \<Rightarrow> [ProviderConfigKind, ClusterProviderConfigKind]) \<and>
      gated s1 = gated s"
    using s1 by (auto simp: config_Setup_def config_Setup_cluster_def res_simps split: scope.splits
        dest!: setupProviderConfig_Ok [OF rec])
  moreover have "built t = built s2 @ [CollectionController sc (fl_pollInterval F) (po_pollJitter (mainProviderOptions F))] \<and>
      gated t = gated s2"
    using recordsControllersD(1) [OF rec] c by (simp add: collection_Setup_def mainControllerOptions_def)
  ultimately show ?thesis
    using object_Setup_Ok [OF rec s2] by (simp add: scopeControllers_def)
qed

lemma SetupGated_Ok:
  assumes rec: "recordsControllers N M built gated" and run: "SetupGated L M sc D o' po s = (Ok (), t)"
  shows "built t = built s \<and> gated t = gated s @ scopeGates sc"
  using run recordsControllersD(2) [OF rec]
  by (auto simp: SetupGated_def config_SetupGated_def config_SetupGated_cluster_def object_SetupGated_def
      collection_SetupGated_def scopeGates_def split: scope.splits)

lemma verbsLoop_Ok:
  assumes rec: "recordsControllers N M built gated" and rev: "reviewsBy allowed N"
  shows "verbsLoop N vs s = (Ok b, t) \<Longrightarrow> b = list_all allowed vs \<and> built t = built s \<and> gated t = gated s"
proof (induction vs arbitrary: s)
  case (Cons v vs)
  then obtain a u where r: "mn_createReview N v s = (Ok a, u)"
    "(if \<not> a then (Ok False, u) else verbsLoop N vs u) = (Ok b, t)" by (auto simp: res_simps)
  have "a = allowed v" using rev r(1) unfolding reviewsBy_def by blast
  with r Cons.IH [of u] keepsD [OF recordsControllersD(16) [OF rec] r(1)] show ?case
    by (auto split: if_splits)
qed simp

lemma canWatchCRD_Ok:
  assumes rec: "recordsControllers N M built gated" and rev: "reviewsBy allowed N"
    and run: "canWatchCRD N s = (Ok b, t)"
  shows "b = list_all allowed crdVerbs \<and> built t = built s \<and> gated t = gated s"
proof -
  from run obtain u where "mn_addToScheme N ''authorization.k8s.io'' s = (Ok (), u)" "verbsLoop N crdVerbs u = (Ok b, t)"
    by (auto simp: canWatchCRD_def res_simps simp del: verbsLoop.simps)
  with keepsD [OF recordsControllersD(9) [OF rec]] verbsLoop_Ok [OF rec rev] show ?thesis by metis
qed

lemma setupControllers_Ok:
  assumes rec: "recordsControllers N M built gated" and rev: "reviewsBy allowed N"
    and run: "setupControllers L N M D F s = (Ok (), t)"
  shows "if list_all allowed crdVerbs
    then built t = built s \<and> gated t = gated s @ scopeGates ClusterScoped @ scopeGates Namespaced
    else built t = built s @ scopeControllers ClusterScoped D F @ scopeControllers Namespaced D F \<and> gated t = gated s"
proof -
  from run obtain b u where w: "canWatchCRD N s = (Ok b, u)"
    by (auto simp: setupControllers_def Let_def res_simps)
  note cw = canWatchCRD_Ok [OF rec rev w]
  show ?thesis
  proof (cases b)
    case True
    with run w obtain u1 u2 where "mn_gateSetup N u = (Ok (), u1)"
      "SetupGated L M ClusterScoped D (mainControllerOptions F) (mainProviderOptions F) u1 = (Ok (), u2)"
      "SetupGated L M Namespaced D (mainControllerOptions F) (mainProviderOptions F) u2 = (Ok (), t)"
      by (auto simp: setupControllers_def Let_def res_simps)
    with keepsD [OF recordsControllersD(12) [OF rec]] SetupGated_Ok [OF rec] cw True show ?thesis by fastforce
  next
    case False
    with run w obtain u1 where "Setup L M ClusterScoped D (mainControllerOptions F) (mainProviderOptions F) u = (Ok (), u1)"
      "Setup L M Namespaced D (mainControllerOptions F) (mainProviderOptions F) u1 = (Ok (), t)"
      by (auto simp: setupControllers_def Let_def res_simps)
    with Setup_Ok [OF rec] cw False show ?thesis by fastforce
  qed
qed



section \<open>The kinds of the process\<close>

text \<open>
  A state predicate that every call of the manager keeps, the creation of the manager and the registration of
  the API types apart.
\<close>

definition keepsState :: "('s \<Rightarrow> bool) \<Rightarrow> ('s \<Rightarrow> 'a \<times> 's) \<Rightarrow> bool" where
  "keepsState I f \<longleftrightarrow> (\<forall>s. I s \<longrightarrow> I (snd (f s)))"

definition managerKeeps :: "'s mainLib \<Rightarrow> ('s, 'w, 'rc, 'p) managerLib \<Rightarrow> ('s \<Rightarrow> bool) \<Rightarrow> bool" where
  "managerKeeps N M I \<longleftrightarrow>
     (\<forall>k f. keepsState I (mg_indexField M k f)) \<and> (\<forall>r. keepsState I (mg_add M r)) \<and>
     (\<forall>c. keepsState I (mg_complete M c)) \<and> (\<forall>f g s. I s \<longrightarrow> I (mg_register M f g s)) \<and>
     keepsState I (mn_webhookReadyz N) \<and> (\<forall>x. keepsState I (mn_addToScheme N x)) \<and>
     (\<forall>x. keepsState I (mn_newChangeLogger N x)) \<and> keepsState I (mn_objectWebhook N) \<and>
     keepsState I (mn_gateSetup N) \<and> keepsState I (mn_addReadyz N) \<and> keepsState I (mn_addHealthz N) \<and>
     keepsState I (mn_start N) \<and> (\<forall>v. keepsState I (mn_createReview N v))"

lemma managerKeepsD:
  assumes "managerKeeps N M I" "I s"
  shows "I (snd (mg_indexField M k f s))" "I (snd (mg_add M r s))" "I (snd (mg_complete M c s))"
    "I (mg_register M h g s)" "I (snd (mn_webhookReadyz N s))" "I (snd (mn_addToScheme N x s))"
    "I (snd (mn_newChangeLogger N x s))" "I (snd (mn_objectWebhook N s))" "I (snd (mn_gateSetup N s))"
    "I (snd (mn_addReadyz N s))" "I (snd (mn_addHealthz N s))" "I (snd (mn_start N s))" "I (snd (mn_createReview N v s))"
  using assms by (auto simp: managerKeeps_def keepsState_def)

lemma Setup_keeps:
  assumes "managerKeeps N M I" "I s"
  shows "I (snd (Setup L M sc D o' po s))"
  using assms(2) by (cases sc) (auto simp: Setup_def config_Setup_def config_Setup_cluster_def setupProviderConfig_def
      object_Setup_def setupWatches_def collection_Setup_def Let_def intro!: managerKeepsD [OF assms(1)] tryS_keeps [where I = I])

lemma SetupGated_keeps:
  assumes "managerKeeps N M I" "I s"
  shows "I (snd (SetupGated L M sc D o' po s))"
  using assms(2) by (cases sc) (auto simp: SetupGated_def config_SetupGated_def config_SetupGated_cluster_def
      object_SetupGated_def collection_SetupGated_def intro!: managerKeepsD [OF assms(1)] tryS_keeps [where I = I])

lemma canWatchCRD_keeps:
  assumes "managerKeeps N M I" "I s"
  shows "I (snd (canWatchCRD N s))"
proof -
  have "I s \<Longrightarrow> I (snd (verbsLoop N vs s))" for vs s
    by (induction vs arbitrary: s) (auto intro!: managerKeepsD [OF assms(1)] tryS_keeps [where I = I])
  with assms(2) show ?thesis by (auto simp: canWatchCRD_def intro!: managerKeepsD [OF assms(1)] tryS_keeps [where I = I])
qed

lemma setupControllers_keeps:
  assumes "managerKeeps N M I" "I s"
  shows "I (snd (setupControllers L N M D F s))"
  using assms(2) by (auto simp: setupControllers_def Let_def intro!: tryS_keeps [where I = I] Setup_keeps [OF assms(1)]
      SetupGated_keeps [OF assms(1)] canWatchCRD_keeps [OF assms(1)] managerKeepsD(9) [OF assms(1)])

text \<open>What the scheme of the manager knows of the kinds of the provider.\<close>

definition knowsKinds :: "'s schemeLib \<Rightarrow> 's \<Rightarrow> bool" where
  "knowsKinds S t \<longleftrightarrow>
     (\<forall>sc. \<forall>(kind, pkg) \<in> set (kindPackages sc).
        sl_known S t (providerGVK sc kind) = Some \<lparr>gt_package = pkg, gt_name = kind\<rparr>) \<and>
     sl_known S t (WithKind cluster_object_v1alpha1_SchemeBuilder ''Object'') =
       Some \<lparr>gt_package = ''apis/cluster/object/v1alpha1'', gt_name = ''Object''\<rparr>"

definition knowsNone :: "'s schemeLib \<Rightarrow> 's \<Rightarrow> bool" where
  "knowsNone S s \<longleftrightarrow> (\<forall>g sc. gvk_group g = apiGroup sc \<longrightarrow> sl_known S s g = None)"

text \<open>The kinds of a controller: those it reconciles and those its reconciler reads.\<close>

fun controllerKinds :: "('w, 'rc, 'p) controllerSpec \<Rightarrow> gvk list" where
  "controllerKinds (ProviderConfigController config usage usageList) = [config, usage, usageList]"
| "controllerKinds (ObjectController c) = [providerGVK (oc_scope c) ''Object'']"
| "controllerKinds (CollectionController sc poll jitter) =
     [providerGVK sc ''ObservedObjectCollection'', providerGVK sc ''Object'']"

lemma scopeKinds_packaged:
  assumes "g \<in> set (concat (scopeGates sc)) \<or> (\<exists>c \<in> set (scopeControllers sc D F). g \<in> set (controllerKinds c))"
  shows "\<exists>(kind, pkg) \<in> set (kindPackages sc). g = providerGVK sc kind"
  using assms by (cases sc) (auto simp: scopeGates_def scopeControllers_def mainObjectController_def kindPackages_def)


lemma schemeLaw_ref_manager: "schemeLaw ref_managerScheme"
proof -
  have "map_of (registered bs) g = None" if "\<forall>b \<in> set bs. (gvk_group g, gvk_version g) \<noteq> (sb_group b, sb_version b)" for bs g
    using that by (force simp: map_of_eq_None_iff registered_def WithKind_def)
  then show ?thesis
    by (auto simp: schemeLaw_def ref_managerScheme_def noClash_def map_add_def map_of_is_SomeI split: option.splits)
qed


section \<open>The upgrade of the legacy field manager\<close>

lemma Connect_clientE:
  assumes "Connect L sc N mg s = (Ok E, t)" "cn_ssaEnabled N" "objectOf sc mg = Some obj"
    and "\<And>spec w k' rc w'. cn_clientBuilder N spec w = (Ok (k', rc), w') \<Longrightarrow> k' = k"
  obtains X a where
    "ex_syncer E = SSAResourceSyncer L (connectedSSA L X sc (cn_legacyCSAFieldManagers N) k (koUID obj) a)"
proof -
  from assms(1-3) obtain pc k' rc v u where b: "onWorld (cn_clientBuilder N (pc_spec pc)) v = (Ok (k', rc), u)"
    and "enableSSA L sc N (koUID obj) pc k' rc (patchingExternal L N k' rc) u = (Ok E, t)"
    by (auto simp: Connect_def Let_def res_simps split: option.splits)
  moreover have "k' = k" using b assms(4) by (auto simp: onWorld_def split: prod.splits)
  ultimately show ?thesis using that by (metis enableSSA_OkE)
qed

lemma mainObjectController_ssa:
  assumes "fl_enableServerSideApply F"
  shows "cn_ssaEnabled (oc_connector (mainObjectController sc D F))"
    "set (cn_legacyCSAFieldManagers (oc_connector (mainObjectController sc D F))) =
       insert (DefaultCSAFieldManager (cd_isPrint D) (cd_maxLength D) (cd_userAgent D)) (set (fl_legacyCSAFieldManagers F))"
    "cn_clientBuilder (oc_connector (mainObjectController sc D F)) = cd_clientBuilder D"
  using assms by (simp_all add: mainObjectController_def newConnector_def Let_def mainFeatures_iff)

text \<open>
  C10. A provider that switches to server-side apply takes over what its older releases wrote. With
  the flag on, the first computation of the desired state of an Object (nothing is cached yet) in a
  controller that \<open>main\<close> sets up gives none when the dry run shows fields owned by the manager that
  client-go's user agent stood for, so that the resource is synced, and the fields taken over,
  unless the policies forbid writing.
\<close>

theorem default_manager_upgraded:
  assumes ssa: "fl_enableServerSideApply F"
    and conn: "Connect L sc (oc_connector (mainObjectController sc D F)) mg s0 = (Ok E, s)" "objectOf sc mg = Some obj"
    and client: "\<And>spec w k' rc w'. cd_clientBuilder D spec w = (Ok (k', rc), w') \<Longrightarrow> k' = k"
    and fresh: "wfManager (pr_stateCaches s0)" "\<And>h d. \<not> cachedFor (koUID obj) h d (pr_stateCaches s0)"
    and dry: "k_ssa k True (ssaFieldOwner (koName obj)) manifest (pr_world s) = (Ok dryRun, w)"
    and entry: "e \<in> set (u_managedFields dryRun)" "mfe_operation e = opUpdate" "mfe_subresource e \<noteq> ''status''"
      "mfe_manager e = DefaultCSAFieldManager (cd_isPrint D) (cd_maxLength D) (cd_userAgent D)"
      "\<not> isFinalizersOnlyManagedFieldsEntry L e"
  shows "\<exists>t. rs_GetDesiredState (ex_syncer E) obj manifest s = (Ok None, t) \<and>
    (upToDate L obj lastState None \<longleftrightarrow> \<not> mayWrite obj)"
proof -
  let ?N = "oc_connector (mainObjectController sc D F)"
  note N = mainObjectController_ssa [OF ssa, of sc D]
  obtain X a where syn:
    "ex_syncer E = SSAResourceSyncer L (connectedSSA L X sc (cn_legacyCSAFieldManagers ?N) k (koUID obj) a)"
    using Connect_clientE [OF conn(1) N(1) conn(2), of k] client N(3) by metis
  have same: "pr_stateCaches s = pr_stateCaches s0" by (rule Connect_frame [OF conn(1)])
  have "legacyEntry L (cn_legacyCSAFieldManagers ?N) e"
    using entry N(2) by (simp add: legacyEntry_def)
  then have "\<exists>t. SSA_GetDesiredState L (connectedSSA L X sc (cn_legacyCSAFieldManagers ?N) k (koUID obj) a) obj manifest s =
      (Ok None, t) \<and> (\<forall>d h. \<not> cachedFor (koUID obj) h d (pr_stateCaches t)) \<and>
      (upToDate L obj lastState None \<longleftrightarrow> \<not> mayWrite obj)"
    by (intro SSA_legacy_manager_forces_drift [OF _ _ dry entry(1)]) (use fresh same in simp_all)
  then show ?thesis by (auto simp: syn SSAResourceSyncer_def)
qed

text \<open>A dry run that shows fields of the manager of the old release.\<close>

definition ref_oldEntry :: mfe where
  "ref_oldEntry =
     \<lparr>mfe_manager = DefaultCSAFieldManager (cd_isPrint ref_deps) (cd_maxLength ref_deps) (cd_userAgent ref_deps),
      mfe_operation = ''Update'', mfe_subresource = [], mfe_fieldsV1 = None\<rparr>"

theorem default_manager_upgraded_witness:
  "\<exists>E s t. Connect ref_lib Namespaced (oc_connector (mainObjectController Namespaced ref_deps ref_flags)) ref_managed ref_process =
       (Ok E, s) \<and>
     rs_GetDesiredState (ex_syncer E) (ref_object ''settings'' ref_manifest)
       (ref_configMap\<lparr>u_managedFields := [ref_oldEntry]\<rparr>) s = (Ok None, t)"
proof -
  let ?N = "oc_connector (mainObjectController Namespaced ref_deps ref_flags)"
  obtain E s where conn: "Connect ref_lib Namespaced ?N ref_managed ref_process = (Ok E, s)"
    by (simp add: mainObjectController_def newConnector_def Let_def mainFeatures_iff ref_flags_def ref_deps_def
        Connect_def onWorld_def resolveProviderConfig_def enableSSA_def ref_process_def
        LoadOrNewCacheForProviderConfig_def NewGVKParserCacheManager_def ref_providerConfig_def)
  have "\<exists>t. rs_GetDesiredState (ex_syncer E) (ref_object ''settings'' ref_manifest)
       (ref_configMap\<lparr>u_managedFields := [ref_oldEntry]\<rparr>) s = (Ok None, t) \<and>
     (upToDate ref_lib (ref_object ''settings'' ref_manifest) None None \<longleftrightarrow>
       \<not> mayWrite (ref_object ''settings'' ref_manifest))"
    by (rule default_manager_upgraded [OF _ conn, where e = ref_oldEntry and k = ref_client])
      (auto simp: ref_flags_def ref_deps_def ref_process_def wfManager_def cachedFor_def NewDesiredStateCacheManager_def
        ref_oldEntry_def isFinalizersOnlyManagedFieldsEntry_def)
  with conn show ?thesis by blast
qed

end
