(* ===== verification/Store_Refinement.thy ===== *)
theory Store_Refinement
  imports Ref_Process Token_Stores
begin

text \<open>
  The stores against their specifications: the desired-state caches, with their pointers, are one map
  from resources to the last state and its hash, and the concurrent calls of the stores end.
\<close>

section \<open>Desired-state caches as a map\<close>

type_synonym stateMap = "string \<rightharpoonup> string \<times> unstructured"

text \<open>What a cache manager stands for: per UID, the hash and the state, if one is held.\<close>

definition stateMapOf :: "cacheManager \<Rightarrow> stateMap" where
  "stateMapOf m uid =
     (case cm_store m uid of
        None \<Rightarrow> None
      | Some a \<Rightarrow> map_option (Pair (dc_hash (readCache a m))) (dc_extracted (readCache a m)))"

text \<open>The specification of the operations of the interface \<open>Cache\<close> and of the cleanup.\<close>

definition specGet :: "string \<Rightarrow> string \<Rightarrow> stateMap \<Rightarrow> unstructured option" where
  "specGet uid h M = (case M uid of None \<Rightarrow> None | Some (h', d) \<Rightarrow> if h' = h then Some d else None)"

definition specSet :: "string \<Rightarrow> string \<Rightarrow> unstructured option \<Rightarrow> stateMap \<Rightarrow> stateMap" where
  "specSet uid h v M = M(uid := map_option (Pair h) v)"

definition specRemove :: "string \<Rightarrow> stateMap \<Rightarrow> stateMap" where
  "specRemove uid M = M(uid := None)"

lemma stateMapOf_load:
  assumes "wfManager m" "LoadOrNewForManaged uid m = (a, m')"
  shows "stateMapOf m' = stateMapOf m"
proof (cases "cm_store m uid")
  case (Some b)
  with assms(2) show ?thesis by (simp add: LoadOrNewForManaged_def)
next
  case None
  have "cm_store m u \<noteq> Some (cm_next m)" for u using assms(1) by (auto simp: wfManager_def)
  moreover have "cm_store m' = (cm_store m)(uid \<mapsto> cm_next m)"
    and "readCache b m' = (if b = cm_next m then emptyCache else readCache b m)" for b
    using None assms(2) by (auto simp: LoadOrNewForManaged_def loadLocked_def readCache_def)
  ultimately have "stateMapOf m' u = stateMapOf m u" for u
    using None by (cases "u = uid"; cases "cm_store m u") (auto simp: stateMapOf_def emptyCache_def)
  then show ?thesis by blast
qed

lemma stateMapOf_write:
  assumes "wfManager m" "a \<in> dom (cm_heap m)"
  shows "stateMapOf (writeCache a dc m) =
    (\<lambda>u. if cm_store m u = Some a then map_option (Pair (dc_hash dc)) (dc_extracted dc) else stateMapOf m u)"
  using assms(2) by (auto simp: stateMapOf_def readCache_writeCache fun_eq_iff split: option.splits)

lemma stateMapOf_remove: "stateMapOf (RemoveManaged uid m) = specRemove uid (stateMapOf m)"
proof -
  have "readCache a (RemoveManaged uid m) = readCache a m" for a by (simp add: readCache_def RemoveManaged_def)
  then show ?thesis by (auto simp: stateMapOf_def RemoveManaged_def specRemove_def fun_eq_iff split: option.split)
qed

lemma GetStateFor_spec:
  assumes "cm_store m uid = Some a"
  shows "GetStateFor L (managedOf sc obj) (readCache a m) =
    (specGet uid (manifestHash L obj) (stateMapOf m), specGet uid (manifestHash L obj) (stateMapOf m) \<noteq> None)"
  using assms by (auto simp: GetStateFor_def specGet_def stateMapOf_def split: option.splits)

text \<open>
  C9. The caches, their heap and their pointers implement one map from resources to a hash and a
  state: loading changes nothing, reading and writing through the pointer that a load gave read and
  write the entry of its resource, removal deletes it, and a write through a pointer that was loaded
  before the removal (a reconcile still running) does not bring the entry back.
\<close>

theorem state_caches_refine_map:
  assumes wf: "wfManager (pr_stateCaches s)" and load: "loadStateCache L sc uid s = (c, t)"
    and hash: "h = manifestHash L obj" and M: "M = stateMapOf (pr_stateCaches s)"
  shows "wfManager (pr_stateCaches t) \<and> stateMapOf (pr_stateCaches t) = M \<and>
    cr_GetStateFor c obj t = (specGet uid h M, specGet uid h M \<noteq> None) \<and>
    stateMapOf (pr_stateCaches (cr_SetStateFor c obj v t)) = specSet uid h v M \<and>
    stateMapOf (pr_stateCaches (cleanupStateCache uid t)) = specRemove uid M \<and>
    stateMapOf (pr_stateCaches (cr_SetStateFor c obj v (cleanupStateCache uid t))) = specRemove uid M"
proof -
  obtain a m where l: "LoadOrNewForManaged uid (pr_stateCaches s) = (a, m)"
    by (cases "LoadOrNewForManaged uid (pr_stateCaches s)")
  then have c: "c = stateCacheRef L sc a" and t: "pr_stateCaches t = m"
    using load by (auto simp: loadStateCache_def)
  have wfm: "wfManager m" using wfManager_LoadOrNew [OF wf, of uid] l by simp
  note al = LoadOrNew_allocated [OF wf l]
  have same: "stateMapOf m = M" using stateMapOf_load [OF wf l] by (simp add: M)
  have only: "cm_store m u = Some a \<longleftrightarrow> u = uid" for u
    using wfm al(2) by (auto simp: wfManager_def)
  have heap: "cm_heap (RemoveManaged uid m) = cm_heap m" by (simp add: RemoveManaged_def)
  have gone: "cm_store (RemoveManaged uid m) u \<noteq> Some a" for u
    using only [of u] by (auto simp: RemoveManaged_def)
  have "stateMapOf (pr_stateCaches (cr_SetStateFor c obj v t)) = specSet uid h v M"
    by (auto simp: c t stateCacheRef_def SetStateFor_def stateMapOf_write [OF wfm al(1)] only hash specSet_def same
        fun_eq_iff)
  moreover have "stateMapOf (pr_stateCaches (cr_SetStateFor c obj v (cleanupStateCache uid t))) = specRemove uid M"
    using al(1) by (simp add: c t stateCacheRef_def SetStateFor_def cleanupStateCache_def
        stateMapOf_write [OF wfManager_Remove [OF wfm]] heap gone stateMapOf_remove same)
  ultimately show ?thesis
    using GetStateFor_spec [OF al(2), of L sc obj] wfm
    by (simp add: c t stateCacheRef_def same hash cleanupStateCache_def stateMapOf_remove)
qed

theorem state_caches_refine_map_witness:
  "\<exists>c t. loadStateCache ref_lib Namespaced ''uid-settings'' ref_process = (c, t) \<and>
     stateMapOf (pr_stateCaches (cr_SetStateFor c (ref_object ''settings'' ref_manifest) (Some ref_configMap) t)) =
       [''uid-settings'' \<mapsto> (manifestHash ref_lib (ref_object ''settings'' ref_manifest), ref_configMap)]"
proof -
  obtain c t where l: "loadStateCache ref_lib Namespaced ''uid-settings'' ref_process = (c, t)"
    by (cases "loadStateCache ref_lib Namespaced ''uid-settings'' ref_process")
  have "wfManager (pr_stateCaches ref_process)" by (simp add: ref_process_def wfManager_New)
  moreover have "stateMapOf (pr_stateCaches ref_process) = Map.empty"
    by (simp add: ref_process_def NewDesiredStateCacheManager_def stateMapOf_def fun_eq_iff)
  ultimately show ?thesis
    using state_caches_refine_map [OF _ l refl refl, of "ref_object ''settings'' ref_manifest" "Some ref_configMap"] l
    by (simp add: specSet_def)
qed

section \<open>Calls of the stores end\<close>

text \<open>The steps a call of \<open>SourceForCredentials\<close> has left.\<close>

fun sdkLeft :: "('k, 'src) sourceCall \<Rightarrow> nat" where
  "sdkLeft (Asking _) = 2"
| "sdkLeft (Missing _) = 1"
| "sdkLeft _ = 0"

text \<open>A step moves one call forward by one or more of its steps.\<close>

lemma sdkStep_moves:
  "sdkStep s t \<Longrightarrow> (\<forall>i. sdkLeft (snd (snd t) i) \<le> sdkLeft (snd (snd s) i)) \<and>
     (\<exists>i. sdkLeft (snd (snd t) i) < sdkLeft (snd (snd s) i))"
  by (induction rule: sdkStep.induct) (auto intro!: exI)

lemma sdkStep_enabled:
  assumes "sdkLeft (snd (snd s) i) \<noteq> 0"
  shows "\<exists>t. sdkStep s t"
proof -
  obtain m log calls where s: "s = (m, log, calls)" by (cases s)
  show ?thesis
  proof (cases "calls i")
    case (Asking k)
    then show ?thesis unfolding s by (cases "m k") (blast intro: sdkStep.intros)+
  next
    case (Missing k)
    then show ?thesis unfolding s by (cases "m k") (blast intro: sdkStep.intros)+
  qed (use assms in \<open>simp_all add: s\<close>)
qed

interpretation sdk_calls: ending_calls sdkStart sdkStep "\<lambda>s. True" "\<lambda>s. snd (snd s)" sdkLeft
  by unfold_locales (blast intro: sdkStep_enabled dest: sdkStep_moves)+

text \<open>
  Concurrent calls of \<open>SourceForCredentials\<close> end: whatever the schedule, \<open>n\<close> calls take at most
  \<open>2 * n\<close> steps, and as long as one of them has not returned some step is possible, so that no
  schedule deadlocks.
\<close>

theorem SDKStore_calls_end:
  assumes "\<And>i. n \<le> i \<Longrightarrow> sdkLeft (calls i) = 0" "(sdkStep ^^ j) (m, log, calls) (m', log', calls')"
  shows "j \<le> 2 * n \<and> ((\<nexists>t. sdkStep (m', log', calls') t) \<longleftrightarrow> (\<forall>i. sdkLeft (calls' i) = 0))"
proof
  have "sdkLeft c \<le> 2" for c :: "('a, 'b) sourceCall" by (cases c) simp_all
  with assms show "j \<le> 2 * n" using sdk_calls.run_bound [OF assms(2), of n 2] by simp
  show "(\<nexists>t. sdkStep (m', log', calls') t) \<longleftrightarrow> (\<forall>i. sdkLeft (calls' i) = 0)"
    using sdk_calls.stuck_iff [of "(m', log', calls')"] by simp
qed

theorem SDKStore_calls_end_witness:
  "\<nexists>t. (sdkStep ^^ 5) (Map.empty, [], (\<lambda>i. if i < 2 then Asking ''k'' else Failed ''k'') :: nat \<Rightarrow> (string, nat) sourceCall) t"
proof
  assume "\<exists>t. (sdkStep ^^ 5) (Map.empty, [], (\<lambda>i. if i < 2 then Asking ''k'' else Failed ''k'') :: nat \<Rightarrow> (string, nat) sourceCall) t"
  then obtain m' log' calls' where "(sdkStep ^^ 5) (Map.empty, [], (\<lambda>i. if i < 2 then Asking ''k'' else Failed ''k'') ::
      nat \<Rightarrow> (string, nat) sourceCall) (m', log', calls')" by auto
  from SDKStore_calls_end [OF _ this, of 2] show False by simp
qed

text \<open>
  So do the calls of the store of reused sources, with three steps each, and those of
  \<open>LoadOrNewForManaged\<close>, with two, as long as no resource is removed meanwhile.
\<close>

fun reuseLeft :: "'src reuseCall \<Rightarrow> nat" where
  "reuseLeft (AskingToken _) = 3"
| "reuseLeft (Creating _) = 2"
| "reuseLeft (Writing _ _) = 1"
| "reuseLeft (Holding _ _) = 0"

lemma reuseStep_moves:
  "reuseStep src s t \<Longrightarrow> (\<forall>i. reuseLeft (snd t i) \<le> reuseLeft (snd s i)) \<and>
     (\<exists>i. reuseLeft (snd t i) < reuseLeft (snd s i))"
  by (induction rule: reuseStep.induct) (auto intro!: exI)

lemma reuseStep_enabled:
  assumes "reuseLeft (snd s i) \<noteq> 0"
  shows "\<exists>t. reuseStep src s t"
proof -
  obtain m calls where s: "s = (m, calls)" by (cases s)
  show ?thesis
  proof (cases "calls i")
    case (AskingToken k)
    then show ?thesis unfolding s by (cases "rt_sources m k") (blast intro: reuseStep.intros)+
  next
    case (Creating k)
    then show ?thesis unfolding s by (cases "reuseTokenSource src m") (blast intro: reuseStep.intros)
  next
    case (Writing k x)
    then show ?thesis unfolding s by (blast intro: reuseStep.intros)
  qed (use assms in \<open>simp_all add: s\<close>)
qed

interpretation reuse_calls: ending_calls "\<lambda>s. True" "reuseStep src" "\<lambda>s. True" snd reuseLeft for src
  by unfold_locales (blast intro: reuseStep_enabled dest: reuseStep_moves)+

fun loadLeft :: "loadCall \<Rightarrow> nat" where
  "loadLeft (Calling _) = 2"
| "loadLeft (Missed _) = 1"
| "loadLeft (Returned _ _) = 0"

lemma loadStep_moves:
  "loadStep {} s t \<Longrightarrow> (\<forall>i. loadLeft (snd t i) \<le> loadLeft (snd s i)) \<and>
     (\<exists>i. loadLeft (snd t i) < loadLeft (snd s i))"
  by (induction rule: loadStep.induct) (auto intro!: exI)

lemma loadStep_enabled:
  assumes "loadLeft (snd s i) \<noteq> 0"
  shows "\<exists>t. loadStep removed s t"
proof -
  obtain m calls where s: "s = (m, calls)" by (cases s)
  show ?thesis
  proof (cases "calls i")
    case (Calling u)
    then show ?thesis unfolding s by (cases "cm_store m u") (blast intro: loadStep.intros)+
  next
    case (Missed u)
    then show ?thesis unfolding s by (cases "loadLocked u m") (blast intro: loadStep.intros)
  qed (use assms in \<open>simp_all add: s\<close>)
qed

interpretation load_calls: ending_calls loadStart "loadStep {}" "loadInv {}" snd loadLeft
  by unfold_locales (blast intro: loadStep_enabled dest: loadStep_moves)+

lemma ReuseStore_calls_end:
  assumes "(reuseStep src ^^ j) s t" "\<And>i. n \<le> i \<Longrightarrow> reuseLeft (snd s i) = 0"
  shows "j \<le> 3 * n"
proof -
  have "reuseLeft c \<le> 3" for c :: "'a reuseCall" by (cases c) simp_all
  with assms(2) show ?thesis using reuse_calls.run_bound [OF assms(1), of n 3] by simp
qed

lemma LoadOrNew_calls_end:
  assumes "loadStart s" "(loadStep {} ^^ j) s t"
  shows "(\<nexists>u. loadStep {} t u) \<longleftrightarrow> (\<forall>i. loadLeft (snd t i) = 0)"
  using load_calls.stuck_iff [OF load_system.run_inv [OF relpowp_imp_rtranclp [OF assms(2)]
      load_system.init_inv [OF assms(1)]]] .

end
