(* ===== verification/Extraction_Facts.thy ===== *)
theory Extraction_Facts
  imports Ref_Process
begin

text \<open>
  Properties of \<open>pkg/kube/client/ssa/cache/extractor\<close>: the freshness of the cached parsers, the index of
  kinds, and the validation of references.
\<close>

lemma newest_entry:
  assumes "getParserForGV L X gv (c0, w0) = (Ok p, (c', w'))"
    and "discoveryPaths X w0 = (Ok (gvs, etags), w)" "c' gv' = Some e"
  shows "etags (gvRelativeAPIPath L gv') = Some (pe_etag e)"
proof -
  from assms(1) obtain gvs' etags' v oapiGV etag where d: "discoveryPaths X w0 = (Ok (gvs', etags'), v)"
    and e: "etags' (gvRelativeAPIPath L gv) = Some etag"
    and r: "cacheHit etag (invalidateStale L etags' c0 gv) = Some p \<and> c' = invalidateStale L etags' c0 \<and> w' = v \<or>
      cacheHit etag (invalidateStale L etags' c0 gv) = None \<and>
      fetchParser X gv oapiGV etag (invalidateStale L etags' c0, v) = (Ok p, (c', w'))"
    by (rule getParserForGV_OkE)
  from d assms(2) have "etags' = etags" by simp
  with r e assms(3) show ?thesis by (auto simp: fetchParser_Ok invalidateStale_Some split: if_splits)
qed


lemma ref_getParser:
  "getParserForGV ref_lib ref_xlib ([], ''v1'') (Map.empty, w) =
     (Ok ref_parser, ([([], ''v1'') \<mapsto> \<lparr>pe_parser = ref_parser, pe_etag = ''e1''\<rparr>], w))"
  by (simp add: getParserForGV_def ref_discoveryPaths gvRelativeAPIPath_def
      invalidateStale_def cacheHit_def fetchParser_def Let_def)


text \<open>
  The index of a parser is exact: a parser is built only from a document in which no two schemas
  claim the same kind, and it maps a kind to the one schema that claims it.
\<close>

theorem NewGVKParser_index:
  assumes "NewGVKParser X comps b = Ok p"
  shows "distinct (documentGVKs comps) \<and>
    (\<forall>g. parserType p g = None \<longleftrightarrow> g \<notin> set (documentGVKs comps)) \<and>
    (\<forall>g q n. parserType p g = Some (q, n) \<longrightarrow> (\<exists>ss. (n, ss) \<in> set comps \<and> g \<in> set (componentGVKs (n, ss))))"
proof -
  from assms have m: "addComponents (x_gvkString X) comps Map.empty = Ok (gp_gvks p)"
    by (auto simp: NewGVKParser_def res_simps)
  have gv: "gp_gvks p g = map_option fst (find (\<lambda>c. g \<in> set (componentGVKs c)) comps)" for g
    using m by (simp add: addComponents_eq_Ok split: option.split)
  have none: "parserType p g = None \<longleftrightarrow> g \<notin> set (documentGVKs comps)" for g
    by (auto simp: parserType_def gv find_None_iff documentGVKs_def dest!: find_SomeD split: option.split)
  have some: "\<exists>ss. (n, ss) \<in> set comps \<and> g \<in> set (componentGVKs (n, ss))"
    if "parserType p g = Some (q, n)" for g q n
  proof -
    from that obtain c where "find (\<lambda>c. g \<in> set (componentGVKs c)) comps = Some c" "n = fst c"
      by (auto simp: parserType_def gv split: option.splits)
    from find_SomeD [OF this(1)] this(2) show ?thesis by (cases c) auto
  qed
  from m none some show ?thesis by (simp add: addComponents_eq_Ok)
qed

lemma NewGVKParser_index_witness:
  "parserType ref_parser (ref_configMapGVK\<lparr>gvk_kind := ''Secret''\<rparr>) = None \<and> distinct (documentGVKs ref_components)"
proof -
  have "NewGVKParser ref_xlib ref_components False = Ok ref_parser"
    by (simp add: NewGVKParser_def ref_components_def parseGroupVersionKind_def ref_parser_def)
  from NewGVKParser_index [OF this] show ?thesis
    by (auto simp: documentGVKs_def componentGVKs_def ref_components_def parseGroupVersionKind_def)
qed

definition selfContained :: "components \<Rightarrow> sref \<Rightarrow> bool" where
  "selfContained schemas r \<longleftrightarrow>
     rf_string r = [] \<or>
     rf_remoteURI r = [] \<and> \<not> rf_canonical r \<and> rf_hasURL r \<and> rf_fragmentOnly r \<and>
     (\<exists>n. rf_pointer r = Some [''components'', ''schemas'', n] \<and> n \<in> fst ` set schemas)"

lemma validateRef_None_iff:
  "validateRef schemas ref = None \<longleftrightarrow> (case ref of None \<Rightarrow> True | Some r \<Rightarrow> selfContained schemas r)"
proof (cases ref)
  case (Some r)
  have mem: "map_of schemas n = None \<longleftrightarrow> n \<notin> fst ` set schemas" for n
    by (rule map_of_eq_None_iff)
  show ?thesis
    by (cases "rf_string r = []"; cases "rf_remoteURI r = []"; cases "rf_canonical r"; cases "rf_hasURL r";
        cases "rf_fragmentOnly r"; cases "rf_pointer r")
      (auto simp: Some validateRef_def selfContained_def mem split: list.splits)
qed (simp add: validateRef_def)

text \<open>
  A document is accepted only if it is self-contained: no reference error is reported exactly when
  every non-empty reference of every schema is a local fragment \<open>#/components/schemas/{name}\<close> whose
  name is one of the document's components.
\<close>

theorem refErrors_iff_selfContained:
  "refErrors schemas = [] \<longleftrightarrow>
     (\<forall>(n, ss) \<in> set schemas. \<forall>r. Some r \<in> set (sch_refs ss) \<longrightarrow> selfContained schemas r)"
proof -
  have "refErrors schemas = [] \<longleftrightarrow> (\<forall>(n, ss) \<in> set schemas. \<forall>ref \<in> set (sch_refs ss). validateRef schemas ref = None)"
    by (auto simp: refErrors_def List.map_filter_def filter_empty_conv)
  then show ?thesis by (auto simp: validateRef_None_iff split: option.splits)
qed

lemma refErrors_iff_selfContained_witness: "refErrors ref_components = []"
  using refErrors_iff_selfContained [of ref_components] by (simp add: ref_components_def)

end
