(* ===== verification/Watching.thy ===== *)
theory Watching
  imports Informers Ref_World
begin

text \<open>
  Properties of \<open>indexes.go\<close> and \<open>informers.go\<close> in \<open>internal/controller/*/object\<close>: which Objects an
  event reaches, when indexing panics, that concurrent watches leak no informer, and that the garbage
  collection of informers keeps what an Object needs.
\<close>

section \<open>Events\<close>

text \<open>
  C16. A change of a referenced resource reaches every Object that watches and refers to it, and what
  is enqueued are watching Objects only: the event of a local resource (no provider config) with the
  coordinates of a reference puts the request of the referring Object on the queue.
\<close>

theorem enqueue_reaches_referrers:
  assumes cache: "listLaw (IndexByProviderNamespacedNameGVK L sc) objs lst"
    "lst (eventKey L [] ev) = Ok os" "obj \<in> set objs"
    and indexed: "IndexByProviderNamespacedNameGVK L sc obj = Ok keys"
    and watching: "sp_watch (ko_spec obj)"
    and ref: "ref \<in> set (sp_references (ko_spec obj))"
    "getReferenceInfo ref = (lib_gvString L (gvk_group (ev_gvk ev)) (gvk_version (ev_gvk ev)),
       gvk_kind (ev_gvk ev), ev_namespace ev, ev_name ev)"
  shows "\<exists>q'. enqueueObjectsForReferences L sc lst (Some []) ev q = Ok q' \<and> objectRequest sc obj \<in> set q' \<and>
    (\<forall>r \<in> set q'. r \<in> set q \<or> (\<exists>o' \<in> set objs. sp_watch (ko_spec o') \<and> r = objectRequest sc o'))"
proof -
  obtain q' where q': "enqueueObjectsForReferences L sc lst (Some []) ev q = Ok q'"
    using cache(2) by (simp add: enqueueObjectsForReferences_def)
  note mem = enqueue_member [OF cache(1,2) q']
  have "eventKey L [] ev \<in> set keys"
    using reference_indexed_name [OF ref(1) indexed] ref(2) by (simp add: eventKey_def referenceNameKey_def)
  with indexed have "indexedBy (IndexByProviderNamespacedNameGVK L sc) (eventKey L [] ev) obj"
    by (simp add: indexedBy_def)
  with mem cache(3) watching q' show ?thesis by auto
qed

definition ref_watcher :: kobject where
  "ref_watcher = ref_dependent\<lparr>ko_spec := (ko_spec ref_dependent)\<lparr>sp_watch := True\<rparr>\<rparr>"

lemma ref_watcher_simps [simp]:
  "sp_references (ko_spec ref_watcher) = [ref_namespaceRef]" "sp_watch (ko_spec ref_watcher)"
  "sp_providerConfigReference (ko_spec ref_watcher) = Some \<lparr>pcr_kind = ''ProviderConfig'', pcr_name = ''default''\<rparr>"
  "koNamespace ref_watcher = ''team''" "koName ref_watcher = ''settings''"
  "parseManifest ref_lib ref_watcher = Ok ref_configMap"
  by (simp_all add: parseManifest_def ref_watcher_def ref_dependent_def rawBytes_def defaultName_def)

lemma ref_watcher_index:
  "IndexByProviderNamespacedNameGVK ref_lib Namespaced ref_watcher =
     Ok [''.apps..Namespace.v1'', ''ProviderConfig/team/default.settings.apps.ConfigMap.v1'']"
  by (simp add: IndexByProviderNamespacedNameGVK_def manifestOrPanic_def providerConfigKey_def providerConfigRefKey_def
      referenceNameKey_def refKeyProviderNamespacedNameGVK_def)

definition ref_namespaceEvent :: eventObject where
  "ref_namespaceEvent =
     \<lparr>ev_gvk = \<lparr>gvk_group = [], gvk_version = ''v1'', gvk_kind = ''Namespace''\<rparr>, ev_namespace = [], ev_name = ''apps''\<rparr>"

definition ref_list :: "string \<Rightarrow> kobject list res" where
  "ref_list key = Ok (filter (indexedBy (IndexByProviderNamespacedNameGVK ref_lib Namespaced) key) [ref_watcher])"

lemma enqueue_reaches_referrers_witness:
  "\<exists>q'. enqueueObjectsForReferences ref_lib Namespaced ref_list (Some []) ref_namespaceEvent [] = Ok q' \<and>
     (''team'', ''settings'') \<in> set q'"
proof -
  have "listLaw (IndexByProviderNamespacedNameGVK ref_lib Namespaced) [ref_watcher] ref_list"
    by (auto simp: listLaw_def ref_list_def)
  moreover obtain os where "ref_list (eventKey ref_lib [] ref_namespaceEvent) = Ok os"
    by (simp add: ref_list_def)
  moreover have "objectRequest Namespaced ref_watcher = (''team'', ''settings'')"
    by (simp add: objectRequest_def)
  moreover have "sp_watch (ko_spec ref_watcher)" "ref_namespaceRef \<in> set (sp_references (ko_spec ref_watcher))"
    by simp_all
  ultimately show ?thesis
    using enqueue_reaches_referrers [OF _ _ _ ref_watcher_index, of "[ref_watcher]" ref_list ref_namespaceEvent os
        ref_namespaceRef "[]"] by (auto simp: ref_namespaceEvent_def)
qed

text \<open>When indexing panics, in the cache that all controllers share.\<close>

lemma index_panics_iff:
  "(\<nexists>p. IndexByProviderGVK L sc obj = Panic p) \<longleftrightarrow>
     sp_providerConfigReference (ko_spec obj) \<noteq> None \<and> isOk (parseManifest L obj)"
  by (cases sc; cases "sp_providerConfigReference (ko_spec obj)"; cases "parseManifest L obj")
    (simp_all add: IndexByProviderGVK_def providerConfigKey_def providerConfigRefKey_def manifestOrPanic_def)

section \<open>Informers\<close>

text \<open>
  Concurrent watches leak no informer and start none twice: in every interleaving of the calls of
  \<open>WatchResources\<close>, a context that was created and that no call is about to commit is either
  cancelled or serves exactly one kind of one provider config.
\<close>

theorem WatchResources_no_leak:
  assumes "watchReachable (i, calls)" "a < ri_next i" "\<And>n k. calls n \<noteq> Committing k a"
  shows "(a \<in> ri_cancelled i) \<noteq> (\<exists>!k. ri_resourceCaches i k = Some a)"
proof -
  from watch_system.reachable_inv [OF assms(1)] have wf: "wfInformers i"
    and all: "a \<in> ri_cancelled i \<or> (\<exists>k. ri_resourceCaches i k = Some a) \<or> committing (i, calls) a"
    using assms(2) by (auto simp: watchInv_def)
  have "\<not> committing (i, calls) a" using assms(3) by (simp add: committing_def)
  with all wf show ?thesis unfolding wfInformers_def by blast
qed

lemma WatchResources_no_leak_witness:
  "\<exists>i calls k. watchReachable (i, calls) \<and> ri_cancelled i = {1} \<and> ri_resourceCaches i k = Some 0"
proof -
  let ?k = "\<lparr>gc_providerConfig = [], gc_gvk = \<lparr>gvk_group = [], gvk_version = ''v1'', gvk_kind = ''Secret''\<rparr>\<rparr>"
  let ?f = "\<lambda>n :: nat. Looking ?k"
  let ?i1 = "newInformers\<lparr>ri_next := 1\<rparr>" and ?i2 = "newInformers\<lparr>ri_next := 2\<rparr>"
  have 0: "watchReachable (newInformers, ?f)" by (rule reachable.init) (simp add: watchStart_def)
  have 1: "watchReachable (newInformers, ?f(0 := Starting ?k))"
    by (rule reachable.step [OF 0], rule lookMissing) (simp_all add: newInformers_def)
  have 2: "watchReachable (newInformers, ?f(0 := Starting ?k, 1 := Starting ?k))"
    by (rule reachable.step [OF 1], rule lookMissing) (simp_all add: newInformers_def)
  have 3: "watchReachable (?i1, ?f(0 := Starting ?k, 1 := Starting ?k, 0 := Committing ?k 0))"
    by (rule reachable.step [OF 2], rule started) (simp_all add: newInformers_def withCancel_def)
  have 4: "watchReachable (?i2, ?f(0 := Starting ?k, 1 := Starting ?k, 0 := Committing ?k 0, 1 := Committing ?k 1))"
    by (rule reachable.step [OF 3], rule started) (simp_all add: newInformers_def withCancel_def)
  let ?i3 = "watchCommit ?k 0 ?i2"
  let ?c = "?f(0 := Starting ?k, 1 := Starting ?k, 0 := Committing ?k 0, 1 := Committing ?k 1)"
  have 5: "watchReachable (?i3, ?c(0 := Done))"
    by (rule reachable.step [OF 4], rule commit) simp
  have 6: "watchReachable (watchCommit ?k 1 ?i3, ?c(0 := Done, 1 := Done))"
    by (rule reachable.step [OF 5], rule commit) simp
  have i: "ri_cancelled (watchCommit ?k 1 ?i3) = {1}" "ri_resourceCaches (watchCommit ?k 1 ?i3) ?k = Some 0"
    "ri_next (watchCommit ?k 1 ?i3) = 2"
    by (simp_all add: watchCommit_def newInformers_def cancelFn_def)
  have "(0 \<in> ri_cancelled (watchCommit ?k 1 ?i3)) \<noteq> (\<exists>!k. ri_resourceCaches (watchCommit ?k 1 ?i3) k = Some 0)"
    by (rule WatchResources_no_leak [OF 6]) (simp_all add: watchCommit_def newInformers_def cancelFn_def)
  with 6 i(1,2) show ?thesis by blast
qed

text \<open>The watch that a reference asks for.\<close>

definition referenceWatch :: "reference \<Rightarrow> gvkWithConfig" where
  "referenceWatch ref =
     (case getReferenceInfo ref of
        (refAPIVersion, refKind, _, _) \<Rightarrow>
          \<lparr>gc_providerConfig = [], gc_gvk = \<lparr>gvk_group = fst (parseAPIVersion refAPIVersion),
             gvk_version = snd (parseAPIVersion refAPIVersion), gvk_kind = refKind\<rparr>\<rparr>)"

lemma gvkKey_referenceWatch: "gvkKey (referenceWatch ref) = referenceGVKKey ref"
  by (simp add: gvkKey_def referenceWatch_def referenceGVKKey_def split: prod.split)

text \<open>The watches the reconcile of an Object asks for (\<open>resolveReferencies\<close> and \<open>Observe\<close>).\<close>

definition neededWatches :: "klib \<Rightarrow> scope \<Rightarrow> kobject \<Rightarrow> gvkWithConfig set" where
  "neededWatches L sc obj =
     referenceWatch ` set (sp_references (ko_spec obj)) \<union>
     {\<lparr>gc_providerConfig = pc, gc_gvk = lib_gvkOf L d\<rparr> | pc d.
        providerConfigKey sc obj = Ok pc \<and> parseManifest L obj = Ok d}"

text \<open>The kind a manifest declares is the kind of its group-version-kind.\<close>

definition gvkLaw :: "klib \<Rightarrow> bool" where
  "gvkLaw L \<longleftrightarrow> (\<forall>u. gvk_kind (lib_gvkOf L u) = u_kind u)"

lemma neededWatch_indexed:
  assumes "k \<in> neededWatches L sc obj" "IndexByProviderGVK L sc obj = Ok keys" "gvkLaw L"
  shows "gvkKey k \<in> set keys"
  using assms(1) unfolding neededWatches_def
proof
  assume "k \<in> referenceWatch ` set (sp_references (ko_spec obj))"
  then show ?thesis using reference_indexed_gvk [OF _ assms(2)] by (auto simp: gvkKey_referenceWatch)
next
  assume "k \<in> {\<lparr>gc_providerConfig = pc, gc_gvk = lib_gvkOf L d\<rparr> | pc d.
      providerConfigKey sc obj = Ok pc \<and> parseManifest L obj = Ok d}"
  then show ?thesis using managed_indexed_gvk [OF _ _ assms(2)] assms(3) by (auto simp: gvkKey_def gvkLaw_def)
qed

lemma cleanup_needed:
  assumes "listLaw (IndexByProviderGVK L sc) objs lst" "obj \<in> set objs" "IndexByProviderGVK L sc obj = Ok keys"
    and "gvkLaw L" "k \<in> neededWatches L sc obj"
  shows "ri_resourceCaches (cleanupResourceInformers lst entries i) k = ri_resourceCaches i k"
proof -
  have "indexedBy (IndexByProviderGVK L sc) (gvkKey k) obj"
    using neededWatch_indexed [OF assms(5,3,4)] assms(3) by (simp add: indexedBy_def)
  then have "\<not> unreferenced lst k"
    using listLaw_member [OF assms(1), of "gvkKey k" "[]" obj] assms(2) by (auto simp: unreferenced_def)
  then show ?thesis by (simp add: cleanup_caches)
qed

text \<open>
  Garbage collection never stops an informer that an Object in the cache needs: the watches of the
  kinds its references name, and of the kind it manages through its provider config, stay as they are,
  whatever informers exist.
\<close>

theorem cleanup_keeps_needed:
  assumes cache: "listLaw (IndexByProviderGVK L sc) objs lst" "obj \<in> set objs"
    and indexed: "IndexByProviderGVK L sc obj = Ok keys"
    and lib: "gvkLaw L" and needed: "k \<in> neededWatches L sc obj"
  shows "ri_resourceCaches (cleanupResourceInformers lst entries i) k = ri_resourceCaches i k"
  using cache indexed lib needed by (rule cleanup_needed)

text \<open>
  Garbage collection stops exactly the informers that no Object needs, and their contexts: after a
  run over a copy of the whole map, an informer is gone if and only if the list of its Objects was
  empty, and the contexts cancelled by the run are those of the informers removed.
\<close>

theorem cleanup_stops_unreferenced:
  assumes "set entries = Map.graph (ri_resourceCaches i)"
  shows "(\<forall>k. isWatched (cleanupResourceInformers lst entries i) k \<longleftrightarrow> isWatched i k \<and> lst (gvkKey k) \<noteq> Ok []) \<and>
    ri_cancelled (cleanupResourceInformers lst entries i) =
      ri_cancelled i \<union> {a. \<exists>k. ri_resourceCaches i k = Some a \<and> lst (gvkKey k) = Ok []}"
proof -
  have mem: "(k, a) \<in> set entries \<longleftrightarrow> ri_resourceCaches i k = Some a" for k a
    by (simp add: assms graph_def)
  have keys: "k \<in> fst ` set entries \<longleftrightarrow> isWatched i k" for k
  proof -
    have "k \<in> fst ` set entries \<longleftrightarrow> (\<exists>a. (k, a) \<in> set entries)" by force
    then show ?thesis by (auto simp: mem isWatched_def)
  qed
  have "isWatched (cleanupResourceInformers lst entries i) k \<longleftrightarrow> isWatched i k \<and> lst (gvkKey k) \<noteq> Ok []" for k
    unfolding isWatched_def cleanup_caches keys by (auto simp: unreferenced_def isWatched_def)
  moreover have "ri_cancelled (cleanupResourceInformers lst entries i) =
      ri_cancelled i \<union> {a. \<exists>k. ri_resourceCaches i k = Some a \<and> lst (gvkKey k) = Ok []}"
    unfolding cleanup_cancelled mem unreferenced_def ..
  ultimately show ?thesis by blast
qed

definition ref_watched :: resourceInformers where
  "ref_watched = newInformers\<lparr>ri_resourceCaches := [referenceWatch ref_namespaceRef \<mapsto> 0], ri_next := 1\<rparr>"

lemma cleanup_keeps_needed_witness:
  "ri_resourceCaches (cleanupResourceInformers
      (\<lambda>key. Ok (filter (indexedBy (IndexByProviderGVK ref_lib Namespaced) key) [ref_watcher]))
      [(referenceWatch ref_namespaceRef, 0)] ref_watched) (referenceWatch ref_namespaceRef) = Some 0"
proof -
  obtain keys where keys: "IndexByProviderGVK ref_lib Namespaced ref_watcher = Ok keys"
    by (simp add: IndexByProviderGVK_def manifestOrPanic_def providerConfigKey_def providerConfigRefKey_def)
  let ?lst = "\<lambda>key. Ok (filter (indexedBy (IndexByProviderGVK ref_lib Namespaced) key) [ref_watcher])"
  have law: "listLaw (IndexByProviderGVK ref_lib Namespaced) [ref_watcher] ?lst"
    by (auto simp: listLaw_def)
  have member: "ref_watcher \<in> set [ref_watcher]" by simp
  have lib: "gvkLaw ref_lib" by (simp add: gvkLaw_def ref_gvkOf_def Let_def)
  have needed: "referenceWatch ref_namespaceRef \<in> neededWatches ref_lib Namespaced ref_watcher"
    by (simp add: neededWatches_def)
  show ?thesis
    unfolding cleanup_keeps_needed [OF law member keys lib needed] by (simp add: ref_watched_def)
qed

lemma cleanup_stops_unreferenced_witness:
  "ri_cancelled (cleanupResourceInformers (\<lambda>key. Ok []) [(referenceWatch ref_namespaceRef, 0)] ref_watched) = {0}"
proof -
  have "set [(referenceWatch ref_namespaceRef, 0)] = Map.graph (ri_resourceCaches ref_watched)"
    by (auto simp: graph_def ref_watched_def split: if_splits)
  from cleanup_stops_unreferenced [OF this, of "\<lambda>key. Ok []"] show ?thesis
    by (auto simp: ref_watched_def newInformers_def split: if_splits)
qed

end
