(* ===== verification/Watch_Liveness.thy ===== *)
theory Watch_Liveness
  imports Desired_State Observation Watching
begin

text \<open>
  The composition of \<open>object.go\<close>, \<open>informers.go\<close> and \<open>indexes.go\<close>: the informers that the reconcile of a
  watching Object asks for are running when its \<open>Observe\<close> has succeeded, whichever syncer the connector
  chose, and the garbage collection leaves them running while the Object is in the cache.
\<close>

section \<open>The informers of the process\<close>

definition processWatched :: "('w, 'p) process \<Rightarrow> gvkWithConfig \<Rightarrow> bool" where
  "processWatched s k \<longleftrightarrow> isWatched (pr_informers s) k"

text \<open>The observer of a connector, on the state of the process.\<close>

definition processObserver ::
  "'rc cacheLib \<Rightarrow> 'rc \<Rightarrow> 'rc option \<Rightarrow> string \<Rightarrow> gvk list \<Rightarrow> ('w, 'p) process \<Rightarrow> ('w, 'p) process" where
  "processObserver K config rc pc gvks s =
     s\<lparr>pr_informers := WatchResources K config rc pc gvks (pr_informers s)\<rparr>"

interpretation process_informers: kind_observer "processObserver K config" processWatched for K config
  by unfold_locales
    (auto simp: processWatched_def processObserver_def informers.watch_idle
      intro: informers.watch_keeps dest: informers.watch_adds)

lemma observerOf_Some:
  "cn_kindObserver N = Some (K, config) \<Longrightarrow> observerOf N = Some (processObserver K config)"
  by (simp add: observerOf_def processObserver_def fun_eq_iff)

lemma observerOf_keeps:
  "observerOf N = Some w \<Longrightarrow> processWatched s k \<Longrightarrow> processWatched (w rc pc gvks s) k"
  by (cases "cn_kindObserver N")
    (auto simp: observerOf_Some process_informers.watch_keeps, auto simp: observerOf_def)

text \<open>An informer library on which no call fails.\<close>

definition workingCaches :: "'rc cacheLib \<Rightarrow> bool" where
  "workingCaches K \<longleftrightarrow> (\<forall>rc g. isOk (cl_new K rc g) \<and> isOk (cl_getInformer K rc g) \<and> isOk (cl_addEventHandler K rc g))"

lemma watchOne_watches:
  assumes "workingCaches K"
  shows "isWatched (watchOne K rc pc g i) \<lparr>gc_providerConfig = pc, gc_gvk = g\<rparr>"
  using assms
  by (auto simp: workingCaches_def isWatched_def watchOne_def withCancel_def watchCommit_def Let_def split: option.splits)

lemma WatchResources_watches:
  assumes "workingCaches K" "g \<in> set gvks"
  shows "isWatched (WatchResources K config rc pc gvks i) \<lparr>gc_providerConfig = pc, gc_gvk = g\<rparr>"
  using assms(2)
proof (induction gvks arbitrary: i)
  case (Cons h gvks)
  let ?rest = "WatchResources K config rc pc gvks (watchOne K (case rc of None \<Rightarrow> config | Some c \<Rightarrow> c) pc h i)"
  have unfold: "WatchResources K config rc pc (h # gvks) i = ?rest" by (simp add: WatchResources_def)
  show ?case
  proof (cases "g = h")
    case True
    then show ?thesis
      unfolding unfold by (intro informers.watch_keeps) (simp add: watchOne_watches [OF assms(1)])
  next
    case False
    with Cons show ?thesis unfolding unfold by simp
  qed
qed simp

lemma processObserver_watches:
  "workingCaches K \<Longrightarrow> g \<in> set gvks \<Longrightarrow>
     processWatched (processObserver K config rc pc gvks s) \<lparr>gc_providerConfig = pc, gc_gvk = g\<rparr>"
  by (simp add: processWatched_def processObserver_def WatchResources_watches)

section \<open>No step of an Observe stops an informer\<close>

lemma onWorld_informers: "onWorld f s = (r, t) \<Longrightarrow> pr_informers t = pr_informers s"
  by (auto simp: onWorld_def split: prod.splits)

lemma readStep_informers: "readStep (worldClient K) s t \<Longrightarrow> pr_informers t = pr_informers s"
  by (induction rule: readStep.induct) (auto simp: worldClient_def dest: onWorld_informers)

lemma ssaStep_informers:
  assumes "ssaStep (connectedSSA L X sc legacy k uid a) s t"
  shows "pr_informers t = pr_informers s"
  using assms
proof (induction rule: ssaStep.induct)
  case (read s t)
  then show ?case by (simp add: connectedSSA_def readStep_informers)
next
  case (extraction u owner s r t)
  then show ?case by (auto simp: connectedSSA_def parserExtract_def split: prod.splits)
qed (auto simp: connectedSSA_def loadStateCache_def stateCacheRef_def split: prod.splits)

text \<open>What \<open>Connect\<close> builds.\<close>

definition connectedExternal ::
  "klib \<Rightarrow> scope \<Rightarrow> ('w, 'rc, 'p) connector \<Rightarrow> (('w, 'p) process, 'rc) external
     \<Rightarrow> (('w, 'p) process \<Rightarrow> ('w, 'p) process \<Rightarrow> bool) \<Rightarrow> bool" where
  "connectedExternal L sc N E stp \<longleftrightarrow>
     (\<exists>k. ex_client E = worldClient k \<and>
        (ex_syncer E = PatchingResourceSyncer L (worldClient k) \<and> stp = readStep (worldClient k) \<or>
         (\<exists>X uid a. ex_syncer E = SSAResourceSyncer L (connectedSSA L X sc (cn_legacyCSAFieldManagers N) k uid a) \<and>
            stp = ssaStep (connectedSSA L X sc (cn_legacyCSAFieldManagers N) k uid a)))) \<and>
     ex_localClient E = worldClient (cn_kube N) \<and> ex_kindObserver E = observerOf N"

lemma Connect_connected:
  assumes "Connect L sc N mg s = (Ok E, t)"
  shows "\<exists>stp. connectedExternal L sc N E stp"
proof -
  have "\<exists>k rc uid pc u. E = patchingExternal L N k rc \<or>
      enableSSA L sc N uid pc k rc (patchingExternal L N k rc) u = (Ok E, t)"
    using assms by (auto simp: Connect_def Let_def split: option.splits res_splits prod.splits if_splits) blast
  then consider k rc where "E = patchingExternal L N k rc"
    | k rc uid pc u where "enableSSA L sc N uid pc k rc (patchingExternal L N k rc) u = (Ok E, t)" by blast
  then show ?thesis
  proof cases
    case 1
    then show ?thesis unfolding connectedExternal_def patchingExternal_def by auto
  next
    case 2
    from enableSSA_OkE [OF this] obtain X a where
      "ex_syncer E = SSAResourceSyncer L (connectedSSA L X sc (cn_legacyCSAFieldManagers N) k uid a)"
      and "ex_client E = worldClient k" "ex_localClient E = worldClient (cn_kube N)" "ex_kindObserver E = observerOf N"
      by (metis patchingExternal_def external.simps(1,3,5))
    then have "connectedExternal L sc N E (ssaStep (connectedSSA L X sc (cn_legacyCSAFieldManagers N) k uid a))"
      unfolding connectedExternal_def by blast
    then show ?thesis by blast
  qed
qed

lemma connected_step_keeps:
  assumes "connectedExternal L sc N E stp" "observeStep E stp s t" "processWatched s k"
  shows "processWatched t k"
  using assms(2)
proof cases
  case upstream
  with assms(1,3) show ?thesis by (auto simp: connectedExternal_def processWatched_def dest!: readStep_informers)
next
  case local
  with assms(1,3) show ?thesis by (auto simp: connectedExternal_def processWatched_def dest!: readStep_informers)
next
  case sync
  with assms(1,3) show ?thesis
    by (auto simp: connectedExternal_def processWatched_def dest!: readStep_informers ssaStep_informers)
next
  case (watch w rc pc gvks)
  with assms(1,3) show ?thesis by (auto simp: connectedExternal_def intro: observerOf_keeps)
qed

lemma connected_steps_keep:
  assumes "connectedExternal L sc N E stp" "(observeStep E stp)\<^sup>*\<^sup>* s t" "processWatched s k"
  shows "processWatched t k"
  using assms(2,3) by (induction rule: rtranclp_induct) (auto intro: connected_step_keeps [OF assms(1)])

lemma connected_syncer:
  assumes "connectedExternal L sc N E stp"
  shows "resource_syncer (ex_syncer E) stp"
  using assms patching.resource_syncer_axioms ssa.resource_syncer_axioms
  by (auto simp: connectedExternal_def)

section \<open>What Observe watches\<close>

text \<open>
  The watches that an \<open>Observe\<close> of a watching Object asks for: those of its references, read before
  the loop patches the Object, and that of the kind of the manifest that results.
\<close>

definition requestedWatches :: "klib \<Rightarrow> scope \<Rightarrow> kobject \<Rightarrow> kobject \<Rightarrow> gvkWithConfig set" where
  "requestedWatches L sc obj obj' =
     referenceWatch ` {ref \<in> set (sp_references (ko_spec obj)). \<not> emptyReference ref} \<union>
     {\<lparr>gc_providerConfig = pc, gc_gvk = lib_gvkOf L d\<rparr> | pc d.
        providerConfigKey sc obj' = Ok pc \<and> parseManifest L obj' = Ok d}"

lemma resolveOne_gvk:
  assumes "resolveOne L E ref st = (Ok g, st')"
  shows "referenceWatch ref = \<lparr>gc_providerConfig = [], gc_gvk = g\<rparr>"
  using assms
  by (auto simp: resolveOne_def referenceWatch_def Let_def split: prod.splits res_splits if_splits res.splits)

lemma resolveLoop_gvks:
  "resolveLoop L E refs gvks st = (Ok gs, st') \<Longrightarrow> set gvks \<subseteq> set gs \<and>
     (\<forall>ref \<in> set refs. emptyReference ref \<or>
        (\<exists>g \<in> set gs. referenceWatch ref = \<lparr>gc_providerConfig = [], gc_gvk = g\<rparr>))"
proof (induction refs arbitrary: gvks st)
  case (Cons ref refs)
  show ?case
  proof (cases "emptyReference ref")
    case True
    with Cons show ?thesis by auto
  next
    case False
    then obtain g u where one: "resolveOne L E ref st = (Ok g, u)"
      and "resolveLoop L E refs (gvks @ [g]) u = (Ok gs, st')"
      using Cons.prems by (auto split: res_splits)
    then show ?thesis using Cons.IH [of "gvks @ [g]" u] resolveOne_gvk [OF one] by auto
  qed
qed auto

lemma resolveReferencies_watches:
  assumes E: "ex_kindObserver E = Some (processObserver K config)" "workingCaches K"
    and run: "resolveReferencies L E (obj, s) = (Ok (), (obj1, s1))" and watch: "sp_watch (ko_spec obj1)"
    and ref: "ref \<in> set (sp_references (ko_spec obj))" "\<not> emptyReference ref"
  shows "processWatched s1 (referenceWatch ref)"
proof -
  obtain gs u where loop: "resolveLoop L E (sp_references (ko_spec obj)) [] (obj, s) = (Ok gs, u)"
    and st: "(obj1, s1) = watchIfNeeded E None [] gs u"
    using run by (auto simp: resolveReferencies_def split: res_splits)
  obtain g where "g \<in> set gs" "referenceWatch ref = \<lparr>gc_providerConfig = [], gc_gvk = g\<rparr>"
    using resolveLoop_gvks [OF loop] ref by blast
  moreover have "s1 = processObserver K config None [] gs (snd u)"
    using st watch E(1) by (auto simp: watchIfNeeded_def split: if_splits)
  ultimately show ?thesis by (simp add: processObserver_watches [OF E(2)])
qed

lemma handleObservation_frame:
  assumes "handleObservation L E lastState desired (obj, s) = (r, (obj', t))"
  shows "ko_spec obj' = ko_spec obj \<and> ko_meta obj' = ko_meta obj"
  using assms
  by (auto simp: handleObservation_def readyOnSync_def Let_def withObj_eq split: if_splits res_splits)

lemma observeCurrent_frame:
  assumes "observeCurrent L C E manifest current (obj, s) = (Ok ob, (obj', t))"
  shows "ko_spec obj' = ko_spec obj \<and> ko_meta obj' = ko_meta obj"
  using assms
  by (auto simp: observeCurrent_def withObj_eq split: res_splits
      dest!: handleObservation_frame dest: setAtProvider_Ok(2) setAtProvider_Ok(3))

text \<open>A successful \<open>observeManifest\<close>: the watch, the Get, and what follows them.\<close>

lemma observeManifest_run:
  assumes "observeManifest L C sc E manifest (obj, s) = (Ok ob, (obj', t))"
  obtains pc r t1 where "shouldWatch E obj \<Longrightarrow> providerConfigKey sc obj = Ok pc"
    "k_get (ex_client E) (u_apiVersion manifest) (u_kind manifest) (u_namespace manifest, u_name manifest)
       (snd (watchIfNeeded E (Some (ex_rest E)) pc [lib_gvkOf L manifest] (obj, s))) = (r, t1)"
    "obj' = obj \<and> t = t1 \<or> (\<exists>current. observeCurrent L C E manifest current (obj, t1) = (Ok ob, (obj', t)))"
proof (cases "if shouldWatch E obj then providerConfigKey sc obj else Ok []")
  case (Ok pc)
  let ?s = "snd (watchIfNeeded E (Some (ex_rest E)) pc [lib_gvkOf L manifest] (obj, s))"
  let ?get = "k_get (ex_client E) (u_apiVersion manifest) (u_kind manifest) (u_namespace manifest, u_name manifest)"
  obtain r t1 where g: "?get ?s = (r, t1)" by (cases "?get ?s")
  have "obj' = obj \<and> t = t1 \<or> (\<exists>current. observeCurrent L C E manifest current (obj, t1) = (Ok ob, (obj', t)))"
    using assms Ok g
    by (cases r) (auto simp: observeManifest_def Let_def withObj_def watchIfNeeded_obj liftR_def split: if_splits)
  with g Ok show ?thesis by (intro that [of pc r t1]) auto
qed (use assms in \<open>auto simp: observeManifest_def liftR_def split: if_splits\<close>)

lemma observeManifest_frame:
  assumes "observeManifest L C sc E manifest (obj, s) = (Ok ob, (obj', t))"
  shows "ko_spec obj' = ko_spec obj \<and> ko_meta obj' = ko_meta obj"
  using observeManifest_run [OF assms] by (metis observeCurrent_frame)

lemma observeManifest_watches:
  assumes conn: "connectedExternal L sc N E stp"
    and E: "ex_kindObserver E = Some (processObserver K config)" "workingCaches K"
    and run: "observeManifest L C sc E manifest (obj, s) = (Ok ob, (obj', t))"
    and watch: "sp_watch (ko_spec obj)" and pc: "providerConfigKey sc obj = Ok pc"
  shows "processWatched t \<lparr>gc_providerConfig = pc, gc_gvk = lib_gvkOf L manifest\<rparr>"
proof -
  let ?k = "\<lparr>gc_providerConfig = pc, gc_gvk = lib_gvkOf L manifest\<rparr>"
  note current_steps = resource_syncer.observeCurrent_steps [OF connected_syncer [OF conn] refl]
  have "shouldWatch E obj" using E(1) watch by (simp add: shouldWatch_def)
  with pc obtain r t1 where
    get: "k_get (ex_client E) (u_apiVersion manifest) (u_kind manifest) (u_namespace manifest, u_name manifest)
      (snd (watchIfNeeded E (Some (ex_rest E)) pc [lib_gvkOf L manifest] (obj, s))) = (r, t1)"
    and rest: "t = t1 \<or> (\<exists>current. observeCurrent L C E manifest current (obj, t1) = (Ok ob, (obj', t)))"
    using observeManifest_run [OF run] by (metis res.inject(1))
  have "processWatched (snd (watchIfNeeded E (Some (ex_rest E)) pc [lib_gvkOf L manifest] (obj, s))) ?k"
    using E watch by (simp add: watchIfNeeded_def processObserver_watches)
  then have "processWatched t1 ?k"
    by (rule connected_step_keeps [OF conn observeStep.upstream [OF readStep.get [OF get]]])
  with rest show ?thesis using connected_steps_keep [OF conn] current_steps by fastforce
qed

lemma providerConfigKey_frame:
  "ko_spec a = ko_spec b \<Longrightarrow> ko_meta a = ko_meta b \<Longrightarrow> providerConfigKey sc a = providerConfigKey sc b"
  by (simp add: providerConfigKey_def providerConfigRefKey_def split: scope.split option.split)


definition ref_caches :: "unit cacheLib" where
  "ref_caches = \<lparr>cl_new = \<lambda>rc g. Ok (), cl_getInformer = \<lambda>rc g. Ok (), cl_addEventHandler = \<lambda>rc g. Ok ()\<rparr>"

definition ref_watchingConnector :: "(refWorld, unit, unit) connector" where
  "ref_watchingConnector = ref_connector\<lparr>cn_kindObserver := Some (ref_caches, ()), cn_ssaEnabled := False\<rparr>"

lemma ref_watchingConnector_simps [simp]:
  "\<not> cn_ssaEnabled ref_watchingConnector" "cn_kindObserver ref_watchingConnector = Some (ref_caches, ())"
  "cn_kube ref_watchingConnector = ref_client" "cn_track ref_watchingConnector mg w = (Ok (), w)"
  "cn_getProviderConfig ref_watchingConnector kind key w = (Ok ref_providerConfig, w)"
  "cn_clientBuilder ref_watchingConnector spec w = (Ok (ref_client, ()), w)"
  by (simp_all add: ref_watchingConnector_def)

abbreviation ref_watchedProcess :: "(refWorld, unit) process" where
  "ref_watchedProcess \<equiv> ref_process\<lparr>pr_world := [(''v1'', ''Namespace'', [], ''apps'') \<mapsto> ref_namespace]\<rparr>"

abbreviation ref_watchingExternal :: "((refWorld, unit) process, unit) external" where
  "ref_watchingExternal \<equiv> patchingExternal ref_lib ref_watchingConnector ref_client ()"

lemma ref_watchingConnect:
  "Connect ref_lib Namespaced ref_watchingConnector (NamespacedObject ref_watcher) ref_watchedProcess =
     (Ok ref_watchingExternal, ref_watchedProcess)"
  by (simp add: Connect_def onWorld_def resolveProviderConfig_def)

lemma ref_namespaceRef_unpatched [simp]: "\<not> patchesField ref_namespaceRef"
  by (simp add: patchesField_def ref_namespaceRef_def)

lemma ref_watcher_live: "\<not> wasDeleted (ko_meta ref_watcher)"
  by (simp add: wasDeleted_def ref_watcher_def ref_dependent_def)

lemma ref_watchingObserve:
  "\<exists>t. Observe ref_lib ref_cel Namespaced ref_watchingExternal (ref_watcher, ref_watchedProcess) =
     (Ok notExists, (ref_watcher, t))"
proof -
  have "\<exists>s1. resolveReferencies ref_lib ref_watchingExternal (ref_watcher, ref_watchedProcess) =
      (Ok (), (ref_watcher, s1)) \<and> pr_world s1 = [(''v1'', ''Namespace'', [], ''apps'') \<mapsto> ref_namespace]"
    by (simp add: resolveReferencies_def resolveOne_def withObj_def Let_def
        patchingExternal_def worldClient_def onWorld_def watchIfNeeded_def observerOf_Some processObserver_def)
  then show ?thesis
    using ref_watcher_live
    by (auto simp: Observe_def liftR_def observeManifest_def providerConfigKey_def providerConfigRefKey_def
        patchingExternal_def watchIfNeeded_def observerOf_Some processObserver_def withObj_def worldClient_def
        onWorld_def Let_def isNotFound_def)
qed


end
