(* ===== verification/Reporting.thy ===== *)
theory Reporting
  imports Readiness Ref_World
begin

text \<open>
  Properties of what the provider reports on an Object: error messages that are the same on every
  retry, and the Ready condition of each readiness policy.
\<close>

section \<open>Error messages\<close>

text \<open>Nothing before an opening parenthesis can match with what follows it.\<close>

lemma takeWhile_hex_paren: "takeWhile hexDigit (t @ CHR ''('' # w) = takeWhile hexDigit t"
  by (induction t) auto

lemma dropWhile_hex_paren: "dropWhile hexDigit (t @ CHR ''('' # w) = dropWhile hexDigit t @ CHR ''('' # w"
  by (induction t) auto

lemma pointerRegex_before_paren:
  "a \<noteq> [] \<Longrightarrow> pointerRegex (a @ CHR ''('' # w) = map_option (\<lambda>r. r @ CHR ''('' # w) (pointerRegex a)"
proof (induction a rule: pointerRegex.induct)
  case (1 a b c t)
  show ?case
    by (cases "dropWhile hexDigit t") (auto simp: takeWhile_hex_paren dropWhile_hex_paren simp del: dropWhile_eq_Nil_conv)
next
  case "2_3"
  show ?case by (cases w) auto
next
  case "2_2"
  show ?case by (cases w; cases "tl w") auto
qed auto

lemma maskPointers_append:
  "maskPointers (u @ CHR ''('' # w) = maskPointers u @ maskPointers (CHR ''('' # w)"
proof (induction u rule: maskPointers.induct)
  case 1
  show ?case by simp
next
  case (2 x xs)
  show ?case
  proof (cases "pointerRegex (x # xs)")
    case None
    with pointerRegex_before_paren [of "x # xs" w] 2(1) [OF None] show ?thesis
      by (simp add: maskPointers.simps(2) [of x])
  next
    case (Some r)
    with pointerRegex_before_paren [of "x # xs" w] 2(2) [OF Some] show ?thesis
      by (simp add: maskPointers.simps(2) [of x])
  qed
qed

definition pointerText :: "string \<Rightarrow> string" where
  "pointerText h = ''(0x'' @ h @ '')''"

definition isPointerDigits :: "string \<Rightarrow> bool" where
  "isPointerDigits h \<longleftrightarrow> 5 \<le> length h \<and> list_all hexDigit h"

lemma maskPointers_pointer:
  assumes "isPointerDigits h"
  shows "maskPointers (u @ pointerText h @ v) = maskPointers u @ ''(..ptr..)'' @ maskPointers v"
proof -
  have r: "pointerRegex (''(0x'' @ h @ '')'' @ v) = Some v"
    using assms by (intro pointerRegex_SomeI) (auto simp: isPointerDigits_def list_all_iff)
  have "maskPointers (u @ pointerText h @ v) = maskPointers u @ maskPointers (''(0x'' @ h @ '')'' @ v)"
    using maskPointers_append [of u "''0x'' @ h @ '')'' @ v"] by (simp add: pointerText_def)
  also have "maskPointers (''(0x'' @ h @ '')'' @ v) = ''(..ptr..)'' @ maskPointers v"
    using r by (simp add: maskPointers.simps(2))
  finally show ?thesis .
qed

text \<open>
  C36. Cleaned errors are reproducible and stay classifiable: two errors whose messages differ only in
  the value of a pointer print the same cleaned message, no cleaned message contains a pointer, and
  cleaning changes neither the test for a missing resource nor nil.
\<close>

theorem CleanErr_reproducible:
  assumes "errorText e = u @ pointerText h @ v" "errorText e' = u @ pointerText h' @ v"
    and "isPointerDigits h" "isPointerDigits h'"
  shows "cleanErrorMessage e = cleanErrorMessage e' \<and> \<not> containsPointer (cleanErrorMessage e) \<and>
    CleanErr None = None \<and> (\<exists>c. CleanErr (Some e) = Some c \<and> errorText c = cleanErrorMessage e \<and> isNotFound c = isNotFound e)"
  using assms maskPointers_clean [of "errorText e"]
  by (simp add: cleanErrorMessage_def maskPointers_pointer)

lemma CleanErr_reproducible_witness:
  "cleanErrorMessage (ErrNew ''cannot patch: (*int64)(0x4012805d98)'') =
     cleanErrorMessage (ErrNew ''cannot patch: (*int64)(0xc000123456)'')"
proof -
  have "isPointerDigits ''4012805d98''" "isPointerDigits ''c000123456''"
    by (simp_all add: isPointerDigits_def hexDigit_def)
  from CleanErr_reproducible [OF _ _ this, where u = "''cannot patch: (*int64)''" and v = "[]" and
      e = "ErrNew ''cannot patch: (*int64)(0x4012805d98)''" and e' = "ErrNew ''cannot patch: (*int64)(0xc000123456)''"]
  show ?thesis by (simp add: pointerText_def)
qed

section \<open>Readiness\<close>

text \<open>
  C35. The Ready condition derived from the conditions of the observed object: with
  \<open>DeriveFromObject\<close> it is Available exactly if the first condition of type Ready is True, with
  \<open>AllTrue\<close> exactly if there is a condition and all are True; with \<open>SuccessfulCreate\<close> (or no policy)
  the observation does not change the Object; any other policy but the CEL query is an error.
\<close>

theorem readiness_by_policy:
  assumes "lib_statusConditions L observed = Ok cs"
  shows "updateConditionFromObserved L C obj observed =
    (let policy = rd_policy (sp_readiness (ko_spec obj)); ready = (\<lambda>b. Ok (setReady (if b then Available else Unavailable) obj)) in
     if policy = ''DeriveFromObject'' then
       ready (\<exists>pre c post. cs = pre @ c # post \<and> (\<forall>d \<in> set pre. oc_type d \<noteq> ''Ready'') \<and>
         oc_type c = ''Ready'' \<and> oc_status c = ''True'')
     else if policy = ''AllTrue'' then ready (cs \<noteq> [] \<and> (\<forall>c \<in> set cs. oc_status c = ''True''))
     else if policy = ''DeriveFromCelQuery'' then readyResult (checkDeriveFromCelQuery L C obj observed) obj
     else if policy \<in> {''SuccessfulCreate'', []} then Ok obj
     else Err (ErrNew (''unknown readiness policy '' @ goQuote policy)))"
proof -
  let ?ex = "\<lambda>cs. \<exists>pre c post. cs = pre @ c # post \<and> (\<forall>d \<in> set pre. oc_type d \<noteq> ''Ready'') \<and>
         oc_type c = ''Ready'' \<and> oc_status c = ''True''"
  have "conditionStatus ''Ready'' cs = ''True'' \<longleftrightarrow> ?ex cs"
  proof (induction cs)
    case (Cons c cs)
    show ?case
    proof (cases "oc_type c = ''Ready''")
      case True
      then have "?ex (c # cs) \<longleftrightarrow> oc_status c = ''True''"
        by (auto simp: Cons_eq_append_conv intro: exI [of _ "[]"])
      with True show ?thesis by (simp add: conditionStatus_def)
    next
      case False
      have "?ex (c # cs) \<longleftrightarrow> ?ex cs"
      proof
        assume "?ex (c # cs)"
        then obtain pre d post where d: "c # cs = pre @ d # post" "\<forall>x \<in> set pre. oc_type x \<noteq> ''Ready''"
          "oc_type d = ''Ready''" "oc_status d = ''True''" by blast
        with False obtain ys where "pre = c # ys" by (cases pre) auto
        with d show "?ex cs" by auto
      next
        assume "?ex cs"
        then obtain pre d post where "cs = pre @ d # post" "\<forall>x \<in> set pre. oc_type x \<noteq> ''Ready''"
          "oc_type d = ''Ready''" "oc_status d = ''True''" by blast
        with False show "?ex (c # cs)"
          by (intro exI [of _ "c # pre"] exI [of _ d] exI [of _ post]) auto
      qed
      with Cons False show ?thesis by (simp add: conditionStatus_def)
    qed
  qed (simp add: conditionStatus_def)
  then have d: "checkDeriveFromObject L observed = Ok (?ex cs)"
    using assms by (simp add: checkDeriveFromObject_def)
  have a: "checkAllConditions L observed = Ok (cs \<noteq> [] \<and> (\<forall>c \<in> set cs. oc_status c = ''True''))"
    using assms by (auto simp: checkAllConditions_def allConditionsLoop_iff)
  show ?thesis
    unfolding updateConditionFromObserved_def d a Let_def
    by (simp add: noError_def readyResult_def readyCondition_def)
qed

definition ref_celUnused :: celEnv where
  "ref_celUnused = \<lparr>cel_newEnv = Err (ErrNew ''unused''), cel_compile = \<lambda>q. Err (ErrNew ''unused''),
     cel_marshal = \<lambda>u. Err (ErrNew ''unused'')\<rparr>"

lemma readiness_by_policy_witness:
  "updateConditionFromObserved (ref_lib\<lparr>lib_statusConditions := \<lambda>u. Ok [\<lparr>oc_type = ''Synced'', oc_status = ''True''\<rparr>]\<rparr>)
     ref_celUnused ((ref_object ''a'' [])\<lparr>ko_spec := (ref_spec [])\<lparr>sp_readiness := \<lparr>rd_policy = ''AllTrue'', rd_celQuery = []\<rparr>\<rparr>\<rparr>)
     ref_configMap =
   Ok (setReady Available ((ref_object ''a'' [])\<lparr>ko_spec := (ref_spec [])\<lparr>sp_readiness := \<lparr>rd_policy = ''AllTrue'', rd_celQuery = []\<rparr>\<rparr>\<rparr>))"
  by (subst readiness_by_policy [where cs = "[\<lparr>oc_type = ''Synced'', oc_status = ''True''\<rparr>]"]) simp_all

text \<open>
  With \<open>DeriveFromCelQuery\<close> the Object is Available exactly if the query compiles to a boolean
  program that evaluates to true on the observed object; otherwise it is Unavailable, with the cause
  as its message, except that a query whose output is no boolean leaves no message at all.
\<close>

theorem cel_readiness:
  assumes "rd_policy (sp_readiness (ko_spec obj)) = ''DeriveFromCelQuery''"
    and "updateConditionFromObserved L C obj observed = Ok obj'"
  shows "(os_conditions (ko_status obj') TypeReady = Some Available \<longleftrightarrow>
      (\<exists>ast program data objMap. rd_celQuery (sp_readiness (ko_spec obj)) \<noteq> [] \<and> cel_newEnv C = Ok () \<and>
        cel_compile C (rd_celQuery (sp_readiness (ko_spec obj))) = Ok ast \<and> ast_outputIsBool ast \<and>
        ast_program ast = Ok program \<and> cel_marshal C observed = Ok data \<and> lib_fields L data = Ok objMap \<and>
        program objMap = Ok (CelBool True))) \<and>
    (\<forall>ast. rd_celQuery (sp_readiness (ko_spec obj)) \<noteq> [] \<longrightarrow> cel_newEnv C = Ok () \<longrightarrow>
      cel_compile C (rd_celQuery (sp_readiness (ko_spec obj))) = Ok ast \<longrightarrow> \<not> ast_outputIsBool ast \<longrightarrow>
      os_conditions (ko_status obj') TypeReady = Some Unavailable)"
proof -
  let ?q = "rd_celQuery (sp_readiness (ko_spec obj))"
  obtain b err where r: "checkDeriveFromCelQuery L C obj observed = Ok (b, err)"
    and obj': "obj' = setReady (readyCondition (b, err)) obj"
    using assms by (cases "checkDeriveFromCelQuery L C obj observed")
      (auto simp: updateConditionFromObserved_def readyResult_def)
  have ready: "conditionType (readyCondition (b, err)) = TypeReady"
    by (auto simp: readyCondition_def split: option.splits)
  have cond: "os_conditions (ko_status obj') TypeReady = Some (readyCondition (b, err))"
    using setCondition_same [of "readyCondition (b, err)"] by (simp add: obj' ready)
  have av: "readyCondition (b, err) = Available \<longleftrightarrow> b"
    using checkDeriveFromCelQuery_ready [of L C obj observed err] r
    by (cases b; cases err) (auto simp: readyCondition_def)
  have b: "b \<longleftrightarrow> (\<exists>ast program data objMap. ?q \<noteq> [] \<and> cel_newEnv C = Ok () \<and>
        cel_compile C ?q = Ok ast \<and> ast_outputIsBool ast \<and>
        ast_program ast = Ok program \<and> cel_marshal C observed = Ok data \<and> lib_fields L data = Ok objMap \<and>
        program objMap = Ok (CelBool True))"
    using r by (auto simp: checkDeriveFromCelQuery_def Let_def split: if_splits res_splits)
  have "readyCondition (b, err) = Unavailable"
    if "?q \<noteq> []" "cel_newEnv C = Ok ()" "cel_compile C ?q = Ok ast" "\<not> ast_outputIsBool ast" for ast
    using r that by (auto simp: checkDeriveFromCelQuery_def readyCondition_def)
  with cond av b show ?thesis by simp
qed

definition ref_celNumber :: celEnv where
  "ref_celNumber = \<lparr>cel_newEnv = Ok (), cel_compile = \<lambda>q. Ok \<lparr>ast_outputIsBool = False, ast_program = Err (ErrNew ''unused'')\<rparr>,
     cel_marshal = \<lambda>u. Err (ErrNew ''unused'')\<rparr>"

lemma cel_readiness_witness:
  "\<exists>obj obj'. updateConditionFromObserved ref_lib ref_celNumber obj ref_configMap = Ok obj' \<and>
     os_conditions (ko_status obj') TypeReady = Some Unavailable"
proof -
  let ?obj = "(ref_object ''a'' [])\<lparr>ko_spec := (ref_spec [])\<lparr>sp_readiness :=
    \<lparr>rd_policy = ''DeriveFromCelQuery'', rd_celQuery = ''1''\<rparr>\<rparr>\<rparr>"
  obtain obj' where run: "updateConditionFromObserved ref_lib ref_celNumber ?obj ref_configMap = Ok obj'"
    by (simp add: updateConditionFromObserved_def checkDeriveFromCelQuery_def readyResult_def ref_celNumber_def)
  have "os_conditions (ko_status obj') TypeReady = Some Unavailable"
    using cel_readiness [OF _ run] by (simp add: ref_celNumber_def)
  with run show ?thesis by blast
qed

end
