(* ===== verification/Collection.thy ===== *)
theory Collection
  imports Connector Ref_World
begin

text \<open>
  \<open>internal/controller/*/observedobjectcollection/reconciler.go\<close>: the reconciler that keeps one
  observe-only Object per resource matched by a collection's selector. The clients of the control
  plane and of the observed cluster are parameters.
\<close>

section \<open>Types (apis/*/observedobjectcollection/v1alpha1/types.go)\<close>

text \<open>Maps whose entries the code ranges over are lists of entries with distinct keys.\<close>

record observedObjectTemplate =
  tm_labels :: "(string \<times> string) list"
  tm_annotations :: "(string \<times> string) list"

record 'sel observeObjectCriteria =
  cr_apiVersion :: string
  cr_kind :: string
  cr_namespace :: string
  cr_selector :: 'sel

record 'sel collectionSpec =
  cs_observeObjects :: "'sel observeObjectCriteria"
  cs_providerConfigReference :: pcReference
  cs_template :: "observedObjectTemplate option"

record 'sel collection =
  co_apiVersion :: string
  co_kind :: string
  co_meta :: objectMeta
  co_spec :: "'sel collectionSpec"
  co_conditions :: conditions
  co_membershipLabel :: "(string \<times> string) option"

text \<open>The owner reference of an observed Object, and the Object with it.\<close>

record ownerReference =
  ow_apiVersion :: string
  ow_kind :: string
  ow_name :: string
  ow_uid :: string

record ownedObject =
  oo_owner :: ownerReference
  oo_object :: kobject

abbreviation errStatusUpdate :: string where
  "errStatusUpdate \<equiv> ''cannot update status''"
abbreviation fieldOwner :: string where
  "fieldOwner \<equiv> ''kubernetes.crossplane.io/observed-object-collection-controller''"
abbreviation membershipLabelKey :: string where
  "membershipLabelKey \<equiv> ''kubernetes.crossplane.io/owned-by-collection''"

section \<open>Parameters\<close>

text \<open>
  \<open>cc_get\<close>, \<open>cc_statusUpdate\<close>, \<open>cc_getProviderConfig\<close>, \<open>cc_listMembers\<close> (label, namespace), \<open>cc_apply\<close> (a forced server-side apply of a field owner)
  and \<open>cc_delete\<close> are calls of the local client; \<open>cc_clientBuilder\<close> gives a client of the observed
  cluster, of which only \<open>List\<close> is used (API version, kind, selector, namespace). \<open>cc_selector\<close> is
  \<open>LabelSelectorAsSelector\<close>, \<open>cc_isPaused\<close> is \<open>meta.IsPaused\<close>, \<open>cc_gvkString\<close> prints a
  group-version-kind, \<open>cc_listGvk\<close> is the one of a list with an API version and a kind, the three functions
  named \<open>show\<close> print list options, a matched object and a member with \<open>%v\<close>, and \<open>cc_convert\<close> tells whether \<open>ToUnstructured\<close> fails (its result is represented
  by the Object it is built from).
\<close>

record ('w, 'sel, 'q) collectionLib =
  cc_get :: "nsname \<Rightarrow> 'w \<Rightarrow> 'sel collection res \<times> 'w"
  cc_statusUpdate :: "'sel collection \<Rightarrow> 'w \<Rightarrow> unit res \<times> 'w"
  cc_getProviderConfig :: "string \<Rightarrow> nsname \<Rightarrow> 'w \<Rightarrow> providerConfig res \<times> 'w"
  cc_clientBuilder :: "providerConfigSpec \<Rightarrow> 'w
    \<Rightarrow> (string \<Rightarrow> string \<Rightarrow> 'q \<Rightarrow> string \<Rightarrow> 'w \<Rightarrow> unstructured list res \<times> 'w) res \<times> 'w"
  cc_selector :: "'sel \<Rightarrow> 'q res"
  cc_listMembers :: "string \<times> string \<Rightarrow> string option \<Rightarrow> 'w \<Rightarrow> kobject list res \<times> 'w"
  cc_apply :: "string \<Rightarrow> ownedObject \<Rightarrow> 'w \<Rightarrow> unit res \<times> 'w"
  cc_delete :: "kobject \<Rightarrow> 'w \<Rightarrow> unit res \<times> 'w"
  cc_isPaused :: "objectMeta \<Rightarrow> bool"
  cc_gvkString :: "gvk \<Rightarrow> string"
  cc_listGvk :: "string \<Rightarrow> string \<Rightarrow> gvk"
  cc_showOptions :: "'q \<Rightarrow> string \<Rightarrow> string"
  cc_showItem :: "unstructured \<Rightarrow> string"
  cc_showMember :: "kobject \<Rightarrow> string"
  cc_convert :: "ownedObject \<Rightarrow> unit res"

section \<open>Names and patches\<close>

definition observedObjectName ::
  "klib \<Rightarrow> ('w, 'sel, 'q) collectionLib \<Rightarrow> 'sel collection \<Rightarrow> unstructured \<Rightarrow> string" where
  "observedObjectName L K c matchedObject =
     (let k = cc_gvkString K (lib_gvkOf L matchedObject) @ ''/'' @ u_namespace matchedObject @ ''/'' @ u_name matchedObject;
          kp = take 7 (lib_sha256Hex L k) in
      om_name (co_meta c) @ ''-'' @ kp)"

definition quoted :: "string \<Rightarrow> string" where
  "quoted s = [CHR 0x22] @ s @ [CHR 0x22]"

text \<open>The manifest of the Object, as the template prints it.\<close>

definition observedManifest :: "unstructured \<Rightarrow> string" where
  "observedManifest m =
     ''{'' @ [CHR 0x0A] @ quoted ''kind'' @ '': '' @ quoted (u_kind m) @ '','' @ [CHR 0x0A] @
     quoted ''apiVersion'' @ '': '' @ quoted (u_apiVersion m) @ '','' @ [CHR 0x0A] @
     quoted ''metadata'' @ '': {'' @ [CHR 0x0A] @
     ''  '' @ quoted ''name'' @ '': '' @ quoted (u_name m) @ '','' @ [CHR 0x0A] @
     ''  '' @ quoted ''namespace'' @ '': '' @ quoted (u_namespace m) @ [CHR 0x0A] @
     ''}'' @ [CHR 0x0A] @ ''}''"

text \<open>
  The labels start with the membership label; the template's come after it and win. In the
  cluster-scoped package the Object has no namespace.
\<close>

definition observedLabels :: "'sel collection \<Rightarrow> (string \<rightharpoonup> string)" where
  "observedLabels c =
     (let labels = [membershipLabelKey \<mapsto> om_name (co_meta c)] in
      (case cs_template (co_spec c) of
         None \<Rightarrow> labels
       | Some t \<Rightarrow> fold (\<lambda>(k, v) ls. ls(k \<mapsto> v)) (tm_labels t) labels))"

definition observedAnnotations :: "'sel collection \<Rightarrow> (string \<rightharpoonup> string)" where
  "observedAnnotations c =
     (case cs_template (co_spec c) of
        None \<Rightarrow> Map.empty
      | Some t \<Rightarrow> (if 0 < length (tm_annotations t) then map_of (tm_annotations t) else Map.empty))"

definition observedObject :: "scope \<Rightarrow> string \<Rightarrow> unstructured \<Rightarrow> 'sel collection \<Rightarrow> ownedObject" where
  "observedObject sc name matchedObject c =
     \<lparr>oo_owner = \<lparr>ow_apiVersion = co_apiVersion c, ow_kind = co_kind c, ow_name = om_name (co_meta c),
        ow_uid = om_uid (co_meta c)\<rparr>,
      oo_object =
        \<lparr>ko_meta = \<lparr>om_name = name,
           om_namespace = (case sc of Namespaced \<Rightarrow> om_namespace (co_meta c) | ClusterScoped \<Rightarrow> []),
           om_uid = [], om_labels = observedLabels c, om_annotations = observedAnnotations c, om_finalizers = [],
           om_creationTimestamp = None, om_deletionTimestamp = None\<rparr>,
         ko_spec = \<lparr>sp_writeConnectionSecretToReference = None,
           sp_providerConfigReference = Some (cs_providerConfigReference (co_spec c)),
           sp_managementPolicies = Some [ManagementActionObserve], sp_deletionPolicy = [], sp_connectionDetails = [],
           sp_forProvider = \<lparr>op_manifest = Some (observedManifest matchedObject), op_deletionPropagationPolicy = []\<rparr>,
           sp_references = [], sp_readiness = \<lparr>rd_policy = [], rd_celQuery = []\<rparr>, sp_watch = False\<rparr>,
         ko_status = \<lparr>os_conditions = Map.empty, os_atProviderManifest = None\<rparr>\<rparr>\<rparr>"

definition observedObjectPatch ::
  "('w, 'sel, 'q) collectionLib \<Rightarrow> scope \<Rightarrow> string \<Rightarrow> unstructured \<Rightarrow> 'sel collection \<Rightarrow> ownedObject res" where
  "observedObjectPatch K sc name matchedObject c =
     (let v = observedObject sc name matchedObject c in
      tryR (cc_convert K v) (ErrWrap ''cannot convert to unstructured'') (\<lambda>_. Ok v))"

section \<open>Reconcile\<close>

text \<open>A failure is reported in the Synced condition; the result of the status update is dropped.\<close>

definition withConditions :: "condition list \<Rightarrow> 'sel collection \<Rightarrow> 'sel collection" where
  "withConditions cs c = c\<lparr>co_conditions := fold setCondition cs (co_conditions c)\<rparr>"

definition failWith ::
  "('w, 'sel, 'q) collectionLib \<Rightarrow> 'sel collection \<Rightarrow> goerr \<Rightarrow> 'w \<Rightarrow> bool res \<times> 'w" where
  "failWith K c werr w =
     (case cc_statusUpdate K (withConditions [ReconcileError werr] c) w of
        (Panic p, w) \<Rightarrow> (Panic p, w)
      | (_, w) \<Rightarrow> (Err werr, w))"

definition orFail ::
  "('w, 'sel, 'q) collectionLib \<Rightarrow> 'sel collection \<Rightarrow> 'a res \<times> 'w \<Rightarrow> ('a \<Rightarrow> 'w \<Rightarrow> bool res \<times> 'w)
     \<Rightarrow> bool res \<times> 'w" where
  "orFail K c r k =
     (case r of
        (Ok a, w) \<Rightarrow> k a w
      | (Err e, w) \<Rightarrow> failWith K c e w
      | (Panic p, w) \<Rightarrow> (Panic p, w))"

text \<open>The spec of the provider config of the collection.\<close>

definition collectionProviderConfig ::
  "('w, 'sel, 'q) collectionLib \<Rightarrow> scope \<Rightarrow> 'sel collection \<Rightarrow> 'w \<Rightarrow> providerConfigSpec res \<times> 'w" where
  "collectionProviderConfig K sc c w =
     (let r = cs_providerConfigReference (co_spec c) in
      (case sc of
         ClusterScoped \<Rightarrow>
           tryS (cc_getProviderConfig K ProviderConfigKind ([], pcr_name r) w) (ErrWrap errGetProviderConfig)
             (\<lambda>pc w. (Ok (pc_spec pc), w))
       | Namespaced \<Rightarrow>
           if pcr_kind r = ProviderConfigKind then
             tryS (cc_getProviderConfig K ProviderConfigKind (om_namespace (co_meta c), pcr_name r) w)
               (ErrWrap errGetProviderConfig) (\<lambda>pc w. (Ok (pc_spec pc), w))
           else if pcr_kind r = ClusterProviderConfigKind then
             tryS (cc_getProviderConfig K ClusterProviderConfigKind ([], pcr_name r) w)
               (ErrWrap errGetProviderConfig) (\<lambda>pc w. (Ok (pc_spec pc), w))
           else (Err (ErrNew (''unknown provider config kind: '' @ goQuote (pcr_kind r))), w)))"

text \<open>The loop over the matched items, with the names of the Objects applied so far.\<close>

fun applyItems ::
  "klib \<Rightarrow> ('w, 'sel, 'q) collectionLib \<Rightarrow> scope \<Rightarrow> 'sel collection \<Rightarrow> unstructured list \<Rightarrow> string list \<Rightarrow> 'w
     \<Rightarrow> string list res \<times> 'w" where
  "applyItems L K sc c [] refs w = (Ok refs, w)"
| "applyItems L K sc c (i # items) refs w =
     (let name = observedObjectName L K c i in
      tryS (liftR (observedObjectPatch K sc name i c) w) 
        (ErrWrap (''error generating patch for matched object '' @ cc_showItem K i)) (\<lambda>po w.
      tryS (cc_apply K fieldOwner po w) (ErrWrap ''cannot create observed object'') (\<lambda>_ w.
        applyItems L K sc c items (name # refs) w)))"

text \<open>The loop over the members: those that no item asked for are deleted.\<close>

fun deleteMembers ::
  "('w, 'sel, 'q) collectionLib \<Rightarrow> string list \<Rightarrow> kobject list \<Rightarrow> 'w \<Rightarrow> unit res \<times> 'w" where
  "deleteMembers K refs [] w = (Ok (), w)"
| "deleteMembers K refs (m # ms) w =
     (if koName m \<in> set refs then deleteMembers K refs ms w
      else tryS (cc_delete K m w) (ErrWrap (''cannot delete observed object '' @ cc_showMember K m)) (\<lambda>_ w. deleteMembers K refs ms w))"

text \<open>From the client of the observed cluster on; the result tells whether the request is queued again.\<close>

definition syncCollection ::
  "klib \<Rightarrow> ('w, 'sel, 'q) collectionLib \<Rightarrow> scope \<Rightarrow> 'sel collection
     \<Rightarrow> (string \<Rightarrow> string \<Rightarrow> 'q \<Rightarrow> string \<Rightarrow> 'w \<Rightarrow> unstructured list res \<times> 'w) \<Rightarrow> 'w \<Rightarrow> bool res \<times> 'w" where
  "syncCollection L K sc c clusterList w =
     (let crit = cs_observeObjects (co_spec c); ml = (membershipLabelKey, om_name (co_meta c)) in
      orFail K c (mapErr (ErrWrap ''error creating selector'') (cc_selector K (cr_selector crit)), w) (\<lambda>selector w.
      orFail K c (tryS (clusterList (cr_apiVersion crit) (cr_kind crit) selector (cr_namespace crit) w)
        (ErrWrap (''error fetching objects for GVK '' @ cc_gvkString K (cc_listGvk K (cr_apiVersion crit) (cr_kind crit)) @
          '' and options '' @ cc_showOptions K selector (cr_namespace crit))) (\<lambda>items w. (Ok items, w))) (\<lambda>items w.
      orFail K c (tryS (cc_listMembers K ml
          (case sc of Namespaced \<Rightarrow> Some (om_namespace (co_meta c)) | ClusterScoped \<Rightarrow> None) w)
        (ErrWrap (''cannot list members matching labels map['' @ fst ml @ '':'' @ snd ml @ '']'')) (\<lambda>ol w. (Ok ol, w))) (\<lambda>ol w.
      orFail K c (applyItems L K sc c items [] w) (\<lambda>refs w.
      orFail K c (deleteMembers K refs ol w) (\<lambda>_ w.
        tryS (cc_statusUpdate K ((withConditions [ReconcileSuccess, Available] c)\<lparr>co_membershipLabel := Some ml\<rparr>) w) id
          (\<lambda>_ w. (Ok True, w))))))))"

definition Reconcile ::
  "klib \<Rightarrow> ('w, 'sel, 'q) collectionLib \<Rightarrow> scope \<Rightarrow> nsname \<Rightarrow> 'w \<Rightarrow> bool res \<times> 'w" where
  "Reconcile L K sc req w =
     (case cc_get K req w of
        (Err e, w) \<Rightarrow> (if isNotFound e then (Ok False, w) else (Err e, w))
      | (Panic p, w) \<Rightarrow> (Panic p, w)
      | (Ok c, w) \<Rightarrow>
          if wasDeleted (co_meta c) then (Ok False, w)
          else if cc_isPaused K (co_meta c) then
            tryS (cc_statusUpdate K (withConditions [ReconcilePaused] c) w) (ErrWrap errStatusUpdate)
              (\<lambda>_ w. (Ok False, w))
          else
            tryS (collectionProviderConfig K sc c w) id (\<lambda>pcSpec w.
            orFail K c (tryS (cc_clientBuilder K pcSpec w)
                (ErrWrap errBuildKubeForProviderConfig) (\<lambda>k w. (Ok k, w)))
              (syncCollection L K sc c)))"

definition Reconcile_cluster ::
  "klib \<Rightarrow> ('w, 'sel, 'q) collectionLib \<Rightarrow> nsname \<Rightarrow> 'w \<Rightarrow> bool res \<times> 'w" where
  "Reconcile_cluster L K req w = Reconcile L K ClusterScoped req w"

definition observedObjectName_cluster ::
  "klib \<Rightarrow> ('w, 'sel, 'q) collectionLib \<Rightarrow> 'sel collection \<Rightarrow> unstructured \<Rightarrow> string" where
  "observedObjectName_cluster = observedObjectName"

definition observedObjectPatch_cluster ::
  "('w, 'sel, 'q) collectionLib \<Rightarrow> string \<Rightarrow> unstructured \<Rightarrow> 'sel collection \<Rightarrow> ownedObject res" where
  "observedObjectPatch_cluster K = observedObjectPatch K ClusterScoped"

end
