(* ===== verification/Membership.thy ===== *)
theory Membership
  imports Collection Observation
begin

text \<open>
  Properties of the observed-object-collection reconciler: the Objects of a collection are those of
  the matched items, each is observe-only, and a collection that is deleted or paused changes no
  Object.
\<close>

section \<open>What the control plane promises\<close>

text \<open>
  \<open>objs\<close> is the store of Objects by namespace and name. The calls of the reconciler are the only ones
  that change it: an apply that succeeds stores an Object with the labels and the spec of the patch, a
  delete that succeeds removes one, the list of members returns those with the label.
\<close>

definition objectKey :: "kobject \<Rightarrow> nsname" where
  "objectKey obj = (koNamespace obj, koName obj)"

definition carries :: "kobject \<Rightarrow> kobject \<Rightarrow> bool" where
  "carries obj patch \<longleftrightarrow> objectKey obj = objectKey patch \<and> ko_spec obj = ko_spec patch \<and>
     om_labels (ko_meta patch) \<subseteq>\<^sub>m om_labels (ko_meta obj)"

definition quiet :: "('w \<Rightarrow> nsname \<rightharpoonup> kobject) \<Rightarrow> ('w \<Rightarrow> 'a res \<times> 'w) \<Rightarrow> bool" where
  "quiet objs f \<longleftrightarrow> (\<forall>w r w'. f w = (r, w') \<longrightarrow> objs w' = objs w)"

lemma quietD: "quiet objs f \<Longrightarrow> f w = (r, w') \<Longrightarrow> objs w' = objs w"
  by (simp add: quiet_def)

definition controlPlane :: "('w, 'sel, 'q) collectionLib \<Rightarrow> ('w \<Rightarrow> nsname \<rightharpoonup> kobject) \<Rightarrow> bool" where
  "controlPlane K objs \<longleftrightarrow>
     (\<forall>req. quiet objs (cc_get K req)) \<and> (\<forall>c. quiet objs (cc_statusUpdate K c)) \<and>
     (\<forall>kind key. quiet objs (cc_getProviderConfig K kind key)) \<and>
     (\<forall>spec. quiet objs (cc_clientBuilder K spec)) \<and>
     (\<forall>spec w f w'. cc_clientBuilder K spec w = (Ok f, w') \<longrightarrow> (\<forall>a k q n. quiet objs (f a k q n))) \<and>
     (\<forall>l ns. quiet objs (cc_listMembers K l ns)) \<and>
     (\<forall>l ns w ol w'. cc_listMembers K l (Some ns) w = (Ok ol, w') \<longrightarrow>
        set ol = {obj \<in> ran (objs w). koNamespace obj = ns \<and> om_labels (ko_meta obj) (fst l) = Some (snd l)}) \<and>
     (\<forall>po w w'. cc_apply K fieldOwner po w = (Ok (), w') \<longrightarrow>
        (\<exists>obj. carries obj (oo_object po) \<and> objs w' = (objs w)(objectKey (oo_object po) \<mapsto> obj))) \<and>
     (\<forall>m w w'. cc_delete K m w = (Ok (), w') \<longrightarrow> objs w' = (objs w)(objectKey m := None)) \<and>
     (\<forall>w k obj. objs w k = Some obj \<longrightarrow> objectKey obj = k)"

lemma controlPlaneD:
  assumes "controlPlane K objs"
  shows "cc_get K req w = (r1, w') \<Longrightarrow> objs w' = objs w"
    and "cc_statusUpdate K c w = (r2, w') \<Longrightarrow> objs w' = objs w"
    and "cc_getProviderConfig K kind key w = (r3, w') \<Longrightarrow> objs w' = objs w"
    and "cc_clientBuilder K spec w = (r4, w') \<Longrightarrow> objs w' = objs w"
    and "cc_clientBuilder K spec w = (Ok f, w') \<Longrightarrow> f a k q n v = (r5, v') \<Longrightarrow> objs v' = objs v"
    and "cc_listMembers K l ns' w = (r6, w') \<Longrightarrow> objs w' = objs w"
    and "cc_listMembers K l (Some ns) w = (Ok ol, w') \<Longrightarrow>
        set ol = {obj \<in> ran (objs w). koNamespace obj = ns \<and> om_labels (ko_meta obj) (fst l) = Some (snd l)}"
    and "cc_apply K fieldOwner po w = (Ok (), w') \<Longrightarrow>
        \<exists>obj. carries obj (oo_object po) \<and> objs w' = (objs w)(objectKey (oo_object po) \<mapsto> obj)"
    and "cc_delete K m w = (Ok (), w') \<Longrightarrow> objs w' = (objs w)(objectKey m := None)"
    and "objs w k' = Some obj \<Longrightarrow> objectKey obj = k'"
proof -
  note cp = assms [unfolded controlPlane_def]
  show "cc_get K req w = (r1, w') \<Longrightarrow> objs w' = objs w"
    using conjunct1 [OF cp] quietD by metis
  note cp = conjunct2 [OF cp]
  show "cc_statusUpdate K c w = (r2, w') \<Longrightarrow> objs w' = objs w"
    using conjunct1 [OF cp] quietD by metis
  note cp = conjunct2 [OF cp]
  show "cc_getProviderConfig K kind key w = (r3, w') \<Longrightarrow> objs w' = objs w"
    using conjunct1 [OF cp] quietD by metis
  note cp = conjunct2 [OF cp]
  show "cc_clientBuilder K spec w = (r4, w') \<Longrightarrow> objs w' = objs w"
    using conjunct1 [OF cp] quietD by metis
  note cp = conjunct2 [OF cp]
  show "cc_clientBuilder K spec w = (Ok f, w') \<Longrightarrow> f a k q n v = (r5, v') \<Longrightarrow> objs v' = objs v"
    using conjunct1 [OF cp] quietD by metis
  note cp = conjunct2 [OF cp]
  show "cc_listMembers K l ns' w = (r6, w') \<Longrightarrow> objs w' = objs w"
    using conjunct1 [OF cp] quietD by metis
  note cp = conjunct2 [OF cp]
  show "cc_listMembers K l (Some ns) w = (Ok ol, w') \<Longrightarrow>
      set ol = {obj \<in> ran (objs w). koNamespace obj = ns \<and> om_labels (ko_meta obj) (fst l) = Some (snd l)}"
    using conjunct1 [OF cp] by blast
  note cp = conjunct2 [OF cp]
  show "cc_apply K fieldOwner po w = (Ok (), w') \<Longrightarrow>
      \<exists>obj. carries obj (oo_object po) \<and> objs w' = (objs w)(objectKey (oo_object po) \<mapsto> obj)"
    using conjunct1 [OF cp] by blast
  note cp = conjunct2 [OF cp]
  show "cc_delete K m w = (Ok (), w') \<Longrightarrow> objs w' = (objs w)(objectKey m := None)"
    using conjunct1 [OF cp] by blast
  show "objs w k' = Some obj \<Longrightarrow> objectKey obj = k'"
    using conjunct2 [OF cp] by blast
qed

section \<open>Members\<close>

definition isMember :: "('w \<Rightarrow> nsname \<rightharpoonup> kobject) \<Rightarrow> 'sel collection \<Rightarrow> 'w \<Rightarrow> string \<Rightarrow> bool" where
  "isMember objs c w name \<longleftrightarrow>
     (\<exists>obj. objs w (om_namespace (co_meta c), name) = Some obj \<and>
        om_labels (ko_meta obj) membershipLabelKey = Some (om_name (co_meta c)))"

definition keepsMembershipLabel :: "'sel collection \<Rightarrow> bool" where
  "keepsMembershipLabel c \<longleftrightarrow>
     (\<forall>t. cs_template (co_spec c) = Some t \<longrightarrow> membershipLabelKey \<notin> fst ` set (tm_labels t))"

lemma fold_labels_other:
  "k \<notin> fst ` set kvs \<Longrightarrow> fold (\<lambda>(k, v) ls. ls(k \<mapsto> v)) kvs m k = m k"
  by (induction kvs arbitrary: m) auto

lemma observedLabels_membership:
  "keepsMembershipLabel c \<Longrightarrow> observedLabels c membershipLabelKey = Some (om_name (co_meta c))"
  by (auto simp: observedLabels_def keepsMembershipLabel_def fold_labels_other Let_def split: option.splits)

lemma observedObject_key [simp]:
  "objectKey (oo_object (observedObject Namespaced name i c)) = (om_namespace (co_meta c), name)"
  by (simp add: objectKey_def observedObject_def)

text \<open>What the two loops do to the members, and to everything else.\<close>

lemma applyItems_Ok:
  assumes "controlPlane K objs" "keepsMembershipLabel c"
    and "applyItems L K Namespaced c items refs w = (Ok refs', w')"
  shows "set refs' = set refs \<union> observedObjectName L K c ` set items \<and>
    (\<forall>n. isMember objs c w' n \<longleftrightarrow> isMember objs c w n \<or> n \<in> observedObjectName L K c ` set items)"
  using assms(3)
proof (induction items arbitrary: refs w)
  case Nil
  then show ?case by simp
next
  case (Cons i items)
  let ?n = "observedObjectName L K c i"
  from Cons.prems obtain u where ap: "cc_apply K fieldOwner (observedObject Namespaced ?n i c) w = (Ok (), u)"
    and rest: "applyItems L K Namespaced c items (?n # refs) u = (Ok refs', w')"
    by (auto simp: Let_def res_simps observedObjectPatch_def)
  from controlPlaneD(8) [OF assms(1) ap] obtain obj where
    obj: "carries obj (oo_object (observedObject Namespaced ?n i c))"
    and u: "objs u = (objs w)((om_namespace (co_meta c), ?n) \<mapsto> obj)" by auto
  have "om_labels (ko_meta obj) membershipLabelKey = Some (om_name (co_meta c))"
    using obj observedLabels_membership [OF assms(2)]
    by (auto simp: carries_def observedObject_def map_le_def dom_def)
  with u have "isMember objs c u n \<longleftrightarrow> isMember objs c w n \<or> n = ?n" for n
    by (auto simp: isMember_def)
  with Cons.IH [OF rest] show ?case by auto
qed

lemma deleteMembers_Ok:
  assumes "controlPlane K objs" "\<And>m. m \<in> set ms \<Longrightarrow> koNamespace m = om_namespace (co_meta c)"
    and "deleteMembers K refs ms w = (Ok (), w')"
  shows "isMember objs c w' n \<longleftrightarrow> isMember objs c w n \<and> (n \<in> set refs \<or> n \<notin> koName ` set ms)"
  using assms(2,3)
proof (induction ms arbitrary: w)
  case Nil
  then show ?case by simp
next
  case (Cons m ms)
  show ?case
  proof (cases "koName m \<in> set refs")
    case True
    with Cons show ?thesis by auto
  next
    case False
    with Cons.prems obtain u where "cc_delete K m w = (Ok (), u)" "deleteMembers K refs ms u = (Ok (), w')"
      by (auto simp: res_simps)
    with Cons controlPlaneD(9) [OF assms(1), of m w u]
    have "isMember objs c w' n \<longleftrightarrow> isMember objs c u n \<and> (n \<in> set refs \<or> n \<notin> koName ` set ms)"
      "objs u = (objs w)((om_namespace (co_meta c), koName m) := None)"
      by (auto simp: objectKey_def)
    with False show ?thesis by (auto simp: isMember_def)
  qed
qed

lemma orFail_Ok:
  "orFail K c r k = (Ok b, t) \<Longrightarrow> \<exists>a w. r = (Ok a, w) \<and> k a w = (Ok b, t)"
  by (auto simp: orFail_def failWith_def split: prod.splits res.splits)

lemma syncCollection_Ok:
  assumes cp: "controlPlane K objs" and keep: "keepsMembershipLabel c"
    and quiet: "\<And>a k q n v r v'. f a k q n v = (r, v') \<Longrightarrow> objs v' = objs v"
    and run: "syncCollection L K Namespaced c f w = (Ok b, t)"
  shows "\<exists>q v items. cc_selector K (cr_selector (cs_observeObjects (co_spec c))) = Ok q \<and>
    f (cr_apiVersion (cs_observeObjects (co_spec c))) (cr_kind (cs_observeObjects (co_spec c))) q
      (cr_namespace (cs_observeObjects (co_spec c))) w = (Ok items, v) \<and>
    (\<forall>n. isMember objs c t n \<longleftrightarrow> n \<in> observedObjectName L K c ` set items)"
proof -
  let ?crit = "cs_observeObjects (co_spec c)"
  let ?ns = "om_namespace (co_meta c)"
  from run obtain q where q: "cc_selector K (cr_selector ?crit) = Ok q"
    by (auto simp: syncCollection_def Let_def dest!: orFail_Ok)
  with run obtain items w1 ol w2 refs w3 w4 where
    items: "f (cr_apiVersion ?crit) (cr_kind ?crit) q (cr_namespace ?crit) w = (Ok items, w1)"
    and ol: "cc_listMembers K (membershipLabelKey, om_name (co_meta c)) (Some ?ns) w1 = (Ok ol, w2)"
    and app: "applyItems L K Namespaced c items [] w2 = (Ok refs, w3)"
    and del: "deleteMembers K refs ol w3 = (Ok (), w4)"
    and st: "cc_statusUpdate K ((withConditions [ReconcileSuccess, Available] c)
        \<lparr>co_membershipLabel := Some (membershipLabelKey, om_name (co_meta c))\<rparr>) w4 = (Ok (), t)"
    by (auto simp: syncCollection_def Let_def res_simps dest!: orFail_Ok)
  have o2: "objs w2 = objs w1" using controlPlaneD(6) [OF cp ol] .
  have t: "objs t = objs w4" using controlPlaneD(2) [OF cp st] .
  have ns: "koNamespace m = ?ns" if "m \<in> set ol" for m
    using that controlPlaneD(7) [OF cp ol] by simp
  have mem: "n \<in> koName ` set ol \<longleftrightarrow> isMember objs c w1 n" for n
  proof
    assume "n \<in> koName ` set ol"
    then obtain m where m: "m \<in> ran (objs w1)" "koNamespace m = ?ns" "koName m = n"
      "om_labels (ko_meta m) membershipLabelKey = Some (om_name (co_meta c))"
      using controlPlaneD(7) [OF cp ol] by auto
    then obtain k where "objs w1 k = Some m" by (auto simp: ran_def)
    moreover from this m(2,3) have "k = (?ns, n)"
      using controlPlaneD(10) [OF cp, of w1 k m] by (simp add: objectKey_def)
    ultimately show "isMember objs c w1 n" using m(4) by (auto simp: isMember_def)
  next
    assume "isMember objs c w1 n"
    then obtain m where m: "objs w1 (?ns, n) = Some m"
      "om_labels (ko_meta m) membershipLabelKey = Some (om_name (co_meta c))" by (auto simp: isMember_def)
    with controlPlaneD(10) [OF cp m(1)] have "m \<in> set ol" "koName m = n"
      using controlPlaneD(7) [OF cp ol] by (auto simp: objectKey_def intro: ranI)
    then show "n \<in> koName ` set ol" by blast
  qed
  from applyItems_Ok [OF cp keep app] have refs: "set refs = observedObjectName L K c ` set items"
    and w3: "\<And>n. isMember objs c w3 n \<longleftrightarrow> isMember objs c w2 n \<or> n \<in> set refs" by auto
  have w21: "isMember objs c w2 n \<longleftrightarrow> isMember objs c w1 n" for n by (simp add: isMember_def o2)
  have "isMember objs c t n \<longleftrightarrow> n \<in> set refs" for n
  proof -
    have "isMember objs c t n \<longleftrightarrow> isMember objs c w4 n" by (simp add: isMember_def t)
    also have "\<dots> \<longleftrightarrow> isMember objs c w3 n \<and> (n \<in> set refs \<or> n \<notin> koName ` set ol)"
      using deleteMembers_Ok [OF cp ns del] .
    finally show ?thesis using w3 w21 mem by blast
  qed
  with q items refs show ?thesis by blast
qed

lemma Reconcile_OkE:
  assumes "Reconcile L K sc req w = (Ok True, t)" "cc_get K req w = (Ok c, w1)"
  obtains pcSpec f u v where "collectionProviderConfig K sc c w1 = (Ok pcSpec, u)"
    "cc_clientBuilder K pcSpec u = (Ok f, v)" "syncCollection L K sc c f v = (Ok True, t)"
    "\<not> wasDeleted (co_meta c)" "\<not> cc_isPaused K (co_meta c)"
proof -
  from assms have run: "\<not> wasDeleted (co_meta c)" "\<not> cc_isPaused K (co_meta c)"
    "tryS (collectionProviderConfig K sc c w1) id (\<lambda>pcSpec w.
        orFail K c (tryS (cc_clientBuilder K pcSpec w)
            (ErrWrap ''cannot build kube client for provider config'') (\<lambda>k w. (Ok k, w)))
          (syncCollection L K sc c)) = (Ok True, t)"
    by (auto simp: Reconcile_def res_simps split: if_splits)
  from run(3) obtain pcSpec u where "collectionProviderConfig K sc c w1 = (Ok pcSpec, u)"
    "orFail K c (tryS (cc_clientBuilder K pcSpec u)
            (ErrWrap ''cannot build kube client for provider config'') (\<lambda>k w. (Ok k, w)))
          (syncCollection L K sc c) = (Ok True, t)"
    by (auto simp: res_simps)
  with that run(1,2) show ?thesis by (auto simp: res_simps dest!: orFail_Ok)
qed

section \<open>A control plane in memory\<close>

text \<open>A list of Objects, of which the first with a key counts.\<close>

definition ref_objs :: "kobject list \<Rightarrow> nsname \<rightharpoonup> kobject" where
  "ref_objs w k = find (\<lambda>obj. objectKey obj = k) w"

definition ref_collection :: "unit collection" where
  "ref_collection =
     \<lparr>co_apiVersion = ''kubernetes.m.crossplane.io/v1alpha1'', co_kind = ''ObservedObjectCollection'',
      co_meta = (ko_meta (ref_object ''maps'' [])),
      co_spec = \<lparr>cs_observeObjects = \<lparr>cr_apiVersion = ''v1'', cr_kind = ''ConfigMap'', cr_namespace = ''apps'', cr_selector = ()\<rparr>,
        cs_providerConfigReference = \<lparr>pcr_kind = ''ProviderConfig'', pcr_name = ''default''\<rparr>, cs_template = None\<rparr>,
      co_conditions = Map.empty, co_membershipLabel = None\<rparr>"

definition ref_collectionLib :: "(kobject list, unit, unit) collectionLib" where
  "ref_collectionLib =
     \<lparr>cc_get = \<lambda>req w. (Ok ref_collection, w),
      cc_statusUpdate = \<lambda>c w. (Ok (), w),
      cc_getProviderConfig = \<lambda>kind key w.
        (Ok \<lparr>pc_uid = ''pc-1'', pc_name = ''default'',
          pc_spec = \<lparr>pcs_credentials = \<lparr>pcd_source = ''InjectedIdentity'', pcd_selectors = []\<rparr>, pcs_identity = None\<rparr>\<rparr>, w),
      cc_clientBuilder = \<lambda>spec w. (Ok (\<lambda>a k q n w. (Ok [ref_configMap], w)), w),
      cc_selector = \<lambda>sel. Ok (),
      cc_listMembers = \<lambda>l ns w. (Ok (filter (\<lambda>obj. ref_objs w (objectKey obj) = Some obj \<and>
        (case ns of None \<Rightarrow> True | Some n \<Rightarrow> koNamespace obj = n) \<and> om_labels (ko_meta obj) (fst l) = Some (snd l)) w), w),
      cc_apply = \<lambda>owner po w. (Ok (), oo_object po # w),
      cc_delete = \<lambda>m w. (Ok (), filter (\<lambda>obj. objectKey obj \<noteq> objectKey m) w),
      cc_isPaused = \<lambda>m. False,
      cc_gvkString = gvk_kind,
      cc_listGvk = \<lambda>a k. \<lparr>gvk_group = [], gvk_version = a, gvk_kind = k\<rparr>,
      cc_showOptions = \<lambda>q ns. ns,
      cc_showItem = u_name,
      cc_showMember = koName,
      cc_convert = \<lambda>o'. Ok ()\<rparr>"

lemma ref_objs_Some: "ref_objs w k = Some obj \<Longrightarrow> obj \<in> set w \<and> objectKey obj = k"
  unfolding ref_objs_def by (rule find_SomeD)

lemma ref_objs_ran: "ran (ref_objs w) = {obj \<in> set w. ref_objs w (objectKey obj) = Some obj}"
proof
  show "ran (ref_objs w) \<subseteq> {obj \<in> set w. ref_objs w (objectKey obj) = Some obj}"
    using ref_objs_Some [of w] unfolding ran_def by blast
qed (auto simp: ran_def simp del: split_paired_Ex)

lemma ref_objs_cons: "ref_objs (obj # w) = (ref_objs w)(objectKey obj \<mapsto> obj)"
  by (auto simp: ref_objs_def fun_eq_iff)

lemma ref_objs_delete:
  "ref_objs (filter (\<lambda>obj. objectKey obj \<noteq> k) w) = (ref_objs w)(k := None)"
proof
  fix k'
  show "ref_objs (filter (\<lambda>obj. objectKey obj \<noteq> k) w) k' = ((ref_objs w)(k := None)) k'"
    by (induction w) (auto simp: ref_objs_def)
qed

lemma ref_controlPlane: "controlPlane ref_collectionLib ref_objs"
proof -
  have "objectKey obj = k" if "ref_objs w k = Some obj" for w k obj
    using ref_objs_Some [OF that] by simp
  then show ?thesis
    unfolding controlPlane_def quiet_def
    by (intro conjI)
      (auto simp: ref_collectionLib_def ref_objs_ran ref_objs_delete ref_objs_cons carries_def)
qed

lemma ref_Reconcile:
  "\<exists>t. Reconcile ref_lib ref_collectionLib Namespaced (''team'', ''maps'') [] = (Ok True, t)"
  by (simp add: Reconcile_def ref_collectionLib_def ref_collection_def wasDeleted_def collectionProviderConfig_def orFail_def
      syncCollection_def Let_def observedObjectPatch_def)



text \<open>Without references, and whatever the syncer does, a successful Observe leaves the spec alone.\<close>

lemma Observe_keeps_spec:
  assumes "Observe L C sc E (obj, s) = (Ok ob, (obj', t))" "sp_references (ko_spec obj) = []" "eo_resourceExists ob"
  shows "ko_spec obj' = ko_spec obj"
  using assms(1)
proof (cases rule: Observe_OkE)
  case (1 st1 m)
  have st1: "fst st1 = obj"
    using 1(3,4) assms(2) by (cases "wasDeleted (ko_meta obj)") (auto simp: resolveReferencies_def)
  from 1(2) show ?thesis
  proof (cases rule: observeManifest_OkE)
    case (missing s0 e t0)
    with assms(3) show ?thesis by (simp add: notExists_def)
  next
    case (found s0 current t0 obj1 s1 last s2 desired s3)
    from found(2) have "ko_spec obj1 = ko_spec obj" by (simp add: st1 setAtProvider_Ok)
    with handleObservation_Ok(3) [OF found(5)] show ?thesis by simp
  qed
qed

text \<open>
  C15. A collection never acts on what it observes. The Object it applies for an item is owned by the
  collection and named after it with a suffix of seven digits of the hash; and however the Object's
  metadata and status change, whenever its controller finds the resource it reports it as up to date,
  so that no Update follows, and leaves the spec as the collection wrote it.
\<close>

theorem collection_never_acts:
  assumes patch: "observedObjectPatch K sc (observedObjectName L K c i) i c = Ok po"
    and hash: "\<And>s. 7 \<le> length (lib_sha256Hex L s)"
    and obj: "ko_spec obj = ko_spec (oo_object po)"
    and run: "Observe L C sc E (obj, s) = (Ok ob, (obj', t))" "eo_resourceExists ob"
  shows "eo_resourceUpToDate ob \<and> ko_spec obj' = ko_spec (oo_object po) \<and>
    ow_uid (oo_owner po) = om_uid (co_meta c) \<and> length (koName (oo_object po)) = length (om_name (co_meta c)) + 8"
proof -
  have po: "po = observedObject sc (observedObjectName L K c i) i c"
    using patch by (simp add: observedObjectPatch_def Let_def res_simps)
  have spec: "ko_spec obj' = ko_spec obj"
    by (rule Observe_keeps_spec [OF run(1) _ run(2)]) (simp add: obj po observedObject_def)
  then have "\<not> mayWrite obj'"
    by (simp add: mayWrite_def managementPolicies_def obj po observedObject_def)
  from Observe_only_never_drifts [OF run(1) this run(2)] spec hash show ?thesis
    by (simp add: obj po observedObject_def observedObjectName_def Let_def min_absorb2)
qed

theorem collection_never_acts_witness:
  "let L = ref_lib\<lparr>lib_sha256Hex := \<lambda>s. ''0123456789'', lib_unmarshal := \<lambda>s. Ok ref_configMap\<rparr>;
       E = ref_external\<lparr>ex_syncer := PatchingResourceSyncer L ref_client\<rparr>;
       po = observedObject Namespaced ''maps-0123456'' ref_configMap ref_collection in
   \<exists>ob st. Observe L ref_cel Namespaced E (oo_object po, [keyOf ref_configMap \<mapsto> ref_configMap]) = (Ok ob, st) \<and>
     eo_resourceUpToDate ob"
proof -
  let ?L = "ref_lib\<lparr>lib_sha256Hex := \<lambda>s. ''0123456789'', lib_unmarshal := \<lambda>s. Ok ref_configMap\<rparr>"
  let ?E = "ref_external\<lparr>ex_syncer := PatchingResourceSyncer ?L ref_client\<rparr>"
  let ?po = "observedObject Namespaced ''maps-0123456'' ref_configMap ref_collection"
  let ?w = "[keyOf ref_configMap \<mapsto> ref_configMap]"
  have name: "observedObjectName ?L ref_collectionLib ref_collection ref_configMap = ''maps-0123456''"
    by (simp add: observedObjectName_def ref_collection_def)
  have po: "observedObjectPatch ref_collectionLib Namespaced ''maps-0123456'' ref_configMap ref_collection = Ok ?po"
    by (simp add: observedObjectPatch_def ref_collectionLib_def)
  have "\<exists>ob obj' t. Observe ?L ref_cel Namespaced ?E (oo_object ?po, ?w) = (Ok ob, (obj', t)) \<and> eo_resourceExists ob"
    by (simp add: Observe_def observeManifest_def observeCurrent_def resolveReferencies_def watchIfNeeded_def
        shouldWatch_def withObj_def keyOf_def PatchingResourceSyncer_def Patching_GetDesiredState_def
        Patching_GetObservedState_def handleObservation_def upToDate_def readyOnSync_def connectionDetails_def
        observedObject_def wasDeleted_def parseManifest_def defaultName_def setAtProvider_def sanitized_def isSecret_def
        ref_marshal_def updateConditionFromObserved_def mayWrite_def managementPolicies_def Let_def)
  then obtain ob obj' t where run: "Observe ?L ref_cel Namespaced ?E (oo_object ?po, ?w) = (Ok ob, (obj', t))"
    "eo_resourceExists ob" by blast
  from collection_never_acts [of ref_collectionLib Namespaced ?L ref_collection ref_configMap ?po, unfolded name,
      OF po _ refl run] run
  show ?thesis by (auto simp: Let_def)
qed

end
