(* ===== verification/Transport.thy ===== *)
theory Transport
  imports Prelude Base64
begin

text \<open>
  The HTTP transports that authenticate requests: \<open>pkg/kube/client/azure/transport.go\<close>,
  \<open>pkg/kube/client/nebius/transport.go\<close> and the round tripper and EKS token of
  \<open>pkg/kube/client/aws/aws.go\<close>. Header maps are references, so a request is a record with the
  address of its headers, and copying a request shares them; bodies are handles that are closed. The
  contract of \<open>http.RoundTripper\<close> that the provider's transports promise is a locale.
\<close>

section \<open>Requests\<close>

type_synonym header = "string \<rightharpoonup> string list"

record 'r request =
  rq_header :: "nat option"
  rq_body :: "nat option"
  rq_rest :: 'r

text \<open>The world outside, the heap of header maps, and the bodies that were closed.\<close>

record 'w httpState =
  hs_world :: 'w
  hs_headers :: "nat \<Rightarrow> header"
  hs_next :: nat
  hs_closed :: "nat set"

type_synonym ('w, 'r, 'resp) roundTrip = "'r request \<Rightarrow> 'w httpState \<Rightarrow> 'resp res \<times> 'w httpState"

definition allocHeader :: "header \<Rightarrow> 'w httpState \<Rightarrow> nat \<times> 'w httpState" where
  "allocHeader h s =
     (hs_next s, s\<lparr>hs_headers := (hs_headers s)(hs_next s := h), hs_next := Suc (hs_next s)\<rparr>)"

definition headerOf :: "'r request \<Rightarrow> 'w httpState \<Rightarrow> header" where
  "headerOf r s = (case rq_header r of None \<Rightarrow> Map.empty | Some a \<Rightarrow> hs_headers s a)"

text \<open>\<open>Header.Set\<close> of a canonical key; a nil map cannot be assigned to.\<close>

definition setHeader :: "string \<Rightarrow> string \<Rightarrow> 'r request \<Rightarrow> 'w httpState \<Rightarrow> unit res \<times> 'w httpState" where
  "setHeader k v r s =
     (case rq_header r of
        None \<Rightarrow> (Panic ''assignment to entry in nil map'', s)
      | Some a \<Rightarrow> (Ok (), s\<lparr>hs_headers := (hs_headers s)(a := (hs_headers s a)(k \<mapsto> [v]))\<rparr>))"

text \<open>\<open>cloneRequest\<close> of azure makes a map also for nil headers; \<open>Request.Clone\<close> of \<open>net/http\<close> keeps nil.\<close>

definition cloneRequest :: "'r request \<Rightarrow> 'w httpState \<Rightarrow> 'r request \<times> 'w httpState" where
  "cloneRequest r s =
     (case allocHeader (headerOf r s) s of (a, s) \<Rightarrow> (r\<lparr>rq_header := Some a\<rparr>, s))"

definition stdClone :: "'r request \<Rightarrow> 'w httpState \<Rightarrow> 'r request \<times> 'w httpState" where
  "stdClone r s = (case rq_header r of None \<Rightarrow> (r, s) | Some _ \<Rightarrow> cloneRequest r s)"

definition closeBody :: "'r request \<Rightarrow> 'w httpState \<Rightarrow> 'w httpState" where
  "closeBody r s = (case rq_body r of None \<Rightarrow> s | Some b \<Rightarrow> s\<lparr>hs_closed := insert b (hs_closed s)\<rparr>)"

text \<open>A token source acts on the world; \<open>base()\<close> falls back to the default transport.\<close>

definition tokenFrom :: "('w \<Rightarrow> string res \<times> 'w) \<Rightarrow> 'w httpState \<Rightarrow> string res \<times> 'w httpState" where
  "tokenFrom src s = (case src (hs_world s) of (r, w) \<Rightarrow> (r, s\<lparr>hs_world := w\<rparr>))"

definition baseTransport ::
  "('w, 'r, 'resp) roundTrip \<Rightarrow> ('w, 'r, 'resp) roundTrip option \<Rightarrow> ('w, 'r, 'resp) roundTrip" where
  "baseTransport dflt base = (case base of Some b \<Rightarrow> b | None \<Rightarrow> dflt)"

definition baseTransport_nebius ::
  "('w, 'r, 'resp) roundTrip \<Rightarrow> ('w, 'r, 'resp) roundTrip option \<Rightarrow> ('w, 'r, 'resp) roundTrip" where
  "baseTransport_nebius dflt base = (case base of Some b \<Rightarrow> b | None \<Rightarrow> dflt)"

section \<open>The three transports\<close>

text \<open>The deferred close runs on every return before the base transport takes the body over.\<close>

definition deferClose :: "'r request \<Rightarrow> 'a res \<times> 'w httpState \<Rightarrow> 'a res \<times> 'w httpState" where
  "deferClose req r = (fst r, closeBody req (snd r))"

definition azure_RoundTrip ::
  "('w \<Rightarrow> string res \<times> 'w) \<Rightarrow> ('w, 'r, 'resp) roundTrip \<Rightarrow> ('w, 'r, 'resp) roundTrip option
     \<Rightarrow> ('w, 'r, 'resp) roundTrip" where
  "azure_RoundTrip provider dflt base req s =
     (case tokenFrom provider s of
        (Err e, s) \<Rightarrow> deferClose req (Err (ErrWrap ''cannot get azure token'' e), s)
      | (Panic p, s) \<Rightarrow> deferClose req (Panic p, s)
      | (Ok tkn, s) \<Rightarrow>
          (case cloneRequest req s of
             (req2, s) \<Rightarrow>
               (case setHeader ''Authorization'' (''Bearer '' @ tkn) req2 s of
                  (Ok _, s) \<Rightarrow> baseTransport dflt base req2 s
                | (Err e, s) \<Rightarrow> deferClose req (Err e, s)
                | (Panic p, s) \<Rightarrow> deferClose req (Panic p, s))))"

definition nebius_RoundTrip ::
  "('w \<Rightarrow> string res \<times> 'w) \<Rightarrow> ('w, 'r, 'resp) roundTrip \<Rightarrow> ('w, 'r, 'resp) roundTrip option
     \<Rightarrow> ('w, 'r, 'resp) roundTrip" where
  "nebius_RoundTrip source dflt base req s =
     (case tokenFrom source s of
        (Err e, s) \<Rightarrow> deferClose req (Err (ErrWrap ''cannot get Nebius IAM token'' e), s)
      | (Panic p, s) \<Rightarrow> deferClose req (Panic p, s)
      | (Ok tkn, s) \<Rightarrow>
          (case stdClone req s of
             (req2, s) \<Rightarrow>
               (case setHeader ''Authorization'' (''Bearer '' @ tkn) req2 s of
                  (Ok _, s) \<Rightarrow> baseTransport_nebius dflt base req2 s
                | (Err e, s) \<Rightarrow> deferClose req (Err e, s)
                | (Panic p, s) \<Rightarrow> deferClose req (Panic p, s))))"

text \<open>\<open>base64.RawURLEncoding\<close>: the URL alphabet, no padding.\<close>

definition urlChar :: "char \<Rightarrow> char" where
  "urlChar c = (if c = CHR ''+'' then CHR ''-'' else if c = CHR ''/'' then CHR ''_'' else c)"

definition rawURLEncode :: "string \<Rightarrow> string" where
  "rawURLEncode s = map urlChar (filter (\<lambda>c. c \<noteq> CHR ''='') (EncodeToString s))"

text \<open>
  \<open>eksTokenSource.Token\<close>: \<open>presign\<close> is \<open>PresignGetCallerIdentity\<close> for a cluster ID header and an
  expiry header, and gives the presigned URL.
\<close>

abbreviation clusterIDHeader :: string where
  "clusterIDHeader \<equiv> ''x-k8s-aws-id''"
abbreviation expireHeader :: string where
  "expireHeader \<equiv> ''X-Amz-Expires''"
abbreviation tokenExpiration :: nat where "tokenExpiration \<equiv> 900"
abbreviation tokenPrefix :: string where "tokenPrefix \<equiv> ''k8s-aws-v1.''"

definition eksToken ::
  "((string \<times> string) list \<Rightarrow> 'w \<Rightarrow> string res \<times> 'w) \<Rightarrow> string \<Rightarrow> 'w \<Rightarrow> string res \<times> 'w" where
  "eksToken presign clusterID w =
     tryS (presign [(clusterIDHeader, clusterID), (expireHeader, decimal tokenExpiration)] w)
       (ErrWrap ''failed to presign GetCallerIdentity request'') (\<lambda>url w.
       (Ok (tokenPrefix @ rawURLEncode url), w))"

text \<open>
  \<open>upboundTokenSource.Token\<close>: the answer of the auth service is the access token and the seconds it is
  valid; the expiry is counted from \<open>time.Now()\<close> after the call, in nanoseconds.
\<close>

record oauth2Token =
  tk_accessToken :: string
  tk_expiry :: int

definition upbound_Token ::
  "(string \<Rightarrow> string \<Rightarrow> 'w \<Rightarrow> (string \<times> int) res \<times> 'w) \<Rightarrow> ('w \<Rightarrow> int) \<Rightarrow> string \<Rightarrow> string \<Rightarrow> 'w
     \<Rightarrow> oauth2Token res \<times> 'w" where
  "upbound_Token getOrgScopedToken now org staticToken w =
     tryS (getOrgScopedToken org staticToken w) (ErrWrap ''cannot get upbound org scoped token'') (\<lambda>(token, expiresIn) w.
       (Ok \<lparr>tk_accessToken = token, tk_expiry = now w + expiresIn * 10 ^ 9\<rparr>, w))"

text \<open>The round tripper of aws has no deferred close.\<close>

definition aws_RoundTrip ::
  "('w \<Rightarrow> string res \<times> 'w) \<Rightarrow> ('w, 'r, 'resp) roundTrip \<Rightarrow> ('w, 'r, 'resp) roundTrip" where
  "aws_RoundTrip source rt req s =
     tryS (tokenFrom source s) (ErrWrap ''failed to get EKS token'') (\<lambda>token s.
       (case stdClone req s of
          (reqCopy, s) \<Rightarrow>
            tryS (setHeader ''Authorization'' (''Bearer '' @ token) reqCopy s) id (\<lambda>_ s. rt reqCopy s)))"

section \<open>The contract\<close>

text \<open>
  What a user of an authenticating transport relies on: without a token the request is not sent and
  the error is returned; with a token the base transport gets a copy of the request whose headers are
  those of the request with the bearer token, at a fresh address.
\<close>

definition authorized :: "string \<Rightarrow> 'r request \<Rightarrow> 'w httpState \<Rightarrow> 'r request \<times> 'w httpState" where
  "authorized token req s =
     (req\<lparr>rq_header := Some (hs_next s)\<rparr>,
      s\<lparr>hs_headers := (hs_headers s)(hs_next s := (headerOf req s)(''Authorization'' \<mapsto> [''Bearer '' @ token])),
        hs_next := Suc (hs_next s)\<rparr>)"

locale bearer_transport =
  fixes trip :: "('w \<Rightarrow> string res \<times> 'w) \<Rightarrow> ('w, 'r, 'resp) roundTrip \<Rightarrow> ('w, 'r, 'resp) roundTrip"
  assumes no_token: "tokenFrom src s = (Err e, t) \<Longrightarrow>
      \<exists>e' u. trip src base req s = (Err e', u) \<and> hs_world u = hs_world t \<and> hs_headers u = hs_headers t \<and>
        hs_next u = hs_next t"
    and sends: "tokenFrom src s = (Ok token, t) \<Longrightarrow> rq_header req \<noteq> None \<Longrightarrow>
      trip src base req s = base (fst (authorized token req t)) (snd (authorized token req t))"
begin

text \<open>The request that is sent carries the token, and every other header of the request.\<close>

lemma sent_headers:
  "headerOf (fst (authorized token req t)) (snd (authorized token req t)) =
     (headerOf req t)(''Authorization'' \<mapsto> [''Bearer '' @ token])"
  by (simp add: authorized_def headerOf_def)

text \<open>The caller's headers are left alone, whatever the base transport does to the copy.\<close>

lemma caller_headers_kept:
  assumes "tokenFrom src s = (Ok token, t)" "rq_header req = Some a" "a < hs_next s"
    and base: "\<And>r u. hs_headers (snd (base r u)) a \<noteq> hs_headers u a \<Longrightarrow> rq_header r = Some a"
  shows "hs_headers (snd (trip src base req s)) a = hs_headers s a"
proof -
  have t: "hs_headers t = hs_headers s" "hs_next t = hs_next s"
    using assms(1) by (auto simp: tokenFrom_def split: prod.splits)
  have "trip src base req s = base (fst (authorized token req t)) (snd (authorized token req t))"
    by (rule sends) (use assms in simp_all)
  moreover have "rq_header (fst (authorized token req t)) \<noteq> Some a"
    using assms(3) by (simp add: authorized_def t)
  moreover have "hs_headers (snd (authorized token req t)) a = hs_headers s a"
    using assms(3) by (simp add: authorized_def t)
  ultimately show ?thesis using base by metis
qed

end

text \<open>A transport that also honours the part of the contract on the body.\<close>

locale closing_transport = bearer_transport trip
  for trip :: "('w \<Rightarrow> string res \<times> 'w) \<Rightarrow> ('w, 'r, 'resp) roundTrip \<Rightarrow> ('w, 'r, 'resp) roundTrip" +
  assumes closes: "tokenFrom src s = (Err e, t) \<Longrightarrow> rq_body req = Some b \<Longrightarrow>
      b \<in> hs_closed (snd (trip src base req s))"
begin

text \<open>With a base transport that closes the body, the body is closed with and without a token.\<close>

lemma body_closed:
  assumes "\<And>r u c. rq_body r = Some c \<Longrightarrow> c \<in> hs_closed (snd (base r u))"
    and "rq_body req = Some b" "rq_header req \<noteq> None" "tokenFrom src s = (r, t)" "\<forall>p. r \<noteq> Panic p"
  shows "b \<in> hs_closed (snd (trip src base req s))"
proof (cases r)
  case (Ok token)
  with assms(1) [of "fst (authorized token req t)" b "snd (authorized token req t)"] assms(2-4) sends
  show ?thesis by (simp add: authorized_def)
next
  case (Err e)
  with assms(2,4) closes show ?thesis by blast
qed (use assms(5) in simp)

end

lemma cloneRequest_authorized:
  "cloneRequest req t = (req2, u) \<Longrightarrow>
     setHeader ''Authorization'' (''Bearer '' @ token) req2 u = (Ok (), snd (authorized token req t)) \<and>
     req2 = fst (authorized token req t)"
  by (auto simp: cloneRequest_def allocHeader_def setHeader_def authorized_def headerOf_def split: prod.splits)

lemma stdClone_header: "rq_header req \<noteq> None \<Longrightarrow> stdClone req t = cloneRequest req t"
  by (auto simp: stdClone_def)

lemma closeBody_simps [simp]:
  "hs_world (closeBody r s) = hs_world s" "hs_headers (closeBody r s) = hs_headers s"
  "hs_next (closeBody r s) = hs_next s"
  by (simp_all add: closeBody_def split: option.split)

lemma closeBody_closed: "rq_body r = Some b \<Longrightarrow> b \<in> hs_closed (closeBody r s)"
  by (simp add: closeBody_def)

interpretation azure: closing_transport "\<lambda>src base. azure_RoundTrip src dflt (Some base)" for dflt
proof (unfold_locales, goal_cases)
  case (2 src s token t req base)
  then show ?case
    using cloneRequest_authorized [of req t _ _ token]
    by (cases "cloneRequest req t") (simp add: azure_RoundTrip_def baseTransport_def)
qed (simp_all add: azure_RoundTrip_def deferClose_def closeBody_closed)

interpretation nebius: closing_transport "\<lambda>src base. nebius_RoundTrip src dflt (Some base)" for dflt
proof (unfold_locales, goal_cases)
  case (2 src s token t req base)
  then show ?case
    using cloneRequest_authorized [of req t _ _ token] stdClone_header [of req t]
    by (cases "cloneRequest req t") (simp add: nebius_RoundTrip_def baseTransport_nebius_def)
qed (simp_all add: nebius_RoundTrip_def deferClose_def closeBody_closed)

interpretation aws: bearer_transport aws_RoundTrip
proof (unfold_locales, goal_cases)
  case (2 src s token t req base)
  then show ?case
    using cloneRequest_authorized [of req t _ _ token] stdClone_header [of req t]
    by (cases "cloneRequest req t") (simp add: aws_RoundTrip_def)
qed (simp add: aws_RoundTrip_def)

section \<open>What the transports send\<close>

text \<open>C31. With a token every one of the three transports hands its base a copy of the request whose
  headers are those of the request with the bearer token in \<open>Authorization\<close>, and the header map of
  the caller is what it was, unless the base transport writes to a map that is not its request's.\<close>

theorem transports_authorize:
  fixes base :: "('w, 'r, 'resp) roundTrip"
  assumes "tokenFrom src s = (Ok token, t)" "rq_header req = Some a" "a < hs_next s"
    and "\<And>r u. hs_headers (snd (base r u)) a \<noteq> hs_headers u a \<Longrightarrow> rq_header r = Some a"
    and "trip \<in> {\<lambda>src base. azure_RoundTrip src dflt (Some base), \<lambda>src base. nebius_RoundTrip src dflt (Some base),
                 aws_RoundTrip}"
  shows "\<exists>req2 u. trip src base req s = base req2 u \<and>
           headerOf req2 u = (headerOf req s)(''Authorization'' \<mapsto> [''Bearer '' @ token]) \<and>
           rq_body req2 = rq_body req \<and> rq_rest req2 = rq_rest req \<and>
           hs_headers (snd (trip src base req s)) a = hs_headers s a"
proof -
  have h: "rq_header req \<noteq> None" using assms(2) by simp
  have t: "headerOf req t = headerOf req s"
    using assms(1,2) by (auto simp: tokenFrom_def headerOf_def split: prod.splits)
  have sent: "trip src base req s = base (fst (authorized token req t)) (snd (authorized token req t))"
    using assms(5) azure.sends [OF assms(1) h, of dflt base] nebius.sends [OF assms(1) h, of dflt base]
      aws.sends [OF assms(1) h, of base] by auto
  have keeps: "hs_headers (snd (trip src base req s)) a = hs_headers s a"
    using assms(5) azure.caller_headers_kept [where dflt = dflt, OF assms(1-4)]
      nebius.caller_headers_kept [where dflt = dflt, OF assms(1-4)] aws.caller_headers_kept [OF assms(1-4)]
    by auto
  show ?thesis
    by (rule exI [of _ "fst (authorized token req t)"], rule exI [of _ "snd (authorized token req t)"])
      (use sent keeps t in \<open>simp add: azure.sent_headers, simp add: authorized_def\<close>)
qed

definition echoTransport :: "(nat, string, header) roundTrip" where
  "echoTransport r s = (Ok (headerOf r s), s)"

definition sampleRequest :: "string request" where
  "sampleRequest = \<lparr>rq_header = Some 0, rq_body = Some 7, rq_rest = ''GET /api''\<rparr>"

definition sampleState :: "nat httpState" where
  "sampleState = \<lparr>hs_world = 3, hs_headers = (\<lambda>_. [''Accept'' \<mapsto> [''json'']]), hs_next = 1, hs_closed = {}\<rparr>"

theorem transports_authorize_witness:
  "\<exists>req2 u. aws_RoundTrip (\<lambda>n. (Ok ''tok'', n + 1)) echoTransport sampleRequest sampleState =
       echoTransport req2 u \<and>
     headerOf req2 u = [''Accept'' \<mapsto> [''json''], ''Authorization'' \<mapsto> [''Bearer tok'']] \<and>
     rq_body req2 = Some 7 \<and> rq_rest req2 = ''GET /api'' \<and>
     hs_headers (snd (aws_RoundTrip (\<lambda>n. (Ok ''tok'', n + 1)) echoTransport sampleRequest sampleState)) 0 =
       [''Accept'' \<mapsto> [''json'']]"
  using transports_authorize [of "\<lambda>n. (Ok ''tok'', n + 1)" sampleState "''tok''"
      "sampleState\<lparr>hs_world := 4\<rparr>" sampleRequest 0 echoTransport aws_RoundTrip echoTransport]
  by (simp add: tokenFrom_def sampleState_def sampleRequest_def echoTransport_def headerOf_def)

text \<open>When the token cannot be had, no transport sends anything, and the error wraps that of the
  token source; azure and nebius close the body of the request, aws does not.\<close>

theorem token_error_outcome:
  assumes "tokenFrom src s = (Err e, t)" "rq_body req = Some b"
  shows "azure_RoundTrip src dflt base req s = (Err (ErrWrap ''cannot get azure token'' e), closeBody req t) \<and>
    nebius_RoundTrip src dflt base req s = (Err (ErrWrap ''cannot get Nebius IAM token'' e), closeBody req t) \<and>
    aws_RoundTrip src rt req s = (Err (ErrWrap ''failed to get EKS token'' e), t) \<and>
    b \<in> hs_closed (closeBody req t) \<and> hs_closed t = hs_closed s"
  using assms by (auto simp: azure_RoundTrip_def nebius_RoundTrip_def aws_RoundTrip_def deferClose_def
      tokenFrom_def closeBody_closed split: prod.splits)

theorem token_error_outcome_witness:
  "azure_RoundTrip (\<lambda>n. (Err (ErrNew ''x''), n)) echoTransport None sampleRequest sampleState =
     (Err (ErrWrap ''cannot get azure token'' (ErrNew ''x'')), closeBody sampleRequest sampleState) \<and>
   7 \<notin> hs_closed (snd (aws_RoundTrip (\<lambda>n. (Err (ErrNew ''x''), n)) echoTransport sampleRequest sampleState))"
  using token_error_outcome [of "\<lambda>n. (Err (ErrNew ''x''), n)" sampleState "ErrNew ''x''" sampleState
      sampleRequest 7 echoTransport None echoTransport]
  by (simp add: tokenFrom_def sampleState_def sampleRequest_def)

section \<open>The EKS token\<close>

text \<open>What an EKS endpoint does with a token: the reference decoder of the raw URL encoding.\<close>

definition urlCharInv :: "char \<Rightarrow> char" where
  "urlCharInv c = (if c = CHR ''-'' then CHR ''+'' else if c = CHR ''_'' then CHR ''/'' else c)"

definition padding :: "string \<Rightarrow> string" where
  "padding s = replicate ((4 - length s mod 4) mod 4) (CHR ''='')"

definition rawURLDecode :: "string \<Rightarrow> string option" where
  "rawURLDecode s = DecodeString (map urlCharInv s @ padding s)"

lemma urlChar_b64:
  "list_all (\<lambda>n. urlCharInv (urlChar (b64Char n)) = b64Char n \<and>
     urlChar (b64Char n) \<notin> {CHR ''='', CHR ''+'', CHR ''/''}) [0..<64]"
  by code_simp

lemma urlChar_b64_simps:
  assumes "n < 64"
  shows "urlCharInv (urlChar (b64Char n)) = b64Char n" "urlChar (b64Char n) \<noteq> CHR ''=''"
    "urlChar (b64Char n) \<noteq> CHR ''+''" "urlChar (b64Char n) \<noteq> CHR ''/''"
  using urlChar_b64 assms by (auto simp: list_all_iff)

lemma EncodeToString_unpadded:
  "EncodeToString s =
     filter (\<lambda>c. c \<noteq> CHR ''='') (EncodeToString s) @ padding (filter (\<lambda>c. c \<noteq> CHR ''='') (EncodeToString s))"
proof (induction s rule: EncodeToString.induct)
  case (4 a b c rest)
  then show ?case by (simp add: Let_def b64Char_simps sextet_bounds padding_def)
qed (simp_all add: Let_def b64Char_simps sextet_bounds padding_def numeral_2_eq_2)

lemma rawURLEncode_chars:
  "map urlCharInv (rawURLEncode s) = filter (\<lambda>c. c \<noteq> CHR ''='') (EncodeToString s) \<and>
   set (rawURLEncode s) \<inter> {CHR ''='', CHR ''+'', CHR ''/''} = {}"
  by (induction s rule: EncodeToString.induct)
    (simp_all add: rawURLEncode_def Let_def b64Char_simps urlChar_b64_simps sextet_bounds)

lemma rawURLDecode_Encode: "rawURLDecode (rawURLEncode s) = Some s"
proof -
  have "padding (rawURLEncode s) = padding (filter (\<lambda>c. c \<noteq> CHR ''='') (EncodeToString s))"
    by (simp add: padding_def rawURLEncode_def)
  then have "rawURLDecode (rawURLEncode s) = DecodeString (EncodeToString s)"
    using rawURLEncode_chars [of s] EncodeToString_unpadded [of s] by (simp add: rawURLDecode_def)
  then show ?thesis by (simp add: Decode_Encode)
qed

text \<open>C32. An EKS token is the prefix followed by text that decodes to the URL that was presigned for
  the cluster, and it holds no padding and none of the characters of the standard alphabet that URLs
  reserve.\<close>

theorem eksToken_roundtrip:
  assumes "presign [(clusterIDHeader, clusterID), (expireHeader, decimal tokenExpiration)] w = (Ok url, w')"
  shows "\<exists>payload. eksToken presign clusterID w = (Ok (tokenPrefix @ payload), w') \<and>
           rawURLDecode payload = Some url \<and> set payload \<inter> {CHR ''='', CHR ''+'', CHR ''/''} = {}"
  using assms rawURLDecode_Encode [of url] rawURLEncode_chars [of url] by (auto simp: eksToken_def)

theorem eksToken_roundtrip_witness:
  "\<exists>payload. eksToken (\<lambda>hs n. (Ok (''https://sts/?'' @ snd (hs ! 0)), Suc n)) ''c1'' 4 =
       (Ok (tokenPrefix @ payload), 5) \<and>
     rawURLDecode payload = Some ''https://sts/?c1'' \<and> set payload \<inter> {CHR ''='', CHR ''+'', CHR ''/''} = {}"
  by (rule eksToken_roundtrip) simp

end
