(* ===== verification/SSA_Convergence.thy ===== *)
theory SSA_Convergence
  imports Desired_State Observation Cluster_Scope
begin

text \<open>
  The reconcile loop with server-side apply: a client connected for an Object applies its manifest, and the
  \<open>Observe\<close> of the next reconcile, with a client connected anew, finds nothing left to do.
\<close>

section \<open>Extraction is repeatable\<close>

text \<open>An OpenAPI server that reading does not change.\<close>

definition steadyOpenAPI :: "('w, 'p) xlib \<Rightarrow> bool" where
  "steadyOpenAPI X \<longleftrightarrow> (\<forall>w. snd (x_discoveryRaw X w) = w) \<and> (\<forall>req w. snd (x_fetch X req w) = w)"

lemma steadyD:
  assumes "steadyOpenAPI X"
  shows "x_discoveryRaw X w = (r, w') \<Longrightarrow> w' = w" "x_fetch X req w = (r', w') \<Longrightarrow> w' = w"
  using assms unfolding steadyOpenAPI_def by (metis snd_conv)+

lemma steady_discoveryPaths:
  "steadyOpenAPI X \<Longrightarrow> discoveryPaths X w = (r, w') \<Longrightarrow> w' = w"
  by (auto simp: discoveryPaths_def liftR_def dest: steadyD split: res_splits)

lemma steady_newParser:
  "steadyOpenAPI X \<Longrightarrow> newParserFromOpenAPIGroupVersion X g w = (r, w') \<Longrightarrow> w' = w"
  by (auto simp: newParserFromOpenAPIGroupVersion_def schemaOf_def liftR_def dest: steadyD
      split: res_splits if_splits option.splits)

lemma invalidateStale_idem [simp]:
  "invalidateStale L etags (invalidateStale L etags c) = invalidateStale L etags c"
  by (auto simp: invalidateStale_def fun_eq_iff split: option.splits)

lemma invalidateStale_upd:
  assumes "etags (gvRelativeAPIPath L gv) = Some etag" "pe_etag e = etag"
  shows "invalidateStale L etags ((invalidateStale L etags c)(gv \<mapsto> e)) = (invalidateStale L etags c)(gv \<mapsto> e)"
  using assms by (auto simp: invalidateStale_def fun_eq_iff split: option.splits)

lemma getParserForGV_again:
  assumes steady: "steadyOpenAPI X" and run: "getParserForGV L X gv (c, w) = (Ok p, (c', w'))"
  shows "w' = w \<and> getParserForGV L X gv (c', w) = (Ok p, (c', w))"
proof -
  from run obtain gvs etags v oapiGV etag where d: "discoveryPaths X w = (Ok (gvs, etags), v)"
    and g: "gvs (gvRelativeAPIPath L gv) = Some oapiGV" and e: "etags (gvRelativeAPIPath L gv) = Some etag"
    and r: "(cacheHit etag (invalidateStale L etags c gv) = Some p \<and> c' = invalidateStale L etags c \<and> w' = v) \<or>
      (cacheHit etag (invalidateStale L etags c gv) = None \<and>
       fetchParser X gv oapiGV etag (invalidateStale L etags c, v) = (Ok p, (c', w')))"
    by (rule getParserForGV_OkE)
  have v: "v = w" using steady_discoveryPaths [OF steady d] .
  from r show ?thesis
  proof (elim disjE conjE)
    assume "cacheHit etag (invalidateStale L etags c gv) = Some p" "c' = invalidateStale L etags c" "w' = v"
    with d g e v show ?thesis by (simp add: getParserForGV_def)
  next
    assume miss: "cacheHit etag (invalidateStale L etags c gv) = None"
      and "fetchParser X gv oapiGV etag (invalidateStale L etags c, v) = (Ok p, (c', w'))"
    then have new: "newParserFromOpenAPIGroupVersion X oapiGV w = (Ok p, w')"
      and c': "c' = (if etag \<noteq> [] then (invalidateStale L etags c)(gv \<mapsto> \<lparr>pe_parser = p, pe_etag = etag\<rparr>)
        else invalidateStale L etags c)"
      by (simp_all add: fetchParser_Ok v)
    have w': "w' = w" using steady_newParser [OF steady new] .
    have inv: "invalidateStale L etags c' = c'"
      using c' e invalidateStale_upd [of etags L gv etag "\<lparr>pe_parser = p, pe_etag = etag\<rparr>" c] by simp
    show ?thesis
    proof (cases "etag = []")
      case True
      with miss c' inv d g e v new w' show ?thesis
        by (simp add: getParserForGV_def fetchParser_def)
    next
      case False
      then have "cacheHit etag (c' gv) = Some p" using c' by (simp add: cacheHit_def)
      with inv d g e v w' show ?thesis by (simp add: getParserForGV_def)
    qed
  qed
qed

lemma Extract_again:
  assumes "steadyOpenAPI X" "Extract L X u owner (c, w) = (Ok d, (c', w'))"
  shows "w' = w \<and> Extract L X u owner (c', w) = (Ok d, (c', w))"
proof -
  let ?gv = "(gvk_group (lib_gvkOf L u), gvk_version (lib_gvkOf L u))"
  from assms(2) obtain p where p: "getParserForGV L X ?gv (c, w) = (Ok p, (c', w'))"
    by (auto simp: Extract_def extractUnstructured_def Let_def res_simps split: option.splits)
  with assms(2) getParserForGV_again [OF assms(1) p] show ?thesis
    by (auto simp: Extract_def extractUnstructured_def Let_def res_simps split: option.splits)
qed

text \<open>On the state of the process: the second extraction of the same object finds its parser in the cache.\<close>

lemma parserExtract_again:
  assumes "steadyOpenAPI X" "parserExtract L X a u owner s = (Ok d, t)"
    and "pr_world s' = pr_world s" "pr_parsers s' = pr_parsers t"
  shows "pr_world t = pr_world s \<and> parserExtract L X a u owner s' = (Ok d, s')"
proof -
  let ?c = "readParserCache a (pr_parsers s)"
  obtain c' w' where run: "Extract L X u owner (?c, pr_world s) = (Ok d, (c', w'))"
    and t: "t = s\<lparr>pr_world := w', pr_parsers := writeParserCache a c' (pr_parsers s)\<rparr>"
    using assms(2) by (auto simp: parserExtract_def split: prod.splits)
  note again = Extract_again [OF assms(1) run]
  show ?thesis
  proof (cases "pm_heap (pr_parsers s) a")
    case None
    then have m: "readParserCache a (pr_parsers s') = ?c" "writeParserCache a x (pr_parsers s') = pr_parsers s'" for x
      using assms(4) t by (simp_all add: writeParserCache_def readParserCache_def)
    with run again assms(3) t show ?thesis by (simp add: parserExtract_def)
  next
    case (Some x)
    then have m: "readParserCache a (pr_parsers s') = c'"
      "writeParserCache a c' (pr_parsers s') = pr_parsers s'"
      using assms(4) t by (auto simp: writeParserCache_def readParserCache_def)
    with again assms(3) t show ?thesis by (simp add: parserExtract_def)
  qed
qed

section \<open>The server\<close>

text \<open>
  What the provider relies on of server-side apply: what was applied is read back, and a dry run of the
  same configuration by the same owner over it changes nothing.
\<close>

definition ssaServer :: "'w kclient \<Rightarrow> bool" where
  "ssaServer K \<longleftrightarrow>
     (\<forall>owner u w r w'. k_ssa K False owner u w = (Ok r, w') \<longrightarrow>
        k_get K (u_apiVersion u) (u_kind u) (u_namespace u, u_name u) w' = (Ok r, w') \<and>
        k_ssa K True owner u w' = (Ok r, w'))"

lemma ssaServer_ref: "ssaServer ref_client"
  by (simp add: ssaServer_def keyOf_def)

lemma ssaServerD:
  assumes "ssaServer K" "k_ssa (worldClient K) False owner u s = (Ok r, t)" "pr_world t' = pr_world t"
  shows "k_get (worldClient K) (u_apiVersion u) (u_kind u) (u_namespace u, u_name u) t' = (Ok r, t')"
    "k_ssa (worldClient K) True owner u t' = (Ok r, t')"
proof -
  obtain w where w: "k_ssa K False owner u (pr_world s) = (Ok r, w)" and t: "pr_world t = w"
    using assms(2) by (auto simp: worldClient_def onWorld_def split: prod.splits)
  have "k_get K (u_apiVersion u) (u_kind u) (u_namespace u, u_name u) w = (Ok r, w)"
    "k_ssa K True owner u w = (Ok r, w)"
    using assms(1) w unfolding ssaServer_def by blast+
  then show "k_get (worldClient K) (u_apiVersion u) (u_kind u) (u_namespace u, u_name u) t' = (Ok r, t')"
    "k_ssa (worldClient K) True owner u t' = (Ok r, t')"
    using t assms(3) by (simp_all add: worldClient_def onWorld_def)
qed

section \<open>The syncer\<close>

text \<open>
  The desired state over a world in which the manifest is applied: whether the cache answers or a dry run
  is extracted, it is the state that the applied object was observed to have.
\<close>

lemma loaded_cachedFor:
  assumes wf: "wfManager m0" and l: "LoadOrNewForManaged uid m0 = (a, m)"
    and hit: "GetStateFor L (managedOf sc obj) (readCache a m) = (Some c, ok)"
  shows "cachedFor uid (manifestHash L obj) c m0"
proof -
  from hit have rc: "readCache a m = \<lparr>dc_extracted = Some c, dc_hash = manifestHash L obj\<rparr>"
    by (cases "readCache a m") (auto simp: GetStateFor_def split: if_splits)
  have "m = m0"
  proof (cases "cm_store m0 uid")
    case None
    with l have "readCache a m = emptyCache"
      by (auto simp: LoadOrNewForManaged_def loadLocked_def readCache_def)
    with rc show ?thesis by (simp add: emptyCache_def)
  qed (use l in \<open>simp add: LoadOrNewForManaged_def\<close>)
  with rc LoadOrNew_allocated(2) [OF wf l] wf show ?thesis by (simp add: cachedFor_def)
qed

lemma SSA_GetDesiredState_converged:
  fixes s :: "('w, 'p) process"
  assumes X: "steadyOpenAPI X" and wf: "wfManager (pr_stateCaches s)"
    and obs: "parserExtract L X pa r (ssaFieldOwner (koName obj)) s0 = (Ok d, s)"
    and dry: "\<And>s' :: ('w, 'p) process. pr_world s' = pr_world s \<Longrightarrow>
      k_ssa (worldClient k) True (ssaFieldOwner (koName obj)) manifest s' = (Ok r, s')"
    and clean: "\<not> needSSAFieldManagerUpgrade L legacy (Some r)"
    and cached: "\<And>c. cachedFor uid (manifestHash L obj) c (pr_stateCaches s) \<Longrightarrow> c = d"
  shows "\<exists>t. SSA_GetDesiredState L (connectedSSA L X sc legacy k uid pa) obj manifest s = (Ok (Some d), t) \<and>
    pr_world t = pr_world s"
proof -
  let ?S = "connectedSSA L X sc legacy k uid pa"
  obtain a m where l: "LoadOrNewForManaged uid (pr_stateCaches s) = (a, m)"
    by (cases "LoadOrNewForManaged uid (pr_stateCaches s)")
  obtain cd ok where g: "GetStateFor L (managedOf sc obj) (readCache a m) = (cd, ok)"
    by (cases "GetStateFor L (managedOf sc obj) (readCache a m)")
  let ?s = "s\<lparr>pr_stateCaches := m\<rparr>"
  have w0: "pr_world s = pr_world s0"
    using parserExtract_again [OF X obs, of "s\<lparr>pr_world := pr_world s0\<rparr>"] by simp
  have load: "ss_desiredStateCacheFn ?S s = (stateCacheRef L sc a, ?s)"
    using l by (simp add: connectedSSA_def loadStateCache_def)
  show ?thesis
  proof (cases "ok \<and> cd \<noteq> None \<and> \<not> needSSAFieldManagerUpgrade L legacy cd")
    case True
    then obtain c where c: "cd = Some c" by blast
    with g have "c = d" by (intro cached loaded_cachedFor [OF wf l]) simp
    with True g c load show ?thesis
      by (simp add: SSA_GetDesiredState_def stateCacheRef_def) (simp add: connectedSSA_def)
  next
    case False
    have "parserExtract L X pa r (ssaFieldOwner (koName obj)) ?s = (Ok d, ?s)"
      using parserExtract_again [OF X obs, of ?s] w0 by simp
    then have "storeDesired L ?S (stateCacheRef L sc a) obj r ?s =
        (Ok (Some d), cr_SetStateFor (stateCacheRef L sc a) obj (Some d) ?s)"
      using clean by (simp add: storeDesired_def connectedSSA_def)
    moreover have "SSA_GetDesiredState L ?S obj manifest s =
        tryS (k_ssa (worldClient k) True (ssaFieldOwner (koName obj)) manifest ?s)
          (\<lambda>e. ErrWrap ''cannot dry run SSA'' (ErrClean e)) (storeDesired L ?S (stateCacheRef L sc a) obj)"
      using False g load by (simp add: SSA_GetDesiredState_def stateCacheRef_def) (auto simp: connectedSSA_def)
    ultimately show ?thesis using dry [of ?s] by (simp add: stateCacheRef_def)
  qed
qed

lemma SSA_SyncResource_Ok:
  assumes "SSA_SyncResource L (connectedSSA L X sc legacy k uid pa) obj m s = (Ok r, t)"
  shows "\<exists>u. k_ssa (worldClient k) False (ssaFieldOwner (koName obj)) m u = (Ok r, t)"
  using assms by (auto simp: SSA_SyncResource_def connectedSSA_def res_simps)

section \<open>The reconcile loop\<close>

text \<open>A connector all of whose clients talk to one cluster.\<close>

definition connectsTo ::
  "('w, 'rc, 'p) connector \<Rightarrow> 'w kclient \<Rightarrow> ('w, 'p) xlib \<Rightarrow> bool" where
  "connectsTo N k X \<longleftrightarrow> (\<exists>rc. (\<forall>spec w. fst (cn_clientBuilder N spec w) = Ok (k, rc)) \<and> cn_discovery N rc = Ok X)"

lemma Connect_target:
  assumes run: "Connect L sc N (managedOf sc obj) s = (Ok E, t)"
    and ssa: "cn_ssaEnabled N" and to: "connectsTo N k X"
  obtains pa where "ex_client E = worldClient k"
    "ex_syncer E = SSAResourceSyncer L (connectedSSA L X sc (cn_legacyCSAFieldManagers N) k (koUID obj) pa)"
    "ex_sanitizeSecrets E = cn_sanitizeSecrets N" "ex_removeManagedFields E = cn_removeManagedFields N"
proof -
  from to obtain rc where b: "\<And>spec w. fst (cn_clientBuilder N spec w) = Ok (k, rc)"
    and X: "cn_discovery N rc = Ok X" unfolding connectsTo_def by blast
  from run ssa obtain pc s1 s2 k' rc' where
    build: "onWorld (cn_clientBuilder N (pc_spec pc)) s1 = (Ok (k', rc'), s2)"
    and en: "enableSSA L sc N (koUID obj) pc k' rc' (patchingExternal L N k' rc') s2 = (Ok E, t)"
    by (auto simp: Connect_def Let_def res_simps objectOf_managedOf)
  from build have "fst (cn_clientBuilder N (pc_spec pc) (pr_world s1)) = Ok (k', rc')"
    by (auto simp: onWorld_def split: prod.splits)
  with b have eq: "k' = k" "rc' = rc" by simp_all
  obtain r m where l: "LoadOrNewCacheForProviderConfig (pc_uid pc) (pr_parsers s2) = (r, m)"
    by (cases "LoadOrNewCacheForProviderConfig (pc_uid pc) (pr_parsers s2)")
  with en eq X obtain pa where "E = (patchingExternal L N k rc)\<lparr>ex_syncer := SSAResourceSyncer L
        (connectedSSA L X sc (cn_legacyCSAFieldManagers N) k (koUID obj) pa),
      ex_desiredStateCacheCleanupFn := Some (cleanupStateCache (koUID obj))\<rparr>"
    by (auto simp: enableSSA_def res_simps)
  then show ?thesis by (intro that [of pa]) (simp_all add: patchingExternal_def)
qed

lemma setAtProvider_flags:
  assumes "ex_sanitizeSecrets E' = ex_sanitizeSecrets E" "ex_removeManagedFields E' = ex_removeManagedFields E"
  shows "setAtProvider L C E' observed st = setAtProvider L C E observed st"
  using assms by (simp add: setAtProvider_def sanitized_def)

text \<open>What \<open>Create\<close> and \<open>Update\<close> leave behind: the object that the server answered, recorded in the status.\<close>

lemma syncManifest_applied:
  assumes syn: "ex_syncer E = SSAResourceSyncer L (connectedSSA L X sc legacy k uid pa)"
    and run: "syncManifest L C E msg (obj, s) = (Ok (), (obj', t))"
  obtains m r u where "parseManifest L obj = Ok m"
    "k_ssa (worldClient k) False (ssaFieldOwner (koName obj)) m u = (Ok r, t)"
    "setAtProvider L C E r (obj, t) = (Ok (), (obj', t))"
proof -
  from run syn obtain m r t0 where m: "parseManifest L obj = Ok m"
    and sync: "SSA_SyncResource L (connectedSSA L X sc legacy k uid pa) obj m s = (Ok r, t0)"
    and at: "setAtProvider L C E r (obj, t0) = (Ok (), (obj', t))"
    by (auto simp: syncManifest_def SSAResourceSyncer_def res_simps withObj_eq)
  note at0 = setAtProvider_Ok(1) [OF at]
  from SSA_SyncResource_Ok [OF sync] obtain u where
    "k_ssa (worldClient k) False (ssaFieldOwner (koName obj)) m u = (Ok r, t0)" ..
  with that [OF m] at at0 show ?thesis by simp
qed

text \<open>An \<open>Observe\<close> without references or watches, when the resource exists, is \<open>observeCurrent\<close>.\<close>

lemma Observe_plain:
  assumes "sp_references (ko_spec obj) = []" "\<not> sp_watch (ko_spec obj)"
    and "parseManifest L obj = Ok m" "getCurrent (ex_client E) m s = (Ok r, t)"
  shows "Observe L C sc E (obj, s) = observeCurrent L C E m r (obj, t)"
  using assms
  by (simp add: Observe_def observeManifest_def resolveReferencies_def watchIfNeeded_def shouldWatch_def withObj_def
      getCurrent_def split: option.splits)

lemma readyOnSync_frame [simp]: "ko_spec (readyOnSync b) = ko_spec b" "ko_meta (readyOnSync b) = ko_meta b"
  by (simp_all add: readyOnSync_def Let_def)

lemma handleObservation_synced:
  assumes "\<And>u. lib_deepEqual L u u" "\<not> wasDeleted (ko_meta b)"
    and "connectionDetails L (ex_client E) (sp_connectionDetails (ko_spec b)) w = (Ok cd, w)"
  shows "handleObservation L E (Some d) (Some d) (b, w) =
    (Ok \<lparr>eo_resourceExists = True, eo_resourceUpToDate = True, eo_connectionDetails = Some cd\<rparr>, (readyOnSync b, w))"
  using assms by (simp add: handleObservation_def upToDate_def sameState_def withObj_def Let_def)

lemma observeCurrent_converged:
  fixes v :: "('w, 'p) process"
  assumes E: "ex_syncer E = SSAResourceSyncer L (connectedSSA L X sc legacy k uid pa)"
    and laws: "steadyOpenAPI X" "\<And>u. lib_deepEqual L u u"
    and at: "setAtProvider L C E r (obj, v) = (Ok (), (b, v))"
    and obs: "parserExtract L X pa r (ssaFieldOwner (koName obj)) v = (Ok d, v1)"
    and dry: "\<And>s' :: ('w, 'p) process. pr_world s' = pr_world v \<Longrightarrow>
      k_ssa (worldClient k) True (ssaFieldOwner (koName obj)) m s' = (Ok r, s')"
    and clean: "\<not> needSSAFieldManagerUpgrade L legacy (Some r)"
    and caches: "wfManager (pr_stateCaches v)"
      "\<And>c. cachedFor uid (manifestHash L obj) c (pr_stateCaches v) \<Longrightarrow> c = d"
    and obj: "\<not> wasDeleted (ko_meta obj)"
    and cds: "\<And>u. pr_world u = pr_world v \<Longrightarrow>
      connectionDetails L (ex_client E) (sp_connectionDetails (ko_spec obj)) u = (Ok cd, u)"
  shows "\<exists>w. observeCurrent L C E m r (obj, v) =
      (Ok \<lparr>eo_resourceExists = True, eo_resourceUpToDate = True, eo_connectionDetails = Some cd\<rparr>, (readyOnSync b, w)) \<and>
    ko_spec (readyOnSync b) = ko_spec obj \<and> pr_world w = pr_world v"
proof -
  note b = setAtProvider_Ok(2,3) [OF at]
  have v1: "pr_world v1 = pr_world v" "pr_stateCaches v1 = pr_stateCaches v"
    using parserExtract_again [OF laws(1) obs, of "v\<lparr>pr_parsers := pr_parsers v1\<rparr>"] parserExtract_frame [OF obs]
    by simp_all
  have name: "koName b = koName obj" "manifestHash L b = manifestHash L obj" using b by (simp_all add: manifestHash_def)
  have "\<exists>w. SSA_GetDesiredState L (connectedSSA L X sc legacy k uid pa) b m v1 = (Ok (Some d), w) \<and>
      pr_world w = pr_world v1"
    by (rule SSA_GetDesiredState_converged [OF laws(1) _ _ _ clean]) (use obs dry caches v1 name in simp_all)
  then obtain w where des: "SSA_GetDesiredState L (connectedSSA L X sc legacy k uid pa) b m v1 = (Ok (Some d), w)"
    and w: "pr_world w = pr_world v" using v1 by auto
  have "observeCurrent L C E m r (obj, v) = handleObservation L E (Some d) (Some d) (b, w)"
    using at obs des E name
    by (simp add: observeCurrent_def withObj_def SSAResourceSyncer_def SSA_GetObservedState_def)
      (simp add: connectedSSA_def)
  also have "\<dots> = (Ok \<lparr>eo_resourceExists = True, eo_resourceUpToDate = True, eo_connectionDetails = Some cd\<rparr>,
      (readyOnSync b, w))"
    by (intro handleObservation_synced laws(2)) (use b obj cds w in simp_all)
  finally show ?thesis using b w by simp
qed


lemma ref_steady: "steadyOpenAPI ref_xlib"
  by (simp add: steadyOpenAPI_def)

lemma ref_connectsTo: "connectsTo ref_connector ref_client ref_xlib"
  by (simp add: connectsTo_def)

definition ref_appliedProcess :: "(refWorld, unit) process" where
  "ref_appliedProcess = ref_connected\<lparr>pr_world := [keyOf ref_configMap \<mapsto> ref_configMap]\<rparr>"

lemma ref_Connect_again:
  "\<exists>E. Connect ref_lib Namespaced ref_connector (NamespacedObject obj) ref_appliedProcess = (Ok E, ref_appliedProcess) \<and>
     ex_client E = worldClient ref_client \<and> ex_syncer E = SSAResourceSyncer ref_lib (ref_ssa (koUID obj))"
  if "sp_providerConfigReference (ko_spec obj) = Some \<lparr>pcr_kind = ''ProviderConfig'', pcr_name = ''default''\<rparr>"
  using that
  by (simp add: Connect_def onWorld_def resolveProviderConfig_def enableSSA_def ref_process_def ref_connected_def
      ref_appliedProcess_def LoadOrNewCacheForProviderConfig_def NewGVKParserCacheManager_def ref_providerConfig_def
      patchingExternal_def)

lemma ref_SSA_Update:
  assumes "ex_syncer E = SSAResourceSyncer ref_lib (ref_ssa ''uid-settings'')"
    "ex_sanitizeSecrets E" "ex_removeManagedFields E"
  shows "Update ref_lib ref_cel E (ref_object ''settings'' ref_manifest, ref_connected) =
    (Ok (), (ref_observed, ref_appliedProcess))"
proof -
  have "setAtProvider ref_lib ref_cel E ref_configMap (ref_object ''settings'' ref_manifest, w) = (Ok (), (ref_observed, w))" for w
    using assms(2,3) by (simp add: setAtProvider_def sanitized_def isSecret_def ref_marshal_def
      updateConditionFromObserved_def ref_observed_def)
  moreover have "SSA_SyncResource ref_lib (ref_ssa ''uid-settings'') (ref_object ''settings'' ref_manifest) ref_configMap
      ref_connected = (Ok ref_configMap, ref_appliedProcess)"
    by (simp add: SSA_SyncResource_def maybeUpgradeFieldManagers_def parseStatus_def connectedSSA_def worldClient_def
        onWorld_def ref_appliedProcess_def ref_connected_def ref_process_def)
  ultimately show ?thesis
    using assms(1) by (simp add: Update_def syncManifest_def SSAResourceSyncer_def withObj_def)
qed

lemma ref_GetObservedState:
  "\<exists>v1. rs_GetObservedState (SSAResourceSyncer ref_lib (ref_ssa uid)) ref_observed (Some ref_configMap) ref_appliedProcess =
     (Ok (Some ref_configMap), v1)"
  by (simp add: SSAResourceSyncer_def SSA_GetObservedState_def connectedSSA_def parserExtract_def ref_appliedProcess_def
      ref_connected_def readParserCache_def ref_Extract_empty)

lemma ref_observed_frame:
  "ko_meta ref_observed = ko_meta (ref_object ''settings'' ref_manifest)" "ko_spec ref_observed = ref_spec ref_manifest"
  by (simp_all add: ref_observed_def)


end
