(* ===== verification/Deletion.thy ===== *)
theory Deletion
  imports SSA_Convergence
begin

text \<open>
  The end of an Object across reconciles (\<open>Delete\<close>, \<open>Connect\<close> and \<open>Observe\<close> of \<open>object.go\<close>): after an accepted
  deletion the next reconcile finds the resource gone, so that the finalizer of the Object is removed, and
  its desired-state cache is not kept.
\<close>

text \<open>An accepted deletion, and the deletion of a missing resource, leave nothing to be read.\<close>

definition deletesAtOnce :: "'w kclient \<Rightarrow> bool" where
  "deletesAtOnce k \<longleftrightarrow>
     (\<forall>policy u w r w'. k_delete k policy u w = (r, w') \<longrightarrow> ignoreNotFound r = Ok () \<longrightarrow>
        (\<exists>e. k_get k (u_apiVersion u) (u_kind u) (u_namespace u, u_name u) w' = (Err e, w') \<and> isNotFound e))"

lemma deletesAtOnce_ref: "deletesAtOnce ref_client"
  by (auto simp: deletesAtOnce_def ignoreNotFound_def keyOf_def isNotFound_def split: option.splits res.splits if_splits)

lemma onWorld_eqD: "onWorld f s = (r, t) \<Longrightarrow> f (pr_world s) = (r, pr_world t) \<and> t = s\<lparr>pr_world := pr_world t\<rparr>"
  by (auto simp: onWorld_def split: prod.splits)

text \<open>What a successful \<open>Delete\<close> did: it dropped the cache and asked for the deletion of the manifest.\<close>

lemma Delete_OkE:
  assumes "Delete L E (obj, s) = (Ok (), (obj', t))" "ex_client E = worldClient k"
    and "ex_desiredStateCacheCleanupFn E = Some (cleanupStateCache uid)"
  obtains m r w' where "parseManifest L obj = Ok m" "ignoreNotFound r = Ok ()" "obj' = obj"
    "k_delete k (op_deletionPropagationPolicy (sp_forProvider (ko_spec obj))) m (pr_world s) = (r, w')"
    "t = (cleanupStateCache uid s)\<lparr>pr_world := w'\<rparr>"
proof -
  let ?delete = "\<lambda>m. onWorld (k_delete k (op_deletionPropagationPolicy (sp_forProvider (ko_spec obj))) m)
    (cleanupStateCache uid s)"
  have client: "k_delete (ex_client E) policy m = onWorld (k_delete k policy m)" for policy m
    using assms(2) by (simp add: worldClient_def)
  from assms(1,3) obtain m where m: "parseManifest L obj = Ok m" and obj: "obj' = obj"
    and r: "ignoreNotFound (fst (?delete m)) = Ok ()" and t: "t = snd (?delete m)"
    by (auto simp: Delete_def res_simps Let_def client case_prod_unfold)
  have "?delete m = (fst (?delete m), t)" using t by simp
  from onWorld_eqD [OF this] show ?thesis
    by (intro that [of m "fst (?delete m)" "pr_world t"] m obj r) (auto simp: cleanupStateCache_def)
qed

text \<open>\<open>Connect\<close> succeeds for an Object with a provider config only, and leaves the caches alone.\<close>

lemma Connect_providerConfig:
  assumes "Connect L sc N (managedOf sc obj) s = (Ok E, t)"
  shows "\<exists>pc. providerConfigKey sc obj = Ok pc"
proof -
  have "sp_providerConfigReference (ko_spec obj) \<noteq> None"
  proof
    assume "sp_providerConfigReference (ko_spec obj) = None"
    then have "fst (Connect L sc N (managedOf sc obj) s) \<noteq> Ok E"
      by (cases sc; cases "cn_track N (managedOf sc obj) (pr_world s)"; cases "fst (cn_track N (managedOf sc obj) (pr_world s))")
        (simp_all add: Connect_def objectOf_managedOf onWorld_def resolveProviderConfig_def resolveProviderConfig_cluster_def)
    with assms show False by simp
  qed
  then show ?thesis by (auto simp: providerConfigKey_def providerConfigRefKey_def split: scope.splits)
qed

text \<open>The observer of a connector, and so the watch of \<open>Observe\<close>, touches the informers only.\<close>

lemma watchIfNeeded_process:
  assumes "ex_kindObserver E = observerOf N"
  shows "pr_world (snd (watchIfNeeded E rc pc gvks st)) = pr_world (snd st)"
    "pr_stateCaches (snd (watchIfNeeded E rc pc gvks st)) = pr_stateCaches (snd st)"
  using assms by (auto simp: watchIfNeeded_def observerOf_def split: option.splits)

lemma Connect_observer:
  assumes "Connect L sc N mg s = (Ok E, t)"
  shows "ex_kindObserver E = observerOf N"
  using assms
  by (auto simp: Connect_def Let_def res_simps patchingExternal_def split: option.splits if_splits elim!: enableSSA_OkE)

lemma Observe_missing:
  assumes "wasDeleted (ko_meta obj)" "parseManifest L obj = Ok m" "providerConfigKey sc obj = Ok pc"
    and E: "ex_client E = worldClient k" "ex_kindObserver E = observerOf N"
    and gone: "k_get k (u_apiVersion m) (u_kind m) (u_namespace m, u_name m) (pr_world s) = (Err e, pr_world s)" "isNotFound e"
  shows "\<exists>t. Observe L C sc E (obj, s) = (Ok notExists, (obj, t)) \<and>
    pr_world t = pr_world s \<and> pr_stateCaches t = pr_stateCaches s"
proof -
  let ?rc = "Some (ex_rest E)" and ?pc = "if shouldWatch E obj then pc else []"
  let ?st = "watchIfNeeded E ?rc ?pc [lib_gvkOf L m] (obj, s)"
  note frame = watchIfNeeded_process [OF E(2), of ?rc ?pc "[lib_gvkOf L m]" "(obj, s)"]
  have "k_get (ex_client E) (u_apiVersion m) (u_kind m) (u_namespace m, u_name m) (snd ?st) = (Err e, snd ?st)"
    using gone(1) frame(1) E(1) by (simp add: worldClient_def onWorld_def)
  then have "observeManifest L C sc E m (obj, s) = (Ok notExists, ?st)"
    using assms(3) gone(2)
    by (cases "shouldWatch E obj") (simp_all add: observeManifest_def withObj_def Let_def prod_eq_iff)
  then have "Observe L C sc E (obj, s) = (Ok notExists, ?st)" using assms(1,2) by (simp add: Observe_def)
  then show ?thesis using frame by (intro exI [of _ "snd ?st"]) (simp add: prod_eq_iff)
qed


definition ref_leaving :: kobject where
  "ref_leaving = (ref_object ''settings'' ref_manifest)\<lparr>ko_meta :=
     (ko_meta (ref_object ''settings'' ref_manifest))\<lparr>om_deletionTimestamp := Some 1\<rparr>\<rparr>"

lemma ref_leaving_simps [simp]:
  "ko_spec ref_leaving = ref_spec ref_manifest" "wasDeleted (ko_meta ref_leaving)" "koName ref_leaving = ''settings''"
  by (simp_all add: ref_leaving_def wasDeleted_def ref_object_def)

lemma ref_leaving_parse [simp]: "parseManifest ref_lib ref_leaving = Ok ref_configMap"
  using parseManifest_cong [of ref_leaving "ref_object ''settings'' ref_manifest" ref_lib] by simp

lemma ref_Connect_leaving:
  "\<exists>E v. Connect ref_lib Namespaced ref_connector (managedOf Namespaced ref_leaving) s = (Ok E, v) \<and> pr_world v = pr_world s"
  by (cases "pm_cacheStore (pr_parsers s) ''pc-1''")
    (simp_all add: Connect_def onWorld_def resolveProviderConfig_def enableSSA_def managedOf_def
      LoadOrNewCacheForProviderConfig_def ref_providerConfig_def)


end
