(* ===== verification/Informer_Races.thy ===== *)
theory Informer_Races
  imports Informers
begin

text \<open>
  The garbage collection of informers (\<open>cleanupResourceInformers\<close> of \<open>informers.go\<close>, which one goroutine runs
  every minute) interleaved with concurrent calls of \<open>WatchResources\<close>: what holds in every schedule, and
  the schedule in which a watch is lost.
\<close>

section \<open>The collector as a process\<close>

text \<open>
  The collector copies the map under the read lock, lists the Objects of a copied entry, cancels the
  context of an entry without Objects, and only then takes the write lock to delete the key.
\<close>

datatype collector =
    Idle
  | Sweeping "(gvkWithConfig \<times> nat) list"
  | Deleting gvkWithConfig "(gvkWithConfig \<times> nat) list"

type_synonym informerSystem = "resourceInformers \<times> (nat \<Rightarrow> watchCall) \<times> collector"

definition deleteKey :: "gvkWithConfig \<Rightarrow> resourceInformers \<Rightarrow> resourceInformers" where
  "deleteKey k i = i\<lparr>ri_resourceCaches := (ri_resourceCaches i)(k := None)\<rparr>"

inductive informerStep :: "informerSystem \<Rightarrow> informerSystem \<Rightarrow> bool" where
  watch: "watchStep (i, calls) (i', calls') \<Longrightarrow> informerStep (i, calls, g) (i', calls', g)"
| copy: "set entries = Map.graph (ri_resourceCaches i) \<Longrightarrow> distinct (map fst entries) \<Longrightarrow>
     informerStep (i, calls, Idle) (i, calls, Sweeping entries)"
| keep: "\<not> unreferenced lst k \<Longrightarrow> informerStep (i, calls, Sweeping ((k, a) # es)) (i, calls, Sweeping es)"
| cancel: "unreferenced lst k \<Longrightarrow>
     informerStep (i, calls, Sweeping ((k, a) # es)) (cancelFn a i, calls, Deleting k es)"
| delete: "informerStep (i, calls, Deleting k es) (deleteKey k i, calls, Sweeping es)"
| finish: "informerStep (i, calls, Sweeping []) (i, calls, Idle)"

definition informerStart :: "informerSystem \<Rightarrow> bool" where
  "informerStart s \<longleftrightarrow> (case s of (i, calls, g) \<Rightarrow> watchStart (i, calls) \<and> g = Idle)"

abbreviation informerReachable :: "informerSystem \<Rightarrow> bool" where
  "informerReachable \<equiv> reachable informerStart informerStep"

text \<open>Without interleaving, a cancellation and the deletion after it are one iteration of the loop.\<close>

lemma cancel_delete_cleanupOne:
  "unreferenced lst k \<Longrightarrow> deleteKey k (cancelFn a i) = cleanupOne lst (k, a) i"
  by (simp add: deleteKey_def cancelFn_def cleanupOne_def unreferenced_def)

section \<open>The invariant\<close>

text \<open>The informers as they are once a deletion under way is done.\<close>

fun settled :: "collector \<Rightarrow> resourceInformers \<Rightarrow> resourceInformers" where
  "settled (Deleting k es) i = deleteKey k i"
| "settled _ i = i"

fun copied :: "collector \<Rightarrow> (gvkWithConfig \<times> nat) list" where
  "copied Idle = []"
| "copied (Sweeping es) = es"
| "copied (Deleting k es) = es"

fun dying :: "collector \<Rightarrow> resourceInformers \<Rightarrow> bool" where
  "dying (Deleting k es) i \<longleftrightarrow> k \<notin> fst ` set es \<and> (\<exists>a. ri_resourceCaches i k = Some a \<and> a \<in> ri_cancelled i)"
| "dying _ i \<longleftrightarrow> True"

definition informerInv :: "informerSystem \<Rightarrow> bool" where
  "informerInv s \<longleftrightarrow>
     (case s of (i, calls, g) \<Rightarrow>
        watchInv (settled g i, calls) \<and> dying g i \<and>
        distinct (map fst (copied g)) \<and> (\<forall>(k, a) \<in> set (copied g). ri_resourceCaches i k = Some a))"

lemma deleteKey_simps [simp]:
  "ri_next (deleteKey k i) = ri_next i" "ri_cancelled (deleteKey k i) = ri_cancelled i"
  "ri_resourceCaches (deleteKey k i) = (ri_resourceCaches i)(k := None)" "ri_sink (deleteKey k i) = ri_sink i"
  by (simp_all add: deleteKey_def)

lemma cancelFn_simps [simp]:
  "ri_next (cancelFn a i) = ri_next i" "ri_cancelled (cancelFn a i) = insert a (ri_cancelled i)"
  "ri_resourceCaches (cancelFn a i) = ri_resourceCaches i" "ri_sink (cancelFn a i) = ri_sink i"
  by (simp_all add: cancelFn_def)

lemma settled_simps [simp]:
  "ri_next (settled g i) = ri_next i" "ri_cancelled (settled g i) = ri_cancelled i"
  by (cases g; simp)+

lemma settled_cancelFn: "settled g (cancelFn a i) = cancelFn a (settled g i)"
  by (cases g) (simp_all add: deleteKey_def cancelFn_def)

lemma settled_withCancel: "withCancel i = (a, i') \<Longrightarrow> withCancel (settled g i) = (a, settled g i')"
  by (cases g) (auto simp: withCancel_def deleteKey_def)

text \<open>A call that gives up the context it would have committed.\<close>

lemma watchInv_giveUp:
  assumes "watchInv (i, calls)" "calls n = Committing k a"
  shows "watchInv (cancelFn a i, calls(n := Done))"
proof -
  have inv: "wfInformers i"
    "\<And>b. b < ri_next i \<Longrightarrow> b \<in> ri_cancelled i \<or> (\<exists>k. ri_resourceCaches i k = Some b) \<or> committing (i, calls) b"
    "\<And>m k b. calls m = Committing k b \<Longrightarrow> unusedContext i b \<and> b \<notin> ri_cancelled i"
    "\<And>m m' k k' b. calls m = Committing k b \<Longrightarrow> calls m' = Committing k' b \<Longrightarrow> m = m'"
    using assms(1) unfolding watchInv_def by auto
  have other: "b \<noteq> a" if "(calls(n := Done)) m = Committing k' b" for m k' b
    using that inv(4) [of m k' b n k] assms(2) by (auto split: if_splits)
  have com: "committing (i, calls) b \<Longrightarrow> b \<noteq> a \<Longrightarrow> committing (cancelFn a i, calls(n := Done)) b" for b
    using assms(2) unfolding committing_def snd_conv by (metis fun_upd_apply watchCall.inject(3))
  show ?thesis
    unfolding watchInv_def fst_conv snd_conv
  proof (intro conjI allI impI)
    show "wfInformers (cancelFn a i)" using inv(1,3) assms(2) cancelFn_wf by blast
  next
    fix b assume "b < ri_next (cancelFn a i)"
    then show "b \<in> ri_cancelled (cancelFn a i) \<or> (\<exists>k. ri_resourceCaches (cancelFn a i) k = Some b) \<or>
        committing (cancelFn a i, calls(n := Done)) b"
      using inv(2) [of b] com [of b] by auto
  next
    fix m k' b assume m: "(calls(n := Done)) m = Committing k' b"
    then have "calls m = Committing k' b" by (auto split: if_splits)
    with inv(3) other [OF m] show "unusedContext (cancelFn a i) b" "b \<notin> ri_cancelled (cancelFn a i)"
      by (auto simp: unusedContext_def)
  next
    fix m m' k1 k2 b
    assume "(calls(n := Done)) m = Committing k1 b" "(calls(n := Done)) m' = Committing k2 b"
    then show "m = m'" using inv(4) [of m k1 b m' k2] by (auto split: if_splits)
  qed
qed

text \<open>The collector takes a context out of use.\<close>

lemma watchInv_collect:
  assumes "watchInv (i, calls)" "ri_resourceCaches i k = Some a"
  shows "watchInv (deleteKey k (cancelFn a i), calls)"
proof -
  have "k' = k" if "ri_resourceCaches i k' = Some a" for k'
    using assms that unfolding watchInv_def wfInformers_def by auto
  with assms show ?thesis
    unfolding watchInv_def wfInformers_def unusedContext_def committing_def
    by (auto split: if_splits) (metis option.inject)+
qed

lemma settled_commit:
  assumes "dying g i"
  shows "settled g (watchCommit k a i) = watchCommit k a (settled g i) \<or>
    settled g (watchCommit k a i) = cancelFn a (settled g i)"
proof (cases g)
  case (Deleting k' es)
  then obtain b where "ri_resourceCaches i k' = Some b" using assms by auto
  with Deleting show ?thesis
    by (cases "k' = k"; cases "ri_resourceCaches i k")
      (auto simp: watchCommit_def deleteKey_def cancelFn_def fun_upd_twist)
qed simp_all

lemma watchStep_settled:
  assumes "watchStep (i, calls) (i', calls')" "watchInv (settled g i, calls)" "dying g i"
  shows "watchInv (settled g i', calls')"
  using assms(1)
proof cases
  case (startFails n k a j)
  then show ?thesis
    using watchInv_startFails [OF assms(2), of n a "settled g j"] settled_withCancel [of i a j g]
    by (simp add: settled_cancelFn)
next
  case (started n k a)
  then show ?thesis using watchInv_started [OF assms(2)] settled_withCancel [of i a i' g] by simp
next
  case (commit n k a)
  with settled_commit [OF assms(3), of k a] watchInv_commit [OF assms(2)] watchInv_giveUp [OF assms(2)]
  show ?thesis by auto
qed (use assms(2) in \<open>auto intro: watchInv_move\<close>)

text \<open>A call of \<open>WatchResources\<close> does not touch the entries that are there.\<close>

lemma watchStep_keeps:
  assumes "watchStep (i, calls) (i', calls')"
  shows "ri_resourceCaches i k = Some a \<Longrightarrow> ri_resourceCaches i' k = Some a"
    and "b \<in> ri_cancelled i \<Longrightarrow> b \<in> ri_cancelled i'"
  using assms by (cases; auto simp: withCancel_def watchCommit_def cancelFn_def split: option.splits)+

lemma informerStep_inv: "informerStep s t \<Longrightarrow> informerInv s \<Longrightarrow> informerInv t"
proof (induction rule: informerStep.induct)
  case (watch i calls i' calls' g)
  then have "watchInv (settled g i', calls')" using watchStep_settled [OF watch(1)] by (simp add: informerInv_def)
  moreover have "dying g i'"
    using watch(2) watchStep_keeps [OF watch(1)] by (cases g) (fastforce simp: informerInv_def)+
  ultimately show ?case using watch(2) watchStep_keeps(1) [OF watch(1)] by (auto simp: informerInv_def)
next
  case (copy entries i calls)
  then show ?case by (auto simp: informerInv_def graph_def)
next
  case (cancel lst k i calls a es)
  then have "watchInv (i, calls)" "ri_resourceCaches i k = Some a" by (auto simp: informerInv_def)
  from watchInv_collect [OF this] cancel(2) show ?case by (auto simp: informerInv_def)
next
  case (delete i calls k es)
  then have "\<And>x. x \<in> set es \<Longrightarrow> fst x \<noteq> k" by (force simp: informerInv_def)
  with delete show ?case by (auto simp: informerInv_def)
qed (auto simp: informerInv_def)

interpretation informer_system: step_invariant informerStart informerStep informerInv
proof unfold_locales
  fix s assume "informerStart s"
  then show "informerInv s" by (auto simp: informerStart_def informerInv_def dest: watchStart_inv)
qed (rule informerStep_inv)

section \<open>Properties\<close>

text \<open>
  C18. Watches and garbage collection leak no informer: in every interleaving of the calls of
  \<open>WatchResources\<close> with the collector, a context that was created, that no call is about to commit and that
  the collector is not about to delete is either cancelled or serves exactly one kind of one provider config;
  and what the collector is about to delete is the informer it has cancelled, never a newer one of the key.
\<close>

theorem informers_no_leak:
  assumes "informerReachable (i, calls, g)" "a < ri_next i" "\<And>n k. calls n \<noteq> Committing k a"
    and "\<And>k es. g = Deleting k es \<Longrightarrow> ri_resourceCaches i k \<noteq> Some a"
  shows "(a \<in> ri_cancelled i) \<noteq> (\<exists>!k. ri_resourceCaches i k = Some a) \<and>
    (\<forall>k es. g = Deleting k es \<longrightarrow> (\<exists>b \<in> ri_cancelled i. ri_resourceCaches i k = Some b))"
proof -
  from informer_system.reachable_inv [OF assms(1)] have inv: "watchInv (settled g i, calls)" and d: "dying g i"
    by (simp_all add: informerInv_def)
  have "\<not> committing (settled g i, calls) a" using assms(3) by (simp add: committing_def)
  with inv assms(2) have "(a \<in> ri_cancelled i) \<noteq> (\<exists>!k. ri_resourceCaches (settled g i) k = Some a)"
    unfolding watchInv_def wfInformers_def by simp blast
  moreover have "ri_resourceCaches (settled g i) k = Some a \<longleftrightarrow> ri_resourceCaches i k = Some a" for k
    using assms(4) by (cases g) auto
  ultimately show ?thesis using d by (cases g) auto
qed

definition ref_secrets :: gvkWithConfig where
  "ref_secrets = \<lparr>gc_providerConfig = [], gc_gvk = \<lparr>gvk_group = [], gvk_version = ''v1'', gvk_kind = ''Secret''\<rparr>\<rparr>"

text \<open>One call has started the informer; the collector, for which no Object was listed, has cancelled it.\<close>

definition ref_dying :: resourceInformers where
  "ref_dying = \<lparr>ri_sink = False, ri_resourceCaches = [ref_secrets \<mapsto> 0], ri_cancelled = {0}, ri_next = 1\<rparr>"

lemma ref_dying_reachable:
  "informerReachable (ref_dying, (\<lambda>n. Looking ref_secrets)(0 := Done), Deleting ref_secrets [])"
proof -
  let ?k = ref_secrets and ?f = "\<lambda>n :: nat. Looking ref_secrets"
  let ?i1 = "newInformers\<lparr>ri_next := 1\<rparr>" and ?i2 = "newInformers\<lparr>ri_next := 1, ri_resourceCaches := [ref_secrets \<mapsto> 0]\<rparr>"
  have "informerReachable (newInformers, ?f, Idle)" by (rule reachable.init) (simp add: informerStart_def watchStart_def)
  then have "informerReachable (newInformers, ?f(0 := Starting ?k), Idle)"
    by (rule reachable.step) (auto intro!: informerStep.watch lookMissing simp: newInformers_def)
  then have "informerReachable (?i1, ?f(0 := Starting ?k, 0 := Committing ?k 0), Idle)"
    by (rule reachable.step)
      (rule informerStep.watch, rule started, simp_all add: newInformers_def withCancel_def)
  then have "informerReachable (watchCommit ?k 0 ?i1, ?f(0 := Starting ?k, 0 := Committing ?k 0, 0 := Done), Idle)"
    by (rule reachable.step) (rule informerStep.watch, rule commit, simp)
  then have "informerReachable (?i2, ?f(0 := Done), Idle)"
    by (simp add: watchCommit_def newInformers_def)
  then have "informerReachable (?i2, ?f(0 := Done), Sweeping [(?k, 0)])"
    by (rule reachable.step) (rule informerStep.copy, auto simp: graph_def split: if_splits)
  then have "informerReachable (cancelFn 0 ?i2, ?f(0 := Done), Deleting ?k [])"
    by (rule reachable.step) (rule informerStep.cancel [of "\<lambda>key. Ok []"], simp add: unreferenced_def)
  then show ?thesis by (simp add: cancelFn_def newInformers_def ref_dying_def)
qed

lemma informers_no_leak_witness:
  "informerReachable (deleteKey ref_secrets ref_dying, (\<lambda>n. Looking ref_secrets)(0 := Done), Sweeping []) \<and>
   0 \<in> ri_cancelled (deleteKey ref_secrets ref_dying)"
proof -
  have r: "informerReachable (deleteKey ref_secrets ref_dying, (\<lambda>n. Looking ref_secrets)(0 := Done), Sweeping [])"
    by (rule reachable.step [OF ref_dying_reachable informerStep.delete])
  have "(0 \<in> ri_cancelled (deleteKey ref_secrets ref_dying)) \<noteq>
      (\<exists>!k. ri_resourceCaches (deleteKey ref_secrets ref_dying) k = Some 0)"
    using informers_no_leak [OF r, of 0] by (simp add: ref_dying_def)
  with r show ?thesis by (auto simp: ref_dying_def)
qed

lemma sweep_all: "informerStep\<^sup>*\<^sup>* (i, calls, Sweeping es) (i, calls, Idle)"
proof (induction es)
  case Nil
  show ?case by (blast intro: informerStep.finish)
next
  case (Cons e es)
  obtain k a where "e = (k, a)" by (cases e)
  moreover have "\<not> unreferenced (\<lambda>key. Err (ErrNew [])) k" by (simp add: unreferenced_def)
  ultimately show ?case using Cons informerStep.keep by (metis converse_rtranclp_into_rtranclp)
qed

text \<open>
  C39. A watch can be lost: whenever the collector has cancelled the informer of a kind and not yet deleted
  its key, a call of \<open>WatchResources\<close> for that kind, of an Object that appeared after the collector listed
  none, can return in the belief that the kind is watched, and when the collector is done nothing watches it.
\<close>

theorem watch_lost:
  assumes "informerReachable (i, calls, Deleting k es)" "calls n = Looking k"
  shows "\<exists>i'. informerStep\<^sup>*\<^sup>* (i, calls, Deleting k es) (i', calls(n := Done), Idle) \<and> \<not> isWatched i' k"
proof -
  from informer_system.reachable_inv [OF assms(1)] obtain a where "ri_resourceCaches i k = Some a"
    by (auto simp: informerInv_def)
  then have found: "informerStep (i, calls, Deleting k es) (i, calls(n := Done), Deleting k es)"
    using lookFound [of calls n k i a] assms(2) by (intro informerStep.watch) simp
  have "informerStep\<^sup>*\<^sup>* (i, calls(n := Done), Deleting k es) (deleteKey k i, calls(n := Done), Idle)"
    using informerStep.delete sweep_all by (rule converse_rtranclp_into_rtranclp)
  with found have "informerStep\<^sup>*\<^sup>* (i, calls, Deleting k es) (deleteKey k i, calls(n := Done), Idle)"
    by (rule converse_rtranclp_into_rtranclp)
  then show ?thesis by (auto simp: isWatched_def)
qed

lemma watch_lost_witness:
  "\<exists>i'. informerStep\<^sup>*\<^sup>* (ref_dying, (\<lambda>n. Looking ref_secrets)(0 := Done), Deleting ref_secrets [])
      (i', (\<lambda>n. Looking ref_secrets)(0 := Done, 1 := Done), Idle) \<and> \<not> isWatched i' ref_secrets"
  using watch_lost [OF ref_dying_reachable, of 1] by simp

end
