(* ===== verification/Parser_Races.thy ===== *)
theory Parser_Races
  imports Extraction_Facts Step_System
begin

text \<open>
  Concurrent calls of \<open>getParserForGV\<close> on the parser cache of one provider config, which all reconciles
  of that config share (\<open>caching_unstructured_extractor.go\<close>): the stretches under \<open>cache.mu\<close> are single
  steps, and \<open>cache.sf\<close> is a \<open>singleflight.Group\<close>, whose \<open>Do\<close> runs its function once per key at a time and
  gives callers that come in meanwhile the result of that run. Every discovery and every fetch sees a
  world of its own.
\<close>

section \<open>The calls\<close>

type_synonym discovered = "(string \<rightharpoonup> oapiGroupVersion) \<times> (string \<rightharpoonup> string)"

datatype 'p parserCall =
    PIdle
  | PAsking groupVersion
  | PDiscovered groupVersion discovered
  | PInvalidated groupVersion discovered
  | PMissed groupVersion oapiGroupVersion string
  | PFetching groupVersion oapiGroupVersion string
  | PStoring groupVersion string "'p gvkParser"
  | PFinishing groupVersion "'p gvkParser res"
  | PWaiting groupVersion nat
  | PReturned groupVersion "'p gvkParser res"

text \<open>After discovery: go on, or return the error.\<close>

fun afterDiscovery :: "groupVersion \<Rightarrow> discovered res \<Rightarrow> 'p parserCall" where
  "afterDiscovery gv (Ok d) = PDiscovered gv d"
| "afterDiscovery gv (Err e) = PReturned gv (Err e)"
| "afterDiscovery gv (Panic p) = PReturned gv (Panic p)"

text \<open>The lookup: the paths of the group-version, then the entry of the cache.\<close>

definition afterLookup ::
  "klib \<Rightarrow> groupVersion \<Rightarrow> discovered \<Rightarrow> 'p parserEntry option \<Rightarrow> 'p parserCall" where
  "afterLookup L gv d entry =
     (let gvPath = gvRelativeAPIPath L gv in
      (case fst d gvPath of
         None \<Rightarrow> PReturned gv (Err (ErrNew (''cannot find GroupVersion '' @ goQuote gvPath @ '' in discovery'')))
       | Some oapiGV \<Rightarrow>
           (case snd d gvPath of
              None \<Rightarrow> PReturned gv (Err (ErrNew (''cannot find ETag for GroupVersion '' @ goQuote gvPath @ '' in discovery'')))
            | Some etag \<Rightarrow>
                (case cacheHit etag entry of
                   Some p \<Rightarrow> PReturned gv (Ok p)
                 | None \<Rightarrow> PMissed gv oapiGV etag))))"

text \<open>After the fetch: a parser with an ETag is still to be stored.\<close>

fun afterFetch :: "groupVersion \<Rightarrow> string \<Rightarrow> 'p gvkParser res \<Rightarrow> 'p parserCall" where
  "afterFetch gv etag (Ok p) = (if etag \<noteq> [] then PStoring gv etag p else PFinishing gv (Ok p))"
| "afterFetch gv etag r = PFinishing gv r"

text \<open>The cache, the calls in flight by the key of \<open>singleflight\<close>, and the calls.\<close>

record 'p parserSystem =
  ps_cache :: "'p parserCache"
  ps_flights :: "string \<rightharpoonup> nat"
  ps_calls :: "nat \<Rightarrow> 'p parserCall"

abbreviation gvKey :: "klib \<Rightarrow> groupVersion \<Rightarrow> string" where
  "gvKey L gv \<equiv> lib_gvString L (fst gv) (snd gv)"

definition setCall :: "nat \<Rightarrow> 'p parserCall \<Rightarrow> 'p parserSystem \<Rightarrow> 'p parserSystem" where
  "setCall i c s = s\<lparr>ps_calls := (ps_calls s)(i := c)\<rparr>"

inductive parserStep ::
  "klib \<Rightarrow> ('w, 'p) xlib \<Rightarrow> 'p parserSystem \<Rightarrow> 'p parserSystem \<Rightarrow> bool" for L X where
  discover: "ps_calls s i = PAsking gv \<Longrightarrow> discoveryPaths X w = (r, w') \<Longrightarrow>
     parserStep L X s (setCall i (afterDiscovery gv r) s)"
| invalidate: "ps_calls s i = PDiscovered gv d \<Longrightarrow>
     parserStep L X s (setCall i (PInvalidated gv d) (s\<lparr>ps_cache := invalidateStale L (snd d) (ps_cache s)\<rparr>))"
| look: "ps_calls s i = PInvalidated gv d \<Longrightarrow>
     parserStep L X s (setCall i (afterLookup L gv d (ps_cache s gv)) s)"
| lead: "ps_calls s i = PMissed gv oapiGV etag \<Longrightarrow> ps_flights s (gvKey L gv) = None \<Longrightarrow>
     parserStep L X s (setCall i (PFetching gv oapiGV etag) (s\<lparr>ps_flights := (ps_flights s)(gvKey L gv \<mapsto> i)\<rparr>))"
| join: "ps_calls s i = PMissed gv oapiGV etag \<Longrightarrow> ps_flights s (gvKey L gv) = Some j \<Longrightarrow>
     parserStep L X s (setCall i (PWaiting gv j) s)"
| fetch: "ps_calls s i = PFetching gv oapiGV etag \<Longrightarrow> newParserFromOpenAPIGroupVersion X oapiGV w = (r, w') \<Longrightarrow>
     parserStep L X s (setCall i (afterFetch gv etag r) s)"
| store: "ps_calls s i = PStoring gv etag p \<Longrightarrow>
     parserStep L X s (setCall i (PFinishing gv (Ok p))
       (s\<lparr>ps_cache := (ps_cache s)(gv \<mapsto> \<lparr>pe_parser = p, pe_etag = etag\<rparr>)\<rparr>))"
| finish: "ps_calls s i = PFinishing gv r \<Longrightarrow>
     parserStep L X s (setCall i (PReturned gv r) (s\<lparr>ps_flights := (ps_flights s)(gvKey L gv := None)\<rparr>))"
| wake: "ps_calls s i = PWaiting gv j \<Longrightarrow> ps_calls s j = PReturned gv' r \<Longrightarrow>
     parserStep L X s (setCall i (PReturned gv r) s)"

text \<open>A new cache, and any number of calls.\<close>

definition parserStart :: "'p parserSystem \<Rightarrow> bool" where
  "parserStart s \<longleftrightarrow> ps_cache s = Map.empty \<and> ps_flights s = Map.empty \<and>
     (\<forall>i. ps_calls s i = PIdle \<or> (\<exists>gv. ps_calls s i = PAsking gv))"

abbreviation parserReachable :: "klib \<Rightarrow> ('w, 'p) xlib \<Rightarrow> 'p parserSystem \<Rightarrow> bool" where
  "parserReachable L X \<equiv> reachable parserStart (parserStep L X)"

lemma setCall_simps [simp]:
  "ps_cache (setCall i c s) = ps_cache s"
  "ps_flights (setCall i c s) = ps_flights s"
  "ps_calls (setCall i c s) = (ps_calls s)(i := c)"
  by (simp_all add: setCall_def)

lemma setCall_setCall [simp]:
  "setCall i c (setCall i c' s) = setCall i c s"
  "(setCall i c s)\<lparr>ps_cache := m\<rparr> = setCall i c (s\<lparr>ps_cache := m\<rparr>)"
  "(setCall i c s)\<lparr>ps_flights := f\<rparr> = setCall i c (s\<lparr>ps_flights := f\<rparr>)"
  by (simp_all add: setCall_def)

section \<open>Where parsers come from\<close>

text \<open>
  \<open>served\<close>: a discovery gave the group-version this schema under this ETag. \<open>parserBuilt\<close>: the parser was
  built from such a schema. \<open>parserOf\<close>: it was built for a group-version of this name.
\<close>

definition served ::
  "klib \<Rightarrow> ('w, 'p) xlib \<Rightarrow> groupVersion \<Rightarrow> oapiGroupVersion \<Rightarrow> string \<Rightarrow> bool" where
  "served L X gv oapiGV etag \<longleftrightarrow>
     (\<exists>w w' d. discoveryPaths X w = (Ok d, w') \<and> fst d (gvRelativeAPIPath L gv) = Some oapiGV \<and>
        snd d (gvRelativeAPIPath L gv) = Some etag)"

definition parserBuilt ::
  "klib \<Rightarrow> ('w, 'p) xlib \<Rightarrow> groupVersion \<Rightarrow> string \<Rightarrow> 'p gvkParser \<Rightarrow> bool" where
  "parserBuilt L X gv etag p \<longleftrightarrow>
     (\<exists>oapiGV w w'. served L X gv oapiGV etag \<and> newParserFromOpenAPIGroupVersion X oapiGV w = (Ok p, w'))"

definition parserOf :: "klib \<Rightarrow> ('w, 'p) xlib \<Rightarrow> groupVersion \<Rightarrow> 'p gvkParser res \<Rightarrow> bool" where
  "parserOf L X gv r \<longleftrightarrow>
     (\<forall>p. r = Ok p \<longrightarrow> (\<exists>gv' etag. gvKey L gv' = gvKey L gv \<and> parserBuilt L X gv' etag p))"

lemma parserOf_built: "parserBuilt L X gv etag p \<Longrightarrow> parserOf L X gv (Ok p)"
  unfolding parserOf_def by blast

lemma parserOf_failed [simp]: "parserOf L X gv (Err e)" "parserOf L X gv (Panic m)"
  by (simp_all add: parserOf_def)

section \<open>The invariant\<close>

text \<open>The key a call holds while its fetch is in flight.\<close>

fun flying :: "klib \<Rightarrow> 'p parserCall \<Rightarrow> string option" where
  "flying L (PFetching gv _ _) = Some (gvKey L gv)"
| "flying L (PStoring gv _ _) = Some (gvKey L gv)"
| "flying L (PFinishing gv _) = Some (gvKey L gv)"
| "flying L _ = None"

text \<open>A call that a waiting one with this key can rely on: it is in flight, or has returned.\<close>

definition settles :: "klib \<Rightarrow> 'p parserCall \<Rightarrow> string \<Rightarrow> bool" where
  "settles L c k \<longleftrightarrow> flying L c = Some k \<or> (\<exists>gv r. c = PReturned gv r \<and> gvKey L gv = k)"

lemma settles_simps [simp]:
  "settles L (PFetching gv g t) k \<longleftrightarrow> gvKey L gv = k"
  "settles L (PStoring gv t p) k \<longleftrightarrow> gvKey L gv = k"
  "settles L (PFinishing gv r) k \<longleftrightarrow> gvKey L gv = k"
  "settles L (PReturned gv r) k \<longleftrightarrow> gvKey L gv = k"
  "\<not> settles L (PAsking gv) k" "\<not> settles L (PDiscovered gv d) k" "\<not> settles L (PInvalidated gv d) k"
  "\<not> settles L (PMissed gv g t) k" "\<not> settles L (PWaiting gv j) k" "\<not> settles L PIdle k"
  by (auto simp: settles_def)

fun callOk :: "klib \<Rightarrow> ('w, 'p) xlib \<Rightarrow> (nat \<Rightarrow> 'p parserCall) \<Rightarrow> 'p parserCall \<Rightarrow> bool" where
  "callOk L X cs (PDiscovered gv d) \<longleftrightarrow> (\<exists>w w'. discoveryPaths X w = (Ok d, w'))"
| "callOk L X cs (PInvalidated gv d) \<longleftrightarrow> (\<exists>w w'. discoveryPaths X w = (Ok d, w'))"
| "callOk L X cs (PMissed gv oapiGV etag) \<longleftrightarrow> served L X gv oapiGV etag"
| "callOk L X cs (PFetching gv oapiGV etag) \<longleftrightarrow> served L X gv oapiGV etag"
| "callOk L X cs (PStoring gv etag p) \<longleftrightarrow> etag \<noteq> [] \<and> parserBuilt L X gv etag p"
| "callOk L X cs (PFinishing gv r) \<longleftrightarrow> parserOf L X gv r"
| "callOk L X cs (PReturned gv r) \<longleftrightarrow> parserOf L X gv r"
| "callOk L X cs (PWaiting gv j) \<longleftrightarrow> settles L (cs j) (gvKey L gv)"
| "callOk L X cs _ \<longleftrightarrow> True"

definition parserInv :: "klib \<Rightarrow> ('w, 'p) xlib \<Rightarrow> 'p parserSystem \<Rightarrow> bool" where
  "parserInv L X s \<longleftrightarrow>
     cacheBuilt (parserBuilt L X) (ps_cache s) \<and> cacheTagged (ps_cache s) \<and>
     (\<forall>k i. ps_flights s k = Some i \<longleftrightarrow> flying L (ps_calls s i) = Some k) \<and>
     (\<forall>i. callOk L X (ps_calls s) (ps_calls s i))"

lemma parserStart_inv: "parserStart s \<Longrightarrow> parserInv L X s"
  unfolding parserInv_def parserStart_def cacheBuilt_def cacheTagged_def
  by (metis callOk.simps(9,10) flying.simps(4,5) option.distinct(1))

text \<open>At most one call per key is in flight.\<close>

lemma one_flight:
  assumes "parserInv L X s" "flying L (ps_calls s i) = Some k" "flying L (ps_calls s j) = Some k"
  shows "i = j"
  using assms unfolding parserInv_def by (metis option.inject)

lemma callOk_step:
  assumes "callOk L X cs c" "\<And>k. settles L (cs i) k \<Longrightarrow> settles L c' k"
  shows "callOk L X (cs(i := c')) c"
  using assms by (cases c) auto

text \<open>
  How a step of call \<open>i\<close> keeps the invariant: the new cache is as before or has a new entry, the flights
  follow the call, calls that wait for it still can, and its new state is accounted for.
\<close>

lemma parserInv_setCall:
  assumes inv: "parserInv L X s" and old: "ps_calls s i = c"
    and cache: "cacheBuilt (parserBuilt L X) (ps_cache t)" "cacheTagged (ps_cache t)"
    and calls: "ps_calls t = ps_calls s"
    and flights: "\<And>k j. ps_flights t k = Some j \<longleftrightarrow> flying L (((ps_calls s)(i := c')) j) = Some k"
    and kept: "\<And>k. settles L c k \<Longrightarrow> settles L c' k" and new: "callOk L X (ps_calls s) c'"
  shows "parserInv L X (setCall i c' t)"
proof -
  have "callOk L X ((ps_calls s)(i := c')) (((ps_calls s)(i := c')) j)" for j
    using inv new old kept unfolding parserInv_def
    by (cases "j = i") (auto intro!: callOk_step)
  with cache flights show ?thesis by (simp add: parserInv_def calls)
qed

lemma parserInv_look:
  assumes "parserInv L X s" "ps_calls s i = PInvalidated gv d"
  shows "callOk L X (ps_calls s) (afterLookup L gv d (ps_cache s gv))"
proof -
  from assms obtain w w' where d: "discoveryPaths X w = (Ok d, w')" unfolding parserInv_def by (metis callOk.simps(2))
  have hit: "parserOf L X gv (Ok p)" if "cacheHit etag (ps_cache s gv) = Some p" for etag p
    using that assms(1) unfolding parserInv_def cacheBuilt_def cacheHit_Some by (metis parserOf_built)
  have "served L X gv g etag" if "fst d (gvRelativeAPIPath L gv) = Some g" "snd d (gvRelativeAPIPath L gv) = Some etag" for g etag
    using that d unfolding served_def by blast
  then show ?thesis by (auto simp: afterLookup_def Let_def hit split: option.splits)
qed

lemma parserInv_fetch:
  assumes "callOk L X cs (PFetching gv g etag)" "newParserFromOpenAPIGroupVersion X g w = (r, w')"
  shows "callOk L X cs (afterFetch gv etag r)"
proof (cases r)
  case (Ok p)
  with assms have "parserBuilt L X gv etag p" by (auto simp: parserBuilt_def)
  with Ok show ?thesis by (simp add: parserOf_built)
qed simp_all

lemma afterFetch_flying [simp]: "flying L (afterFetch gv etag r) = Some (gvKey L gv)"
  by (cases r) simp_all

lemma afterFetch_settles [simp]: "settles L (afterFetch gv etag r) k \<longleftrightarrow> gvKey L gv = k"
  by (cases r) simp_all

lemma afterDiscovery_flying [simp]: "flying L (afterDiscovery gv r) = None"
  by (cases r) simp_all

lemma afterLookup_flying [simp]: "flying L (afterLookup L' gv d e) = None"
  by (simp add: afterLookup_def Let_def split: option.splits)

lemma parserStep_inv:
  "parserStep L X s t \<Longrightarrow> parserInv L X s \<Longrightarrow> parserInv L X t"
proof (induction rule: parserStep.induct)
  case (discover s i gv w r w')
  then show ?case
    by (intro parserInv_setCall [where s = s and c = "PAsking gv"]; (cases r)?) (auto simp: parserInv_def)
next
  case (invalidate s i gv d)
  from invalidate(2) have "callOk L X (ps_calls s) (ps_calls s i)" by (simp add: parserInv_def)
  with invalidate show ?case
    by (intro parserInv_setCall [where s = s and c = "PDiscovered gv d"])
      (auto simp: parserInv_def cacheBuilt_invalidate cacheTagged_invalidate)
next
  case (look s i gv d)
  then show ?case
    by (intro parserInv_setCall [where s = s and c = "PInvalidated gv d"] parserInv_look) (auto simp: parserInv_def)
next
  case (lead s i gv g etag)
  from lead(3) have "callOk L X (ps_calls s) (ps_calls s i)" by (simp add: parserInv_def)
  moreover from lead(2,3) have "flying L (ps_calls s j) \<noteq> Some (gvKey L gv)" for j
    unfolding parserInv_def by (metis option.distinct(1))
  ultimately show ?case
    using lead by (intro parserInv_setCall [where s = s and c = "PMissed gv g etag"]) (auto simp: parserInv_def)
next
  case (join s i gv g etag j)
  then have "flying L (ps_calls s j) = Some (gvKey L gv)" by (simp add: parserInv_def)
  with join show ?case
    by (intro parserInv_setCall [where s = s and c = "PMissed gv g etag"]) (auto simp: parserInv_def settles_def)
next
  case (fetch s i gv g etag w r w')
  from fetch(3) have "callOk L X (ps_calls s) (ps_calls s i)" by (simp add: parserInv_def)
  with fetch show ?case
    by (intro parserInv_setCall [where s = s and c = "PFetching gv g etag"] parserInv_fetch) (auto simp: parserInv_def)
next
  case (store s i gv etag p)
  from store(2) have "callOk L X (ps_calls s) (ps_calls s i)" by (simp add: parserInv_def)
  with store show ?case
    by (intro parserInv_setCall [where s = s and c = "PStoring gv etag p"])
      (auto simp: parserInv_def cacheBuilt_def cacheTagged_def intro: parserOf_built)
next
  case (finish s i gv r)
  from finish(2) have "callOk L X (ps_calls s) (ps_calls s i)" by (simp add: parserInv_def)
  moreover have "j = i" if "flying L (ps_calls s j) = Some (gvKey L gv)" for j
    using one_flight [OF finish(2) that, of i] finish(1) by simp
  ultimately show ?case using finish
    by (intro parserInv_setCall [where s = s and c = "PFinishing gv r"]) (auto simp: parserInv_def)
next
  case (wake s i gv j gv' r)
  from wake(3) have "callOk L X (ps_calls s) (ps_calls s i)" "callOk L X (ps_calls s) (ps_calls s j)"
    by (simp_all add: parserInv_def)
  with wake show ?case
    by (intro parserInv_setCall [where s = s and c = "PWaiting gv j"]) (auto simp: parserInv_def parserOf_def)
qed

interpretation parser_system: step_invariant parserStart "parserStep L X" "parserInv L X"
  for L X by unfold_locales (auto intro: parserStart_inv parserStep_inv)

section \<open>Calls end\<close>

text \<open>The steps a call has left.\<close>

fun parserLeft :: "'p parserCall \<Rightarrow> nat" where
  "parserLeft (PAsking _) = 7"
| "parserLeft (PDiscovered _ _) = 6"
| "parserLeft (PInvalidated _ _) = 5"
| "parserLeft (PMissed _ _ _) = 4"
| "parserLeft (PFetching _ _ _) = 3"
| "parserLeft (PStoring _ _ _) = 2"
| "parserLeft (PFinishing _ _) = 1"
| "parserLeft (PWaiting _ _) = 1"
| "parserLeft _ = 0"

lemma parserLeft_0_iff: "parserLeft c = 0 \<longleftrightarrow> c = PIdle \<or> (\<exists>gv r. c = PReturned gv r)"
  by (cases c) simp_all

lemma parserLeft_le: "parserLeft c \<le> 7"
  by (cases c) simp_all

lemma afterDiscovery_left: "parserLeft (afterDiscovery gv r) < 7"
  by (cases r) simp_all

lemma afterLookup_left: "parserLeft (afterLookup L gv d e) < 5"
  by (simp add: afterLookup_def Let_def split: option.split)

lemma afterFetch_left: "parserLeft (afterFetch gv etag r) < 3"
  by (cases r) simp_all

lemma setCall_moves:
  assumes "ps_calls t = ps_calls s" "parserLeft c < parserLeft (ps_calls s i)"
  shows "(\<forall>j. parserLeft (ps_calls (setCall i c t) j) \<le> parserLeft (ps_calls s j)) \<and>
    (\<exists>j. parserLeft (ps_calls (setCall i c t) j) < parserLeft (ps_calls s j))"
  using assms by (auto intro: exI [of _ i])

lemma parserStep_moves:
  "parserStep L X s t \<Longrightarrow> (\<forall>j. parserLeft (ps_calls t j) \<le> parserLeft (ps_calls s j)) \<and>
     (\<exists>j. parserLeft (ps_calls t j) < parserLeft (ps_calls s j))"
  by (induction rule: parserStep.induct;
      rule setCall_moves; simp add: afterDiscovery_left afterLookup_left afterFetch_left)

text \<open>A call in flight can always go on, and one that waits can, or the call it waits for.\<close>

lemma flying_enabled: "flying L (ps_calls s i) = Some k \<Longrightarrow> \<exists>t. parserStep L X s t"
proof (cases "ps_calls s i")
  case (PFetching gv g etag)
  then show ?thesis by (cases "newParserFromOpenAPIGroupVersion X g undefined") (blast intro: parserStep.fetch)
qed (auto intro: parserStep.intros)

lemma parserStep_enabled:
  assumes "parserInv L X s" "parserLeft (ps_calls s i) \<noteq> 0"
  shows "\<exists>t. parserStep L X s t"
proof (cases "ps_calls s i")
  case (PAsking gv)
  then show ?thesis by (cases "discoveryPaths X undefined") (blast intro: parserStep.discover)
next
  case (PMissed gv g etag)
  then show ?thesis by (cases "ps_flights s (gvKey L gv)") (blast intro: parserStep.lead parserStep.join)+
next
  case (PWaiting gv j)
  with assms(1) have "settles L (ps_calls s j) (gvKey L gv)" unfolding parserInv_def by (metis callOk.simps(8))
  then show ?thesis unfolding settles_def using PWaiting by (blast intro: parserStep.wake flying_enabled)
qed (use assms(2) flying_enabled [of L s i] in \<open>auto intro: parserStep.intros\<close>)

interpretation parser_calls: ending_calls parserStart "parserStep L X" "parserInv L X" ps_calls parserLeft
  for L X by unfold_locales (blast intro: parserStep_enabled dest: parserStep_moves)+

section \<open>A call of its own\<close>

text \<open>From the call to the lookup, and from the fetch to the return, as if no other call ran meanwhile.\<close>

lemma asked_run:
  fixes L :: klib
  assumes "ps_calls s i = PAsking gv" "discoveryPaths X w = (Ok d, w')"
  defines "c \<equiv> invalidateStale L (snd d) (ps_cache s)"
  shows "(parserStep L X)\<^sup>*\<^sup>* s (setCall i (afterLookup L gv d (c gv)) (s\<lparr>ps_cache := c\<rparr>))"
proof -
  have "parserStep L X s (setCall i (PDiscovered gv d) s)"
    using parserStep.discover [where L = L, OF assms(1,2)] by simp
  moreover have "parserStep L X (setCall i (PDiscovered gv d) s) (setCall i (PInvalidated gv d) (s\<lparr>ps_cache := c\<rparr>))"
    using parserStep.invalidate [of "setCall i (PDiscovered gv d) s" i gv d L X] by (simp add: c_def)
  moreover have "parserStep L X (setCall i (PInvalidated gv d) (s\<lparr>ps_cache := c\<rparr>))
      (setCall i (afterLookup L gv d (c gv)) (s\<lparr>ps_cache := c\<rparr>))"
    using parserStep.look [of "setCall i (PInvalidated gv d) (s\<lparr>ps_cache := c\<rparr>)" i gv d L X] by simp
  ultimately show ?thesis by (meson converse_rtranclp_into_rtranclp r_into_rtranclp)
qed

lemma flight_run:
  assumes flight: "ps_calls s i = PFetching gv g etag"
    and fetch: "fetchParser X gv g etag (ps_cache s, w) = (r, (c', w'))"
  shows "(parserStep L X)\<^sup>*\<^sup>* s (setCall i (PReturned gv r)
    (s\<lparr>ps_cache := c', ps_flights := (ps_flights s)(gvKey L gv := None)\<rparr>))"
proof -
  obtain r0 v where p: "newParserFromOpenAPIGroupVersion X g w = (r0, v)"
    by (cases "newParserFromOpenAPIGroupVersion X g w")
  let ?s1 = "setCall i (afterFetch gv etag r0) s"
  let ?s2 = "setCall i (PFinishing gv r) (s\<lparr>ps_cache := c'\<rparr>)"
  have s1: "parserStep L X s ?s1" by (rule parserStep.fetch [OF flight p])
  have "(parserStep L X)\<^sup>*\<^sup>* s ?s2"
  proof (cases "isOk r0 \<and> etag \<noteq> []")
    case True
    then obtain q where q: "r0 = Ok q" by (auto simp: isOk_iff)
    with True fetch p have "parserStep L X ?s1 ?s2"
      using parserStep.store [of ?s1 i gv etag q L X] by (auto simp: fetchParser_def)
    with s1 show ?thesis by auto
  next
    case False
    then have "?s1 = ?s2" using fetch p by (cases r0) (auto simp: fetchParser_def)
    with s1 show ?thesis by auto
  qed
  also have "parserStep L X ?s2 (setCall i (PReturned gv r)
      (s\<lparr>ps_cache := c', ps_flights := (ps_flights s)(gvKey L gv := None)\<rparr>))"
    using parserStep.finish [of ?s2 i gv r L X] by simp
  finally show ?thesis .
qed

text \<open>
  A call that finds no fetch in flight can run as if it were alone, and then does what \<open>getParserForGV\<close>
  does on the cache as it found it.
\<close>

theorem lone_call:
  assumes call: "ps_calls s i = PAsking gv" "ps_flights s (gvKey L gv) = None"
    and run: "getParserForGV L X gv (ps_cache s, w) = (r, (c', w'))"
  shows "(parserStep L X)\<^sup>*\<^sup>* s (setCall i (PReturned gv r) (s\<lparr>ps_cache := c'\<rparr>))"
proof (cases "fst (discoveryPaths X w)")
  case (Ok d)
  obtain gvs etags where d: "d = (gvs, etags)" by (cases d)
  from Ok d obtain w1 where disco: "discoveryPaths X w = (Ok (gvs, etags), w1)" by (metis prod.collapse)
  let ?c = "invalidateStale L etags (ps_cache s)"
  let ?s1 = "setCall i (afterLookup L gv (gvs, etags) (?c gv)) (s\<lparr>ps_cache := ?c\<rparr>)"
  have s1: "(parserStep L X)\<^sup>*\<^sup>* s ?s1" using asked_run [OF call(1) disco] by simp
  show ?thesis
  proof (cases "\<exists>g etag. afterLookup L gv (gvs, etags) (?c gv) = PMissed gv g etag")
    case True
    then obtain g etag where m: "afterLookup L gv (gvs, etags) (?c gv) = PMissed gv g etag" by blast
    then have fetch: "fetchParser X gv g etag (?c, w1) = (r, (c', w'))"
      using run disco by (auto simp: getParserForGV_def afterLookup_def Let_def split: option.splits)
    let ?s2 = "setCall i (PFetching gv g etag) (s\<lparr>ps_cache := ?c, ps_flights := (ps_flights s)(gvKey L gv \<mapsto> i)\<rparr>)"
    have "parserStep L X ?s1 ?s2" using parserStep.lead [of ?s1 i gv g etag L X] m call(2) by simp
    moreover have "(parserStep L X)\<^sup>*\<^sup>* ?s2 (setCall i (PReturned gv r) (s\<lparr>ps_cache := c'\<rparr>))"
      using flight_run [of ?s2 i gv g etag X w1 r c' w' L] fetch call(2) by (simp add: fun_upd_idem)
    ultimately show ?thesis using s1 by (meson rtranclp_trans converse_rtranclp_into_rtranclp)
  next
    case False
    then have "afterLookup L gv (gvs, etags) (?c gv) = PReturned gv r \<and> c' = ?c"
      using run disco by (auto simp: getParserForGV_def afterLookup_def Let_def split: option.splits)
    with s1 show ?thesis by simp
  qed
next
  case (Err e)
  then obtain v where d: "discoveryPaths X w = (Err e, v)" by (metis prod.collapse)
  with run have "r = Err e \<and> c' = ps_cache s" by (auto simp: getParserForGV_def)
  then show ?thesis using parserStep.discover [where L = L, OF call(1) d] by auto
next
  case (Panic m)
  then obtain v where d: "discoveryPaths X w = (Panic m, v)" by (metis prod.collapse)
  with run have "r = Panic m \<and> c' = ps_cache s" by (auto simp: getParserForGV_def)
  then show ?thesis using parserStep.discover [where L = L, OF call(1) d] by auto
qed

section \<open>What concurrent calls get\<close>

text \<open>
  C29. Whatever the interleaving of concurrent calls: at most one of them per group-version name is fetching a
  schema, a parser that a call returns was built from a schema that some discovery served for a
  group-version of that name (the call's own fetch, the one it waited for, or the cache), and every entry
  of the cache was built for its group-version under its ETag, which is not empty.
\<close>

theorem getParserForGV_shared:
  assumes "parserReachable L X s"
  shows "(\<forall>i j k. flying L (ps_calls s i) = Some k \<and> flying L (ps_calls s j) = Some k \<longrightarrow> i = j) \<and>
    (\<forall>i gv p. ps_calls s i = PReturned gv (Ok p) \<longrightarrow>
       (\<exists>gv' etag. gvKey L gv' = gvKey L gv \<and> parserBuilt L X gv' etag p)) \<and>
    (\<forall>gv e. ps_cache s gv = Some e \<longrightarrow> pe_etag e \<noteq> [] \<and> parserBuilt L X gv (pe_etag e) (pe_parser e))"
proof -
  have inv: "parserInv L X s" using parser_system.reachable_inv [OF assms] .
  have "parserOf L X gv r" if "ps_calls s i = PReturned gv r" for i gv r
    using inv that unfolding parserInv_def by (metis callOk.simps(7))
  with inv show ?thesis using one_flight [OF inv]
    by (auto simp: parserOf_def parserInv_def cacheBuilt_def cacheTagged_def)
qed

text \<open>
  C30. Concurrent calls end: \<open>n\<close> calls on a new cache take at most \<open>7 * n\<close> steps in every schedule, and as long as one
  of them has not returned some step is possible, so that no call waits for ever for a fetch of another.
\<close>

theorem getParserForGV_calls_end:
  assumes "parserStart s" "\<And>i. n \<le> i \<Longrightarrow> ps_calls s i = PIdle" "(parserStep L X ^^ m) s t"
  shows "m \<le> 7 * n \<and> ((\<nexists>u. parserStep L X t u) \<longleftrightarrow> (\<forall>i. ps_calls t i = PIdle \<or> (\<exists>gv r. ps_calls t i = PReturned gv r)))"
proof
  note inv = parserStart_inv [OF assms(1), of L X]
  show "m \<le> 7 * n" using parser_calls.run_bound [OF assms(3) inv, of n 7] assms(2) by (simp add: parserLeft_le)
  have "parserInv L X t" using parser_system.run_inv [OF relpowp_imp_rtranclp [OF assms(3)] inv] .
  from parser_calls.stuck_iff [OF this]
  show "(\<nexists>u. parserStep L X t u) \<longleftrightarrow> (\<forall>i. ps_calls t i = PIdle \<or> (\<exists>gv r. ps_calls t i = PReturned gv r))"
    unfolding parserLeft_0_iff .
qed

section \<open>A fetch that is joined too late\<close>

text \<open>
  C40. The key of \<open>singleflight\<close> is the group-version without the ETag, so a call can join a fetch that an
  earlier call started for an older schema: whenever the server moves a group-version from one schema to
  another, there is a schedule in which a call that has discovered the new ETag, and has dropped the
  stale entries, returns the parser of the old schema, which is cached too.
\<close>

theorem stale_join:
  assumes old: "discoveryPaths X w1 = (Ok d1, w1')" "fst d1 (gvRelativeAPIPath L gv) = Some g1"
      "snd d1 (gvRelativeAPIPath L gv) = Some etag1"
    and new: "discoveryPaths X w2 = (Ok d2, w2')" "fst d2 (gvRelativeAPIPath L gv) = Some g2"
      "snd d2 (gvRelativeAPIPath L gv) = Some etag2"
    and built: "newParserFromOpenAPIGroupVersion X g1 v = (Ok p1, v')" "etag1 \<noteq> []"
  shows "\<exists>s t. parserReachable L X s \<and> ps_calls s 1 = PMissed gv g2 etag2 \<and> (parserStep L X)\<^sup>*\<^sup>* s t \<and>
    ps_calls t 1 = PReturned gv (Ok p1) \<and> ps_cache t gv = Some \<lparr>pe_parser = p1, pe_etag = etag1\<rparr>"
proof -
  let ?s0 = "\<lparr>ps_cache = Map.empty, ps_flights = Map.empty, ps_calls = \<lambda>i. if i < 2 then PAsking gv else PIdle\<rparr>"
  have empty: "invalidateStale L etags Map.empty = Map.empty" for etags :: "string \<rightharpoonup> string"
    by (simp add: invalidateStale_def)
  have miss: "afterLookup L gv d1 None = PMissed gv g1 etag1" "afterLookup L gv d2 None = PMissed gv g2 etag2"
    using old new by (simp_all add: afterLookup_def cacheHit_def)
  let ?s1 = "setCall 0 (PMissed gv g1 etag1) ?s0"
  let ?s2 = "setCall 0 (PFetching gv g1 etag1) (?s0\<lparr>ps_flights := [gvKey L gv \<mapsto> 0]\<rparr>)"
  let ?s3 = "setCall 1 (PMissed gv g2 etag2) ?s2"
  have "(parserStep L X)\<^sup>*\<^sup>* ?s0 ?s1" using asked_run [of ?s0 0 gv X w1 d1 w1' L] old(1) by (simp add: empty miss)
  also have "parserStep L X ?s1 ?s2" using parserStep.lead [of ?s1 0 gv g1 etag1 L X] by simp
  also have "(parserStep L X)\<^sup>*\<^sup>* ?s2 ?s3"
    using asked_run [of ?s2 1 gv X w2 d2 w2' L] new(1) by (simp add: empty miss setCall_def)
  finally have "parserReachable L X ?s3"
    by (rule reachable_run [OF reachable.init, rotated]) (simp add: parserStart_def)
  let ?s4 = "setCall 1 (PWaiting gv 0) ?s2"
  let ?c = "[gv \<mapsto> \<lparr>pe_parser = p1, pe_etag = etag1\<rparr>]"
  let ?s5 = "setCall 0 (PReturned gv (Ok p1)) (?s4\<lparr>ps_cache := ?c, ps_flights := Map.empty\<rparr>)"
  have "parserStep L X ?s3 ?s4" using parserStep.join [of ?s3 1 gv g2 etag2 L 0 X] by simp
  also have "(parserStep L X)\<^sup>*\<^sup>* ?s4 ?s5"
    using flight_run [of ?s4 0 gv g1 etag1 X v "Ok p1" ?c v' L] built by (simp add: fetchParser_def)
  also have "parserStep L X ?s5 (setCall 1 (PReturned gv (Ok p1)) ?s5)"
    using parserStep.wake [of ?s5 1 gv 0 gv "Ok p1" L X] by simp
  finally show ?thesis using \<open>parserReachable L X ?s3\<close>
    by (intro exI [of _ ?s3] exI [of _ "setCall 1 (PReturned gv (Ok p1)) ?s5"]) simp
qed

section \<open>A reference instance\<close>

text \<open>A server whose world is the version of its document: \<open>ConfigMap\<close> appears in the second.\<close>

definition ref_upgraded :: "(nat, unit) xlib" where
  "ref_upgraded =
     \<lparr>x_rootPath = ''/'',
      x_discoveryRaw = \<lambda>w. (Ok (if w < 2 then ''1'' else ''2''), w),
      x_discoveryPaths = \<lambda>data. Ok [(''api/v1'', data)],
      x_urlParse = \<lambda>url. Ok (url, [(''hash'', url)]),
      x_fetch = \<lambda>req w. (Ok (case req of RequestURI url _ \<Rightarrow> url | AbsPath path _ _ \<Rightarrow> path), w),
      x_openapi = \<lambda>doc. Ok (Some (if doc = ''1'' then [] else ref_components)),
      x_aggregate = \<lambda>es. (case es of [] \<Rightarrow> None | e # _ \<Rightarrow> Some e),
      x_gvkString = gvk_kind,
      x_toSchema = \<lambda>cs b. Ok (),
      x_extractInto = \<lambda>u tp owner sub. Ok u\<rparr>"

lemma ref_upgraded_discovery:
  "discoveryPaths ref_upgraded w =
     (Ok ([''api/v1'' \<mapsto> newCustomOAPIGroupVersion (if w < 2 then ''1'' else ''2'') False],
          [''api/v1'' \<mapsto> if w < 2 then ''1'' else ''2'']), w)"
  by (simp add: ref_upgraded_def discoveryPaths_def trimSlash_def trimPrefix_def hasPrefix_def hashParam_def)

lemma ref_upgraded_old:
  "newParserFromOpenAPIGroupVersion ref_upgraded (newCustomOAPIGroupVersion ''1'' False) w =
     (Ok \<lparr>gp_gvks = Map.empty, gp_parser = ()\<rparr>, w)"
  by (simp add: ref_upgraded_def newParserFromOpenAPIGroupVersion_def schemaOf_def newCustomOAPIGroupVersion_def
      NewGVKParser_def refErrors_def liftR_def)

text \<open>The call that discovered the second version gets a parser that does not know its kind.\<close>

theorem stale_join_witness:
  "\<exists>s t p. parserReachable ref_lib ref_upgraded s \<and>
     ps_calls s 1 = PMissed ([], ''v1'') (newCustomOAPIGroupVersion ''2'' False) ''2'' \<and>
     (parserStep ref_lib ref_upgraded)\<^sup>*\<^sup>* s t \<and> ps_calls t 1 = PReturned ([], ''v1'') (Ok p) \<and>
     parserType p ref_configMapGVK = None"
proof -
  have "parserType \<lparr>gp_gvks = Map.empty, gp_parser = ()\<rparr> ref_configMapGVK = None" by (simp add: parserType_def)
  then show ?thesis
    using stale_join [OF ref_upgraded_discovery [of 1] _ _ ref_upgraded_discovery [of 2] _ _ ref_upgraded_old,
        of ref_lib "([], ''v1'')" "''1''" "newCustomOAPIGroupVersion ''2'' False" "''2''"]
    by (simp add: gvRelativeAPIPath_def) blast
qed

definition ref_calls :: "nat \<Rightarrow> unit parserSystem" where
  "ref_calls n = \<lparr>ps_cache = Map.empty, ps_flights = Map.empty,
     ps_calls = \<lambda>i. if i < n then PAsking ([], ''v1'') else PIdle\<rparr>"

lemma ref_calls_start: "parserStart (ref_calls n)"
  by (simp add: parserStart_def ref_calls_def)

theorem lone_call_witness:
  "(parserStep ref_lib ref_xlib)\<^sup>*\<^sup>* (ref_calls 1) (setCall 0 (PReturned ([], ''v1'') (Ok ref_parser))
     (ref_calls 1\<lparr>ps_cache := [([], ''v1'') \<mapsto> \<lparr>pe_parser = ref_parser, pe_etag = ''e1''\<rparr>]\<rparr>))"
proof -
  have "getParserForGV ref_lib ref_xlib ([], ''v1'') (ps_cache (ref_calls 1), w) =
      (Ok ref_parser, ([([], ''v1'') \<mapsto> \<lparr>pe_parser = ref_parser, pe_etag = ''e1''\<rparr>], w))" for w
    using ref_getParser by (simp add: ref_calls_def)
  from lone_call [OF _ _ this] show ?thesis by (simp add: ref_calls_def)
qed

theorem getParserForGV_shared_witness:
  "parserBuilt ref_lib ref_xlib ([], ''v1'') ''e1'' ref_parser"
proof -
  let ?t = "setCall 0 (PReturned ([], ''v1'') (Ok ref_parser))
     (ref_calls 1\<lparr>ps_cache := [([], ''v1'') \<mapsto> \<lparr>pe_parser = ref_parser, pe_etag = ''e1''\<rparr>]\<rparr>)"
  have "parserReachable ref_lib ref_xlib ?t"
    by (rule reachable_run [OF _ lone_call_witness]) (rule reachable.init, rule ref_calls_start)
  from getParserForGV_shared [OF this] have "\<forall>gv e. ps_cache ?t gv = Some e \<longrightarrow>
      parserBuilt ref_lib ref_xlib gv (pe_etag e) (pe_parser e)" by blast
  from this [rule_format, of "([], ''v1'')" "\<lparr>pe_parser = ref_parser, pe_etag = ''e1''\<rparr>"] show ?thesis by simp
qed

theorem getParserForGV_calls_end_witness:
  "\<nexists>t. (parserStep ref_lib ref_xlib ^^ 15) (ref_calls 2) t"
proof
  assume "\<exists>t. (parserStep ref_lib ref_xlib ^^ 15) (ref_calls 2) t"
  then obtain t where "(parserStep ref_lib ref_xlib ^^ 15) (ref_calls 2) t" ..
  from getParserForGV_calls_end [OF ref_calls_start _ this, of 2] show False by (simp add: ref_calls_def)
qed

end
