(* ===== verification/Go_Heap.thy ===== *)
theory Go_Heap
  imports Main
begin

text \<open>
  Memory as the generated \<open>DeepCopyInto\<close> methods see it: structs hold addresses, a nil pointer, slice or map
  is \<open>None\<close>, and \<open>new\<close> and \<open>make\<close> give an address that was never used. The contract of a deep copy is
  stated once, as a locale, and is closed under the ways in which structs are built.
\<close>

section \<open>The heap\<close>

record 'c heap =
  hp_cells :: "nat \<rightharpoonup> 'c"
  hp_next :: nat

definition alloc :: "'c \<Rightarrow> 'c heap \<Rightarrow> nat \<times> 'c heap" where
  "alloc c h = (hp_next h, h\<lparr>hp_cells := (hp_cells h)(hp_next h \<mapsto> c), hp_next := Suc (hp_next h)\<rparr>)"

definition store :: "nat \<Rightarrow> 'c \<Rightarrow> 'c heap \<Rightarrow> 'c heap" where
  "store a c h = h\<lparr>hp_cells := (hp_cells h)(a \<mapsto> c)\<rparr>"

text \<open>A type of pointees among the cells: how a value is stored and how it is read.\<close>

record ('c, 'a) cellType =
  ct_make :: "'a \<Rightarrow> 'c"
  ct_load :: "'c \<Rightarrow> 'a option"

definition cellLaw :: "('c, 'a) cellType \<Rightarrow> bool" where
  "cellLaw ct \<longleftrightarrow> (\<forall>v. ct_load ct (ct_make ct v) = Some v)"

definition deref :: "('c, 'a) cellType \<Rightarrow> nat \<Rightarrow> 'c heap \<Rightarrow> 'a option" where
  "deref ct a h = (case hp_cells h a of None \<Rightarrow> None | Some c \<Rightarrow> ct_load ct c)"

text \<open>Nothing below the first unused address changes.\<close>

definition extends :: "'c heap \<Rightarrow> 'c heap \<Rightarrow> bool" where
  "extends h h' \<longleftrightarrow> hp_next h \<le> hp_next h' \<and> (\<forall>a < hp_next h. hp_cells h' a = hp_cells h a)"

text \<open>Two heaps agree on a set of addresses.\<close>

definition agreeOn :: "nat set \<Rightarrow> 'c heap \<Rightarrow> 'c heap \<Rightarrow> bool" where
  "agreeOn F h h' \<longleftrightarrow> (\<forall>a \<in> F. hp_cells h' a = hp_cells h a)"

abbreviation used :: "'c heap \<Rightarrow> nat set" where
  "used h \<equiv> {..< hp_next h}"

abbreviation newSince :: "'c heap \<Rightarrow> 'c heap \<Rightarrow> nat set" where
  "newSince h h' \<equiv> {hp_next h ..< hp_next h'}"

lemma extends_refl [intro, simp]: "extends h h"
  by (simp add: extends_def)

lemma extends_trans [trans]: "extends h h1 \<Longrightarrow> extends h1 h2 \<Longrightarrow> extends h h2"
  by (auto simp: extends_def)

lemma extends_next: "extends h h' \<Longrightarrow> hp_next h \<le> hp_next h'"
  by (simp add: extends_def)

lemma extends_agree: "extends h h' \<Longrightarrow> F \<subseteq> used h \<Longrightarrow> agreeOn F h h'"
  by (auto simp: extends_def agreeOn_def)

lemma agreeOn_mono: "agreeOn F h h' \<Longrightarrow> G \<subseteq> F \<Longrightarrow> agreeOn G h h'"
  by (auto simp: agreeOn_def)

lemma agreeOn_deref: "agreeOn F h h' \<Longrightarrow> a \<in> F \<Longrightarrow> deref ct a h' = deref ct a h"
  by (simp add: agreeOn_def deref_def)

section \<open>The contract\<close>

text \<open>
  \<open>rep h v x F\<close>: in the heap \<open>h\<close> the struct \<open>v\<close> stands for the value \<open>x\<close>, and everything it reaches lies in
  \<open>F\<close>. A copy changes no address in use, stands for the same value, and reaches new addresses only.
\<close>

locale deep_copy =
  fixes into :: "'a \<Rightarrow> 'c heap \<Rightarrow> 'a \<times> 'c heap"
    and rep :: "'c heap \<Rightarrow> 'a \<Rightarrow> 'v \<Rightarrow> nat set \<Rightarrow> bool"
  assumes copy_extends: "into v h = (v', h') \<Longrightarrow> extends h h'"
    and copy_rep: "rep h v x F \<Longrightarrow> F \<subseteq> used h \<Longrightarrow> into v h = (v', h') \<Longrightarrow> rep h' v' x (newSince h h')"
    and rep_stable: "rep h v x F \<Longrightarrow> agreeOn F h h' \<Longrightarrow> F \<subseteq> G \<Longrightarrow> rep h' v x G"
begin

lemma rep_extends: "rep h v x F \<Longrightarrow> F \<subseteq> used h \<Longrightarrow> extends h h' \<Longrightarrow> rep h' v x F"
  by (rule rep_stable [OF _ extends_agree]) auto

text \<open>The original is as it was.\<close>

lemma original_kept:
  "rep h v x F \<Longrightarrow> F \<subseteq> used h \<Longrightarrow> into v h = (v', h') \<Longrightarrow> rep h' v x F"
  using rep_extends copy_extends by blast

text \<open>What is written through the copy is not seen through the original, and the other way round.\<close>

lemma separate:
  assumes "rep h v x F" "F \<subseteq> used h" "into v h = (v', h')"
  shows "agreeOn (used h) h' k \<Longrightarrow> rep k v x F" "agreeOn (- used h) h' k \<Longrightarrow> rep k v' x (newSince h h')"
proof -
  show "rep k v x F" if "agreeOn (used h) h' k"
    using original_kept [OF assms] agreeOn_mono [OF that assms(2)] by (rule rep_stable) simp
  show "rep k v' x (newSince h h')" if "agreeOn (- used h) h' k"
    by (rule rep_stable [OF copy_rep [OF assms] agreeOn_mono [OF that]]) auto
qed

end

section \<open>How copies are built\<close>

text \<open>A struct without pointers: \<open>*out = *in\<close>.\<close>

definition assign :: "'a \<Rightarrow> 'c heap \<Rightarrow> 'a \<times> 'c heap" where
  "assign v h = (v, h)"

definition valueRep :: "'c heap \<Rightarrow> 'a \<Rightarrow> 'a \<Rightarrow> nat set \<Rightarrow> bool" where
  "valueRep h v x F \<longleftrightarrow> x = v"

lemma deep_copy_assign: "deep_copy assign valueRep"
  by unfold_locales (auto simp: assign_def valueRep_def)

text \<open>
  A pointer: nil stays nil; otherwise \<open>*out = new(T)\<close>, whose content is first the struct as it is and then
  its copy. \<open>DeepCopy\<close> is this on the receiver. (A slice or map is made zeroed or empty, but nothing reaches it
  before the copied elements are stored.)
\<close>

definition copyPtr ::
  "('c, 'a) cellType \<Rightarrow> ('a \<Rightarrow> 'c heap \<Rightarrow> 'a \<times> 'c heap) \<Rightarrow> nat option \<Rightarrow> 'c heap \<Rightarrow> nat option \<times> 'c heap" where
  "copyPtr ct into p h =
     (case p of
        None \<Rightarrow> (None, h)
      | Some a \<Rightarrow>
          (case deref ct a h of
             None \<Rightarrow> (None, h)
           | Some v \<Rightarrow>
               (case alloc (ct_make ct v) h of
                  (b, h) \<Rightarrow> (case into v h of (v', h) \<Rightarrow> (Some b, store b (ct_make ct v') h)))))"

definition ptrRep ::
  "('c, 'a) cellType \<Rightarrow> ('c heap \<Rightarrow> 'a \<Rightarrow> 'v \<Rightarrow> nat set \<Rightarrow> bool) \<Rightarrow> 'c heap \<Rightarrow> nat option \<Rightarrow> 'v option \<Rightarrow> nat set \<Rightarrow> bool" where
  "ptrRep ct R h p x F \<longleftrightarrow>
     (case p of
        None \<Rightarrow> x = None
      | Some a \<Rightarrow> a \<in> F \<and> (\<exists>v y. deref ct a h = Some v \<and> x = Some y \<and> R h v y F))"

lemma alloc_extends: "alloc c h = (b, h1) \<Longrightarrow> extends h h1 \<and> b = hp_next h \<and> hp_next h1 = Suc (hp_next h)"
  by (auto simp: alloc_def extends_def)

lemma store_new_extends: "extends h h2 \<Longrightarrow> hp_next h \<le> b \<Longrightarrow> extends h (store b c h2)"
  by (auto simp: extends_def store_def)

lemma store_simps [simp]: "hp_next (store b c h) = hp_next h" "hp_cells (store b c h) = (hp_cells h)(b \<mapsto> c)"
  by (simp_all add: store_def)

lemma deep_copy_ptr:
  assumes "deep_copy into R" "cellLaw ct"
  shows "deep_copy (copyPtr ct into) (ptrRep ct R)"
proof -
  note extends = deep_copy.copy_extends [OF assms(1)] and rep = deep_copy.copy_rep [OF assms(1)]
    and stable = deep_copy.rep_stable [OF assms(1)]
  show ?thesis
  proof
    fix p h q h' assume run: "copyPtr ct into p h = (q, h')"
    show "extends h h'"
    proof (cases "h' = h")
      case False
      with run obtain v b h1 v' h2 where b: "alloc (ct_make ct v) h = (b, h1)" "into v h1 = (v', h2)"
        "h' = store b (ct_make ct v') h2"
        by (auto simp: copyPtr_def split: option.splits prod.splits)
      have "extends h h2" using alloc_extends [OF b(1)] extends [OF b(2)] by (blast intro: extends_trans)
      then show ?thesis using alloc_extends [OF b(1)] b(3) by (simp add: store_new_extends)
    qed simp
  next
    fix h p x F q h'
    assume R: "ptrRep ct R h p x F" and F: "F \<subseteq> used h" and run: "copyPtr ct into p h = (q, h')"
    show "ptrRep ct R h' q x (newSince h h')"
    proof (cases p)
      case None
      with R run show ?thesis by (simp add: copyPtr_def ptrRep_def)
    next
      case (Some a)
      with R obtain v y where v: "deref ct a h = Some v" and x: "x = Some y" "R h v y F"
        by (auto simp: ptrRep_def)
      obtain b h1 where b: "alloc (ct_make ct v) h = (b, h1)" by (cases "alloc (ct_make ct v) h")
      obtain v' h2 where i: "into v h1 = (v', h2)" by (cases "into v h1")
      note al = alloc_extends [OF b]
      have h': "h' = store b (ct_make ct v') h2" "q = Some b"
        using run Some v b i by (simp_all add: copyPtr_def)
      have n: "hp_next h1 \<le> hp_next h2" using extends [OF i] by (rule extends_next)
      have "R h1 v y F" using x(2) F al by (intro stable [OF x(2) extends_agree]) auto
      moreover have "F \<subseteq> used h1" using F al by auto
      ultimately have "R h2 v' y (newSince h1 h2)" using i by (rule rep)
      then have "R h' v' y (newSince h h')"
        using al n by (rule_tac stable) (auto simp: h' agreeOn_def)
      moreover have "deref ct b h' = Some v'" using assms(2) by (simp add: deref_def h' cellLaw_def)
      ultimately show ?thesis using x h' al n by (auto simp: ptrRep_def)
    qed
  next
    fix h p x F h' G assume R: "ptrRep ct R h p x F" and agree: "agreeOn F h h'" "F \<subseteq> G"
    show "ptrRep ct R h' p x G"
    proof (cases p)
      case (Some a)
      with R obtain v y where v: "a \<in> F" "deref ct a h = Some v" "x = Some y" "R h v y F"
        by (auto simp: ptrRep_def)
      have "deref ct a h' = Some v" using agreeOn_deref [OF agree(1) v(1), of ct] v(2) by simp
      with v stable [OF v(4) agree] agree(2) Some show ?thesis by (auto simp: ptrRep_def)
    qed (use R in \<open>simp add: ptrRep_def\<close>)
  qed
qed

text \<open>A struct that is copied and has a place among the cells: its pointers are copied too.\<close>

locale stored_copy = deep_copy into rep
  for into :: "'a \<Rightarrow> 'c heap \<Rightarrow> 'a \<times> 'c heap"
    and rep :: "'c heap \<Rightarrow> 'a \<Rightarrow> 'v \<Rightarrow> nat set \<Rightarrow> bool" +
  fixes ct :: "('c, 'a) cellType"
  assumes stored: "cellLaw ct"

sublocale stored_copy \<subseteq> ptr: deep_copy "copyPtr ct into" "ptrRep ct rep"
  by (rule deep_copy_ptr [OF deep_copy_axioms stored])

lemma stored_copyI: "deep_copy into rep \<Longrightarrow> cellLaw ct \<Longrightarrow> stored_copy into rep ct"
  by (simp add: stored_copy_def stored_copy_axioms_def)

text \<open>A slice is the address of its elements, which are copied one by one; a map of strings is copied whole.\<close>

fun copyList :: "('a \<Rightarrow> 'c heap \<Rightarrow> 'a \<times> 'c heap) \<Rightarrow> 'a list \<Rightarrow> 'c heap \<Rightarrow> 'a list \<times> 'c heap" where
  "copyList into [] h = ([], h)"
| "copyList into (v # vs) h =
     (case into v h of (v', h) \<Rightarrow> (case copyList into vs h of (vs', h) \<Rightarrow> (v' # vs', h)))"

definition listRep ::
  "('c heap \<Rightarrow> 'a \<Rightarrow> 'v \<Rightarrow> nat set \<Rightarrow> bool) \<Rightarrow> 'c heap \<Rightarrow> 'a list \<Rightarrow> 'v list \<Rightarrow> nat set \<Rightarrow> bool" where
  "listRep R h vs xs F \<longleftrightarrow> list_all2 (\<lambda>v x. R h v x F) vs xs"

abbreviation copySlice ::
  "('c, 'a list) cellType \<Rightarrow> ('a \<Rightarrow> 'c heap \<Rightarrow> 'a \<times> 'c heap) \<Rightarrow> nat option \<Rightarrow> 'c heap \<Rightarrow> nat option \<times> 'c heap" where
  "copySlice ct into \<equiv> copyPtr ct (copyList into)"

abbreviation sliceRep ::
  "('c, 'a list) cellType \<Rightarrow> ('c heap \<Rightarrow> 'a \<Rightarrow> 'v \<Rightarrow> nat set \<Rightarrow> bool) \<Rightarrow> 'c heap \<Rightarrow> nat option \<Rightarrow> 'v list option \<Rightarrow> nat set \<Rightarrow> bool" where
  "sliceRep ct R \<equiv> ptrRep ct (listRep R)"

text \<open>Two copies, one after the other, of two fields of a struct.\<close>

definition copyPair ::
  "('a \<Rightarrow> 'c heap \<Rightarrow> 'a \<times> 'c heap) \<Rightarrow> ('b \<Rightarrow> 'c heap \<Rightarrow> 'b \<times> 'c heap) \<Rightarrow> 'a \<times> 'b \<Rightarrow> 'c heap \<Rightarrow> ('a \<times> 'b) \<times> 'c heap" where
  "copyPair f g v h = (case f (fst v) h of (a, h) \<Rightarrow> (case g (snd v) h of (b, h) \<Rightarrow> ((a, b), h)))"

definition pairRep ::
  "('c heap \<Rightarrow> 'a \<Rightarrow> 'v \<Rightarrow> nat set \<Rightarrow> bool) \<Rightarrow> ('c heap \<Rightarrow> 'b \<Rightarrow> 'w \<Rightarrow> nat set \<Rightarrow> bool)
     \<Rightarrow> 'c heap \<Rightarrow> 'a \<times> 'b \<Rightarrow> 'v \<times> 'w \<Rightarrow> nat set \<Rightarrow> bool" where
  "pairRep R S h v x F \<longleftrightarrow> R h (fst v) (fst x) F \<and> S h (snd v) (snd x) F"

lemma deep_copy_pair:
  assumes f: "deep_copy f R" and g: "deep_copy g S"
  shows "deep_copy (copyPair f g) (pairRep R S)"
proof
  fix v h v' h' assume "copyPair f g v h = (v', h')"
  then show "extends h h'"
    using deep_copy.copy_extends [OF f] deep_copy.copy_extends [OF g]
    by (auto simp: copyPair_def split: prod.splits) (blast intro: extends_trans)
next
  fix h v x F v' h'
  assume R: "pairRep R S h v x F" and F: "F \<subseteq> used h" and run: "copyPair f g v h = (v', h')"
  from run obtain a h1 b where a: "f (fst v) h = (a, h1)" and b: "g (snd v) h1 = (b, h')" and v': "v' = (a, b)"
    by (auto simp: copyPair_def split: prod.splits)
  have e1: "extends h h1" and e2: "extends h1 h'"
    using deep_copy.copy_extends [OF f a] deep_copy.copy_extends [OF g b] .
  note n = extends_next [OF e1] extends_next [OF e2]
  have "R h1 a (fst x) (newSince h h1)" using deep_copy.copy_rep [OF f _ F a] R by (simp add: pairRep_def)
  then have 1: "R h' a (fst x) (newSince h h')"
    by (rule deep_copy.rep_stable [OF f]) (use e2 n in \<open>auto simp: extends_def agreeOn_def\<close>)
  have "S h1 (snd v) (snd x) F" using deep_copy.rep_extends [OF g _ F e1] R by (simp add: pairRep_def)
  then have "S h' b (snd x) (newSince h1 h')" using deep_copy.copy_rep [OF g _ _ b] F n by fastforce
  then have "S h' b (snd x) (newSince h h')"
    by (rule deep_copy.rep_stable [OF g]) (use n in \<open>auto simp: agreeOn_def\<close>)
  with 1 show "pairRep R S h' v' x (newSince h h')" by (simp add: pairRep_def v')
next
  fix h v x F h' G assume "pairRep R S h v x F" "agreeOn F h h'" "F \<subseteq> G"
  then show "pairRep R S h' v x G"
    using deep_copy.rep_stable [OF f] deep_copy.rep_stable [OF g] unfolding pairRep_def by blast
qed

text \<open>
  A struct whose fields with pointers are read as a tuple by \<open>get\<close>, written by \<open>put\<close>, and whose other fields
  \<open>rest\<close> are copied by the assignment.
\<close>

lemma deep_copy_struct:
  assumes c: "deep_copy c R" and into: "\<And>v h. into v h = (case c (get v) h of (t, h) \<Rightarrow> (put v t, h))"
    and rep: "\<And>h v x F. rep h v x F \<longleftrightarrow> R h (get v) (getx x) F \<and> restx x = rest v"
    and put: "\<And>v t. get (put v t) = t" "\<And>v t. rest (put v t) = rest v"
  shows "deep_copy into rep"
proof
  fix v h v' h' assume "into v h = (v', h')"
  then show "extends h h'" using deep_copy.copy_extends [OF c] by (auto simp: into split: prod.splits)
next
  fix h v x F v' h' assume "rep h v x F" "F \<subseteq> used h" "into v h = (v', h')"
  then show "rep h' v' x (newSince h h')"
    using deep_copy.copy_rep [OF c] by (auto simp: into rep put split: prod.splits)
next
  fix h v x F h' G assume "rep h v x F" "agreeOn F h h'" "F \<subseteq> G"
  then show "rep h' v x G" using deep_copy.rep_stable [OF c] by (auto simp: rep)
qed

lemma copyList_extends:
  assumes f: "deep_copy f R"
  shows "copyList f vs h = (vs', h') \<Longrightarrow> extends h h'"
proof (induction vs arbitrary: h vs')
  case (Cons v vs)
  then obtain a h1 bs where "f v h = (a, h1)" "copyList f vs h1 = (bs, h')" by (auto split: prod.splits)
  with Cons.IH deep_copy.copy_extends [OF f] show ?case by (blast intro: extends_trans)
qed simp

lemma listRep_stable:
  assumes f: "deep_copy f R"
  shows "listRep R h vs xs F \<Longrightarrow> agreeOn F h h' \<Longrightarrow> F \<subseteq> G \<Longrightarrow> listRep R h' vs xs G"
  unfolding listRep_def by (erule list_all2_mono) (rule deep_copy.rep_stable [OF f])

lemma deep_copy_list:
  assumes f: "deep_copy f R"
  shows "deep_copy (copyList f) (listRep R)"
proof
  fix h vs xs F vs' h'
  assume "listRep R h vs xs F" "F \<subseteq> used h" "copyList f vs h = (vs', h')"
  then show "listRep R h' vs' xs (newSince h h')"
  proof (induction vs arbitrary: h xs vs')
    case Nil
    then show ?case by (simp add: listRep_def)
  next
    case (Cons v vs)
    then obtain x ys where xs: "xs = x # ys" "R h v x F" "listRep R h vs ys F"
      by (auto simp: listRep_def list_all2_Cons1)
    from Cons.prems(3) obtain a h1 bs where a: "f v h = (a, h1)" and bs: "copyList f vs h1 = (bs, h')"
      and vs': "vs' = a # bs" by (auto split: prod.splits)
    have e1: "extends h h1" and e2: "extends h1 h'"
      using deep_copy.copy_extends [OF f a] copyList_extends [OF f bs] .
    note n = extends_next [OF e1] extends_next [OF e2]
    have "R h1 a x (newSince h h1)" using deep_copy.copy_rep [OF f xs(2) Cons.prems(2) a] .
    then have 1: "R h' a x (newSince h h')"
      by (rule deep_copy.rep_stable [OF f]) (use e2 n in \<open>auto simp: extends_def agreeOn_def\<close>)
    have "listRep R h1 vs ys F"
      by (rule listRep_stable [OF f xs(3) extends_agree [OF e1 Cons.prems(2)]]) simp
    then have "listRep R h' bs ys (newSince h1 h')" using Cons.IH [OF _ _ bs] Cons.prems(2) n by fastforce
    then have "listRep R h' bs ys (newSince h h')"
      by (rule listRep_stable [OF f]) (use n in \<open>auto simp: agreeOn_def\<close>)
    with 1 show ?case by (simp add: vs' xs(1) listRep_def)
  qed
qed (blast intro: copyList_extends [OF f] listRep_stable [OF f])+

end
