(* ===== verification/Api_Memory.thy ===== *)
theory Api_Memory
  imports Go_Heap Kube_Types
begin

text \<open>
  The structs of \<open>apis/namespaced/object/v1alpha1/types.go\<close> (and of
      \<open>apis/cluster/object/v1alpha2\<close>, which has the
  same fields) as they lie in memory. A struct of a library (\<open>ObjectMeta\<close>,
      \<open>RawExtension\<close>, the common specs and
  statuses of crossplane) is a value of the type parameter \<open>'e\<close>; its own
      \<open>DeepCopyInto\<close> is a parameter. A struct is
  polymorphic in its fields with pointers: addresses in memory, and what they lead to in the value.
\<close>

section \<open>Structs\<close>

record patchesFromM =
  pfm_dependsOn :: dependsOn
  pfm_fieldPath :: "nat option"

record referenceM =
  rfm_dependsOn :: "nat option"
  rfm_patchesFrom :: "nat option"
  rfm_toFieldPath :: "nat option"

record 'e parametersT =
  pt_manifest :: 'e
  pt_deletionPropagationPolicy :: string

record 'e observationT =
  ot_manifest :: 'e

record ('e, 'cds, 'refs) specT =
  st_resourceSpec :: 'e
  st_connectionDetails :: 'cds
  st_forProvider :: "'e parametersT"
  st_references :: 'refs
  st_readiness :: readiness
  st_watch :: bool

record 'e statusT =
  stt_resourceStatus :: 'e
  stt_atProvider :: "'e observationT"

record typeMeta =
  tm_kind :: string
  tm_apiVersion :: string

record ('e, 'cds, 'refs) objectT =
  obt_typeMeta :: typeMeta
  obt_objectMeta :: 'e
  obt_spec :: "('e, 'cds, 'refs) specT"
  obt_status :: "'e statusT"

record ('e, 'items) objectListT =
  olt_typeMeta :: typeMeta
  olt_listMeta :: 'e
  olt_items :: 'items

text \<open>In memory a slice is an address; in the value it is nil or the list of its elements.\<close>

type_synonym 'e specM = "('e, nat option, nat option) specT"
type_synonym 'e objectM = "('e, nat option, nat option) objectT"
type_synonym 'e objectListM = "('e, nat option) objectListT"
type_synonym 'v specV = "('v, connectionDetail list option, reference list option) specT"
type_synonym 'v objectV = "('v, connectionDetail list option, reference list option) objectT"
type_synonym 'v objectListV = "('v, 'v objectV list option) objectListT"

text \<open>
  \<open>apis/cluster/object/v1alpha1\<close>, where its structs differ: the common spec is declared there,
      with pointers of its
  own, there is a management policy, and there is neither a deletion policy for the manifest nor a CEL query.
\<close>

record ('sec, 'ref) resourceSpecT =
  rst_writeConnectionSecretToReference :: 'sec
  rst_providerConfigReference :: 'ref
  rst_providerReference :: 'ref
  rst_deletionPolicy :: string

record 'e parameters1T =
  p1t_manifest :: 'e

record readiness1T =
  r1t_policy :: string

record ('e, 'sec, 'ref, 'cds, 'refs) spec1T =
  s1t_resourceSpec :: "('sec, 'ref) resourceSpecT"
  s1t_connectionDetails :: 'cds
  s1t_forProvider :: "'e parameters1T"
  s1t_managementPolicy :: string
  s1t_references :: 'refs
  s1t_readiness :: readiness1T
  s1t_watch :: bool

record ('e, 'sec, 'ref, 'cds, 'refs) object1T =
  ob1t_typeMeta :: typeMeta
  ob1t_objectMeta :: 'e
  ob1t_spec :: "('e, 'sec, 'ref, 'cds, 'refs) spec1T"
  ob1t_status :: "'e statusT"

type_synonym resourceSpecM = "(nat option, nat option) resourceSpecT"
type_synonym 'e spec1M = "('e, nat option, nat option, nat option, nat option) spec1T"
type_synonym 'e object1M = "('e, nat option, nat option, nat option, nat option) object1T"
type_synonym 'v resourceSpecV = "(secretReference option, 'v option) resourceSpecT"
type_synonym 'v spec1V =
  "('v, secretReference option, 'v option, connectionDetail list option, reference list option) spec1T"
type_synonym 'v object1V =
  "('v, secretReference option, 'v option, connectionDetail list option, reference list option) object1T"
type_synonym 'v objectList1V = "('v, 'v object1V list option) objectListT"

section \<open>Cells\<close>

text \<open>What a pointer or a slice of these packages can lead to.\<close>

datatype 'e apiCell =
    StringCell string
  | LibraryCell 'e
  | DependsOnCell dependsOn
  | PatchesFromCell patchesFromM
  | ReferenceCell referenceM
  | ReferencesCell "referenceM list"
  | ConnectionDetailCell connectionDetail
  | ConnectionDetailsCell "connectionDetail list"
  | ReadinessCell readiness
  | ParametersCell "'e parametersT"
  | ObservationCell "'e observationT"
  | SpecCell "'e specM"
  | StatusCell "'e statusT"
  | ObjectCell "'e objectM"
  | ObjectsCell "'e objectM list"
  | ObjectListCell "'e objectListM"
  | SecretReferenceCell secretReference
  | ResourceSpecCell resourceSpecM
  | Parameters1Cell "'e parameters1T"
  | Readiness1Cell readiness1T
  | Spec1Cell "'e spec1M"
  | Object1Cell "'e object1M"
  | Objects1Cell "'e object1M list"
  | ObjectList1Cell "'e objectListM"

definition stringCell :: "('e apiCell, string) cellType" where
  "stringCell = \<lparr>ct_make = StringCell, ct_load = \<lambda>c. case c of StringCell v \<Rightarrow> Some v
      | _ \<Rightarrow> None\<rparr>"

definition libraryCell :: "('e apiCell, 'e) cellType" where
  "libraryCell = \<lparr>ct_make = LibraryCell, ct_load = \<lambda>c. case c of LibraryCell v \<Rightarrow>
      Some v | _ \<Rightarrow> None\<rparr>"

definition dependsOnCell :: "('e apiCell, dependsOn) cellType" where
  "dependsOnCell = \<lparr>ct_make = DependsOnCell, ct_load = \<lambda>c. case c of DependsOnCell v
      \<Rightarrow> Some v | _ \<Rightarrow> None\<rparr>"

definition patchesFromCell :: "('e apiCell, patchesFromM) cellType" where
  "patchesFromCell = \<lparr>ct_make = PatchesFromCell, ct_load = \<lambda>c. case c of PatchesFromCell v
      \<Rightarrow> Some v | _ \<Rightarrow> None\<rparr>"

definition referenceCell :: "('e apiCell, referenceM) cellType" where
  "referenceCell = \<lparr>ct_make = ReferenceCell, ct_load = \<lambda>c. case c of ReferenceCell v
      \<Rightarrow> Some v | _ \<Rightarrow> None\<rparr>"

definition referencesCell :: "('e apiCell, referenceM list) cellType" where
  "referencesCell = \<lparr>ct_make = ReferencesCell, ct_load = \<lambda>c. case c of ReferencesCell v
      \<Rightarrow> Some v | _ \<Rightarrow> None\<rparr>"

definition connectionDetailCell :: "('e apiCell, connectionDetail) cellType" where
  "connectionDetailCell = \<lparr>ct_make = ConnectionDetailCell, ct_load = \<lambda>c. case c of
      ConnectionDetailCell v \<Rightarrow> Some v | _ \<Rightarrow> None\<rparr>"

definition connectionDetailsCell :: "('e apiCell, connectionDetail list) cellType" where
  "connectionDetailsCell = \<lparr>ct_make = ConnectionDetailsCell, ct_load = \<lambda>c. case c of
      ConnectionDetailsCell v \<Rightarrow> Some v | _ \<Rightarrow> None\<rparr>"

definition readinessCell :: "('e apiCell, readiness) cellType" where
  "readinessCell = \<lparr>ct_make = ReadinessCell, ct_load = \<lambda>c. case c of ReadinessCell v
      \<Rightarrow> Some v | _ \<Rightarrow> None\<rparr>"

definition parametersCell :: "('e apiCell, 'e parametersT) cellType" where
  "parametersCell = \<lparr>ct_make = ParametersCell, ct_load = \<lambda>c. case c of ParametersCell v
      \<Rightarrow> Some v | _ \<Rightarrow> None\<rparr>"

definition observationCell :: "('e apiCell, 'e observationT) cellType" where
  "observationCell = \<lparr>ct_make = ObservationCell, ct_load = \<lambda>c. case c of ObservationCell v
      \<Rightarrow> Some v | _ \<Rightarrow> None\<rparr>"

definition specCell :: "('e apiCell, 'e specM) cellType" where
  "specCell = \<lparr>ct_make = SpecCell, ct_load = \<lambda>c. case c of SpecCell v \<Rightarrow> Some v | _
      \<Rightarrow> None\<rparr>"

definition statusCell :: "('e apiCell, 'e statusT) cellType" where
  "statusCell = \<lparr>ct_make = StatusCell, ct_load = \<lambda>c. case c of StatusCell v \<Rightarrow> Some v
      | _ \<Rightarrow> None\<rparr>"

definition objectCell :: "('e apiCell, 'e objectM) cellType" where
  "objectCell = \<lparr>ct_make = ObjectCell, ct_load = \<lambda>c. case c of ObjectCell v \<Rightarrow> Some v
      | _ \<Rightarrow> None\<rparr>"

definition objectsCell :: "('e apiCell, 'e objectM list) cellType" where
  "objectsCell = \<lparr>ct_make = ObjectsCell, ct_load = \<lambda>c. case c of ObjectsCell v \<Rightarrow>
      Some v | _ \<Rightarrow> None\<rparr>"

definition objectListCell :: "('e apiCell, 'e objectListM) cellType" where
  "objectListCell = \<lparr>ct_make = ObjectListCell, ct_load = \<lambda>c. case c of ObjectListCell v
      \<Rightarrow> Some v | _ \<Rightarrow> None\<rparr>"

definition secretReferenceCell :: "('e apiCell, secretReference) cellType" where
  "secretReferenceCell = \<lparr>ct_make = SecretReferenceCell, ct_load = \<lambda>c. case c of
      SecretReferenceCell v \<Rightarrow> Some v | _ \<Rightarrow> None\<rparr>"

definition resourceSpecCell :: "('e apiCell, resourceSpecM) cellType" where
  "resourceSpecCell = \<lparr>ct_make = ResourceSpecCell, ct_load = \<lambda>c. case c of ResourceSpecCell v
      \<Rightarrow> Some v | _ \<Rightarrow> None\<rparr>"

definition parameters1Cell :: "('e apiCell, 'e parameters1T) cellType" where
  "parameters1Cell = \<lparr>ct_make = Parameters1Cell, ct_load = \<lambda>c. case c of Parameters1Cell v
      \<Rightarrow> Some v | _ \<Rightarrow> None\<rparr>"

definition readiness1Cell :: "('e apiCell, readiness1T) cellType" where
  "readiness1Cell = \<lparr>ct_make = Readiness1Cell, ct_load = \<lambda>c. case c of Readiness1Cell v
      \<Rightarrow> Some v | _ \<Rightarrow> None\<rparr>"

definition spec1Cell :: "('e apiCell, 'e spec1M) cellType" where
  "spec1Cell = \<lparr>ct_make = Spec1Cell, ct_load = \<lambda>c. case c of Spec1Cell v \<Rightarrow> Some v |
      _ \<Rightarrow> None\<rparr>"

definition object1Cell :: "('e apiCell, 'e object1M) cellType" where
  "object1Cell = \<lparr>ct_make = Object1Cell, ct_load = \<lambda>c. case c of Object1Cell v \<Rightarrow>
      Some v | _ \<Rightarrow> None\<rparr>"

definition objects1Cell :: "('e apiCell, 'e object1M list) cellType" where
  "objects1Cell = \<lparr>ct_make = Objects1Cell, ct_load = \<lambda>c. case c of Objects1Cell v \<Rightarrow>
      Some v | _ \<Rightarrow> None\<rparr>"

definition objectList1Cell :: "('e apiCell, 'e objectListM) cellType" where
  "objectList1Cell = \<lparr>ct_make = ObjectList1Cell, ct_load = \<lambda>c. case c of ObjectList1Cell v
      \<Rightarrow> Some v | _ \<Rightarrow> None\<rparr>"

lemma stringCell_law [simp]: "cellLaw stringCell"
  by (simp add: cellLaw_def stringCell_def)

lemma libraryCell_law [simp]: "cellLaw libraryCell"
  by (simp add: cellLaw_def libraryCell_def)

lemma dependsOnCell_law [simp]: "cellLaw dependsOnCell"
  by (simp add: cellLaw_def dependsOnCell_def)

lemma patchesFromCell_law [simp]: "cellLaw patchesFromCell"
  by (simp add: cellLaw_def patchesFromCell_def)

lemma referenceCell_law [simp]: "cellLaw referenceCell"
  by (simp add: cellLaw_def referenceCell_def)

lemma referencesCell_law [simp]: "cellLaw referencesCell"
  by (simp add: cellLaw_def referencesCell_def)

lemma connectionDetailCell_law [simp]: "cellLaw connectionDetailCell"
  by (simp add: cellLaw_def connectionDetailCell_def)

lemma connectionDetailsCell_law [simp]: "cellLaw connectionDetailsCell"
  by (simp add: cellLaw_def connectionDetailsCell_def)

lemma readinessCell_law [simp]: "cellLaw readinessCell"
  by (simp add: cellLaw_def readinessCell_def)

lemma parametersCell_law [simp]: "cellLaw parametersCell"
  by (simp add: cellLaw_def parametersCell_def)

lemma observationCell_law [simp]: "cellLaw observationCell"
  by (simp add: cellLaw_def observationCell_def)

lemma specCell_law [simp]: "cellLaw specCell"
  by (simp add: cellLaw_def specCell_def)

lemma statusCell_law [simp]: "cellLaw statusCell"
  by (simp add: cellLaw_def statusCell_def)

lemma objectCell_law [simp]: "cellLaw objectCell"
  by (simp add: cellLaw_def objectCell_def)

lemma objectsCell_law [simp]: "cellLaw objectsCell"
  by (simp add: cellLaw_def objectsCell_def)

lemma objectListCell_law [simp]: "cellLaw objectListCell"
  by (simp add: cellLaw_def objectListCell_def)

lemma secretReferenceCell_law [simp]: "cellLaw secretReferenceCell"
  by (simp add: cellLaw_def secretReferenceCell_def)

lemma resourceSpecCell_law [simp]: "cellLaw resourceSpecCell"
  by (simp add: cellLaw_def resourceSpecCell_def)

lemma parameters1Cell_law [simp]: "cellLaw parameters1Cell"
  by (simp add: cellLaw_def parameters1Cell_def)

lemma readiness1Cell_law [simp]: "cellLaw readiness1Cell"
  by (simp add: cellLaw_def readiness1Cell_def)

lemma spec1Cell_law [simp]: "cellLaw spec1Cell"
  by (simp add: cellLaw_def spec1Cell_def)

lemma object1Cell_law [simp]: "cellLaw object1Cell"
  by (simp add: cellLaw_def object1Cell_def)

lemma objects1Cell_law [simp]: "cellLaw objects1Cell"
  by (simp add: cellLaw_def objects1Cell_def)

lemma objectList1Cell_law [simp]: "cellLaw objectList1Cell"
  by (simp add: cellLaw_def objectList1Cell_def)

section \<open>Libraries\<close>

text \<open>The \<open>DeepCopyInto\<close> methods of the structs that are declared outside the
      repository.\<close>

record ('e, 'c) deepCopyLib =
  dl_ObjectMeta :: "'e \<Rightarrow> 'c heap \<Rightarrow> 'e \<times> 'c heap"
  dl_ListMeta :: "'e \<Rightarrow> 'c heap \<Rightarrow> 'e \<times> 'c heap"
  dl_RawExtension :: "'e \<Rightarrow> 'c heap \<Rightarrow> 'e \<times> 'c heap"
  dl_ManagedResourceSpec :: "'e \<Rightarrow> 'c heap \<Rightarrow> 'e \<times> 'c heap"
  dl_ClusterManagedResourceSpec :: "'e \<Rightarrow> 'c heap \<Rightarrow> 'e \<times> 'c heap"
  dl_ManagedResourceStatus :: "'e \<Rightarrow> 'c heap \<Rightarrow> 'e \<times> 'c heap"
  dl_Reference :: "'e \<Rightarrow> 'c heap \<Rightarrow> 'e \<times> 'c heap"
  dl_LabelSelector :: "'e \<Rightarrow> 'c heap \<Rightarrow> 'e \<times> 'c heap"
  dl_CommonCredentialSelectors :: "'e \<Rightarrow> 'c heap \<Rightarrow> 'e \<times> 'c heap"
  dl_ProviderConfigStatus :: "'e \<Rightarrow> 'c heap \<Rightarrow> 'e \<times> 'c heap"
  dl_ProviderConfigUsage :: "'e \<Rightarrow> 'c heap \<Rightarrow> 'e \<times> 'c heap"

text \<open>Each of them keeps the contract.\<close>

definition libraryCopies ::
  "('e, 'c) deepCopyLib \<Rightarrow> ('c heap \<Rightarrow> 'e \<Rightarrow> 'v \<Rightarrow> nat set
      \<Rightarrow> bool) \<Rightarrow> bool" where
  "libraryCopies D R \<longleftrightarrow>
     deep_copy (dl_ObjectMeta D) R \<and> deep_copy (dl_ListMeta D) R \<and> deep_copy (dl_RawExtension D) R
      \<and>
     deep_copy (dl_ManagedResourceSpec D) R \<and> deep_copy (dl_ClusterManagedResourceSpec D) R \<and>
     deep_copy (dl_ManagedResourceStatus D) R \<and> deep_copy (dl_Reference D) R \<and> deep_copy
      (dl_LabelSelector D) R \<and>
     deep_copy (dl_CommonCredentialSelectors D) R \<and> deep_copy (dl_ProviderConfigStatus D) R \<and>
     deep_copy (dl_ProviderConfigUsage D) R"

lemma libraryCopiesD:
  assumes "libraryCopies D R"
  shows "deep_copy (dl_ObjectMeta D) R" "deep_copy (dl_ListMeta D) R" "deep_copy (dl_RawExtension D) R"
    "deep_copy (dl_ManagedResourceSpec D) R" "deep_copy (dl_ClusterManagedResourceSpec D) R"
    "deep_copy (dl_ManagedResourceStatus D) R" "deep_copy (dl_Reference D) R" "deep_copy (dl_LabelSelector D) R"
    "deep_copy (dl_CommonCredentialSelectors D) R" "deep_copy (dl_ProviderConfigStatus D) R"
    "deep_copy (dl_ProviderConfigUsage D) R"
  using assms by (simp_all add: libraryCopies_def)

text \<open>\<open>DeepCopyObject\<close>: a nil pointer becomes a nil interface.\<close>

definition asObject :: "nat option \<times> 'c heap \<Rightarrow> nat option \<times> 'c heap" where
  "asObject r = (case r of (c, h) \<Rightarrow> if c \<noteq> None then (c, h) else (None, h))"

lemma asObject_id [simp]: "asObject r = r"
  by (cases r) (simp add: asObject_def)

end
