(* ===== verification/Deep_Copy.thy ===== *)
theory Deep_Copy
  imports Api_Memory
begin

text \<open>
  \<open>zz_generated.deepcopy.go\<close> of the Object packages (\<open>apis/namespaced/object/v1alpha1\<close>,
  \<open>apis/cluster/object/v1alpha2\<close>): one \<open>DeepCopyInto\<close> per struct, which copies field by field what the
  assignment of the struct would share, and \<open>DeepCopy\<close>, which does it into a new struct.
\<close>

section \<open>References\<close>

definition DependsOn_DeepCopyInto :: "dependsOn \<Rightarrow> 'e apiCell heap \<Rightarrow> dependsOn \<times> 'e apiCell heap" where
  "DependsOn_DeepCopyInto = assign"

definition DependsOn_DeepCopy :: "nat option \<Rightarrow> 'e apiCell heap \<Rightarrow> nat option \<times> 'e apiCell heap" where
  "DependsOn_DeepCopy = copyPtr dependsOnCell DependsOn_DeepCopyInto"

definition PatchesFrom_DeepCopyInto ::
  "patchesFromM \<Rightarrow> 'e apiCell heap \<Rightarrow> patchesFromM \<times> 'e apiCell heap" where
  "PatchesFrom_DeepCopyInto v h =
     (case copyPtr stringCell assign (pfm_fieldPath v) h of
        (p, h) \<Rightarrow> (v\<lparr>pfm_fieldPath := p\<rparr>, h))"

definition PatchesFrom_DeepCopy :: "nat option \<Rightarrow> 'e apiCell heap \<Rightarrow> nat option \<times> 'e apiCell heap" where
  "PatchesFrom_DeepCopy = copyPtr patchesFromCell PatchesFrom_DeepCopyInto"

definition Reference_DeepCopyInto ::
  "referenceM \<Rightarrow> 'e apiCell heap \<Rightarrow> referenceM \<times> 'e apiCell heap" where
  "Reference_DeepCopyInto v h =
     (case copyPtr dependsOnCell assign (rfm_dependsOn v) h of
        (d, h) \<Rightarrow>
          (case copyPtr patchesFromCell PatchesFrom_DeepCopyInto (rfm_patchesFrom v) h of
             (p, h) \<Rightarrow>
               (case copyPtr stringCell assign (rfm_toFieldPath v) h of
                  (t, h) \<Rightarrow> (v\<lparr>rfm_dependsOn := d, rfm_patchesFrom := p, rfm_toFieldPath := t\<rparr>, h))))"

definition Reference_DeepCopy :: "nat option \<Rightarrow> 'e apiCell heap \<Rightarrow> nat option \<times> 'e apiCell heap" where
  "Reference_DeepCopy = copyPtr referenceCell Reference_DeepCopyInto"

section \<open>Specs and statuses\<close>

definition ConnectionDetail_DeepCopyInto ::
  "connectionDetail \<Rightarrow> 'e apiCell heap \<Rightarrow> connectionDetail \<times> 'e apiCell heap" where
  "ConnectionDetail_DeepCopyInto v h = (v\<lparr>cd_ref := cd_ref v\<rparr>, h)"

definition ConnectionDetail_DeepCopy :: "nat option \<Rightarrow> 'e apiCell heap \<Rightarrow> nat option \<times> 'e apiCell heap" where
  "ConnectionDetail_DeepCopy = copyPtr connectionDetailCell ConnectionDetail_DeepCopyInto"

definition Readiness_DeepCopyInto :: "readiness \<Rightarrow> 'e apiCell heap \<Rightarrow> readiness \<times> 'e apiCell heap" where
  "Readiness_DeepCopyInto = assign"

definition Readiness_DeepCopy :: "nat option \<Rightarrow> 'e apiCell heap \<Rightarrow> nat option \<times> 'e apiCell heap" where
  "Readiness_DeepCopy = copyPtr readinessCell Readiness_DeepCopyInto"

definition ObjectParameters_DeepCopyInto ::
  "('e, 'c) deepCopyLib \<Rightarrow> 'e parametersT \<Rightarrow> 'c heap \<Rightarrow> 'e parametersT \<times> 'c heap" where
  "ObjectParameters_DeepCopyInto D v h =
     (case dl_RawExtension D (pt_manifest v) h of (m, h) \<Rightarrow> (v\<lparr>pt_manifest := m\<rparr>, h))"

definition ObjectParameters_DeepCopy ::
  "('e, 'e apiCell) deepCopyLib \<Rightarrow> nat option \<Rightarrow> 'e apiCell heap \<Rightarrow> nat option \<times> 'e apiCell heap" where
  "ObjectParameters_DeepCopy D = copyPtr parametersCell (ObjectParameters_DeepCopyInto D)"

definition ObjectObservation_DeepCopyInto ::
  "('e, 'c) deepCopyLib \<Rightarrow> 'e observationT \<Rightarrow> 'c heap \<Rightarrow> 'e observationT \<times> 'c heap" where
  "ObjectObservation_DeepCopyInto D v h =
     (case dl_RawExtension D (ot_manifest v) h of (m, h) \<Rightarrow> (v\<lparr>ot_manifest := m\<rparr>, h))"

definition ObjectObservation_DeepCopy ::
  "('e, 'e apiCell) deepCopyLib \<Rightarrow> nat option \<Rightarrow> 'e apiCell heap \<Rightarrow> nat option \<times> 'e apiCell heap" where
  "ObjectObservation_DeepCopy D = copyPtr observationCell (ObjectObservation_DeepCopyInto D)"

definition ObjectSpec_DeepCopyInto ::
  "('e, 'e apiCell) deepCopyLib \<Rightarrow> 'e specM \<Rightarrow> 'e apiCell heap \<Rightarrow> 'e specM \<times> 'e apiCell heap" where
  "ObjectSpec_DeepCopyInto D v h =
     (case dl_ManagedResourceSpec D (st_resourceSpec v) h of
        (s, h) \<Rightarrow>
          (case copySlice connectionDetailsCell assign (st_connectionDetails v) h of
             (cds, h) \<Rightarrow>
               (case ObjectParameters_DeepCopyInto D (st_forProvider v) h of
                  (p, h) \<Rightarrow>
                    (case copySlice referencesCell Reference_DeepCopyInto (st_references v) h of
                       (refs, h) \<Rightarrow>
                         (v\<lparr>st_resourceSpec := s, st_connectionDetails := cds, st_forProvider := p,
                            st_references := refs, st_readiness := st_readiness v\<rparr>, h)))))"

definition ObjectSpec_DeepCopy ::
  "('e, 'e apiCell) deepCopyLib \<Rightarrow> nat option \<Rightarrow> 'e apiCell heap \<Rightarrow> nat option \<times> 'e apiCell heap" where
  "ObjectSpec_DeepCopy D = copyPtr specCell (ObjectSpec_DeepCopyInto D)"

definition ObjectStatus_DeepCopyInto ::
  "('e, 'c) deepCopyLib \<Rightarrow> 'e statusT \<Rightarrow> 'c heap \<Rightarrow> 'e statusT \<times> 'c heap" where
  "ObjectStatus_DeepCopyInto D v h =
     (case dl_ManagedResourceStatus D (stt_resourceStatus v) h of
        (s, h) \<Rightarrow>
          (case ObjectObservation_DeepCopyInto D (stt_atProvider v) h of
             (a, h) \<Rightarrow> (v\<lparr>stt_resourceStatus := s, stt_atProvider := a\<rparr>, h)))"

definition ObjectStatus_DeepCopy ::
  "('e, 'e apiCell) deepCopyLib \<Rightarrow> nat option \<Rightarrow> 'e apiCell heap \<Rightarrow> nat option \<times> 'e apiCell heap" where
  "ObjectStatus_DeepCopy D = copyPtr statusCell (ObjectStatus_DeepCopyInto D)"

section \<open>Objects\<close>

definition Object_DeepCopyInto ::
  "('e, 'e apiCell) deepCopyLib \<Rightarrow> 'e objectM \<Rightarrow> 'e apiCell heap \<Rightarrow> 'e objectM \<times> 'e apiCell heap" where
  "Object_DeepCopyInto D v h =
     (case dl_ObjectMeta D (obt_objectMeta v) h of
        (m, h) \<Rightarrow>
          (case ObjectSpec_DeepCopyInto D (obt_spec v) h of
             (s, h) \<Rightarrow>
               (case ObjectStatus_DeepCopyInto D (obt_status v) h of
                  (t, h) \<Rightarrow>
                    (v\<lparr>obt_typeMeta := obt_typeMeta v, obt_objectMeta := m, obt_spec := s, obt_status := t\<rparr>, h))))"

definition Object_DeepCopy ::
  "('e, 'e apiCell) deepCopyLib \<Rightarrow> nat option \<Rightarrow> 'e apiCell heap \<Rightarrow> nat option \<times> 'e apiCell heap" where
  "Object_DeepCopy D = copyPtr objectCell (Object_DeepCopyInto D)"

definition Object_DeepCopyObject ::
  "('e, 'e apiCell) deepCopyLib \<Rightarrow> nat option \<Rightarrow> 'e apiCell heap \<Rightarrow> nat option \<times> 'e apiCell heap" where
  "Object_DeepCopyObject D p h = asObject (Object_DeepCopy D p h)"

definition ObjectList_DeepCopyInto ::
  "('e, 'e apiCell) deepCopyLib \<Rightarrow> 'e objectListM \<Rightarrow> 'e apiCell heap \<Rightarrow> 'e objectListM \<times> 'e apiCell heap" where
  "ObjectList_DeepCopyInto D v h =
     (case dl_ListMeta D (olt_listMeta v) h of
        (m, h) \<Rightarrow>
          (case copySlice objectsCell (Object_DeepCopyInto D) (olt_items v) h of
             (is, h) \<Rightarrow> (v\<lparr>olt_typeMeta := olt_typeMeta v, olt_listMeta := m, olt_items := is\<rparr>, h)))"

definition ObjectList_DeepCopy ::
  "('e, 'e apiCell) deepCopyLib \<Rightarrow> nat option \<Rightarrow> 'e apiCell heap \<Rightarrow> nat option \<times> 'e apiCell heap" where
  "ObjectList_DeepCopy D = copyPtr objectListCell (ObjectList_DeepCopyInto D)"

definition ObjectList_DeepCopyObject ::
  "('e, 'e apiCell) deepCopyLib \<Rightarrow> nat option \<Rightarrow> 'e apiCell heap \<Rightarrow> nat option \<times> 'e apiCell heap" where
  "ObjectList_DeepCopyObject D p h = asObject (ObjectList_DeepCopy D p h)"

section \<open>What structs stand for\<close>

definition patchesFromRep :: "'e apiCell heap \<Rightarrow> patchesFromM \<Rightarrow> patchesFrom \<Rightarrow> nat set \<Rightarrow> bool" where
  "patchesFromRep h v x F \<longleftrightarrow>
     ptrRep stringCell valueRep h (pfm_fieldPath v) (pf_fieldPath x) F \<and> pf_dependsOn x = pfm_dependsOn v"

definition referenceRep :: "'e apiCell heap \<Rightarrow> referenceM \<Rightarrow> reference \<Rightarrow> nat set \<Rightarrow> bool" where
  "referenceRep h v x F \<longleftrightarrow>
     ptrRep dependsOnCell valueRep h (rfm_dependsOn v) (ref_dependsOn x) F \<and>
     ptrRep patchesFromCell patchesFromRep h (rfm_patchesFrom v) (ref_patchesFrom x) F \<and>
     ptrRep stringCell valueRep h (rfm_toFieldPath v) (ref_toFieldPath x) F"

text \<open>\<open>R\<close> is the relation for the structs of the libraries.\<close>

definition parametersRep ::
  "('c heap \<Rightarrow> 'e \<Rightarrow> 'v \<Rightarrow> nat set \<Rightarrow> bool) \<Rightarrow> 'c heap \<Rightarrow> 'e parametersT \<Rightarrow> 'v parametersT \<Rightarrow> nat set \<Rightarrow> bool" where
  "parametersRep R h v x F \<longleftrightarrow>
     R h (pt_manifest v) (pt_manifest x) F \<and> pt_deletionPropagationPolicy x = pt_deletionPropagationPolicy v"

definition observationRep ::
  "('c heap \<Rightarrow> 'e \<Rightarrow> 'v \<Rightarrow> nat set \<Rightarrow> bool) \<Rightarrow> 'c heap \<Rightarrow> 'e observationT \<Rightarrow> 'v observationT \<Rightarrow> nat set \<Rightarrow> bool" where
  "observationRep R h v x F \<longleftrightarrow> R h (ot_manifest v) (ot_manifest x) F"

definition specRep ::
  "('e apiCell heap \<Rightarrow> 'e \<Rightarrow> 'v \<Rightarrow> nat set \<Rightarrow> bool) \<Rightarrow> 'e apiCell heap \<Rightarrow> 'e specM \<Rightarrow> 'v specV \<Rightarrow> nat set \<Rightarrow> bool" where
  "specRep R h v x F \<longleftrightarrow>
     R h (st_resourceSpec v) (st_resourceSpec x) F \<and>
     sliceRep connectionDetailsCell valueRep h (st_connectionDetails v) (st_connectionDetails x) F \<and>
     parametersRep R h (st_forProvider v) (st_forProvider x) F \<and>
     sliceRep referencesCell referenceRep h (st_references v) (st_references x) F \<and>
     st_readiness x = st_readiness v \<and> st_watch x = st_watch v"

definition statusRep ::
  "('c heap \<Rightarrow> 'e \<Rightarrow> 'v \<Rightarrow> nat set \<Rightarrow> bool) \<Rightarrow> 'c heap \<Rightarrow> 'e statusT \<Rightarrow> 'v statusT \<Rightarrow> nat set \<Rightarrow> bool" where
  "statusRep R h v x F \<longleftrightarrow>
     R h (stt_resourceStatus v) (stt_resourceStatus x) F \<and> observationRep R h (stt_atProvider v) (stt_atProvider x) F"

definition objectRep ::
  "('e apiCell heap \<Rightarrow> 'e \<Rightarrow> 'v \<Rightarrow> nat set \<Rightarrow> bool) \<Rightarrow> 'e apiCell heap \<Rightarrow> 'e objectM \<Rightarrow> 'v objectV \<Rightarrow> nat set \<Rightarrow> bool" where
  "objectRep R h v x F \<longleftrightarrow>
     R h (obt_objectMeta v) (obt_objectMeta x) F \<and> specRep R h (obt_spec v) (obt_spec x) F \<and>
     statusRep R h (obt_status v) (obt_status x) F \<and> obt_typeMeta x = obt_typeMeta v"

definition objectListRep ::
  "('e apiCell heap \<Rightarrow> 'e \<Rightarrow> 'v \<Rightarrow> nat set \<Rightarrow> bool) \<Rightarrow> 'e apiCell heap \<Rightarrow> 'e objectListM \<Rightarrow> 'v objectListV \<Rightarrow> nat set \<Rightarrow> bool" where
  "objectListRep R h v x F \<longleftrightarrow>
     R h (olt_listMeta v) (olt_listMeta x) F \<and>
     sliceRep objectsCell (objectRep R) h (olt_items v) (olt_items x) F \<and> olt_typeMeta x = olt_typeMeta v"

section \<open>Every copy keeps the contract\<close>

lemmas struct_simps = copyPair_def pairRep_def assign_def valueRep_def

lemmas value_ptr = deep_copy_ptr [OF deep_copy_assign]

lemma PatchesFrom_deep: "deep_copy PatchesFrom_DeepCopyInto patchesFromRep"
  by (rule deep_copy_struct [where get = pfm_fieldPath and put = "\<lambda>v p. v\<lparr>pfm_fieldPath := p\<rparr>" and rest = pfm_dependsOn
        and getx = pf_fieldPath and restx = pf_dependsOn, OF value_ptr [OF stringCell_law]])
    (simp_all add: PatchesFrom_DeepCopyInto_def patchesFromRep_def)

interpretation patchesFrom_copy: stored_copy PatchesFrom_DeepCopyInto patchesFromRep patchesFromCell
  by (rule stored_copyI [OF PatchesFrom_deep patchesFromCell_law])

lemma Reference_deep: "deep_copy Reference_DeepCopyInto referenceRep"
  by (rule deep_copy_struct [where get = "\<lambda>v. (rfm_dependsOn v, rfm_patchesFrom v, rfm_toFieldPath v)"
        and put = "\<lambda>v (d, p, t). v\<lparr>rfm_dependsOn := d, rfm_patchesFrom := p, rfm_toFieldPath := t\<rparr>" and rest = "\<lambda>v. ()"
        and getx = "\<lambda>x. (ref_dependsOn x, ref_patchesFrom x, ref_toFieldPath x)" and restx = "\<lambda>x. ()",
        OF deep_copy_pair [OF value_ptr [OF dependsOnCell_law]
          deep_copy_pair [OF patchesFrom_copy.ptr.deep_copy_axioms value_ptr [OF stringCell_law]]]])
    (simp_all add: Reference_DeepCopyInto_def referenceRep_def struct_simps split: prod.splits)

interpretation reference_copy: stored_copy Reference_DeepCopyInto referenceRep referenceCell
  by (rule stored_copyI [OF Reference_deep referenceCell_law])

lemma ConnectionDetail_assign: "ConnectionDetail_DeepCopyInto = assign"
  by (simp add: fun_eq_iff ConnectionDetail_DeepCopyInto_def assign_def)

lemma ObjectParameters_deep:
  assumes "libraryCopies D R"
  shows "deep_copy (ObjectParameters_DeepCopyInto D) (parametersRep R)"
  by (rule deep_copy_struct [where get = pt_manifest and put = "\<lambda>v m. v\<lparr>pt_manifest := m\<rparr>"
        and rest = pt_deletionPropagationPolicy and getx = pt_manifest and restx = pt_deletionPropagationPolicy,
        OF libraryCopiesD(3) [OF assms]])
    (simp_all add: ObjectParameters_DeepCopyInto_def parametersRep_def)

lemma ObjectObservation_deep:
  assumes "libraryCopies D R"
  shows "deep_copy (ObjectObservation_DeepCopyInto D) (observationRep R)"
  by (rule deep_copy_struct [where get = ot_manifest and put = "\<lambda>v m. v\<lparr>ot_manifest := m\<rparr>"
        and rest = "\<lambda>v. ()" and getx = ot_manifest and restx = "\<lambda>x. ()", OF libraryCopiesD(3) [OF assms]])
    (simp_all add: ObjectObservation_DeepCopyInto_def observationRep_def)

lemma ObjectSpec_deep:
  assumes "libraryCopies D R"
  shows "deep_copy (ObjectSpec_DeepCopyInto D) (specRep R)"
  by (rule deep_copy_struct [where get = "\<lambda>v. (st_resourceSpec v, st_connectionDetails v, st_forProvider v, st_references v)"
        and put = "\<lambda>v (s, c, p, r). v\<lparr>st_resourceSpec := s, st_connectionDetails := c, st_forProvider := p,
          st_references := r\<rparr>" and rest = "\<lambda>v. (st_readiness v, st_watch v)"
        and getx = "\<lambda>v. (st_resourceSpec v, st_connectionDetails v, st_forProvider v, st_references v)"
        and restx = "\<lambda>v. (st_readiness v, st_watch v)",
        OF deep_copy_pair [OF libraryCopiesD(4) [OF assms]
          deep_copy_pair [OF deep_copy_ptr [OF deep_copy_list [OF deep_copy_assign] connectionDetailsCell_law]
          deep_copy_pair [OF ObjectParameters_deep [OF assms]
            deep_copy_ptr [OF deep_copy_list [OF Reference_deep] referencesCell_law]]]]])
    (auto simp: ObjectSpec_DeepCopyInto_def specRep_def struct_simps split: prod.splits)

lemma ObjectStatus_deep:
  assumes "libraryCopies D R"
  shows "deep_copy (ObjectStatus_DeepCopyInto D) (statusRep R)"
  by (rule deep_copy_struct [where get = "\<lambda>v. (stt_resourceStatus v, stt_atProvider v)"
        and put = "\<lambda>v (s, a). v\<lparr>stt_resourceStatus := s, stt_atProvider := a\<rparr>" and rest = "\<lambda>v. ()"
        and getx = "\<lambda>v. (stt_resourceStatus v, stt_atProvider v)" and restx = "\<lambda>v. ()",
        OF deep_copy_pair [OF libraryCopiesD(6) [OF assms] ObjectObservation_deep [OF assms]]])
    (auto simp: ObjectStatus_DeepCopyInto_def statusRep_def struct_simps split: prod.splits)

lemma Object_deep:
  assumes "libraryCopies D R"
  shows "deep_copy (Object_DeepCopyInto D) (objectRep R)"
  by (rule deep_copy_struct [where get = "\<lambda>v. (obt_objectMeta v, obt_spec v, obt_status v)"
        and put = "\<lambda>v (m, s, t). v\<lparr>obt_objectMeta := m, obt_spec := s, obt_status := t\<rparr>" and rest = obt_typeMeta
        and getx = "\<lambda>v. (obt_objectMeta v, obt_spec v, obt_status v)" and restx = obt_typeMeta,
        OF deep_copy_pair [OF libraryCopiesD(1) [OF assms]
          deep_copy_pair [OF ObjectSpec_deep [OF assms] ObjectStatus_deep [OF assms]]]])
    (auto simp: Object_DeepCopyInto_def objectRep_def struct_simps split: prod.splits)

lemma ObjectList_deep:
  assumes "libraryCopies D R"
  shows "deep_copy (ObjectList_DeepCopyInto D) (objectListRep R)"
  by (rule deep_copy_struct [where get = "\<lambda>v. (olt_listMeta v, olt_items v)"
        and put = "\<lambda>v (m, i). v\<lparr>olt_listMeta := m, olt_items := i\<rparr>" and rest = olt_typeMeta
        and getx = "\<lambda>v. (olt_listMeta v, olt_items v)" and restx = olt_typeMeta,
        OF deep_copy_pair [OF libraryCopiesD(2) [OF assms]
          deep_copy_ptr [OF deep_copy_list [OF Object_deep [OF assms]] objectsCell_law]]])
    (auto simp: ObjectList_DeepCopyInto_def objectListRep_def struct_simps split: prod.splits)

section \<open>The copy of a list of Objects\<close>

abbreviation objectListPtrRep ::
  "('e apiCell heap \<Rightarrow> 'e \<Rightarrow> 'v \<Rightarrow> nat set \<Rightarrow> bool) \<Rightarrow> 'e apiCell heap \<Rightarrow> nat option \<Rightarrow> 'v objectListV option \<Rightarrow> nat set \<Rightarrow> bool" where
  "objectListPtrRep R \<equiv> ptrRep objectListCell (objectListRep R)"

text \<open>
  C21. A deep copy shares nothing with its original. \<open>DeepCopyObject\<close> of a list of Objects, as the client takes it
  from the cache that all reconciles share, gives a pointer to an equal list (nil for nil) that reaches new
  addresses only: whatever is later written to addresses that were in use before, through the original, the
  copy stays equal to what was copied, and whatever is written to other addresses, through the copy, the
  original stays as it was.
\<close>

theorem ObjectList_DeepCopyObject_separate:
  assumes lib: "libraryCopies D R"
    and original: "objectListPtrRep R h p x F" "F \<subseteq> used h"
    and run: "ObjectList_DeepCopyObject D p h = (q, h')"
  shows "objectListPtrRep R h' q x (newSince h h') \<and>
    (\<forall>k. agreeOn (- used h) h' k \<longrightarrow> objectListPtrRep R k q x (newSince h h')) \<and>
    (\<forall>k. agreeOn (used h) h' k \<longrightarrow> objectListPtrRep R k p x F)"
proof -
  note ptr = deep_copy_ptr [OF ObjectList_deep [OF lib] objectListCell_law]
  have copy: "copyPtr objectListCell (ObjectList_DeepCopyInto D) p h = (q, h')"
    using run by (simp add: ObjectList_DeepCopyObject_def ObjectList_DeepCopy_def)
  show ?thesis
    using deep_copy.copy_rep [OF ptr original copy] deep_copy.separate [OF ptr original copy] by blast
qed

text \<open>A library whose structs are one pointer to a string, and a list of an Object with a reference.\<close>

definition ref_copies :: "(nat option, nat option apiCell) deepCopyLib" where
  "ref_copies =
     (let c = copyPtr stringCell assign in
      \<lparr>dl_ObjectMeta = c, dl_ListMeta = c, dl_RawExtension = c, dl_ManagedResourceSpec = c,
       dl_ClusterManagedResourceSpec = c, dl_ManagedResourceStatus = c, dl_Reference = c, dl_LabelSelector = c,
       dl_CommonCredentialSelectors = c, dl_ProviderConfigStatus = c, dl_ProviderConfigUsage = c\<rparr>)"

lemma ref_libraryCopies: "libraryCopies ref_copies (ptrRep stringCell valueRep)"
  by (simp add: libraryCopies_def ref_copies_def Let_def value_ptr)

definition ref_specT :: "'e \<Rightarrow> 'refs option \<Rightarrow> ('e, 'c option, 'refs option) specT" where
  "ref_specT e refs =
     \<lparr>st_resourceSpec = e, st_connectionDetails = None,
      st_forProvider = \<lparr>pt_manifest = e, pt_deletionPropagationPolicy = ''Background''\<rparr>, st_references = refs,
      st_readiness = \<lparr>rd_policy = ''SuccessfulCreate'', rd_celQuery = []\<rparr>, st_watch = False\<rparr>"

definition ref_objectT :: "'e \<Rightarrow> 'refs option \<Rightarrow> ('e, 'c option, 'refs option) objectT" where
  "ref_objectT e refs =
     \<lparr>obt_typeMeta = \<lparr>tm_kind = ''Object'', tm_apiVersion = ''kubernetes.m.crossplane.io/v1alpha1''\<rparr>, obt_objectMeta = e,
      obt_spec = ref_specT e refs,
      obt_status = \<lparr>stt_resourceStatus = e, stt_atProvider = \<lparr>ot_manifest = e\<rparr>\<rparr>\<rparr>"

definition ref_objectListT :: "'e \<Rightarrow> 'items \<Rightarrow> ('e, 'items) objectListT" where
  "ref_objectListT e is =
     \<lparr>olt_typeMeta = \<lparr>tm_kind = ''ObjectList'', tm_apiVersion = ''kubernetes.m.crossplane.io/v1alpha1''\<rparr>,
      olt_listMeta = e, olt_items = is\<rparr>"

definition ref_memory :: "nat option apiCell heap" where
  "ref_memory =
     \<lparr>hp_cells =
        [0 \<mapsto> ObjectListCell (ref_objectListT None (Some 1)), 1 \<mapsto> ObjectsCell [ref_objectT (Some 3) (Some 2)],
         2 \<mapsto> ReferencesCell [\<lparr>rfm_dependsOn = None, rfm_patchesFrom = None, rfm_toFieldPath = Some 3\<rparr>],
         3 \<mapsto> StringCell ''data.key''],
      hp_next = 4\<rparr>"

definition ref_listValue :: "string option objectListV" where
  "ref_listValue = ref_objectListT None (Some [ref_objectT (Some ''data.key'')
     (Some [\<lparr>ref_dependsOn = None, ref_patchesFrom = None, ref_toFieldPath = Some ''data.key''\<rparr>])])"

lemma ref_memory_rep:
  "objectListPtrRep (ptrRep stringCell valueRep) ref_memory (Some 0) (Some ref_listValue) {0, 1, 2, 3}"
  by (simp add: ptrRep_def deref_def ref_memory_def ref_listValue_def objectListCell_def objectsCell_def referencesCell_def
      stringCell_def ref_objectListT_def objectListRep_def listRep_def objectRep_def ref_objectT_def specRep_def
      ref_specT_def statusRep_def observationRep_def parametersRep_def referenceRep_def valueRep_def)

lemma ObjectList_DeepCopyObject_separate_witness:
  "\<exists>q h'. ObjectList_DeepCopyObject ref_copies (Some 0) ref_memory = (q, h') \<and>
     (\<forall>k. agreeOn (used ref_memory) h' k \<longrightarrow>
       objectListPtrRep (ptrRep stringCell valueRep) k (Some 0) (Some ref_listValue) {0, 1, 2, 3})"
proof -
  obtain q h' where run: "ObjectList_DeepCopyObject ref_copies (Some 0) ref_memory = (q, h')"
    by (cases "ObjectList_DeepCopyObject ref_copies (Some 0) ref_memory")
  have "{0, 1, 2, 3} \<subseteq> used ref_memory" by (simp add: ref_memory_def)
  from ObjectList_DeepCopyObject_separate [OF ref_libraryCopies ref_memory_rep this run] run show ?thesis by blast
qed

end
