(* ===== verification/Deep_Copy_V1alpha1.thy ===== *)
theory Deep_Copy_V1alpha1
  imports Deep_Copy
begin

text \<open>
  \<open>zz_generated.deepcopy.go\<close> of \<open>apis/cluster/object/v1alpha1\<close>: the structs that differ from those of the hub. What
  it shares with the hub is in \<open>Deep_Copy_V1alpha2\<close>.
\<close>

section \<open>v1alpha1\<close>

definition ResourceSpec_DeepCopyInto ::
  "('e, 'e apiCell) deepCopyLib \<Rightarrow> resourceSpecM \<Rightarrow> 'e apiCell heap \<Rightarrow> resourceSpecM \<times> 'e apiCell heap" where
  "ResourceSpec_DeepCopyInto D v h =
     (case copyPtr secretReferenceCell assign (rst_writeConnectionSecretToReference v) h of
        (w, h) \<Rightarrow>
          (case copyPtr libraryCell (dl_Reference D) (rst_providerConfigReference v) h of
             (c, h) \<Rightarrow>
               (case copyPtr libraryCell (dl_Reference D) (rst_providerReference v) h of
                  (p, h) \<Rightarrow>
                    (v\<lparr>rst_writeConnectionSecretToReference := w, rst_providerConfigReference := c,
                       rst_providerReference := p\<rparr>, h))))"

definition ResourceSpec_DeepCopy ::
  "('e, 'e apiCell) deepCopyLib \<Rightarrow> nat option \<Rightarrow> 'e apiCell heap \<Rightarrow> nat option \<times> 'e apiCell heap" where
  "ResourceSpec_DeepCopy D = copyPtr resourceSpecCell (ResourceSpec_DeepCopyInto D)"

definition ObjectParameters1_DeepCopyInto ::
  "('e, 'c) deepCopyLib \<Rightarrow> 'e parameters1T \<Rightarrow> 'c heap \<Rightarrow> 'e parameters1T \<times> 'c heap" where
  "ObjectParameters1_DeepCopyInto D v h =
     (case dl_RawExtension D (p1t_manifest v) h of (m, h) \<Rightarrow> (v\<lparr>p1t_manifest := m\<rparr>, h))"

definition ObjectParameters1_DeepCopy ::
  "('e, 'e apiCell) deepCopyLib \<Rightarrow> nat option \<Rightarrow> 'e apiCell heap \<Rightarrow> nat option \<times> 'e apiCell heap" where
  "ObjectParameters1_DeepCopy D = copyPtr parameters1Cell (ObjectParameters1_DeepCopyInto D)"

definition Readiness1_DeepCopyInto :: "readiness1T \<Rightarrow> 'e apiCell heap \<Rightarrow> readiness1T \<times> 'e apiCell heap" where
  "Readiness1_DeepCopyInto = assign"

definition Readiness1_DeepCopy :: "nat option \<Rightarrow> 'e apiCell heap \<Rightarrow> nat option \<times> 'e apiCell heap" where
  "Readiness1_DeepCopy = copyPtr readiness1Cell Readiness1_DeepCopyInto"

definition ObjectSpec1_DeepCopyInto ::
  "('e, 'e apiCell) deepCopyLib \<Rightarrow> 'e spec1M \<Rightarrow> 'e apiCell heap \<Rightarrow> 'e spec1M \<times> 'e apiCell heap" where
  "ObjectSpec1_DeepCopyInto D v h =
     (case ResourceSpec_DeepCopyInto D (s1t_resourceSpec v) h of
        (s, h) \<Rightarrow>
          (case copySlice connectionDetailsCell assign (s1t_connectionDetails v) h of
             (cds, h) \<Rightarrow>
               (case ObjectParameters1_DeepCopyInto D (s1t_forProvider v) h of
                  (p, h) \<Rightarrow>
                    (case copySlice referencesCell Reference_DeepCopyInto (s1t_references v) h of
                       (refs, h) \<Rightarrow>
                         (v\<lparr>s1t_resourceSpec := s, s1t_connectionDetails := cds, s1t_forProvider := p,
                            s1t_references := refs, s1t_readiness := s1t_readiness v\<rparr>, h)))))"

definition ObjectSpec1_DeepCopy ::
  "('e, 'e apiCell) deepCopyLib \<Rightarrow> nat option \<Rightarrow> 'e apiCell heap \<Rightarrow> nat option \<times> 'e apiCell heap" where
  "ObjectSpec1_DeepCopy D = copyPtr spec1Cell (ObjectSpec1_DeepCopyInto D)"

definition Object1_DeepCopyInto ::
  "('e, 'e apiCell) deepCopyLib \<Rightarrow> 'e object1M \<Rightarrow> 'e apiCell heap \<Rightarrow> 'e object1M \<times> 'e apiCell heap" where
  "Object1_DeepCopyInto D v h =
     (case dl_ObjectMeta D (ob1t_objectMeta v) h of
        (m, h) \<Rightarrow>
          (case ObjectSpec1_DeepCopyInto D (ob1t_spec v) h of
             (s, h) \<Rightarrow>
               (case ObjectStatus_DeepCopyInto D (ob1t_status v) h of
                  (t, h) \<Rightarrow>
                    (v\<lparr>ob1t_typeMeta := ob1t_typeMeta v, ob1t_objectMeta := m, ob1t_spec := s, ob1t_status := t\<rparr>, h))))"

definition Object1_DeepCopy ::
  "('e, 'e apiCell) deepCopyLib \<Rightarrow> nat option \<Rightarrow> 'e apiCell heap \<Rightarrow> nat option \<times> 'e apiCell heap" where
  "Object1_DeepCopy D = copyPtr object1Cell (Object1_DeepCopyInto D)"

definition Object1_DeepCopyObject ::
  "('e, 'e apiCell) deepCopyLib \<Rightarrow> nat option \<Rightarrow> 'e apiCell heap \<Rightarrow> nat option \<times> 'e apiCell heap" where
  "Object1_DeepCopyObject D p h = asObject (Object1_DeepCopy D p h)"

definition ObjectList1_DeepCopyInto ::
  "('e, 'e apiCell) deepCopyLib \<Rightarrow> 'e objectListM \<Rightarrow> 'e apiCell heap \<Rightarrow> 'e objectListM \<times> 'e apiCell heap" where
  "ObjectList1_DeepCopyInto D v h =
     (case dl_ListMeta D (olt_listMeta v) h of
        (m, h) \<Rightarrow>
          (case copySlice objects1Cell (Object1_DeepCopyInto D) (olt_items v) h of
             (is, h) \<Rightarrow> (v\<lparr>olt_typeMeta := olt_typeMeta v, olt_listMeta := m, olt_items := is\<rparr>, h)))"

definition ObjectList1_DeepCopy ::
  "('e, 'e apiCell) deepCopyLib \<Rightarrow> nat option \<Rightarrow> 'e apiCell heap \<Rightarrow> nat option \<times> 'e apiCell heap" where
  "ObjectList1_DeepCopy D = copyPtr objectList1Cell (ObjectList1_DeepCopyInto D)"

definition ObjectList1_DeepCopyObject ::
  "('e, 'e apiCell) deepCopyLib \<Rightarrow> nat option \<Rightarrow> 'e apiCell heap \<Rightarrow> nat option \<times> 'e apiCell heap" where
  "ObjectList1_DeepCopyObject D p h = asObject (ObjectList1_DeepCopy D p h)"

section \<open>What structs stand for\<close>

definition resourceSpecRep ::
  "('e apiCell heap \<Rightarrow> 'e \<Rightarrow> 'v \<Rightarrow> nat set \<Rightarrow> bool) \<Rightarrow> 'e apiCell heap \<Rightarrow> resourceSpecM \<Rightarrow> 'v resourceSpecV
     \<Rightarrow> nat set \<Rightarrow> bool" where
  "resourceSpecRep R h v x F \<longleftrightarrow>
     ptrRep secretReferenceCell valueRep h (rst_writeConnectionSecretToReference v)
       (rst_writeConnectionSecretToReference x) F \<and>
     ptrRep libraryCell R h (rst_providerConfigReference v) (rst_providerConfigReference x) F \<and>
     ptrRep libraryCell R h (rst_providerReference v) (rst_providerReference x) F \<and>
     rst_deletionPolicy x = rst_deletionPolicy v"

definition parameters1Rep ::
  "('c heap \<Rightarrow> 'e \<Rightarrow> 'v \<Rightarrow> nat set \<Rightarrow> bool) \<Rightarrow> 'c heap \<Rightarrow> 'e parameters1T \<Rightarrow> 'v parameters1T \<Rightarrow> nat set \<Rightarrow> bool" where
  "parameters1Rep R h v x F \<longleftrightarrow> R h (p1t_manifest v) (p1t_manifest x) F"

definition spec1Rep ::
  "('e apiCell heap \<Rightarrow> 'e \<Rightarrow> 'v \<Rightarrow> nat set \<Rightarrow> bool) \<Rightarrow> 'e apiCell heap \<Rightarrow> 'e spec1M \<Rightarrow> 'v spec1V \<Rightarrow> nat set \<Rightarrow> bool" where
  "spec1Rep R h v x F \<longleftrightarrow>
     resourceSpecRep R h (s1t_resourceSpec v) (s1t_resourceSpec x) F \<and>
     sliceRep connectionDetailsCell valueRep h (s1t_connectionDetails v) (s1t_connectionDetails x) F \<and>
     parameters1Rep R h (s1t_forProvider v) (s1t_forProvider x) F \<and>
     sliceRep referencesCell referenceRep h (s1t_references v) (s1t_references x) F \<and>
     s1t_managementPolicy x = s1t_managementPolicy v \<and> s1t_readiness x = s1t_readiness v \<and> s1t_watch x = s1t_watch v"

definition object1Rep ::
  "('e apiCell heap \<Rightarrow> 'e \<Rightarrow> 'v \<Rightarrow> nat set \<Rightarrow> bool) \<Rightarrow> 'e apiCell heap \<Rightarrow> 'e object1M \<Rightarrow> 'v object1V \<Rightarrow> nat set \<Rightarrow> bool" where
  "object1Rep R h v x F \<longleftrightarrow>
     R h (ob1t_objectMeta v) (ob1t_objectMeta x) F \<and> spec1Rep R h (ob1t_spec v) (ob1t_spec x) F \<and>
     statusRep R h (ob1t_status v) (ob1t_status x) F \<and> ob1t_typeMeta x = ob1t_typeMeta v"

definition objectList1Rep ::
  "('e apiCell heap \<Rightarrow> 'e \<Rightarrow> 'v \<Rightarrow> nat set \<Rightarrow> bool) \<Rightarrow> 'e apiCell heap \<Rightarrow> 'e objectListM \<Rightarrow> 'v objectList1V
     \<Rightarrow> nat set \<Rightarrow> bool" where
  "objectList1Rep R h v x F \<longleftrightarrow>
     R h (olt_listMeta v) (olt_listMeta x) F \<and>
     sliceRep objects1Cell (object1Rep R) h (olt_items v) (olt_items x) F \<and> olt_typeMeta x = olt_typeMeta v"

section \<open>Every copy keeps the contract\<close>

lemma ResourceSpec_deep:
  assumes "libraryCopies D R"
  shows "deep_copy (ResourceSpec_DeepCopyInto D) (resourceSpecRep R)"
  by (rule deep_copy_struct [where get = "\<lambda>v. (rst_writeConnectionSecretToReference v, rst_providerConfigReference v,
          rst_providerReference v)"
        and put = "\<lambda>v (w, c, p). v\<lparr>rst_writeConnectionSecretToReference := w, rst_providerConfigReference := c,
          rst_providerReference := p\<rparr>" and rest = rst_deletionPolicy
        and getx = "\<lambda>v. (rst_writeConnectionSecretToReference v, rst_providerConfigReference v, rst_providerReference v)"
        and restx = rst_deletionPolicy,
        OF deep_copy_pair [OF value_ptr [OF secretReferenceCell_law]
          deep_copy_pair [OF deep_copy_ptr [OF libraryCopiesD(7) [OF assms] libraryCell_law]
            deep_copy_ptr [OF libraryCopiesD(7) [OF assms] libraryCell_law]]]])
    (auto simp: ResourceSpec_DeepCopyInto_def resourceSpecRep_def struct_simps split: prod.splits)

lemma ObjectParameters1_deep:
  assumes "libraryCopies D R"
  shows "deep_copy (ObjectParameters1_DeepCopyInto D) (parameters1Rep R)"
  by (rule deep_copy_struct [where get = p1t_manifest and put = "\<lambda>v m. v\<lparr>p1t_manifest := m\<rparr>" and rest = "\<lambda>v. ()"
        and getx = p1t_manifest and restx = "\<lambda>x. ()", OF libraryCopiesD(3) [OF assms]])
    (simp_all add: ObjectParameters1_DeepCopyInto_def parameters1Rep_def)

lemma ObjectSpec1_deep:
  assumes "libraryCopies D R"
  shows "deep_copy (ObjectSpec1_DeepCopyInto D) (spec1Rep R)"
  by (rule deep_copy_struct [where
        get = "\<lambda>v. (s1t_resourceSpec v, s1t_connectionDetails v, s1t_forProvider v, s1t_references v)"
        and put = "\<lambda>v (s, c, p, r). v\<lparr>s1t_resourceSpec := s, s1t_connectionDetails := c, s1t_forProvider := p,
          s1t_references := r\<rparr>" and rest = "\<lambda>v. (s1t_managementPolicy v, s1t_readiness v, s1t_watch v)"
        and getx = "\<lambda>v. (s1t_resourceSpec v, s1t_connectionDetails v, s1t_forProvider v, s1t_references v)"
        and restx = "\<lambda>v. (s1t_managementPolicy v, s1t_readiness v, s1t_watch v)",
        OF deep_copy_pair [OF ResourceSpec_deep [OF assms]
          deep_copy_pair [OF deep_copy_ptr [OF deep_copy_list [OF deep_copy_assign] connectionDetailsCell_law]
          deep_copy_pair [OF ObjectParameters1_deep [OF assms]
            deep_copy_ptr [OF deep_copy_list [OF Reference_deep] referencesCell_law]]]]])
    (auto simp: ObjectSpec1_DeepCopyInto_def spec1Rep_def struct_simps split: prod.splits)

lemma Object1_deep:
  assumes "libraryCopies D R"
  shows "deep_copy (Object1_DeepCopyInto D) (object1Rep R)"
  by (rule deep_copy_struct [where get = "\<lambda>v. (ob1t_objectMeta v, ob1t_spec v, ob1t_status v)"
        and put = "\<lambda>v (m, s, t). v\<lparr>ob1t_objectMeta := m, ob1t_spec := s, ob1t_status := t\<rparr>" and rest = ob1t_typeMeta
        and getx = "\<lambda>v. (ob1t_objectMeta v, ob1t_spec v, ob1t_status v)" and restx = ob1t_typeMeta,
        OF deep_copy_pair [OF libraryCopiesD(1) [OF assms]
          deep_copy_pair [OF ObjectSpec1_deep [OF assms] ObjectStatus_deep [OF assms]]]])
    (auto simp: Object1_DeepCopyInto_def object1Rep_def struct_simps split: prod.splits)

lemma ObjectList1_deep:
  assumes "libraryCopies D R"
  shows "deep_copy (ObjectList1_DeepCopyInto D) (objectList1Rep R)"
  by (rule deep_copy_struct [where get = "\<lambda>v. (olt_listMeta v, olt_items v)"
        and put = "\<lambda>v (m, i). v\<lparr>olt_listMeta := m, olt_items := i\<rparr>" and rest = olt_typeMeta
        and getx = "\<lambda>v. (olt_listMeta v, olt_items v)" and restx = olt_typeMeta,
        OF deep_copy_pair [OF libraryCopiesD(2) [OF assms]
          deep_copy_ptr [OF deep_copy_list [OF Object1_deep [OF assms]] objects1Cell_law]]])
    (auto simp: ObjectList1_DeepCopyInto_def objectList1Rep_def struct_simps split: prod.splits)

end
