(* ===== verification/Deep_Copy_V1alpha2.thy ===== *)
theory Deep_Copy_V1alpha2
  imports Deep_Copy_V1alpha1
begin

text \<open>
  \<open>apis/cluster/object/v1alpha2\<close>, the hub version of the cluster-scoped Object: its structs have the fields of the
  namespaced ones, but the common spec is \<open>ClusterManagedResourceSpec\<close>, and its \<open>zz_generated.deepcopy.go\<close> calls that
  struct's \<open>DeepCopyInto\<close>. The structs that \<open>apis/cluster/object/v1alpha1\<close> shares with the hub are here too.
\<close>

section \<open>Structs of v1alpha2\<close>

type_synonym dependsOn_v1alpha2 = dependsOn
type_synonym patchesFrom_v1alpha2 = patchesFromM
type_synonym reference_v1alpha2 = referenceM
type_synonym 'e objectParameters_v1alpha2 = "'e parametersT"
type_synonym 'e objectObservation_v1alpha2 = "'e observationT"
type_synonym 'e objectSpec_v1alpha2 = "'e specM"
type_synonym readiness_v1alpha2 = readiness
type_synonym connectionDetail_v1alpha2 = connectionDetail
type_synonym 'e objectStatus_v1alpha2 = "'e statusT"
type_synonym 'e object_v1alpha2 = "'e objectM"
type_synonym 'e objectList_v1alpha2 = "'e objectListM"

section \<open>Copies of v1alpha2\<close>

text \<open>The copies of the hub where the common spec is the cluster-scoped one.\<close>

definition clusterLib :: "('e, 'c) deepCopyLib \<Rightarrow> ('e, 'c) deepCopyLib" where
  "clusterLib D = D\<lparr>dl_ManagedResourceSpec := dl_ClusterManagedResourceSpec D\<rparr>"

lemma clusterLib_copies: "libraryCopies D R \<Longrightarrow> libraryCopies (clusterLib D) R"
  by (simp add: libraryCopies_def clusterLib_def)

definition ConnectionDetail_DeepCopyInto_v1alpha2 ::
  "connectionDetail_v1alpha2 \<Rightarrow> 'e apiCell heap \<Rightarrow> connectionDetail_v1alpha2 \<times> 'e apiCell heap" where
  "ConnectionDetail_DeepCopyInto_v1alpha2 = ConnectionDetail_DeepCopyInto"

definition ConnectionDetail_DeepCopy_v1alpha2 ::
  "nat option \<Rightarrow> 'e apiCell heap \<Rightarrow> nat option \<times> 'e apiCell heap" where
  "ConnectionDetail_DeepCopy_v1alpha2 = ConnectionDetail_DeepCopy"

definition DependsOn_DeepCopyInto_v1alpha2 ::
  "dependsOn_v1alpha2 \<Rightarrow> 'e apiCell heap \<Rightarrow> dependsOn_v1alpha2 \<times> 'e apiCell heap" where
  "DependsOn_DeepCopyInto_v1alpha2 = DependsOn_DeepCopyInto"

definition DependsOn_DeepCopy_v1alpha2 ::
  "nat option \<Rightarrow> 'e apiCell heap \<Rightarrow> nat option \<times> 'e apiCell heap" where
  "DependsOn_DeepCopy_v1alpha2 = DependsOn_DeepCopy"

definition PatchesFrom_DeepCopyInto_v1alpha2 ::
  "patchesFrom_v1alpha2 \<Rightarrow> 'e apiCell heap \<Rightarrow> patchesFrom_v1alpha2 \<times> 'e apiCell heap" where
  "PatchesFrom_DeepCopyInto_v1alpha2 = PatchesFrom_DeepCopyInto"

definition PatchesFrom_DeepCopy_v1alpha2 ::
  "nat option \<Rightarrow> 'e apiCell heap \<Rightarrow> nat option \<times> 'e apiCell heap" where
  "PatchesFrom_DeepCopy_v1alpha2 = PatchesFrom_DeepCopy"

definition Readiness_DeepCopyInto_v1alpha2 ::
  "readiness_v1alpha2 \<Rightarrow> 'e apiCell heap \<Rightarrow> readiness_v1alpha2 \<times> 'e apiCell heap" where
  "Readiness_DeepCopyInto_v1alpha2 = Readiness_DeepCopyInto"

definition Readiness_DeepCopy_v1alpha2 ::
  "nat option \<Rightarrow> 'e apiCell heap \<Rightarrow> nat option \<times> 'e apiCell heap" where
  "Readiness_DeepCopy_v1alpha2 = Readiness_DeepCopy"

definition Reference_DeepCopyInto_v1alpha2 ::
  "reference_v1alpha2 \<Rightarrow> 'e apiCell heap \<Rightarrow> reference_v1alpha2 \<times> 'e apiCell heap" where
  "Reference_DeepCopyInto_v1alpha2 = Reference_DeepCopyInto"

definition Reference_DeepCopy_v1alpha2 ::
  "nat option \<Rightarrow> 'e apiCell heap \<Rightarrow> nat option \<times> 'e apiCell heap" where
  "Reference_DeepCopy_v1alpha2 = Reference_DeepCopy"

definition ObjectParameters_DeepCopyInto_v1alpha2 ::
  "('e, 'e apiCell) deepCopyLib \<Rightarrow> 'e objectParameters_v1alpha2
     \<Rightarrow> 'e apiCell heap \<Rightarrow> 'e objectParameters_v1alpha2 \<times> 'e apiCell heap" where
  "ObjectParameters_DeepCopyInto_v1alpha2 D = ObjectParameters_DeepCopyInto (clusterLib D)"

definition ObjectParameters_DeepCopy_v1alpha2 ::
  "('e, 'e apiCell) deepCopyLib \<Rightarrow> nat option \<Rightarrow> 'e apiCell heap \<Rightarrow> nat option \<times> 'e apiCell heap" where
  "ObjectParameters_DeepCopy_v1alpha2 D = ObjectParameters_DeepCopy (clusterLib D)"

definition ObjectObservation_DeepCopyInto_v1alpha2 ::
  "('e, 'e apiCell) deepCopyLib \<Rightarrow> 'e objectObservation_v1alpha2
     \<Rightarrow> 'e apiCell heap \<Rightarrow> 'e objectObservation_v1alpha2 \<times> 'e apiCell heap" where
  "ObjectObservation_DeepCopyInto_v1alpha2 D = ObjectObservation_DeepCopyInto (clusterLib D)"

definition ObjectObservation_DeepCopy_v1alpha2 ::
  "('e, 'e apiCell) deepCopyLib \<Rightarrow> nat option \<Rightarrow> 'e apiCell heap \<Rightarrow> nat option \<times> 'e apiCell heap" where
  "ObjectObservation_DeepCopy_v1alpha2 D = ObjectObservation_DeepCopy (clusterLib D)"

definition ObjectSpec_DeepCopyInto_v1alpha2 ::
  "('e, 'e apiCell) deepCopyLib \<Rightarrow> 'e objectSpec_v1alpha2
     \<Rightarrow> 'e apiCell heap \<Rightarrow> 'e objectSpec_v1alpha2 \<times> 'e apiCell heap" where
  "ObjectSpec_DeepCopyInto_v1alpha2 D = ObjectSpec_DeepCopyInto (clusterLib D)"

definition ObjectSpec_DeepCopy_v1alpha2 ::
  "('e, 'e apiCell) deepCopyLib \<Rightarrow> nat option \<Rightarrow> 'e apiCell heap \<Rightarrow> nat option \<times> 'e apiCell heap" where
  "ObjectSpec_DeepCopy_v1alpha2 D = ObjectSpec_DeepCopy (clusterLib D)"

definition ObjectStatus_DeepCopyInto_v1alpha2 ::
  "('e, 'e apiCell) deepCopyLib \<Rightarrow> 'e objectStatus_v1alpha2
     \<Rightarrow> 'e apiCell heap \<Rightarrow> 'e objectStatus_v1alpha2 \<times> 'e apiCell heap" where
  "ObjectStatus_DeepCopyInto_v1alpha2 D = ObjectStatus_DeepCopyInto (clusterLib D)"

definition ObjectStatus_DeepCopy_v1alpha2 ::
  "('e, 'e apiCell) deepCopyLib \<Rightarrow> nat option \<Rightarrow> 'e apiCell heap \<Rightarrow> nat option \<times> 'e apiCell heap" where
  "ObjectStatus_DeepCopy_v1alpha2 D = ObjectStatus_DeepCopy (clusterLib D)"

definition Object_DeepCopyInto_v1alpha2 ::
  "('e, 'e apiCell) deepCopyLib \<Rightarrow> 'e object_v1alpha2
     \<Rightarrow> 'e apiCell heap \<Rightarrow> 'e object_v1alpha2 \<times> 'e apiCell heap" where
  "Object_DeepCopyInto_v1alpha2 D = Object_DeepCopyInto (clusterLib D)"

definition Object_DeepCopy_v1alpha2 ::
  "('e, 'e apiCell) deepCopyLib \<Rightarrow> nat option \<Rightarrow> 'e apiCell heap \<Rightarrow> nat option \<times> 'e apiCell heap" where
  "Object_DeepCopy_v1alpha2 D = Object_DeepCopy (clusterLib D)"

definition ObjectList_DeepCopyInto_v1alpha2 ::
  "('e, 'e apiCell) deepCopyLib \<Rightarrow> 'e objectList_v1alpha2
     \<Rightarrow> 'e apiCell heap \<Rightarrow> 'e objectList_v1alpha2 \<times> 'e apiCell heap" where
  "ObjectList_DeepCopyInto_v1alpha2 D = ObjectList_DeepCopyInto (clusterLib D)"

definition ObjectList_DeepCopy_v1alpha2 ::
  "('e, 'e apiCell) deepCopyLib \<Rightarrow> nat option \<Rightarrow> 'e apiCell heap \<Rightarrow> nat option \<times> 'e apiCell heap" where
  "ObjectList_DeepCopy_v1alpha2 D = ObjectList_DeepCopy (clusterLib D)"

definition Object_DeepCopyObject_v1alpha2 ::
  "('e, 'e apiCell) deepCopyLib \<Rightarrow> nat option \<Rightarrow> 'e apiCell heap \<Rightarrow> nat option \<times> 'e apiCell heap" where
  "Object_DeepCopyObject_v1alpha2 D = Object_DeepCopyObject (clusterLib D)"

definition ObjectList_DeepCopyObject_v1alpha2 ::
  "('e, 'e apiCell) deepCopyLib \<Rightarrow> nat option \<Rightarrow> 'e apiCell heap \<Rightarrow> nat option \<times> 'e apiCell heap" where
  "ObjectList_DeepCopyObject_v1alpha2 D = ObjectList_DeepCopyObject (clusterLib D)"

lemma ObjectList_deep_v1alpha2:
  "libraryCopies D R \<Longrightarrow> deep_copy (ObjectList_DeepCopyInto_v1alpha2 D) (objectListRep R)"
  unfolding ObjectList_DeepCopyInto_v1alpha2_def by (rule ObjectList_deep [OF clusterLib_copies])

section \<open>Copies that v1alpha1 shares with the hub\<close>

definition ConnectionDetail_DeepCopyInto_v1alpha1 ::
  "connectionDetail \<Rightarrow> 'e apiCell heap \<Rightarrow> connectionDetail \<times> 'e apiCell heap" where
  "ConnectionDetail_DeepCopyInto_v1alpha1 = ConnectionDetail_DeepCopyInto"

definition ConnectionDetail_DeepCopy_v1alpha1 ::
  "nat option \<Rightarrow> 'e apiCell heap \<Rightarrow> nat option \<times> 'e apiCell heap" where
  "ConnectionDetail_DeepCopy_v1alpha1 = ConnectionDetail_DeepCopy"

definition DependsOn_DeepCopyInto_v1alpha1 ::
  "dependsOn \<Rightarrow> 'e apiCell heap \<Rightarrow> dependsOn \<times> 'e apiCell heap" where
  "DependsOn_DeepCopyInto_v1alpha1 = DependsOn_DeepCopyInto"

definition DependsOn_DeepCopy_v1alpha1 ::
  "nat option \<Rightarrow> 'e apiCell heap \<Rightarrow> nat option \<times> 'e apiCell heap" where
  "DependsOn_DeepCopy_v1alpha1 = DependsOn_DeepCopy"

definition PatchesFrom_DeepCopyInto_v1alpha1 ::
  "patchesFromM \<Rightarrow> 'e apiCell heap \<Rightarrow> patchesFromM \<times> 'e apiCell heap" where
  "PatchesFrom_DeepCopyInto_v1alpha1 = PatchesFrom_DeepCopyInto"

definition PatchesFrom_DeepCopy_v1alpha1 ::
  "nat option \<Rightarrow> 'e apiCell heap \<Rightarrow> nat option \<times> 'e apiCell heap" where
  "PatchesFrom_DeepCopy_v1alpha1 = PatchesFrom_DeepCopy"

definition Reference_DeepCopyInto_v1alpha1 ::
  "referenceM \<Rightarrow> 'e apiCell heap \<Rightarrow> referenceM \<times> 'e apiCell heap" where
  "Reference_DeepCopyInto_v1alpha1 = Reference_DeepCopyInto"

definition Reference_DeepCopy_v1alpha1 ::
  "nat option \<Rightarrow> 'e apiCell heap \<Rightarrow> nat option \<times> 'e apiCell heap" where
  "Reference_DeepCopy_v1alpha1 = Reference_DeepCopy"

definition ObjectObservation_DeepCopyInto_v1alpha1 ::
  "('e, 'e apiCell) deepCopyLib \<Rightarrow> 'e observationT
     \<Rightarrow> 'e apiCell heap \<Rightarrow> 'e observationT \<times> 'e apiCell heap" where
  "ObjectObservation_DeepCopyInto_v1alpha1 = ObjectObservation_DeepCopyInto"

definition ObjectObservation_DeepCopy_v1alpha1 ::
  "('e, 'e apiCell) deepCopyLib \<Rightarrow> nat option \<Rightarrow> 'e apiCell heap \<Rightarrow> nat option \<times> 'e apiCell heap" where
  "ObjectObservation_DeepCopy_v1alpha1 = ObjectObservation_DeepCopy"

definition ObjectStatus_DeepCopyInto_v1alpha1 ::
  "('e, 'e apiCell) deepCopyLib \<Rightarrow> 'e statusT
     \<Rightarrow> 'e apiCell heap \<Rightarrow> 'e statusT \<times> 'e apiCell heap" where
  "ObjectStatus_DeepCopyInto_v1alpha1 = ObjectStatus_DeepCopyInto"

definition ObjectStatus_DeepCopy_v1alpha1 ::
  "('e, 'e apiCell) deepCopyLib \<Rightarrow> nat option \<Rightarrow> 'e apiCell heap \<Rightarrow> nat option \<times> 'e apiCell heap" where
  "ObjectStatus_DeepCopy_v1alpha1 = ObjectStatus_DeepCopy"

end
