(* ===== verification/Deep_Copy_Collection.thy ===== *)
theory Deep_Copy_Collection
  imports Deep_Copy "HOL-Library.AList"
begin

text \<open>
  The deep copies of \<open>apis/namespaced/observedobjectcollection/v1alpha1\<close> and of its cluster-scoped
      twin: the
  collection with its criteria, its template of labels and annotations, its status with the membership label, and
  the list of collections.
\<close>

section \<open>Structs\<close>

text \<open>The selector is the API machinery's \<open>LabelSelector\<close>.\<close>

record 'e criteriaT =
  crit_apiVersion :: string
  crit_kind :: string
  crit_namespace :: string
  crit_selector :: 'e

text \<open>The maps: addresses in memory, and what they lead to in the value.\<close>

record 'm templateMetadataT =
  tmt_labels :: 'm
  tmt_annotations :: 'm

record 'm templateT =
  tt_metadata :: "'m templateMetadataT"

text \<open>
  The reference to the provider config, \<open>'r\<close>: crossplane's \<open>ProviderConfigReference\<close>,
      which has no pointers, for the
  namespaced collections, and its \<open>Reference\<close>, which has, for the cluster-scoped ones.
\<close>

record ('e, 'r, 'tpl) collectionSpecT =
  cst_observeObjects :: "'e criteriaT"
  cst_providerConfigReference :: 'r
  cst_template :: 'tpl

record ('e, 'm) collectionStatusT =
  cstt_resourceStatus :: 'e
  cstt_membershipLabel :: 'm

record ('e, 'r, 'tpl, 'm) collectionT =
  ct_typeMeta :: typeMeta
  ct_objectMeta :: 'e
  ct_spec :: "('e, 'r, 'tpl) collectionSpecT"
  ct_status :: "('e, 'm) collectionStatusT"

record ('e, 'items) collectionListT =
  clt_typeMeta :: typeMeta
  clt_listMeta :: 'e
  clt_items :: 'items

record observedObjectReferenceT =
  oort_name :: string

type_synonym templateMetadataM = "nat option templateMetadataT"
type_synonym templateM = "nat option templateT"
type_synonym ('e, 'r) collectionSpecM = "('e, 'r, nat option) collectionSpecT"
type_synonym 'e collectionStatusM = "('e, nat option) collectionStatusT"
type_synonym ('e, 'r) collectionM = "('e, 'r, nat option, nat option) collectionT"
type_synonym 'e collectionListM = "('e, nat option) collectionListT"

text \<open>A map in memory is its entries in the order in which \<open>range\<close> gives them; in the value it
    is nil or a map.\<close>

type_synonym entries = "(string \<times> string) list"
type_synonym labelsV = "(string \<rightharpoonup> string) option"
type_synonym templateMetadataV = "labelsV templateMetadataT"
type_synonym templateV = "labelsV templateT"
type_synonym ('v, 'q) collectionSpecV = "('v, 'q, templateV option) collectionSpecT"
type_synonym 'v collectionStatusV = "('v, labelsV) collectionStatusT"
type_synonym ('v, 'q) collectionV = "('v, 'q, templateV option, labelsV) collectionT"
type_synonym ('v, 'q) collectionListV = "('v, ('v, 'q) collectionV list option) collectionListT"

text \<open>The types of the cluster scope declare the same fields, but for the reference.\<close>

type_synonym 'e criteriaT_cluster = "'e criteriaT"
type_synonym templateMetadataM_cluster = templateMetadataM
type_synonym templateM_cluster = templateM
type_synonym 'e collectionSpecM_cluster = "('e, 'e) collectionSpecM"
type_synonym 'e collectionStatusM_cluster = "'e collectionStatusM"
type_synonym 'e collectionM_cluster = "('e, 'e) collectionM"
type_synonym 'e collectionListM_cluster = "'e collectionListM"
type_synonym observedObjectReferenceT_cluster = observedObjectReferenceT

section \<open>Cells\<close>

datatype ('e, 'r) collectionMem =
    LabelsCell entries
  | CriteriaCell "'e criteriaT"
  | TemplateMetadataCell templateMetadataM
  | TemplateCell templateM
  | CollectionSpecCell "('e, 'r) collectionSpecM"
  | CollectionStatusCell "'e collectionStatusM"
  | CollectionCell "('e, 'r) collectionM"
  | CollectionsCell "('e, 'r) collectionM list"
  | CollectionListCell "'e collectionListM"
  | ObservedReferenceCell observedObjectReferenceT

definition labelsCell :: "(('e, 'r) collectionMem, entries) cellType" where
  "labelsCell = \<lparr>ct_make = LabelsCell, ct_load = \<lambda>c. case c of LabelsCell v \<Rightarrow> Some v | _
      \<Rightarrow> None\<rparr>"

definition criteriaCell :: "(('e, 'r) collectionMem, 'e criteriaT) cellType" where
  "criteriaCell = \<lparr>ct_make = CriteriaCell, ct_load = \<lambda>c. case c of CriteriaCell v \<Rightarrow> Some
      v | _ \<Rightarrow> None\<rparr>"

definition templateMetadataCell :: "(('e, 'r) collectionMem, templateMetadataM) cellType" where
  "templateMetadataCell = \<lparr>ct_make = TemplateMetadataCell, ct_load = \<lambda>c. case c of
      TemplateMetadataCell v \<Rightarrow> Some v | _ \<Rightarrow> None\<rparr>"

definition templateCell :: "(('e, 'r) collectionMem, templateM) cellType" where
  "templateCell = \<lparr>ct_make = TemplateCell, ct_load = \<lambda>c. case c of TemplateCell v \<Rightarrow> Some
      v | _ \<Rightarrow> None\<rparr>"

definition collectionSpecCell :: "(('e, 'r) collectionMem, ('e, 'r) collectionSpecM) cellType" where
  "collectionSpecCell = \<lparr>ct_make = CollectionSpecCell, ct_load = \<lambda>c. case c of CollectionSpecCell v
      \<Rightarrow> Some v | _ \<Rightarrow> None\<rparr>"

definition collectionStatusCell :: "(('e, 'r) collectionMem, 'e collectionStatusM) cellType" where
  "collectionStatusCell = \<lparr>ct_make = CollectionStatusCell, ct_load = \<lambda>c. case c of
      CollectionStatusCell v \<Rightarrow> Some v | _ \<Rightarrow> None\<rparr>"

definition collectionCell :: "(('e, 'r) collectionMem, ('e, 'r) collectionM) cellType" where
  "collectionCell = \<lparr>ct_make = CollectionCell, ct_load = \<lambda>c. case c of CollectionCell v
      \<Rightarrow> Some v | _ \<Rightarrow> None\<rparr>"

definition collectionsCell :: "(('e, 'r) collectionMem, ('e, 'r) collectionM list) cellType" where
  "collectionsCell = \<lparr>ct_make = CollectionsCell, ct_load = \<lambda>c. case c of CollectionsCell v
      \<Rightarrow> Some v | _ \<Rightarrow> None\<rparr>"

definition collectionListCell :: "(('e, 'r) collectionMem, 'e collectionListM) cellType" where
  "collectionListCell = \<lparr>ct_make = CollectionListCell, ct_load = \<lambda>c. case c of CollectionListCell v
      \<Rightarrow> Some v | _ \<Rightarrow> None\<rparr>"

definition observedReferenceCell :: "(('e, 'r) collectionMem, observedObjectReferenceT) cellType" where
  "observedReferenceCell = \<lparr>ct_make = ObservedReferenceCell, ct_load = \<lambda>c. case c of
      ObservedReferenceCell v \<Rightarrow> Some v | _ \<Rightarrow> None\<rparr>"

lemma labelsCell_law [simp]: "cellLaw labelsCell"
  by (simp add: cellLaw_def labelsCell_def)

lemma criteriaCell_law [simp]: "cellLaw criteriaCell"
  by (simp add: cellLaw_def criteriaCell_def)

lemma templateMetadataCell_law [simp]: "cellLaw templateMetadataCell"
  by (simp add: cellLaw_def templateMetadataCell_def)

lemma templateCell_law [simp]: "cellLaw templateCell"
  by (simp add: cellLaw_def templateCell_def)

lemma collectionSpecCell_law [simp]: "cellLaw collectionSpecCell"
  by (simp add: cellLaw_def collectionSpecCell_def)

lemma collectionStatusCell_law [simp]: "cellLaw collectionStatusCell"
  by (simp add: cellLaw_def collectionStatusCell_def)

lemma collectionCell_law [simp]: "cellLaw collectionCell"
  by (simp add: cellLaw_def collectionCell_def)

lemma collectionsCell_law [simp]: "cellLaw collectionsCell"
  by (simp add: cellLaw_def collectionsCell_def)

lemma collectionListCell_law [simp]: "cellLaw collectionListCell"
  by (simp add: cellLaw_def collectionListCell_def)

lemma observedReferenceCell_law [simp]: "cellLaw observedReferenceCell"
  by (simp add: cellLaw_def observedReferenceCell_def)

section \<open>Maps\<close>

text \<open>\<open>make\<close> and one assignment per entry.\<close>

fun copyEntries :: "entries \<Rightarrow> entries \<Rightarrow> entries" where
  "copyEntries [] m = m"
| "copyEntries ((k, v) # kvs) m = copyEntries kvs (AList.update k v m)"

definition copyMap :: "entries \<Rightarrow> 'c heap \<Rightarrow> entries \<times> 'c heap" where
  "copyMap kvs h = (copyEntries kvs [], h)"

definition entriesRep :: "'c heap \<Rightarrow> entries \<Rightarrow> (string \<rightharpoonup> string)
    \<Rightarrow> nat set \<Rightarrow> bool" where
  "entriesRep h kvs m F \<longleftrightarrow> distinct (map fst kvs) \<and> m = map_of kvs"

lemma copyEntries_map_of:
  "distinct (map fst kvs) \<Longrightarrow> map_of (copyEntries kvs m) = map_of m ++ map_of kvs"
proof (induction kvs m rule: copyEntries.induct)
  case (2 k v kvs m)
  then have "map_of kvs k = None" by (simp add: map_of_eq_None_iff)
  with 2 show ?case by (auto simp: update_conv' map_add_def fun_eq_iff split: option.splits)
qed simp

lemma copyEntries_distinct: "distinct (map fst m) \<Longrightarrow> distinct (map fst (copyEntries kvs m))"
  by (induction kvs m rule: copyEntries.induct) (auto simp: distinct_update)

lemma deep_copy_map: "deep_copy copyMap entriesRep"
  by unfold_locales (auto simp: copyMap_def entriesRep_def copyEntries_map_of copyEntries_distinct)

abbreviation labelsCopy :: "nat option \<Rightarrow> ('e, 'r) collectionMem heap \<Rightarrow> nat option \<times>
    ('e, 'r) collectionMem heap" where
  "labelsCopy \<equiv> copyPtr labelsCell copyMap"

abbreviation labelsRep :: "('e, 'r) collectionMem heap \<Rightarrow> nat option \<Rightarrow> labelsV \<Rightarrow>
    nat set \<Rightarrow> bool" where
  "labelsRep \<equiv> ptrRep labelsCell entriesRep"

interpretation labels_copy: stored_copy copyMap entriesRep labelsCell
  by (rule stored_copyI [OF deep_copy_map labelsCell_law])

lemmas labels_deep = labels_copy.ptr.deep_copy_axioms

section \<open>Criteria, template, status\<close>

definition ObserveObjectCriteria_DeepCopyInto ::
  "('e, ('e, 'r) collectionMem) deepCopyLib \<Rightarrow> 'e criteriaT \<Rightarrow> ('e, 'r) collectionMem heap
      \<Rightarrow> 'e criteriaT \<times> ('e, 'r) collectionMem heap" where
  "ObserveObjectCriteria_DeepCopyInto D v h =
     (case dl_LabelSelector D (crit_selector v) h of
        (s, h) \<Rightarrow>
          (v\<lparr>crit_selector := s\<rparr>, h))"

definition ObserveObjectCriteria_DeepCopy ::
  "('e, ('e, 'r) collectionMem) deepCopyLib \<Rightarrow> nat option \<Rightarrow> ('e, 'r) collectionMem heap
      \<Rightarrow> nat option \<times> ('e, 'r) collectionMem heap" where
  "ObserveObjectCriteria_DeepCopy D = copyPtr criteriaCell (ObserveObjectCriteria_DeepCopyInto D)"

definition ObservedObjectTemplateMetadata_DeepCopyInto ::
  "templateMetadataM \<Rightarrow> ('e, 'r) collectionMem heap \<Rightarrow> templateMetadataM \<times> ('e, 'r)
      collectionMem heap" where
  "ObservedObjectTemplateMetadata_DeepCopyInto v h =
     (case labelsCopy (tmt_labels v) h of
        (l, h) \<Rightarrow>
          (case labelsCopy (tmt_annotations v) h of
             (a, h) \<Rightarrow>
               (v\<lparr>tmt_labels := l, tmt_annotations := a\<rparr>, h)))"

definition ObservedObjectTemplateMetadata_DeepCopy ::
  "nat option \<Rightarrow> ('e, 'r) collectionMem heap \<Rightarrow> nat option \<times> ('e, 'r) collectionMem
      heap" where
  "ObservedObjectTemplateMetadata_DeepCopy = copyPtr templateMetadataCell
      ObservedObjectTemplateMetadata_DeepCopyInto"

definition ObservedObjectTemplate_DeepCopyInto ::
  "templateM \<Rightarrow> ('e, 'r) collectionMem heap \<Rightarrow> templateM \<times> ('e, 'r) collectionMem
      heap" where
  "ObservedObjectTemplate_DeepCopyInto v h =
     (case ObservedObjectTemplateMetadata_DeepCopyInto (tt_metadata v) h of
        (m, h) \<Rightarrow>
          (v\<lparr>tt_metadata := m\<rparr>, h))"

definition ObservedObjectTemplate_DeepCopy ::
  "nat option \<Rightarrow> ('e, 'r) collectionMem heap \<Rightarrow> nat option \<times> ('e, 'r) collectionMem
      heap" where
  "ObservedObjectTemplate_DeepCopy = copyPtr templateCell ObservedObjectTemplate_DeepCopyInto"

definition ObservedObjectCollectionStatus_DeepCopyInto ::
  "('e, ('e, 'r) collectionMem) deepCopyLib \<Rightarrow> 'e collectionStatusM \<Rightarrow> ('e, 'r) collectionMem
      heap \<Rightarrow> 'e collectionStatusM \<times> ('e, 'r) collectionMem heap" where
  "ObservedObjectCollectionStatus_DeepCopyInto D v h =
     (case dl_ManagedResourceStatus D (cstt_resourceStatus v) h of
        (s, h) \<Rightarrow>
          (case labelsCopy (cstt_membershipLabel v) h of
             (l, h) \<Rightarrow>
               (v\<lparr>cstt_resourceStatus := s, cstt_membershipLabel := l\<rparr>, h)))"

definition ObservedObjectCollectionStatus_DeepCopy ::
  "('e, ('e, 'r) collectionMem) deepCopyLib \<Rightarrow> nat option \<Rightarrow> ('e, 'r) collectionMem heap
      \<Rightarrow> nat option \<times> ('e, 'r) collectionMem heap" where
  "ObservedObjectCollectionStatus_DeepCopy D = copyPtr collectionStatusCell
      (ObservedObjectCollectionStatus_DeepCopyInto D)"

definition ObservedObjectReference_DeepCopyInto ::
  "observedObjectReferenceT \<Rightarrow> ('e, 'r) collectionMem heap \<Rightarrow> observedObjectReferenceT
      \<times> ('e, 'r) collectionMem heap" where
  "ObservedObjectReference_DeepCopyInto = assign"

definition ObservedObjectReference_DeepCopy ::
  "nat option \<Rightarrow> ('e, 'r) collectionMem heap \<Rightarrow> nat option \<times> ('e, 'r) collectionMem
      heap" where
  "ObservedObjectReference_DeepCopy = copyPtr observedReferenceCell ObservedObjectReference_DeepCopyInto"

section \<open>Collections\<close>

text \<open>With the copy of the reference to the provider config, an assignment or crossplane's
    \<open>DeepCopyInto\<close>.\<close>

definition collectionSpecInto ::
  "('r \<Rightarrow> ('e, 'r) collectionMem heap \<Rightarrow> 'r \<times> ('e, 'r) collectionMem heap)
      \<Rightarrow> ('e, ('e, 'r) collectionMem) deepCopyLib \<Rightarrow> ('e, 'r) collectionSpecM \<Rightarrow>
      ('e, 'r) collectionMem heap \<Rightarrow> ('e, 'r) collectionSpecM \<times> ('e, 'r) collectionMem heap" where
  "collectionSpecInto c D v h =
     (case ObserveObjectCriteria_DeepCopyInto D (cst_observeObjects v) h of
        (b, h) \<Rightarrow>
          (case c (cst_providerConfigReference v) h of
             (r, h) \<Rightarrow>
               (case copyPtr templateCell ObservedObjectTemplate_DeepCopyInto (cst_template v) h of
                  (t, h) \<Rightarrow>
                    (v\<lparr>cst_observeObjects := b, cst_providerConfigReference := r, cst_template := t\<rparr>,
                        h))))"

definition collectionInto ::
  "('r \<Rightarrow> ('e, 'r) collectionMem heap \<Rightarrow> 'r \<times> ('e, 'r) collectionMem heap)
      \<Rightarrow> ('e, ('e, 'r) collectionMem) deepCopyLib \<Rightarrow> ('e, 'r) collectionM \<Rightarrow> ('e,
      'r) collectionMem heap \<Rightarrow> ('e, 'r) collectionM \<times> ('e, 'r) collectionMem heap" where
  "collectionInto c D v h =
     (case dl_ObjectMeta D (ct_objectMeta v) h of
        (m, h) \<Rightarrow>
          (case collectionSpecInto c D (ct_spec v) h of
             (s, h) \<Rightarrow>
               (case ObservedObjectCollectionStatus_DeepCopyInto D (ct_status v) h of
                  (t, h) \<Rightarrow>
                    (v\<lparr>ct_objectMeta := m, ct_spec := s, ct_status := t, ct_typeMeta := ct_typeMeta
                        v\<rparr>, h))))"

definition collectionListInto ::
  "('r \<Rightarrow> ('e, 'r) collectionMem heap \<Rightarrow> 'r \<times> ('e, 'r) collectionMem heap)
      \<Rightarrow> ('e, ('e, 'r) collectionMem) deepCopyLib \<Rightarrow> 'e collectionListM \<Rightarrow> ('e,
      'r) collectionMem heap \<Rightarrow> 'e collectionListM \<times> ('e, 'r) collectionMem heap" where
  "collectionListInto c D v h =
     (case dl_ListMeta D (clt_listMeta v) h of
        (m, h) \<Rightarrow>
          (case copySlice collectionsCell (collectionInto c D) (clt_items v) h of
             (i, h) \<Rightarrow>
               (v\<lparr>clt_listMeta := m, clt_items := i, clt_typeMeta := clt_typeMeta v\<rparr>, h)))"

definition ObservedObjectCollectionSpec_DeepCopyInto ::
  "('e, ('e, 'r) collectionMem) deepCopyLib \<Rightarrow> ('e, 'r) collectionSpecM \<Rightarrow> ('e, 'r)
      collectionMem heap \<Rightarrow> ('e, 'r) collectionSpecM \<times> ('e, 'r) collectionMem heap" where
  "ObservedObjectCollectionSpec_DeepCopyInto D = collectionSpecInto assign D"

definition ObservedObjectCollectionSpec_DeepCopy ::
  "('e, ('e, 'r) collectionMem) deepCopyLib \<Rightarrow> nat option \<Rightarrow> ('e, 'r) collectionMem heap
      \<Rightarrow> nat option \<times> ('e, 'r) collectionMem heap" where
  "ObservedObjectCollectionSpec_DeepCopy D = copyPtr collectionSpecCell (ObservedObjectCollectionSpec_DeepCopyInto
      D)"

definition ObservedObjectCollection_DeepCopyInto ::
  "('e, ('e, 'r) collectionMem) deepCopyLib \<Rightarrow> ('e, 'r) collectionM \<Rightarrow> ('e, 'r) collectionMem
      heap \<Rightarrow> ('e, 'r) collectionM \<times> ('e, 'r) collectionMem heap" where
  "ObservedObjectCollection_DeepCopyInto D = collectionInto assign D"

definition ObservedObjectCollection_DeepCopy ::
  "('e, ('e, 'r) collectionMem) deepCopyLib \<Rightarrow> nat option \<Rightarrow> ('e, 'r) collectionMem heap
      \<Rightarrow> nat option \<times> ('e, 'r) collectionMem heap" where
  "ObservedObjectCollection_DeepCopy D = copyPtr collectionCell (ObservedObjectCollection_DeepCopyInto D)"

definition ObservedObjectCollection_DeepCopyObject ::
  "('e, ('e, 'r) collectionMem) deepCopyLib \<Rightarrow> nat option \<Rightarrow> ('e, 'r) collectionMem heap
      \<Rightarrow> nat option \<times> ('e, 'r) collectionMem heap" where
  "ObservedObjectCollection_DeepCopyObject D p h = asObject (ObservedObjectCollection_DeepCopy D p h)"

definition ObservedObjectCollectionList_DeepCopyInto ::
  "('e, ('e, 'r) collectionMem) deepCopyLib \<Rightarrow> 'e collectionListM \<Rightarrow> ('e, 'r) collectionMem
      heap \<Rightarrow> 'e collectionListM \<times> ('e, 'r) collectionMem heap" where
  "ObservedObjectCollectionList_DeepCopyInto D = collectionListInto assign D"

definition ObservedObjectCollectionList_DeepCopy ::
  "('e, ('e, 'r) collectionMem) deepCopyLib \<Rightarrow> nat option \<Rightarrow> ('e, 'r) collectionMem heap
      \<Rightarrow> nat option \<times> ('e, 'r) collectionMem heap" where
  "ObservedObjectCollectionList_DeepCopy D = copyPtr collectionListCell (ObservedObjectCollectionList_DeepCopyInto
      D)"

definition ObservedObjectCollectionList_DeepCopyObject ::
  "('e, ('e, 'r) collectionMem) deepCopyLib \<Rightarrow> nat option \<Rightarrow> ('e, 'r) collectionMem heap
      \<Rightarrow> nat option \<times> ('e, 'r) collectionMem heap" where
  "ObservedObjectCollectionList_DeepCopyObject D p h = asObject (ObservedObjectCollectionList_DeepCopy D p h)"

definition ObservedObjectCollectionSpec_DeepCopyInto_cluster ::
  "('e, ('e, 'e) collectionMem) deepCopyLib \<Rightarrow> ('e, 'e) collectionSpecM \<Rightarrow> ('e, 'e)
      collectionMem heap \<Rightarrow> ('e, 'e) collectionSpecM \<times> ('e, 'e) collectionMem heap" where
  "ObservedObjectCollectionSpec_DeepCopyInto_cluster D = collectionSpecInto (dl_Reference D) D"

definition ObservedObjectCollectionSpec_DeepCopy_cluster ::
  "('e, ('e, 'e) collectionMem) deepCopyLib \<Rightarrow> nat option \<Rightarrow> ('e, 'e) collectionMem heap
      \<Rightarrow> nat option \<times> ('e, 'e) collectionMem heap" where
  "ObservedObjectCollectionSpec_DeepCopy_cluster D = copyPtr collectionSpecCell
      (ObservedObjectCollectionSpec_DeepCopyInto_cluster D)"

definition ObservedObjectCollection_DeepCopyInto_cluster ::
  "('e, ('e, 'e) collectionMem) deepCopyLib \<Rightarrow> ('e, 'e) collectionM \<Rightarrow> ('e, 'e) collectionMem
      heap \<Rightarrow> ('e, 'e) collectionM \<times> ('e, 'e) collectionMem heap" where
  "ObservedObjectCollection_DeepCopyInto_cluster D = collectionInto (dl_Reference D) D"

definition ObservedObjectCollection_DeepCopy_cluster ::
  "('e, ('e, 'e) collectionMem) deepCopyLib \<Rightarrow> nat option \<Rightarrow> ('e, 'e) collectionMem heap
      \<Rightarrow> nat option \<times> ('e, 'e) collectionMem heap" where
  "ObservedObjectCollection_DeepCopy_cluster D = copyPtr collectionCell
      (ObservedObjectCollection_DeepCopyInto_cluster D)"

definition ObservedObjectCollection_DeepCopyObject_cluster ::
  "('e, ('e, 'e) collectionMem) deepCopyLib \<Rightarrow> nat option \<Rightarrow> ('e, 'e) collectionMem heap
      \<Rightarrow> nat option \<times> ('e, 'e) collectionMem heap" where
  "ObservedObjectCollection_DeepCopyObject_cluster D p h = asObject (ObservedObjectCollection_DeepCopy_cluster D p
      h)"

definition ObservedObjectCollectionList_DeepCopyInto_cluster ::
  "('e, ('e, 'e) collectionMem) deepCopyLib \<Rightarrow> 'e collectionListM \<Rightarrow> ('e, 'e) collectionMem
      heap \<Rightarrow> 'e collectionListM \<times> ('e, 'e) collectionMem heap" where
  "ObservedObjectCollectionList_DeepCopyInto_cluster D = collectionListInto (dl_Reference D) D"

definition ObservedObjectCollectionList_DeepCopy_cluster ::
  "('e, ('e, 'e) collectionMem) deepCopyLib \<Rightarrow> nat option \<Rightarrow> ('e, 'e) collectionMem heap
      \<Rightarrow> nat option \<times> ('e, 'e) collectionMem heap" where
  "ObservedObjectCollectionList_DeepCopy_cluster D = copyPtr collectionListCell
      (ObservedObjectCollectionList_DeepCopyInto_cluster D)"

definition ObservedObjectCollectionList_DeepCopyObject_cluster ::
  "('e, ('e, 'e) collectionMem) deepCopyLib \<Rightarrow> nat option \<Rightarrow> ('e, 'e) collectionMem heap
      \<Rightarrow> nat option \<times> ('e, 'e) collectionMem heap" where
  "ObservedObjectCollectionList_DeepCopyObject_cluster D p h = asObject
      (ObservedObjectCollectionList_DeepCopy_cluster D p h)"

section \<open>The other types of the cluster scope\<close>

definition ObserveObjectCriteria_DeepCopyInto_cluster ::
  "('e, ('e, 'e) collectionMem) deepCopyLib \<Rightarrow> 'e criteriaT_cluster \<Rightarrow> ('e, 'e) collectionMem
      heap \<Rightarrow> 'e criteriaT_cluster \<times> ('e, 'e) collectionMem heap" where
  "ObserveObjectCriteria_DeepCopyInto_cluster D = ObserveObjectCriteria_DeepCopyInto D"

definition ObserveObjectCriteria_DeepCopy_cluster ::
  "('e, ('e, 'e) collectionMem) deepCopyLib \<Rightarrow> nat option \<Rightarrow> ('e, 'e) collectionMem heap
      \<Rightarrow> nat option \<times> ('e, 'e) collectionMem heap" where
  "ObserveObjectCriteria_DeepCopy_cluster D = ObserveObjectCriteria_DeepCopy D"

definition ObservedObjectTemplateMetadata_DeepCopyInto_cluster ::
  "templateMetadataM_cluster \<Rightarrow> ('e, 'e) collectionMem heap \<Rightarrow> templateMetadataM_cluster
      \<times> ('e, 'e) collectionMem heap" where
  "ObservedObjectTemplateMetadata_DeepCopyInto_cluster = ObservedObjectTemplateMetadata_DeepCopyInto"

definition ObservedObjectTemplateMetadata_DeepCopy_cluster ::
  "nat option \<Rightarrow> ('e, 'e) collectionMem heap \<Rightarrow> nat option \<times> ('e, 'e) collectionMem
      heap" where
  "ObservedObjectTemplateMetadata_DeepCopy_cluster = ObservedObjectTemplateMetadata_DeepCopy"

definition ObservedObjectTemplate_DeepCopyInto_cluster ::
  "templateM_cluster \<Rightarrow> ('e, 'e) collectionMem heap \<Rightarrow> templateM_cluster \<times> ('e, 'e)
      collectionMem heap" where
  "ObservedObjectTemplate_DeepCopyInto_cluster = ObservedObjectTemplate_DeepCopyInto"

definition ObservedObjectTemplate_DeepCopy_cluster ::
  "nat option \<Rightarrow> ('e, 'e) collectionMem heap \<Rightarrow> nat option \<times> ('e, 'e) collectionMem
      heap" where
  "ObservedObjectTemplate_DeepCopy_cluster = ObservedObjectTemplate_DeepCopy"

definition ObservedObjectCollectionStatus_DeepCopyInto_cluster ::
  "('e, ('e, 'e) collectionMem) deepCopyLib \<Rightarrow> 'e collectionStatusM_cluster \<Rightarrow> ('e, 'e)
      collectionMem heap \<Rightarrow> 'e collectionStatusM_cluster \<times> ('e, 'e) collectionMem heap" where
  "ObservedObjectCollectionStatus_DeepCopyInto_cluster D = ObservedObjectCollectionStatus_DeepCopyInto D"

definition ObservedObjectCollectionStatus_DeepCopy_cluster ::
  "('e, ('e, 'e) collectionMem) deepCopyLib \<Rightarrow> nat option \<Rightarrow> ('e, 'e) collectionMem heap
      \<Rightarrow> nat option \<times> ('e, 'e) collectionMem heap" where
  "ObservedObjectCollectionStatus_DeepCopy_cluster D = ObservedObjectCollectionStatus_DeepCopy D"

definition ObservedObjectReference_DeepCopyInto_cluster ::
  "observedObjectReferenceT_cluster \<Rightarrow> ('e, 'e) collectionMem heap \<Rightarrow>
      observedObjectReferenceT_cluster \<times> ('e, 'e) collectionMem heap" where
  "ObservedObjectReference_DeepCopyInto_cluster = ObservedObjectReference_DeepCopyInto"

definition ObservedObjectReference_DeepCopy_cluster ::
  "nat option \<Rightarrow> ('e, 'e) collectionMem heap \<Rightarrow> nat option \<times> ('e, 'e) collectionMem
      heap" where
  "ObservedObjectReference_DeepCopy_cluster = ObservedObjectReference_DeepCopy"

section \<open>What structs stand for\<close>

definition criteriaRep ::
  "(('e, 'r) collectionMem heap \<Rightarrow> 'e \<Rightarrow> 'v \<Rightarrow> nat set \<Rightarrow> bool)
      \<Rightarrow> ('e, 'r) collectionMem heap \<Rightarrow> 'e criteriaT \<Rightarrow> 'v criteriaT \<Rightarrow>
      nat set \<Rightarrow> bool" where
  "criteriaRep R h v x F \<longleftrightarrow>
     R h (crit_selector v) (crit_selector x) F \<and>
     crit_apiVersion x = crit_apiVersion v \<and>
     crit_kind x = crit_kind v \<and>
     crit_namespace x = crit_namespace v"

definition templateMetadataRep ::
  "('e, 'r) collectionMem heap \<Rightarrow> templateMetadataM \<Rightarrow> templateMetadataV \<Rightarrow> nat
      set \<Rightarrow> bool" where
  "templateMetadataRep h v x F \<longleftrightarrow>
     labelsRep h (tmt_labels v) (tmt_labels x) F \<and>
     labelsRep h (tmt_annotations v) (tmt_annotations x) F"

definition templateRep ::
  "('e, 'r) collectionMem heap \<Rightarrow> templateM \<Rightarrow> templateV \<Rightarrow> nat set \<Rightarrow>
      bool" where
  "templateRep h v x F \<longleftrightarrow>
     templateMetadataRep h (tt_metadata v) (tt_metadata x) F"

definition collectionStatusRep ::
  "(('e, 'r) collectionMem heap \<Rightarrow> 'e \<Rightarrow> 'v \<Rightarrow> nat set \<Rightarrow> bool)
      \<Rightarrow> ('e, 'r) collectionMem heap \<Rightarrow> 'e collectionStatusM \<Rightarrow> 'v
      collectionStatusV \<Rightarrow> nat set \<Rightarrow> bool" where
  "collectionStatusRep R h v x F \<longleftrightarrow>
     R h (cstt_resourceStatus v) (cstt_resourceStatus x) F \<and>
     labelsRep h (cstt_membershipLabel v) (cstt_membershipLabel x) F"

definition collectionSpecRep ::
  "(('e, 'r) collectionMem heap \<Rightarrow> 'e \<Rightarrow> 'v \<Rightarrow> nat set \<Rightarrow> bool)
      \<Rightarrow> (('e, 'r) collectionMem heap \<Rightarrow> 'r \<Rightarrow> 'q \<Rightarrow> nat set
      \<Rightarrow> bool) \<Rightarrow> ('e, 'r) collectionMem heap \<Rightarrow> ('e, 'r) collectionSpecM
      \<Rightarrow> ('v, 'q) collectionSpecV \<Rightarrow> nat set \<Rightarrow> bool" where
  "collectionSpecRep R S h v x F \<longleftrightarrow>
     criteriaRep R h (cst_observeObjects v) (cst_observeObjects x) F \<and>
     S h (cst_providerConfigReference v) (cst_providerConfigReference x) F \<and>
     ptrRep templateCell templateRep h (cst_template v) (cst_template x) F"

definition collectionRep ::
  "(('e, 'r) collectionMem heap \<Rightarrow> 'e \<Rightarrow> 'v \<Rightarrow> nat set \<Rightarrow> bool)
      \<Rightarrow> (('e, 'r) collectionMem heap \<Rightarrow> 'r \<Rightarrow> 'q \<Rightarrow> nat set
      \<Rightarrow> bool) \<Rightarrow> ('e, 'r) collectionMem heap \<Rightarrow> ('e, 'r) collectionM
      \<Rightarrow> ('v, 'q) collectionV \<Rightarrow> nat set \<Rightarrow> bool" where
  "collectionRep R S h v x F \<longleftrightarrow>
     R h (ct_objectMeta v) (ct_objectMeta x) F \<and>
     collectionSpecRep R S h (ct_spec v) (ct_spec x) F \<and>
     collectionStatusRep R h (ct_status v) (ct_status x) F \<and>
     ct_typeMeta x = ct_typeMeta v"

definition collectionListRep ::
  "(('e, 'r) collectionMem heap \<Rightarrow> 'e \<Rightarrow> 'v \<Rightarrow> nat set \<Rightarrow> bool)
      \<Rightarrow> (('e, 'r) collectionMem heap \<Rightarrow> 'r \<Rightarrow> 'q \<Rightarrow> nat set
      \<Rightarrow> bool) \<Rightarrow> ('e, 'r) collectionMem heap \<Rightarrow> 'e collectionListM \<Rightarrow>
      ('v, 'q) collectionListV \<Rightarrow> nat set \<Rightarrow> bool" where
  "collectionListRep R S h v x F \<longleftrightarrow>
     R h (clt_listMeta v) (clt_listMeta x) F \<and>
     sliceRep collectionsCell (collectionRep R S) h (clt_items v) (clt_items x) F \<and>
     clt_typeMeta x = clt_typeMeta v"

section \<open>Every copy keeps the contract\<close>

lemma ObserveObjectCriteria_deep:
  assumes "libraryCopies D R"
  shows "deep_copy (ObserveObjectCriteria_DeepCopyInto D) (criteriaRep R)"
  by (rule deep_copy_struct [where get = "\<lambda>v. crit_selector v"
        and put = "\<lambda>v s. v\<lparr>crit_selector := s\<rparr>"
        and rest = "\<lambda>v. (crit_apiVersion v, crit_kind v, crit_namespace v)" and getx = "\<lambda>v.
            crit_selector v"
        and restx = "\<lambda>v. (crit_apiVersion v, crit_kind v, crit_namespace v)",
        OF libraryCopiesD(8) [OF assms]])
    (auto simp: ObserveObjectCriteria_DeepCopyInto_def criteriaRep_def struct_simps split: prod.splits)

lemma ObservedObjectTemplateMetadata_deep:
  "deep_copy ObservedObjectTemplateMetadata_DeepCopyInto templateMetadataRep"
  by (rule deep_copy_struct [where get = "\<lambda>v. (tmt_labels v, tmt_annotations v)"
        and put = "\<lambda>v (l, a). v\<lparr>tmt_labels := l, tmt_annotations := a\<rparr>"
        and rest = "\<lambda>v. ()" and getx = "\<lambda>v. (tmt_labels v, tmt_annotations v)"
        and restx = "\<lambda>v. ()",
        OF deep_copy_pair [OF labels_deep labels_deep]])
    (auto simp: ObservedObjectTemplateMetadata_DeepCopyInto_def templateMetadataRep_def struct_simps split:
        prod.splits)

lemma ObservedObjectTemplate_deep:
  "deep_copy ObservedObjectTemplate_DeepCopyInto templateRep"
  by (rule deep_copy_struct [where get = "\<lambda>v. tt_metadata v"
        and put = "\<lambda>v m. v\<lparr>tt_metadata := m\<rparr>"
        and rest = "\<lambda>v. ()" and getx = "\<lambda>v. tt_metadata v"
        and restx = "\<lambda>v. ()",
        OF ObservedObjectTemplateMetadata_deep])
    (auto simp: ObservedObjectTemplate_DeepCopyInto_def templateRep_def struct_simps split: prod.splits)

lemma ObservedObjectCollectionStatus_deep:
  assumes "libraryCopies D R"
  shows "deep_copy (ObservedObjectCollectionStatus_DeepCopyInto D) (collectionStatusRep R)"
  by (rule deep_copy_struct [where get = "\<lambda>v. (cstt_resourceStatus v, cstt_membershipLabel v)"
        and put = "\<lambda>v (s, l). v\<lparr>cstt_resourceStatus := s, cstt_membershipLabel := l\<rparr>"
        and rest = "\<lambda>v. ()" and getx = "\<lambda>v. (cstt_resourceStatus v, cstt_membershipLabel v)"
        and restx = "\<lambda>v. ()",
        OF deep_copy_pair [OF libraryCopiesD(6) [OF assms] labels_deep]])
    (auto simp: ObservedObjectCollectionStatus_DeepCopyInto_def collectionStatusRep_def struct_simps split:
        prod.splits)

lemma collectionSpec_deep:
  assumes "libraryCopies D R" and "deep_copy c S"
  shows "deep_copy (collectionSpecInto c D) (collectionSpecRep R S)"
  by (rule deep_copy_struct [where get = "\<lambda>v. (cst_observeObjects v, cst_providerConfigReference v,
      cst_template v)"
        and put = "\<lambda>v (b, r, t). v\<lparr>cst_observeObjects := b, cst_providerConfigReference := r,
            cst_template := t\<rparr>"
        and rest = "\<lambda>v. ()" and getx = "\<lambda>v. (cst_observeObjects v, cst_providerConfigReference v,
            cst_template v)"
        and restx = "\<lambda>v. ()",
        OF deep_copy_pair [OF ObserveObjectCriteria_deep [OF assms(1)] deep_copy_pair [OF assms(2) deep_copy_ptr
            [OF ObservedObjectTemplate_deep templateCell_law]]]])
    (auto simp: collectionSpecInto_def collectionSpecRep_def struct_simps split: prod.splits)

lemma collection_deep:
  assumes "libraryCopies D R" and "deep_copy c S"
  shows "deep_copy (collectionInto c D) (collectionRep R S)"
  by (rule deep_copy_struct [where get = "\<lambda>v. (ct_objectMeta v, ct_spec v, ct_status v)"
        and put = "\<lambda>v (m, s, t). v\<lparr>ct_objectMeta := m, ct_spec := s, ct_status := t\<rparr>"
        and rest = "\<lambda>v. ct_typeMeta v" and getx = "\<lambda>v. (ct_objectMeta v, ct_spec v, ct_status v)"
        and restx = "\<lambda>v. ct_typeMeta v",
        OF deep_copy_pair [OF libraryCopiesD(1) [OF assms(1)] deep_copy_pair [OF collectionSpec_deep [OF assms]
            ObservedObjectCollectionStatus_deep [OF assms(1)]]]])
    (auto simp: collectionInto_def collectionRep_def struct_simps split: prod.splits)

lemma collectionList_deep:
  assumes "libraryCopies D R" and "deep_copy c S"
  shows "deep_copy (collectionListInto c D) (collectionListRep R S)"
  by (rule deep_copy_struct [where get = "\<lambda>v. (clt_listMeta v, clt_items v)"
        and put = "\<lambda>v (m, i). v\<lparr>clt_listMeta := m, clt_items := i\<rparr>"
        and rest = "\<lambda>v. clt_typeMeta v" and getx = "\<lambda>v. (clt_listMeta v, clt_items v)"
        and restx = "\<lambda>v. clt_typeMeta v",
        OF deep_copy_pair [OF libraryCopiesD(2) [OF assms(1)] deep_copy_ptr [OF deep_copy_list [OF collection_deep
            [OF assms]] collectionsCell_law]]])
    (auto simp: collectionListInto_def collectionListRep_def struct_simps split: prod.splits)

lemma ObservedObjectCollectionList_deep:
  "libraryCopies D R \<Longrightarrow> deep_copy (ObservedObjectCollectionList_DeepCopyInto D) (collectionListRep R
      valueRep)"
  unfolding ObservedObjectCollectionList_DeepCopyInto_def by (rule collectionList_deep [OF _ deep_copy_assign])

lemma ObservedObjectCollectionList_cluster_deep:
  "libraryCopies D R \<Longrightarrow> deep_copy (ObservedObjectCollectionList_DeepCopyInto_cluster D)
      (collectionListRep R R)"
  unfolding ObservedObjectCollectionList_DeepCopyInto_cluster_def by (rule collectionList_deep [OF _
      libraryCopiesD(7)])

text \<open>What is written to the maps of a template through one of two pointers is not seen through the
    other.\<close>

interpretation template_copy: stored_copy ObservedObjectTemplate_DeepCopyInto templateRep templateCell
  by (rule stored_copyI [OF ObservedObjectTemplate_deep templateCell_law])

lemmas ObservedObjectTemplate_DeepCopy_separate =
  template_copy.ptr.separate [folded ObservedObjectTemplate_DeepCopy_def]

end
