(* ===== verification/Deep_Copy_Config.thy ===== *)
theory Deep_Copy_Config
  imports Deep_Copy
begin

text \<open>
  The deep copies of the provider's configuration: \<open>pkg/kube/config\<close> (credentials, identity, spec) and
      the
  \<open>ProviderConfig\<close>, \<open>ClusterProviderConfig\<close> and \<open>ProviderConfigUsage\<close> of
      \<open>apis/namespaced/v1alpha1\<close> and
  \<open>apis/cluster/v1alpha1\<close>, with their lists.
\<close>

section \<open>Structs\<close>

text \<open>The selectors of the credentials are crossplane's \<open>CommonCredentialSelectors\<close>.\<close>

record 'e credentialsT =
  crt_source :: string
  crt_selectors :: 'e

record 'e identityT =
  idt_type :: string
  idt_credentials :: "'e credentialsT"

record ('e, 'i) configSpecT =
  cft_credentials :: "'e credentialsT"
  cft_identity :: 'i

record 'e configStatusT =
  cftt_status :: 'e

record ('e, 'i) providerConfigT =
  pct_typeMeta :: typeMeta
  pct_objectMeta :: 'e
  pct_spec :: "('e, 'i) configSpecT"
  pct_status :: "'e configStatusT"

text \<open>A list; \<open>'items\<close> is an address in memory.\<close>

record ('e, 'items) listT =
  lt_typeMeta :: typeMeta
  lt_listMeta :: 'e
  lt_items :: 'items

text \<open>
  What a usage embeds, \<open>'u\<close>: crossplane's \<open>TypedProviderConfigUsage\<close>, which has no
      pointers, for the namespaced
  usages, and its \<open>ProviderConfigUsage\<close>, which has, for the cluster-scoped ones.
\<close>

record ('e, 'u) usageT =
  ut_typeMeta :: typeMeta
  ut_objectMeta :: 'e
  ut_usage :: 'u

type_synonym 'e configSpecM = "('e, nat option) configSpecT"
type_synonym 'e providerConfigM = "('e, nat option) providerConfigT"
type_synonym 'e listM = "('e, nat option) listT"
type_synonym 'v configSpecV = "('v, 'v identityT option) configSpecT"
type_synonym 'v providerConfigV = "('v, 'v identityT option) providerConfigT"
type_synonym 'v providerConfigListV = "('v, 'v providerConfigV list option) listT"
type_synonym ('v, 'w) usageListV = "('v, ('v, 'w) usageT list option) listT"

text \<open>\<open>ClusterProviderConfig\<close> declares the fields of \<open>ProviderConfig\<close>, and so do
    the types of the cluster scope.\<close>

type_synonym 'e clusterProviderConfigM = "'e providerConfigM"
type_synonym 'e clusterProviderConfigListM = "'e listM"
type_synonym 'e configStatusT_cluster = "'e configStatusT"
type_synonym 'e providerConfigM_cluster = "'e providerConfigM"
type_synonym 'e usageT_cluster = "('e, 'e) usageT"
type_synonym 'e listM_cluster = "'e listM"

section \<open>Cells\<close>

datatype ('e, 'u) configCell =
    CredentialsCell "'e credentialsT"
  | IdentityCell "'e identityT"
  | ConfigSpecCell "'e configSpecM"
  | ConfigStatusCell "'e configStatusT"
  | ProviderConfigCell "'e providerConfigM"
  | ProviderConfigsCell "'e providerConfigM list"
  | ConfigListCell "'e listM"
  | UsageCell "('e, 'u) usageT"
  | UsagesCell "('e, 'u) usageT list"

definition credentialsCell :: "(('e, 'u) configCell, 'e credentialsT) cellType" where
  "credentialsCell = \<lparr>ct_make = CredentialsCell, ct_load = \<lambda>c. case c of CredentialsCell v
      \<Rightarrow> Some v | _ \<Rightarrow> None\<rparr>"

definition identityCell :: "(('e, 'u) configCell, 'e identityT) cellType" where
  "identityCell = \<lparr>ct_make = IdentityCell, ct_load = \<lambda>c. case c of IdentityCell v \<Rightarrow> Some
      v | _ \<Rightarrow> None\<rparr>"

definition configSpecCell :: "(('e, 'u) configCell, 'e configSpecM) cellType" where
  "configSpecCell = \<lparr>ct_make = ConfigSpecCell, ct_load = \<lambda>c. case c of ConfigSpecCell v
      \<Rightarrow> Some v | _ \<Rightarrow> None\<rparr>"

definition configStatusCell :: "(('e, 'u) configCell, 'e configStatusT) cellType" where
  "configStatusCell = \<lparr>ct_make = ConfigStatusCell, ct_load = \<lambda>c. case c of ConfigStatusCell v
      \<Rightarrow> Some v | _ \<Rightarrow> None\<rparr>"

definition providerConfigCell :: "(('e, 'u) configCell, 'e providerConfigM) cellType" where
  "providerConfigCell = \<lparr>ct_make = ProviderConfigCell, ct_load = \<lambda>c. case c of ProviderConfigCell v
      \<Rightarrow> Some v | _ \<Rightarrow> None\<rparr>"

definition providerConfigsCell :: "(('e, 'u) configCell, 'e providerConfigM list) cellType" where
  "providerConfigsCell = \<lparr>ct_make = ProviderConfigsCell, ct_load = \<lambda>c. case c of ProviderConfigsCell
      v \<Rightarrow> Some v | _ \<Rightarrow> None\<rparr>"

definition configListCell :: "(('e, 'u) configCell, 'e listM) cellType" where
  "configListCell = \<lparr>ct_make = ConfigListCell, ct_load = \<lambda>c. case c of ConfigListCell v
      \<Rightarrow> Some v | _ \<Rightarrow> None\<rparr>"

definition usageCell :: "(('e, 'u) configCell, ('e, 'u) usageT) cellType" where
  "usageCell = \<lparr>ct_make = UsageCell, ct_load = \<lambda>c. case c of UsageCell v \<Rightarrow> Some v | _
      \<Rightarrow> None\<rparr>"

definition usagesCell :: "(('e, 'u) configCell, ('e, 'u) usageT list) cellType" where
  "usagesCell = \<lparr>ct_make = UsagesCell, ct_load = \<lambda>c. case c of UsagesCell v \<Rightarrow> Some v | _
      \<Rightarrow> None\<rparr>"

lemma credentialsCell_law [simp]: "cellLaw credentialsCell"
  by (simp add: cellLaw_def credentialsCell_def)

lemma identityCell_law [simp]: "cellLaw identityCell"
  by (simp add: cellLaw_def identityCell_def)

lemma configSpecCell_law [simp]: "cellLaw configSpecCell"
  by (simp add: cellLaw_def configSpecCell_def)

lemma configStatusCell_law [simp]: "cellLaw configStatusCell"
  by (simp add: cellLaw_def configStatusCell_def)

lemma providerConfigCell_law [simp]: "cellLaw providerConfigCell"
  by (simp add: cellLaw_def providerConfigCell_def)

lemma providerConfigsCell_law [simp]: "cellLaw providerConfigsCell"
  by (simp add: cellLaw_def providerConfigsCell_def)

lemma configListCell_law [simp]: "cellLaw configListCell"
  by (simp add: cellLaw_def configListCell_def)

lemma usageCell_law [simp]: "cellLaw usageCell"
  by (simp add: cellLaw_def usageCell_def)

lemma usagesCell_law [simp]: "cellLaw usagesCell"
  by (simp add: cellLaw_def usagesCell_def)

section \<open>Credentials, identity, spec\<close>

definition ProviderCredentials_DeepCopyInto ::
  "('e, ('e, 'u) configCell) deepCopyLib \<Rightarrow> 'e credentialsT \<Rightarrow> ('e, 'u) configCell heap
      \<Rightarrow> 'e credentialsT \<times> ('e, 'u) configCell heap" where
  "ProviderCredentials_DeepCopyInto D v h =
     (case dl_CommonCredentialSelectors D (crt_selectors v) h of
        (s, h) \<Rightarrow>
          (v\<lparr>crt_selectors := s\<rparr>, h))"

definition ProviderCredentials_DeepCopy ::
  "('e, ('e, 'u) configCell) deepCopyLib \<Rightarrow> nat option \<Rightarrow> ('e, 'u) configCell heap
      \<Rightarrow> nat option \<times> ('e, 'u) configCell heap" where
  "ProviderCredentials_DeepCopy D = copyPtr credentialsCell (ProviderCredentials_DeepCopyInto D)"

definition Identity_DeepCopyInto ::
  "('e, ('e, 'u) configCell) deepCopyLib \<Rightarrow> 'e identityT \<Rightarrow> ('e, 'u) configCell heap
      \<Rightarrow> 'e identityT \<times> ('e, 'u) configCell heap" where
  "Identity_DeepCopyInto D v h =
     (case ProviderCredentials_DeepCopyInto D (idt_credentials v) h of
        (c, h) \<Rightarrow>
          (v\<lparr>idt_credentials := c\<rparr>, h))"

definition Identity_DeepCopy ::
  "('e, ('e, 'u) configCell) deepCopyLib \<Rightarrow> nat option \<Rightarrow> ('e, 'u) configCell heap
      \<Rightarrow> nat option \<times> ('e, 'u) configCell heap" where
  "Identity_DeepCopy D = copyPtr identityCell (Identity_DeepCopyInto D)"

definition ProviderConfigSpec_DeepCopyInto ::
  "('e, ('e, 'u) configCell) deepCopyLib \<Rightarrow> 'e configSpecM \<Rightarrow> ('e, 'u) configCell heap
      \<Rightarrow> 'e configSpecM \<times> ('e, 'u) configCell heap" where
  "ProviderConfigSpec_DeepCopyInto D v h =
     (case ProviderCredentials_DeepCopyInto D (cft_credentials v) h of
        (c, h) \<Rightarrow>
          (case copyPtr identityCell (Identity_DeepCopyInto D) (cft_identity v) h of
             (i, h) \<Rightarrow>
               (v\<lparr>cft_credentials := c, cft_identity := i\<rparr>, h)))"

definition ProviderConfigSpec_DeepCopy ::
  "('e, ('e, 'u) configCell) deepCopyLib \<Rightarrow> nat option \<Rightarrow> ('e, 'u) configCell heap
      \<Rightarrow> nat option \<times> ('e, 'u) configCell heap" where
  "ProviderConfigSpec_DeepCopy D = copyPtr configSpecCell (ProviderConfigSpec_DeepCopyInto D)"

section \<open>Provider configs\<close>

definition ProviderConfigStatus_DeepCopyInto ::
  "('e, ('e, 'u) configCell) deepCopyLib \<Rightarrow> 'e configStatusT \<Rightarrow> ('e, 'u) configCell heap
      \<Rightarrow> 'e configStatusT \<times> ('e, 'u) configCell heap" where
  "ProviderConfigStatus_DeepCopyInto D v h =
     (case dl_ProviderConfigStatus D (cftt_status v) h of
        (s, h) \<Rightarrow>
          (v\<lparr>cftt_status := s\<rparr>, h))"

definition ProviderConfigStatus_DeepCopy ::
  "('e, ('e, 'u) configCell) deepCopyLib \<Rightarrow> nat option \<Rightarrow> ('e, 'u) configCell heap
      \<Rightarrow> nat option \<times> ('e, 'u) configCell heap" where
  "ProviderConfigStatus_DeepCopy D = copyPtr configStatusCell (ProviderConfigStatus_DeepCopyInto D)"

definition ProviderConfig_DeepCopyInto ::
  "('e, ('e, 'u) configCell) deepCopyLib \<Rightarrow> 'e providerConfigM \<Rightarrow> ('e, 'u) configCell heap
      \<Rightarrow> 'e providerConfigM \<times> ('e, 'u) configCell heap" where
  "ProviderConfig_DeepCopyInto D v h =
     (case dl_ObjectMeta D (pct_objectMeta v) h of
        (m, h) \<Rightarrow>
          (case ProviderConfigSpec_DeepCopyInto D (pct_spec v) h of
             (s, h) \<Rightarrow>
               (case ProviderConfigStatus_DeepCopyInto D (pct_status v) h of
                  (t, h) \<Rightarrow>
                    (v\<lparr>pct_objectMeta := m, pct_spec := s, pct_status := t, pct_typeMeta := pct_typeMeta
                        v\<rparr>, h))))"

definition ProviderConfig_DeepCopy ::
  "('e, ('e, 'u) configCell) deepCopyLib \<Rightarrow> nat option \<Rightarrow> ('e, 'u) configCell heap
      \<Rightarrow> nat option \<times> ('e, 'u) configCell heap" where
  "ProviderConfig_DeepCopy D = copyPtr providerConfigCell (ProviderConfig_DeepCopyInto D)"

definition ProviderConfig_DeepCopyObject ::
  "('e, ('e, 'u) configCell) deepCopyLib \<Rightarrow> nat option \<Rightarrow> ('e, 'u) configCell heap
      \<Rightarrow> nat option \<times> ('e, 'u) configCell heap" where
  "ProviderConfig_DeepCopyObject D p h = asObject (ProviderConfig_DeepCopy D p h)"

definition ProviderConfigList_DeepCopyInto ::
  "('e, ('e, 'u) configCell) deepCopyLib \<Rightarrow> 'e listM \<Rightarrow> ('e, 'u) configCell heap
      \<Rightarrow> 'e listM \<times> ('e, 'u) configCell heap" where
  "ProviderConfigList_DeepCopyInto D v h =
     (case dl_ListMeta D (lt_listMeta v) h of
        (m, h) \<Rightarrow>
          (case copySlice providerConfigsCell (ProviderConfig_DeepCopyInto D) (lt_items v) h of
             (i, h) \<Rightarrow>
               (v\<lparr>lt_listMeta := m, lt_items := i, lt_typeMeta := lt_typeMeta v\<rparr>, h)))"

definition ProviderConfigList_DeepCopy ::
  "('e, ('e, 'u) configCell) deepCopyLib \<Rightarrow> nat option \<Rightarrow> ('e, 'u) configCell heap
      \<Rightarrow> nat option \<times> ('e, 'u) configCell heap" where
  "ProviderConfigList_DeepCopy D = copyPtr configListCell (ProviderConfigList_DeepCopyInto D)"

definition ProviderConfigList_DeepCopyObject ::
  "('e, ('e, 'u) configCell) deepCopyLib \<Rightarrow> nat option \<Rightarrow> ('e, 'u) configCell heap
      \<Rightarrow> nat option \<times> ('e, 'u) configCell heap" where
  "ProviderConfigList_DeepCopyObject D p h = asObject (ProviderConfigList_DeepCopy D p h)"

section \<open>Usages\<close>

text \<open>With the copy of the embedded struct, an assignment or the \<open>DeepCopyInto\<close> of
    crossplane.\<close>

definition usageInto ::
  "('u \<Rightarrow> ('e, 'u) configCell heap \<Rightarrow> 'u \<times> ('e, 'u) configCell heap) \<Rightarrow>
      ('e, ('e, 'u) configCell) deepCopyLib \<Rightarrow> ('e, 'u) usageT \<Rightarrow> ('e, 'u) configCell heap
      \<Rightarrow> ('e, 'u) usageT \<times> ('e, 'u) configCell heap" where
  "usageInto c D v h =
     (case dl_ObjectMeta D (ut_objectMeta v) h of
        (m, h) \<Rightarrow>
          (case c (ut_usage v) h of
             (u, h) \<Rightarrow>
               (v\<lparr>ut_objectMeta := m, ut_usage := u, ut_typeMeta := ut_typeMeta v\<rparr>, h)))"

definition usageListInto ::
  "('u \<Rightarrow> ('e, 'u) configCell heap \<Rightarrow> 'u \<times> ('e, 'u) configCell heap) \<Rightarrow>
      ('e, ('e, 'u) configCell) deepCopyLib \<Rightarrow> 'e listM \<Rightarrow> ('e, 'u) configCell heap
      \<Rightarrow> 'e listM \<times> ('e, 'u) configCell heap" where
  "usageListInto c D v h =
     (case dl_ListMeta D (lt_listMeta v) h of
        (m, h) \<Rightarrow>
          (case copySlice usagesCell (usageInto c D) (lt_items v) h of
             (i, h) \<Rightarrow>
               (v\<lparr>lt_listMeta := m, lt_items := i, lt_typeMeta := lt_typeMeta v\<rparr>, h)))"

definition ProviderConfigUsage_DeepCopyInto ::
  "('e, ('e, 'u) configCell) deepCopyLib \<Rightarrow> ('e, 'u) usageT \<Rightarrow> ('e, 'u) configCell heap
      \<Rightarrow> ('e, 'u) usageT \<times> ('e, 'u) configCell heap" where
  "ProviderConfigUsage_DeepCopyInto D = usageInto assign D"

definition ProviderConfigUsage_DeepCopy ::
  "('e, ('e, 'u) configCell) deepCopyLib \<Rightarrow> nat option \<Rightarrow> ('e, 'u) configCell heap
      \<Rightarrow> nat option \<times> ('e, 'u) configCell heap" where
  "ProviderConfigUsage_DeepCopy D = copyPtr usageCell (ProviderConfigUsage_DeepCopyInto D)"

definition ProviderConfigUsage_DeepCopyObject ::
  "('e, ('e, 'u) configCell) deepCopyLib \<Rightarrow> nat option \<Rightarrow> ('e, 'u) configCell heap
      \<Rightarrow> nat option \<times> ('e, 'u) configCell heap" where
  "ProviderConfigUsage_DeepCopyObject D p h = asObject (ProviderConfigUsage_DeepCopy D p h)"

definition ProviderConfigUsageList_DeepCopyInto ::
  "('e, ('e, 'u) configCell) deepCopyLib \<Rightarrow> 'e listM \<Rightarrow> ('e, 'u) configCell heap
      \<Rightarrow> 'e listM \<times> ('e, 'u) configCell heap" where
  "ProviderConfigUsageList_DeepCopyInto D = usageListInto assign D"

definition ProviderConfigUsageList_DeepCopy ::
  "('e, ('e, 'u) configCell) deepCopyLib \<Rightarrow> nat option \<Rightarrow> ('e, 'u) configCell heap
      \<Rightarrow> nat option \<times> ('e, 'u) configCell heap" where
  "ProviderConfigUsageList_DeepCopy D = copyPtr configListCell (ProviderConfigUsageList_DeepCopyInto D)"

definition ProviderConfigUsageList_DeepCopyObject ::
  "('e, ('e, 'u) configCell) deepCopyLib \<Rightarrow> nat option \<Rightarrow> ('e, 'u) configCell heap
      \<Rightarrow> nat option \<times> ('e, 'u) configCell heap" where
  "ProviderConfigUsageList_DeepCopyObject D p h = asObject (ProviderConfigUsageList_DeepCopy D p h)"

definition ProviderConfigUsage_DeepCopyInto_cluster ::
  "('e, ('e, 'e) configCell) deepCopyLib \<Rightarrow> ('e, 'e) usageT \<Rightarrow> ('e, 'e) configCell heap
      \<Rightarrow> ('e, 'e) usageT \<times> ('e, 'e) configCell heap" where
  "ProviderConfigUsage_DeepCopyInto_cluster D = usageInto (dl_ProviderConfigUsage D) D"

definition ProviderConfigUsage_DeepCopy_cluster ::
  "('e, ('e, 'e) configCell) deepCopyLib \<Rightarrow> nat option \<Rightarrow> ('e, 'e) configCell heap
      \<Rightarrow> nat option \<times> ('e, 'e) configCell heap" where
  "ProviderConfigUsage_DeepCopy_cluster D = copyPtr usageCell (ProviderConfigUsage_DeepCopyInto_cluster D)"

definition ProviderConfigUsage_DeepCopyObject_cluster ::
  "('e, ('e, 'e) configCell) deepCopyLib \<Rightarrow> nat option \<Rightarrow> ('e, 'e) configCell heap
      \<Rightarrow> nat option \<times> ('e, 'e) configCell heap" where
  "ProviderConfigUsage_DeepCopyObject_cluster D p h = asObject (ProviderConfigUsage_DeepCopy_cluster D p h)"

definition ProviderConfigUsageList_DeepCopyInto_cluster ::
  "('e, ('e, 'e) configCell) deepCopyLib \<Rightarrow> 'e listM \<Rightarrow> ('e, 'e) configCell heap
      \<Rightarrow> 'e listM \<times> ('e, 'e) configCell heap" where
  "ProviderConfigUsageList_DeepCopyInto_cluster D = usageListInto (dl_ProviderConfigUsage D) D"

definition ProviderConfigUsageList_DeepCopy_cluster ::
  "('e, ('e, 'e) configCell) deepCopyLib \<Rightarrow> nat option \<Rightarrow> ('e, 'e) configCell heap
      \<Rightarrow> nat option \<times> ('e, 'e) configCell heap" where
  "ProviderConfigUsageList_DeepCopy_cluster D = copyPtr configListCell
      (ProviderConfigUsageList_DeepCopyInto_cluster D)"

definition ProviderConfigUsageList_DeepCopyObject_cluster ::
  "('e, ('e, 'e) configCell) deepCopyLib \<Rightarrow> nat option \<Rightarrow> ('e, 'e) configCell heap
      \<Rightarrow> nat option \<times> ('e, 'e) configCell heap" where
  "ProviderConfigUsageList_DeepCopyObject_cluster D p h = asObject (ProviderConfigUsageList_DeepCopy_cluster D p h)"

section \<open>The types with the same fields\<close>

definition ClusterProviderConfig_DeepCopyInto ::
  "('e, ('e, 'u) configCell) deepCopyLib \<Rightarrow> 'e clusterProviderConfigM \<Rightarrow> ('e, 'u) configCell
      heap \<Rightarrow> 'e clusterProviderConfigM \<times> ('e, 'u) configCell heap" where
  "ClusterProviderConfig_DeepCopyInto D = ProviderConfig_DeepCopyInto D"

definition ClusterProviderConfig_DeepCopy ::
  "('e, ('e, 'u) configCell) deepCopyLib \<Rightarrow> nat option \<Rightarrow> ('e, 'u) configCell heap
      \<Rightarrow> nat option \<times> ('e, 'u) configCell heap" where
  "ClusterProviderConfig_DeepCopy D = ProviderConfig_DeepCopy D"

definition ClusterProviderConfig_DeepCopyObject ::
  "('e, ('e, 'u) configCell) deepCopyLib \<Rightarrow> nat option \<Rightarrow> ('e, 'u) configCell heap
      \<Rightarrow> nat option \<times> ('e, 'u) configCell heap" where
  "ClusterProviderConfig_DeepCopyObject D = ProviderConfig_DeepCopyObject D"

definition ClusterProviderConfigList_DeepCopyInto ::
  "('e, ('e, 'u) configCell) deepCopyLib \<Rightarrow> 'e clusterProviderConfigListM \<Rightarrow> ('e, 'u)
      configCell heap \<Rightarrow> 'e clusterProviderConfigListM \<times> ('e, 'u) configCell heap" where
  "ClusterProviderConfigList_DeepCopyInto D = ProviderConfigList_DeepCopyInto D"

definition ClusterProviderConfigList_DeepCopy ::
  "('e, ('e, 'u) configCell) deepCopyLib \<Rightarrow> nat option \<Rightarrow> ('e, 'u) configCell heap
      \<Rightarrow> nat option \<times> ('e, 'u) configCell heap" where
  "ClusterProviderConfigList_DeepCopy D = ProviderConfigList_DeepCopy D"

definition ClusterProviderConfigList_DeepCopyObject ::
  "('e, ('e, 'u) configCell) deepCopyLib \<Rightarrow> nat option \<Rightarrow> ('e, 'u) configCell heap
      \<Rightarrow> nat option \<times> ('e, 'u) configCell heap" where
  "ClusterProviderConfigList_DeepCopyObject D = ProviderConfigList_DeepCopyObject D"

definition ProviderConfigStatus_DeepCopyInto_cluster ::
  "('e, ('e, 'e) configCell) deepCopyLib \<Rightarrow> 'e configStatusT_cluster \<Rightarrow> ('e, 'e) configCell
      heap \<Rightarrow> 'e configStatusT_cluster \<times> ('e, 'e) configCell heap" where
  "ProviderConfigStatus_DeepCopyInto_cluster D = ProviderConfigStatus_DeepCopyInto D"

definition ProviderConfigStatus_DeepCopy_cluster ::
  "('e, ('e, 'e) configCell) deepCopyLib \<Rightarrow> nat option \<Rightarrow> ('e, 'e) configCell heap
      \<Rightarrow> nat option \<times> ('e, 'e) configCell heap" where
  "ProviderConfigStatus_DeepCopy_cluster D = ProviderConfigStatus_DeepCopy D"

definition ProviderConfig_DeepCopyInto_cluster ::
  "('e, ('e, 'e) configCell) deepCopyLib \<Rightarrow> 'e providerConfigM_cluster \<Rightarrow> ('e, 'e) configCell
      heap \<Rightarrow> 'e providerConfigM_cluster \<times> ('e, 'e) configCell heap" where
  "ProviderConfig_DeepCopyInto_cluster D = ProviderConfig_DeepCopyInto D"

definition ProviderConfig_DeepCopy_cluster ::
  "('e, ('e, 'e) configCell) deepCopyLib \<Rightarrow> nat option \<Rightarrow> ('e, 'e) configCell heap
      \<Rightarrow> nat option \<times> ('e, 'e) configCell heap" where
  "ProviderConfig_DeepCopy_cluster D = ProviderConfig_DeepCopy D"

definition ProviderConfig_DeepCopyObject_cluster ::
  "('e, ('e, 'e) configCell) deepCopyLib \<Rightarrow> nat option \<Rightarrow> ('e, 'e) configCell heap
      \<Rightarrow> nat option \<times> ('e, 'e) configCell heap" where
  "ProviderConfig_DeepCopyObject_cluster D = ProviderConfig_DeepCopyObject D"

definition ProviderConfigList_DeepCopyInto_cluster ::
  "('e, ('e, 'e) configCell) deepCopyLib \<Rightarrow> 'e listM_cluster \<Rightarrow> ('e, 'e) configCell heap
      \<Rightarrow> 'e listM_cluster \<times> ('e, 'e) configCell heap" where
  "ProviderConfigList_DeepCopyInto_cluster D = ProviderConfigList_DeepCopyInto D"

definition ProviderConfigList_DeepCopy_cluster ::
  "('e, ('e, 'e) configCell) deepCopyLib \<Rightarrow> nat option \<Rightarrow> ('e, 'e) configCell heap
      \<Rightarrow> nat option \<times> ('e, 'e) configCell heap" where
  "ProviderConfigList_DeepCopy_cluster D = ProviderConfigList_DeepCopy D"

definition ProviderConfigList_DeepCopyObject_cluster ::
  "('e, ('e, 'e) configCell) deepCopyLib \<Rightarrow> nat option \<Rightarrow> ('e, 'e) configCell heap
      \<Rightarrow> nat option \<times> ('e, 'e) configCell heap" where
  "ProviderConfigList_DeepCopyObject_cluster D = ProviderConfigList_DeepCopyObject D"

section \<open>What structs stand for\<close>

definition credentialsRep ::
  "(('e, 'u) configCell heap \<Rightarrow> 'e \<Rightarrow> 'v \<Rightarrow> nat set \<Rightarrow> bool)
      \<Rightarrow> ('e, 'u) configCell heap \<Rightarrow> 'e credentialsT \<Rightarrow> 'v credentialsT
      \<Rightarrow> nat set \<Rightarrow> bool" where
  "credentialsRep R h v x F \<longleftrightarrow>
     R h (crt_selectors v) (crt_selectors x) F \<and>
     crt_source x = crt_source v"

definition identityRep ::
  "(('e, 'u) configCell heap \<Rightarrow> 'e \<Rightarrow> 'v \<Rightarrow> nat set \<Rightarrow> bool)
      \<Rightarrow> ('e, 'u) configCell heap \<Rightarrow> 'e identityT \<Rightarrow> 'v identityT \<Rightarrow>
      nat set \<Rightarrow> bool" where
  "identityRep R h v x F \<longleftrightarrow>
     credentialsRep R h (idt_credentials v) (idt_credentials x) F \<and>
     idt_type x = idt_type v"

definition configSpecRep ::
  "(('e, 'u) configCell heap \<Rightarrow> 'e \<Rightarrow> 'v \<Rightarrow> nat set \<Rightarrow> bool)
      \<Rightarrow> ('e, 'u) configCell heap \<Rightarrow> 'e configSpecM \<Rightarrow> 'v configSpecV
      \<Rightarrow> nat set \<Rightarrow> bool" where
  "configSpecRep R h v x F \<longleftrightarrow>
     credentialsRep R h (cft_credentials v) (cft_credentials x) F \<and>
     ptrRep identityCell (identityRep R) h (cft_identity v) (cft_identity x) F"

definition configStatusRep ::
  "(('e, 'u) configCell heap \<Rightarrow> 'e \<Rightarrow> 'v \<Rightarrow> nat set \<Rightarrow> bool)
      \<Rightarrow> ('e, 'u) configCell heap \<Rightarrow> 'e configStatusT \<Rightarrow> 'v configStatusT
      \<Rightarrow> nat set \<Rightarrow> bool" where
  "configStatusRep R h v x F \<longleftrightarrow>
     R h (cftt_status v) (cftt_status x) F"

definition providerConfigRep ::
  "(('e, 'u) configCell heap \<Rightarrow> 'e \<Rightarrow> 'v \<Rightarrow> nat set \<Rightarrow> bool)
      \<Rightarrow> ('e, 'u) configCell heap \<Rightarrow> 'e providerConfigM \<Rightarrow> 'v providerConfigV
      \<Rightarrow> nat set \<Rightarrow> bool" where
  "providerConfigRep R h v x F \<longleftrightarrow>
     R h (pct_objectMeta v) (pct_objectMeta x) F \<and>
     configSpecRep R h (pct_spec v) (pct_spec x) F \<and>
     configStatusRep R h (pct_status v) (pct_status x) F \<and>
     pct_typeMeta x = pct_typeMeta v"

definition providerConfigListRep ::
  "(('e, 'u) configCell heap \<Rightarrow> 'e \<Rightarrow> 'v \<Rightarrow> nat set \<Rightarrow> bool)
      \<Rightarrow> ('e, 'u) configCell heap \<Rightarrow> 'e listM \<Rightarrow> 'v providerConfigListV
      \<Rightarrow> nat set \<Rightarrow> bool" where
  "providerConfigListRep R h v x F \<longleftrightarrow>
     R h (lt_listMeta v) (lt_listMeta x) F \<and>
     sliceRep providerConfigsCell (providerConfigRep R) h (lt_items v) (lt_items x) F \<and>
     lt_typeMeta x = lt_typeMeta v"

definition usageRep ::
  "(('e, 'u) configCell heap \<Rightarrow> 'e \<Rightarrow> 'v \<Rightarrow> nat set \<Rightarrow> bool)
      \<Rightarrow> (('e, 'u) configCell heap \<Rightarrow> 'u \<Rightarrow> 'w \<Rightarrow> nat set \<Rightarrow>
      bool) \<Rightarrow> ('e, 'u) configCell heap \<Rightarrow> ('e, 'u) usageT \<Rightarrow> ('v, 'w) usageT
      \<Rightarrow> nat set \<Rightarrow> bool" where
  "usageRep R S h v x F \<longleftrightarrow>
     R h (ut_objectMeta v) (ut_objectMeta x) F \<and>
     S h (ut_usage v) (ut_usage x) F \<and>
     ut_typeMeta x = ut_typeMeta v"

definition usageListRep ::
  "(('e, 'u) configCell heap \<Rightarrow> 'e \<Rightarrow> 'v \<Rightarrow> nat set \<Rightarrow> bool)
      \<Rightarrow> (('e, 'u) configCell heap \<Rightarrow> 'u \<Rightarrow> 'w \<Rightarrow> nat set \<Rightarrow>
      bool) \<Rightarrow> ('e, 'u) configCell heap \<Rightarrow> 'e listM \<Rightarrow> ('v, 'w) usageListV
      \<Rightarrow> nat set \<Rightarrow> bool" where
  "usageListRep R S h v x F \<longleftrightarrow>
     R h (lt_listMeta v) (lt_listMeta x) F \<and>
     sliceRep usagesCell (usageRep R S) h (lt_items v) (lt_items x) F \<and>
     lt_typeMeta x = lt_typeMeta v"

section \<open>Every copy keeps the contract\<close>

lemma ProviderCredentials_deep:
  assumes "libraryCopies D R"
  shows "deep_copy (ProviderCredentials_DeepCopyInto D) (credentialsRep R)"
  by (rule deep_copy_struct [where get = "\<lambda>v. crt_selectors v"
        and put = "\<lambda>v s. v\<lparr>crt_selectors := s\<rparr>"
        and rest = "\<lambda>v. crt_source v" and getx = "\<lambda>v. crt_selectors v"
        and restx = "\<lambda>v. crt_source v",
        OF libraryCopiesD(9) [OF assms]])
    (auto simp: ProviderCredentials_DeepCopyInto_def credentialsRep_def struct_simps split: prod.splits)

lemma Identity_deep:
  assumes "libraryCopies D R"
  shows "deep_copy (Identity_DeepCopyInto D) (identityRep R)"
  by (rule deep_copy_struct [where get = "\<lambda>v. idt_credentials v"
        and put = "\<lambda>v c. v\<lparr>idt_credentials := c\<rparr>"
        and rest = "\<lambda>v. idt_type v" and getx = "\<lambda>v. idt_credentials v"
        and restx = "\<lambda>v. idt_type v",
        OF ProviderCredentials_deep [OF assms]])
    (auto simp: Identity_DeepCopyInto_def identityRep_def struct_simps split: prod.splits)

lemma ProviderConfigSpec_deep:
  assumes "libraryCopies D R"
  shows "deep_copy (ProviderConfigSpec_DeepCopyInto D) (configSpecRep R)"
  by (rule deep_copy_struct [where get = "\<lambda>v. (cft_credentials v, cft_identity v)"
        and put = "\<lambda>v (c, i). v\<lparr>cft_credentials := c, cft_identity := i\<rparr>"
        and rest = "\<lambda>v. ()" and getx = "\<lambda>v. (cft_credentials v, cft_identity v)"
        and restx = "\<lambda>v. ()",
        OF deep_copy_pair [OF ProviderCredentials_deep [OF assms] deep_copy_ptr [OF Identity_deep [OF assms]
            identityCell_law]]])
    (auto simp: ProviderConfigSpec_DeepCopyInto_def configSpecRep_def struct_simps split: prod.splits)

lemma ProviderConfigStatus_deep:
  assumes "libraryCopies D R"
  shows "deep_copy (ProviderConfigStatus_DeepCopyInto D) (configStatusRep R)"
  by (rule deep_copy_struct [where get = "\<lambda>v. cftt_status v"
        and put = "\<lambda>v s. v\<lparr>cftt_status := s\<rparr>"
        and rest = "\<lambda>v. ()" and getx = "\<lambda>v. cftt_status v"
        and restx = "\<lambda>v. ()",
        OF libraryCopiesD(10) [OF assms]])
    (auto simp: ProviderConfigStatus_DeepCopyInto_def configStatusRep_def struct_simps split: prod.splits)

lemma ProviderConfig_deep:
  assumes "libraryCopies D R"
  shows "deep_copy (ProviderConfig_DeepCopyInto D) (providerConfigRep R)"
  by (rule deep_copy_struct [where get = "\<lambda>v. (pct_objectMeta v, pct_spec v, pct_status v)"
        and put = "\<lambda>v (m, s, t). v\<lparr>pct_objectMeta := m, pct_spec := s, pct_status := t\<rparr>"
        and rest = "\<lambda>v. pct_typeMeta v" and getx = "\<lambda>v. (pct_objectMeta v, pct_spec v, pct_status
            v)"
        and restx = "\<lambda>v. pct_typeMeta v",
        OF deep_copy_pair [OF libraryCopiesD(1) [OF assms] deep_copy_pair [OF ProviderConfigSpec_deep [OF assms]
            ProviderConfigStatus_deep [OF assms]]]])
    (auto simp: ProviderConfig_DeepCopyInto_def providerConfigRep_def struct_simps split: prod.splits)

lemma ProviderConfigList_deep:
  assumes "libraryCopies D R"
  shows "deep_copy (ProviderConfigList_DeepCopyInto D) (providerConfigListRep R)"
  by (rule deep_copy_struct [where get = "\<lambda>v. (lt_listMeta v, lt_items v)"
        and put = "\<lambda>v (m, i). v\<lparr>lt_listMeta := m, lt_items := i\<rparr>"
        and rest = "\<lambda>v. lt_typeMeta v" and getx = "\<lambda>v. (lt_listMeta v, lt_items v)"
        and restx = "\<lambda>v. lt_typeMeta v",
        OF deep_copy_pair [OF libraryCopiesD(2) [OF assms] deep_copy_ptr [OF deep_copy_list [OF ProviderConfig_deep
            [OF assms]] providerConfigsCell_law]]])
    (auto simp: ProviderConfigList_DeepCopyInto_def providerConfigListRep_def struct_simps split: prod.splits)

lemma usage_deep:
  assumes "libraryCopies D R" and "deep_copy c S"
  shows "deep_copy (usageInto c D) (usageRep R S)"
  by (rule deep_copy_struct [where get = "\<lambda>v. (ut_objectMeta v, ut_usage v)"
        and put = "\<lambda>v (m, u). v\<lparr>ut_objectMeta := m, ut_usage := u\<rparr>"
        and rest = "\<lambda>v. ut_typeMeta v" and getx = "\<lambda>v. (ut_objectMeta v, ut_usage v)"
        and restx = "\<lambda>v. ut_typeMeta v",
        OF deep_copy_pair [OF libraryCopiesD(1) [OF assms(1)] assms(2)]])
    (auto simp: usageInto_def usageRep_def struct_simps split: prod.splits)

lemma usageList_deep:
  assumes "libraryCopies D R" and "deep_copy c S"
  shows "deep_copy (usageListInto c D) (usageListRep R S)"
  by (rule deep_copy_struct [where get = "\<lambda>v. (lt_listMeta v, lt_items v)"
        and put = "\<lambda>v (m, i). v\<lparr>lt_listMeta := m, lt_items := i\<rparr>"
        and rest = "\<lambda>v. lt_typeMeta v" and getx = "\<lambda>v. (lt_listMeta v, lt_items v)"
        and restx = "\<lambda>v. lt_typeMeta v",
        OF deep_copy_pair [OF libraryCopiesD(2) [OF assms(1)] deep_copy_ptr [OF deep_copy_list [OF usage_deep [OF
            assms]] usagesCell_law]]])
    (auto simp: usageListInto_def usageListRep_def struct_simps split: prod.splits)

lemma ProviderConfigUsageList_deep:
  "libraryCopies D R \<Longrightarrow> deep_copy (ProviderConfigUsageList_DeepCopyInto D) (usageListRep R valueRep)"
  unfolding ProviderConfigUsageList_DeepCopyInto_def by (rule usageList_deep [OF _ deep_copy_assign])

lemma ProviderConfigUsageList_cluster_deep:
  "libraryCopies D R \<Longrightarrow> deep_copy (ProviderConfigUsageList_DeepCopyInto_cluster D) (usageListRep R
      R)"
  unfolding ProviderConfigUsageList_DeepCopyInto_cluster_def by (rule usageList_deep [OF _ libraryCopiesD(11)])

end
