(* ===== verification/Accessors.thy ===== *)
theory Accessors
  imports Conversion Deep_Copy_Config
begin

text \<open>
  The generated methods by which crossplane-runtime reads and writes the API types:
      \<open>zz_generated.managed.go\<close> and
  \<open>zz_generated.managedlist.go\<close> of the Object packages, \<open>zz_generated.pc.go\<close>,
      \<open>zz_generated.pcu.go\<close> and
  \<open>zz_generated.pculist.go\<close> of the configuration packages. A setter changes its receiver, which it
      returns here.
\<close>

section \<open>The contract\<close>

locale accessor =
  fixes getter :: "'s \<Rightarrow> 'a" and setter :: "'a \<Rightarrow> 's \<Rightarrow> 's"
  assumes get_set: "getter (setter v s) = v"
    and set_get: "setter (getter s) s = s"
    and set_set: "setter v (setter w s) = setter v s"
begin

lemma setter_inj: "setter v s = setter w s \<longleftrightarrow> v = w"
  by (metis get_set)

lemma restore: "setter (getter s) (setter v s) = s"
  by (simp add: set_set set_get)

end

text \<open>An attribute of a field: how promoted methods and fields of embedded structs are reached.\<close>

lemma accessor_field:
  assumes "accessor get1 set1" "accessor get2 set2"
  shows "accessor (\<lambda>s. get2 (get1 s)) (\<lambda>v s. set1 (set2 v (get1 s)) s)"
  using assms unfolding accessor_def by simp

section \<open>The Objects of the controllers\<close>

definition GetCondition :: "kobject \<Rightarrow> condType \<Rightarrow> condition option" where
  "GetCondition mg ct = os_conditions (ko_status mg) ct"

definition SetConditions :: "condition list \<Rightarrow> kobject \<Rightarrow> kobject" where
  "SetConditions cs mg =
     mg\<lparr>ko_status := (ko_status mg)\<lparr>os_conditions := fold setCondition cs (os_conditions (ko_status
         mg))\<rparr>\<rparr>"

definition GetManagementPolicies :: "kobject \<Rightarrow> string list option" where
  "GetManagementPolicies mg = sp_managementPolicies (ko_spec mg)"

definition SetManagementPolicies :: "string list option \<Rightarrow> kobject \<Rightarrow> kobject" where
  "SetManagementPolicies r mg = mg\<lparr>ko_spec := (ko_spec mg)\<lparr>sp_managementPolicies := r\<rparr>\<rparr>"

definition GetProviderConfigReference :: "kobject \<Rightarrow> pcReference option" where
  "GetProviderConfigReference mg = sp_providerConfigReference (ko_spec mg)"

definition SetProviderConfigReference :: "pcReference option \<Rightarrow> kobject \<Rightarrow> kobject" where
  "SetProviderConfigReference r mg = mg\<lparr>ko_spec := (ko_spec mg)\<lparr>sp_providerConfigReference :=
      r\<rparr>\<rparr>"

definition GetWriteConnectionSecretToReference :: "kobject \<Rightarrow> secretReference option" where
  "GetWriteConnectionSecretToReference mg = sp_writeConnectionSecretToReference (ko_spec mg)"

definition SetWriteConnectionSecretToReference :: "secretReference option \<Rightarrow> kobject \<Rightarrow>
    kobject" where
  "SetWriteConnectionSecretToReference r mg = mg\<lparr>ko_spec := (ko_spec
      mg)\<lparr>sp_writeConnectionSecretToReference := r\<rparr>\<rparr>"

text \<open>The same methods of the cluster-scoped hub, which also has a deletion policy.\<close>

definition GetCondition_cluster :: "kobject \<Rightarrow> condType \<Rightarrow> condition option" where
  "GetCondition_cluster = GetCondition"

definition SetConditions_cluster :: "condition list \<Rightarrow> kobject \<Rightarrow> kobject" where
  "SetConditions_cluster = SetConditions"

definition GetDeletionPolicy_cluster :: "kobject \<Rightarrow> string" where
  "GetDeletionPolicy_cluster mg = sp_deletionPolicy (ko_spec mg)"

definition SetDeletionPolicy_cluster :: "string \<Rightarrow> kobject \<Rightarrow> kobject" where
  "SetDeletionPolicy_cluster r mg = mg\<lparr>ko_spec := (ko_spec mg)\<lparr>sp_deletionPolicy := r\<rparr>\<rparr>"

definition GetManagementPolicies_cluster :: "kobject \<Rightarrow> string list option" where
  "GetManagementPolicies_cluster = GetManagementPolicies"

definition SetManagementPolicies_cluster :: "string list option \<Rightarrow> kobject \<Rightarrow> kobject" where
  "SetManagementPolicies_cluster = SetManagementPolicies"

definition GetProviderConfigReference_cluster :: "kobject \<Rightarrow> pcReference option" where
  "GetProviderConfigReference_cluster = GetProviderConfigReference"

definition SetProviderConfigReference_cluster :: "pcReference option \<Rightarrow> kobject \<Rightarrow> kobject"
    where
  "SetProviderConfigReference_cluster = SetProviderConfigReference"

definition GetWriteConnectionSecretToReference_cluster :: "kobject \<Rightarrow> secretReference option" where
  "GetWriteConnectionSecretToReference_cluster = GetWriteConnectionSecretToReference"

definition SetWriteConnectionSecretToReference_cluster :: "secretReference option \<Rightarrow> kobject
    \<Rightarrow> kobject" where
  "SetWriteConnectionSecretToReference_cluster = SetWriteConnectionSecretToReference"

section \<open>The v1alpha1 Object\<close>

definition GetCondition1 :: "object1 \<Rightarrow> condType \<Rightarrow> condition option" where
  "GetCondition1 mg ct = os_conditions (o1_status mg) ct"

definition SetConditions1 :: "condition list \<Rightarrow> object1 \<Rightarrow> object1" where
  "SetConditions1 cs mg =
     mg\<lparr>o1_status := (o1_status mg)\<lparr>os_conditions := fold setCondition cs (os_conditions (o1_status
         mg))\<rparr>\<rparr>"

text \<open>The common spec is a field of the spec.\<close>

abbreviation resourceSpecOf :: "object1 \<Rightarrow> resourceSpec1" where
  "resourceSpecOf mg \<equiv> sp1_resourceSpec (o1_spec mg)"

definition withResourceSpec :: "resourceSpec1 \<Rightarrow> object1 \<Rightarrow> object1" where
  "withResourceSpec rs mg = mg\<lparr>o1_spec := (o1_spec mg)\<lparr>sp1_resourceSpec := rs\<rparr>\<rparr>"

definition GetDeletionPolicy1 :: "object1 \<Rightarrow> string" where
  "GetDeletionPolicy1 mg = rs1_deletionPolicy (resourceSpecOf mg)"

definition SetDeletionPolicy1 :: "string \<Rightarrow> object1 \<Rightarrow> object1" where
  "SetDeletionPolicy1 r mg = withResourceSpec ((resourceSpecOf mg)\<lparr>rs1_deletionPolicy := r\<rparr>) mg"

definition GetProviderConfigReference1 :: "object1 \<Rightarrow> pcReference option" where
  "GetProviderConfigReference1 mg = rs1_providerConfigReference (resourceSpecOf mg)"

definition SetProviderConfigReference1 :: "pcReference option \<Rightarrow> object1 \<Rightarrow> object1" where
  "SetProviderConfigReference1 r mg = withResourceSpec ((resourceSpecOf mg)\<lparr>rs1_providerConfigReference :=
      r\<rparr>) mg"

definition GetProviderReference1 :: "object1 \<Rightarrow> pcReference option" where
  "GetProviderReference1 mg = rs1_providerReference (resourceSpecOf mg)"

definition SetProviderReference1 :: "pcReference option \<Rightarrow> object1 \<Rightarrow> object1" where
  "SetProviderReference1 r mg = withResourceSpec ((resourceSpecOf mg)\<lparr>rs1_providerReference := r\<rparr>) mg"

definition GetWriteConnectionSecretToReference1 :: "object1 \<Rightarrow> secretReference option" where
  "GetWriteConnectionSecretToReference1 mg = rs1_writeConnectionSecretToReference (resourceSpecOf mg)"

definition SetWriteConnectionSecretToReference1 :: "secretReference option \<Rightarrow> object1 \<Rightarrow>
    object1" where
  "SetWriteConnectionSecretToReference1 r mg = withResourceSpec ((resourceSpecOf
      mg)\<lparr>rs1_writeConnectionSecretToReference := r\<rparr>) mg"

section \<open>Lawful accessors\<close>

interpretation managementPolicies_acc: accessor GetManagementPolicies SetManagementPolicies
  by unfold_locales (simp_all add: GetManagementPolicies_def SetManagementPolicies_def)

interpretation providerConfigReference_acc: accessor GetProviderConfigReference SetProviderConfigReference
  by unfold_locales (simp_all add: GetProviderConfigReference_def SetProviderConfigReference_def)

interpretation writeConnectionSecretToReference_acc: accessor GetWriteConnectionSecretToReference
    SetWriteConnectionSecretToReference
  by unfold_locales (simp_all add: GetWriteConnectionSecretToReference_def SetWriteConnectionSecretToReference_def)

interpretation deletionPolicy_acc: accessor GetDeletionPolicy_cluster SetDeletionPolicy_cluster
  by unfold_locales (simp_all add: GetDeletionPolicy_cluster_def SetDeletionPolicy_cluster_def)

interpretation deletionPolicy1_acc: accessor GetDeletionPolicy1 SetDeletionPolicy1
  by unfold_locales (simp_all add: GetDeletionPolicy1_def SetDeletionPolicy1_def withResourceSpec_def)

interpretation providerConfigReference1_acc: accessor GetProviderConfigReference1 SetProviderConfigReference1
  by unfold_locales (simp_all add: GetProviderConfigReference1_def SetProviderConfigReference1_def
      withResourceSpec_def)

interpretation providerReference1_acc: accessor GetProviderReference1 SetProviderReference1
  by unfold_locales (simp_all add: GetProviderReference1_def SetProviderReference1_def withResourceSpec_def)

interpretation writeConnectionSecretToReference1_acc: accessor GetWriteConnectionSecretToReference1
    SetWriteConnectionSecretToReference1
  by unfold_locales (simp_all add: GetWriteConnectionSecretToReference1_def
      SetWriteConnectionSecretToReference1_def withResourceSpec_def)

text \<open>\<open>management_policy_hack.go\<close> is not: what is set is not what is read.\<close>

lemma managementPolicies1_not_accessor: "\<not> accessor GetManagementPolicies1 SetManagementPolicies1"
proof
  assume "accessor GetManagementPolicies1 SetManagementPolicies1"
  from accessor.get_set [OF this, of "[]"] show False by (simp add: GetManagementPolicies1_def)
qed

text \<open>A condition is read as it was last set; the others stay.\<close>

lemma GetCondition_SetConditions:
  "GetCondition (SetConditions cs mg) ct =
     (case filter (\<lambda>c. conditionType c = ct) (rev cs) of [] \<Rightarrow> GetCondition mg ct | c # _
         \<Rightarrow> Some c)"
proof -
  have "fold setCondition cs m ct = (case filter (\<lambda>c. conditionType c = ct) (rev cs) of [] \<Rightarrow> m
      ct | c # _ \<Rightarrow> Some c)" for m
    by (induction cs rule: rev_induct) (auto simp: setCondition_def)
  then show ?thesis unfolding GetCondition_def SetConditions_def by simp
qed

text \<open>The setters keep what the controllers rely on: identity, manifest, references, and each other's
    attributes.\<close>

lemma setters_frame:
  "ko_meta (SetManagementPolicies r mg) = ko_meta mg" "ko_meta (SetProviderConfigReference p mg) = ko_meta mg"
  "ko_meta (SetWriteConnectionSecretToReference w mg) = ko_meta mg" "ko_meta (SetConditions cs mg) = ko_meta mg"
  "koManifest (SetManagementPolicies r mg) = koManifest mg" "koManifest (SetProviderConfigReference p mg) =
      koManifest mg"
  "koManifest (SetWriteConnectionSecretToReference w mg) = koManifest mg" "ko_spec (SetConditions cs mg) = ko_spec
      mg"
  "GetProviderConfigReference (SetManagementPolicies r mg) = GetProviderConfigReference mg"
  "GetManagementPolicies (SetProviderConfigReference p mg) = GetManagementPolicies mg"
  "GetCondition (SetProviderConfigReference p mg) ct = GetCondition mg ct"
  by (simp_all add: SetManagementPolicies_def SetProviderConfigReference_def SetWriteConnectionSecretToReference_def
      SetConditions_def GetProviderConfigReference_def GetManagementPolicies_def GetCondition_def)

section \<open>Provider configs and usages\<close>

text \<open>
  The status embeds crossplane's \<open>ProviderConfigStatus\<close> and a usage its usage struct, whose fields and
      methods are
  parameters.
\<close>

record ('e, 'k, 'c, 'n) configStatusLib =
  csl_GetCondition :: "'e \<Rightarrow> 'k \<Rightarrow> 'c"
  csl_SetConditions :: "'c list \<Rightarrow> 'e \<Rightarrow> 'e"
  csl_Users :: "'e \<Rightarrow> 'n"
  csl_setUsers :: "'n \<Rightarrow> 'e \<Rightarrow> 'e"

record ('u, 'r, 't) usageLib =
  ul_ProviderConfigReference :: "'u \<Rightarrow> 'r"
  ul_setProviderConfigReference :: "'r \<Rightarrow> 'u \<Rightarrow> 'u"
  ul_ResourceReference :: "'u \<Rightarrow> 't"
  ul_setResourceReference :: "'t \<Rightarrow> 'u \<Rightarrow> 'u"

definition embeddedStatus :: "('e, 'i) providerConfigT \<Rightarrow> 'e" where
  "embeddedStatus p = cftt_status (pct_status p)"

definition withEmbeddedStatus :: "'e \<Rightarrow> ('e, 'i) providerConfigT \<Rightarrow> ('e, 'i) providerConfigT"
    where
  "withEmbeddedStatus s p = p\<lparr>pct_status := (pct_status p)\<lparr>cftt_status := s\<rparr>\<rparr>"

definition config_GetCondition :: "('e, 'k, 'c, 'n) configStatusLib \<Rightarrow> ('e, 'i) providerConfigT
    \<Rightarrow> 'k \<Rightarrow> 'c" where
  "config_GetCondition A p ct = csl_GetCondition A (embeddedStatus p) ct"

definition config_GetUsers :: "('e, 'k, 'c, 'n) configStatusLib \<Rightarrow> ('e, 'i) providerConfigT
    \<Rightarrow> 'n" where
  "config_GetUsers A p = csl_Users A (embeddedStatus p)"

definition config_SetConditions ::
  "('e, 'k, 'c, 'n) configStatusLib \<Rightarrow> 'c list \<Rightarrow> ('e, 'i) providerConfigT \<Rightarrow> ('e,
      'i) providerConfigT" where
  "config_SetConditions A cs p = withEmbeddedStatus (csl_SetConditions A cs (embeddedStatus p)) p"

definition config_SetUsers ::
  "('e, 'k, 'c, 'n) configStatusLib \<Rightarrow> 'n \<Rightarrow> ('e, 'i) providerConfigT \<Rightarrow> ('e, 'i)
      providerConfigT" where
  "config_SetUsers A i p = withEmbeddedStatus (csl_setUsers A i (embeddedStatus p)) p"

definition usage_GetProviderConfigReference :: "('u, 'r, 't) usageLib \<Rightarrow> ('e, 'u) usageT \<Rightarrow>
    'r" where
  "usage_GetProviderConfigReference A p = ul_ProviderConfigReference A (ut_usage p)"

definition usage_SetProviderConfigReference ::
  "('u, 'r, 't) usageLib \<Rightarrow> 'r \<Rightarrow> ('e, 'u) usageT \<Rightarrow> ('e, 'u) usageT" where
  "usage_SetProviderConfigReference A r p = p\<lparr>ut_usage := ul_setProviderConfigReference A r (ut_usage
      p)\<rparr>"

definition usage_GetResourceReference :: "('u, 'r, 't) usageLib \<Rightarrow> ('e, 'u) usageT \<Rightarrow> 't"
    where
  "usage_GetResourceReference A p = ul_ResourceReference A (ut_usage p)"

definition usage_SetResourceReference ::
  "('u, 'r, 't) usageLib \<Rightarrow> 't \<Rightarrow> ('e, 'u) usageT \<Rightarrow> ('e, 'u) usageT" where
  "usage_SetResourceReference A r p = p\<lparr>ut_usage := ul_setResourceReference A r (ut_usage p)\<rparr>"

text \<open>\<open>ClusterProviderConfig\<close> and the types of the cluster scope have the same methods.\<close>

definition clusterConfig_GetCondition ::
  "('e, 'k, 'c, 'n) configStatusLib \<Rightarrow> ('e, 'i) providerConfigT \<Rightarrow> 'k \<Rightarrow> 'c" where
  "clusterConfig_GetCondition = config_GetCondition"

definition clusterConfig_GetUsers ::
  "('e, 'k, 'c, 'n) configStatusLib \<Rightarrow> ('e, 'i) providerConfigT \<Rightarrow> 'n" where
  "clusterConfig_GetUsers = config_GetUsers"

definition clusterConfig_SetConditions ::
  "('e, 'k, 'c, 'n) configStatusLib \<Rightarrow> 'c list \<Rightarrow> ('e, 'i) providerConfigT \<Rightarrow> ('e,
      'i) providerConfigT" where
  "clusterConfig_SetConditions = config_SetConditions"

definition clusterConfig_SetUsers ::
  "('e, 'k, 'c, 'n) configStatusLib \<Rightarrow> 'n \<Rightarrow> ('e, 'i) providerConfigT \<Rightarrow> ('e, 'i)
      providerConfigT" where
  "clusterConfig_SetUsers = config_SetUsers"

definition config_GetCondition_cluster ::
  "('e, 'k, 'c, 'n) configStatusLib \<Rightarrow> ('e, 'i) providerConfigT \<Rightarrow> 'k \<Rightarrow> 'c" where
  "config_GetCondition_cluster = config_GetCondition"

definition config_GetUsers_cluster ::
  "('e, 'k, 'c, 'n) configStatusLib \<Rightarrow> ('e, 'i) providerConfigT \<Rightarrow> 'n" where
  "config_GetUsers_cluster = config_GetUsers"

definition config_SetConditions_cluster ::
  "('e, 'k, 'c, 'n) configStatusLib \<Rightarrow> 'c list \<Rightarrow> ('e, 'i) providerConfigT \<Rightarrow> ('e,
      'i) providerConfigT" where
  "config_SetConditions_cluster = config_SetConditions"

definition config_SetUsers_cluster ::
  "('e, 'k, 'c, 'n) configStatusLib \<Rightarrow> 'n \<Rightarrow> ('e, 'i) providerConfigT \<Rightarrow> ('e, 'i)
      providerConfigT" where
  "config_SetUsers_cluster = config_SetUsers"

definition usage_GetProviderConfigReference_cluster ::
  "('u, 'r, 't) usageLib \<Rightarrow> ('e, 'u) usageT \<Rightarrow> 'r" where
  "usage_GetProviderConfigReference_cluster = usage_GetProviderConfigReference"

definition usage_SetProviderConfigReference_cluster ::
  "('u, 'r, 't) usageLib \<Rightarrow> 'r \<Rightarrow> ('e, 'u) usageT \<Rightarrow> ('e, 'u) usageT" where
  "usage_SetProviderConfigReference_cluster = usage_SetProviderConfigReference"

definition usage_GetResourceReference_cluster ::
  "('u, 'r, 't) usageLib \<Rightarrow> ('e, 'u) usageT \<Rightarrow> 't" where
  "usage_GetResourceReference_cluster = usage_GetResourceReference"

definition usage_SetResourceReference_cluster ::
  "('u, 'r, 't) usageLib \<Rightarrow> 't \<Rightarrow> ('e, 'u) usageT \<Rightarrow> ('e, 'u) usageT" where
  "usage_SetResourceReference_cluster = usage_SetResourceReference"

lemma config_users_accessor:
  assumes "accessor (csl_Users A) (csl_setUsers A)"
  shows "accessor (config_GetUsers A) (config_SetUsers A :: 'n \<Rightarrow> ('e, 'i) providerConfigT \<Rightarrow>
      ('e, 'i) providerConfigT)"
proof -
  have "accessor embeddedStatus (withEmbeddedStatus :: 'e \<Rightarrow> ('e, 'i) providerConfigT \<Rightarrow> ('e,
      'i) providerConfigT)"
    by unfold_locales (simp_all add: embeddedStatus_def withEmbeddedStatus_def)
  from accessor_field [OF this assms] show ?thesis
    unfolding config_GetUsers_def [abs_def] config_SetUsers_def [abs_def] .
qed

interpretation usage_acc: accessor ut_usage "\<lambda>u p. p\<lparr>ut_usage := u\<rparr>"
  by unfold_locales simp_all

lemma usage_reference_accessor:
  "accessor (ul_ProviderConfigReference A) (ul_setProviderConfigReference A) \<Longrightarrow>
     accessor (usage_GetProviderConfigReference A) (usage_SetProviderConfigReference A)"
  unfolding usage_GetProviderConfigReference_def [abs_def] usage_SetProviderConfigReference_def [abs_def]
  by (rule accessor_field [OF usage_acc.accessor_axioms])

lemma usage_resource_accessor:
  "accessor (ul_ResourceReference A) (ul_setResourceReference A) \<Longrightarrow>
     accessor (usage_GetResourceReference A) (usage_SetResourceReference A)"
  unfolding usage_GetResourceReference_def [abs_def] usage_SetResourceReference_def [abs_def]
  by (rule accessor_field [OF usage_acc.accessor_axioms])

section \<open>The items of a list\<close>

text \<open>
  \<open>GetItems\<close> gives a pointer to every element of the slice in place, so that what is written through
      it is written
  into the list: a pointer is the address of the slice and an index.
\<close>

definition itemPointers :: "('c, 'a list) cellType \<Rightarrow> nat option \<Rightarrow> 'c heap \<Rightarrow>
    (nat \<times> nat) list" where
  "itemPointers ct items h =
     (case items of
        None \<Rightarrow> []
      | Some a \<Rightarrow> (case deref ct a h of None \<Rightarrow> [] | Some vs \<Rightarrow> map (Pair a) [0
          ..< length vs]))"

definition derefItem :: "('c, 'a list) cellType \<Rightarrow> nat \<times> nat \<Rightarrow> 'c heap \<Rightarrow>
    'a option" where
  "derefItem ct p h =
     (case deref ct (fst p) h of
        None \<Rightarrow> None
      | Some vs \<Rightarrow> if snd p < length vs then Some (vs ! snd p) else None)"

definition storeItem :: "('c, 'a list) cellType \<Rightarrow> nat \<times> nat \<Rightarrow> 'a \<Rightarrow> 'c
    heap \<Rightarrow> 'c heap" where
  "storeItem ct p v h =
     (case deref ct (fst p) h of None \<Rightarrow> h | Some vs \<Rightarrow> store (fst p) (ct_make ct (vs[snd p
         := v])) h)"

definition ObjectList_GetItems :: "'e objectListM \<Rightarrow> 'e apiCell heap \<Rightarrow> (nat \<times> nat)
    list" where
  "ObjectList_GetItems l h = itemPointers objectsCell (olt_items l) h"

definition ObjectList_GetItems_v1alpha2 :: "'e objectListM \<Rightarrow> 'e apiCell heap \<Rightarrow> (nat
    \<times> nat) list" where
  "ObjectList_GetItems_v1alpha2 = ObjectList_GetItems"

definition ObjectList1_GetItems :: "'e objectListM \<Rightarrow> 'e apiCell heap \<Rightarrow> (nat \<times> nat)
    list" where
  "ObjectList1_GetItems l h = itemPointers objects1Cell (olt_items l) h"

definition ProviderConfigUsageList_GetItems :: "'e listM \<Rightarrow> ('e, 'u) configCell heap \<Rightarrow> (nat
    \<times> nat) list" where
  "ProviderConfigUsageList_GetItems p h = itemPointers usagesCell (lt_items p) h"

definition ProviderConfigUsageList_GetItems_cluster :: "'e listM \<Rightarrow> ('e, 'e) configCell heap
    \<Rightarrow> (nat \<times> nat) list" where
  "ProviderConfigUsageList_GetItems_cluster = ProviderConfigUsageList_GetItems"

lemma itemPointers_in_place:
  assumes "cellLaw ct" "deref ct a h = Some vs"
  shows "length (itemPointers ct (Some a) h) = length vs"
    "i < length vs \<Longrightarrow> derefItem ct (itemPointers ct (Some a) h ! i) h = Some (vs ! i)"
    "i < length vs \<Longrightarrow> deref ct a (storeItem ct (itemPointers ct (Some a) h ! i) v h) = Some (vs[i :=
        v])"
proof -
  have "itemPointers ct (Some a) h = map (Pair a) [0 ..< length vs]" using assms(2) by (simp add: itemPointers_def)
  with assms show "length (itemPointers ct (Some a) h) = length vs"
    "i < length vs \<Longrightarrow> derefItem ct (itemPointers ct (Some a) h ! i) h = Some (vs ! i)"
    "i < length vs \<Longrightarrow> deref ct a (storeItem ct (itemPointers ct (Some a) h ! i) v h) = Some (vs[i :=
        v])"
    by (simp_all add: derefItem_def storeItem_def) (simp add: deref_def cellLaw_def)
qed

lemma ObjectList_items_in_place:
  assumes "olt_items l = Some a" "deref objectsCell a h = Some vs" "i < length vs"
  shows "deref objectsCell a (storeItem objectsCell (ObjectList_GetItems l h ! i) v h) = Some (vs[i := v])"
  using itemPointers_in_place(3) [OF objectsCell_law assms(2,3)] assms(1) by (simp add: ObjectList_GetItems_def)

end
