(* ===== verification/Spec2Isabelle.thy ===== *)
theory Spec2Isabelle
  imports Clean_Error Readiness Indexes Observation Finalizer Conversion Handlers Startup Store_Refinement
    Desired_State Extraction_Facts Watch_Liveness Reporting Membership Transport External_Facts Token_Stores
    Deletion Informer_Races Parser_Races Deep_Copy_V1alpha2 Deep_Copy_Collection Accessors Scheme
begin

text \<open>
  A verification development for provider-kubernetes, the Crossplane provider that keeps arbitrary
  Kubernetes resources in the state that \<open>Object\<close> resources declare.

  \<^bold>\<open>The program.\<close> A managed reconciler of crossplane-runtime calls \<open>Connect\<close> for an Object, which builds a
  client of the target cluster from the Object's provider config, and then \<open>Observe\<close>, \<open>Create\<close>, \<open>Update\<close>
  or \<open>Delete\<close> of an external client. The external client parses the manifest of the Object, resolves its
  references to other resources, and leaves the comparison and the write to a resource syncer: one
  that patches and keeps the last applied manifest in an annotation, and one that uses server-side
  apply with caches of OpenAPI parsers and of dry-run results. A finalizer protects referenced
  resources; informers and field indexes turn changes of watched resources into reconciles; a second
  controller keeps one observe-only Object per resource that a collection selects. There are a
  namespaced and a cluster-scoped package of the same code; Objects of v1alpha1 are converted.

  \<^bold>\<open>How it is modelled.\<close> A Go struct is a record, an enumeration that the API server does not close is a
  string, a call that can fail gives \<open>'a res\<close> (a value, an error chain, a panic), a function that changes
  its receiver or the outside returns the new state. \<open>klib\<close> in \<open>Kube_Types\<close> is the record of the library
  functions of apimachinery and crossplane-runtime that are not in the repository (unmarshalling, field
  paths, finalizer lists, hashing); \<open>kclient\<close> is a client of a cluster over an abstract world. A theorem
  that needs more of them than their types says so with a named hypothesis (\<open>finStore\<close>, \<open>storesApplied\<close>,
  \<open>listLaw\<close>, \<open>controlPlane\<close>, \<open>recordsControllers\<close> and others), and its witness instantiates them with the
  in-memory cluster of \<open>Ref_World\<close> and \<open>Ref_Process\<close>. Pointers that two parties share (caches, header
  maps) are addresses in a heap. Locks are the granularity of step relations, in which the calls of
  concurrent reconciles interleave freely.

  \<^bold>\<open>Theories and sources.\<close>
  \<^item> \<open>Prelude\<close>: errors, results, sequencing, strings, the verbs \<open>%q\<close> and \<open>%d\<close>. \<open>Keyed_Store\<close>: the interface
    of all load-or-create stores. \<open>Step_System\<close>: systems of concurrent calls, their invariants and their end,
    as locales that the caches, stores and informers interpret. \<open>Base64\<close>, \<open>Utf8\<close>: the parts of Go's standard library with their inverses.
  \<^item> \<open>Kube_Types\<close>, \<open>Object_Ops\<close>: \<open>apis/*/object\<close> types, patches, manifests and references
    (\<open>parseManifest\<close>, \<open>getReferenceInfo\<close>, \<open>ApplyFromFieldPathPatch\<close>).
  \<^item> \<open>Clean_Error\<close> (\<open>cleanerr.go\<close>), \<open>Readiness\<close> (the readiness policies of \<open>object.go\<close>), \<open>Syncer\<close>
    (\<open>syncer.go\<close>, with the interface \<open>ResourceSyncer\<close> as a locale), \<open>External\<close> (\<open>Observe\<close>, \<open>Create\<close>, \<open>Update\<close>,
    \<open>Delete\<close>, references, connection details of \<open>object.go\<close>), \<open>Finalizer\<close> (\<open>objFinalizer\<close>), \<open>Indexes\<close>
    (\<open>indexes.go\<close>), \<open>Informers\<close> (\<open>informers.go\<close>), \<open>Connector\<close> (\<open>Connect\<close>, \<open>resolveProviderConfig\<close>),
    \<open>Cluster_Scope\<close> (the names of the cluster-scoped package, and the type assertions of the handlers).
  \<^item> \<open>State_Cache\<close>, \<open>Extractor\<close>: \<open>pkg/kube/client/ssa/cache\<close>. \<open>Parser_Races\<close>: concurrent calls of
    \<open>getParserForGV\<close> on one parser cache, with its lock and its \<open>singleflight\<close> group.
  \<^item> \<open>Collection\<close>: \<open>observedobjectcollection/reconciler.go\<close>. \<open>Conversion\<close>: v1alpha1 to v1alpha2 and back, and the
    patches of v1alpha1.
  \<^item> \<open>Token_Stores\<close>, \<open>Rest_Config\<close>, \<open>Transport\<close>: \<open>pkg/kube/client\<close>, from provider configs to REST configs,
    token sources and round trippers.
  \<^item> \<open>Field_Manager\<close>, \<open>Controller_Setup\<close>, \<open>Provider_Main\<close>: \<open>internal/controller/fieldmanager.go\<close>, every
    \<open>Setup\<close> and \<open>SetupGated\<close>, and \<open>cmd/provider/main.go\<close>.
  \<^item> \<open>Go_Heap\<close>: memory with addresses for pointers, slices and maps, and the contract of a deep copy as a
    locale. \<open>Api_Memory\<close>, \<open>Deep_Copy\<close>, \<open>Deep_Copy_V1alpha1\<close>, \<open>Deep_Copy_V1alpha2\<close>, \<open>Deep_Copy_Config\<close>,
    \<open>Deep_Copy_Collection\<close>: the API structs in that memory and the \<open>zz_generated.deepcopy.go\<close> of every API
    package. \<open>Accessors\<close>: the generated getters, setters and \<open>GetItems\<close>. \<open>Scheme\<close>: \<open>register.go\<close> and \<open>AddToSchemes\<close>.

  \<^bold>\<open>What is shown.\<close>
  \<^item> Reconciling (\<open>External_Facts\<close>, \<open>Observation\<close>, \<open>Handlers\<close>): an Update makes the next Observe report up to
    date; up to date is never reported of a resource that differs while the policies allow writing;
    Observe never writes; references gate it; secrets are masked; connection details are decoded once;
    Delete is idempotent; handlers keep the type of what they are given.
  \<^item> Server-side apply (\<open>Desired_State\<close>, \<open>Extraction_Facts\<close>, \<open>Store_Refinement\<close>, \<open>Startup\<close>): the caches
    refine a map from resources to states; a state is served only for the Object and the manifest it was
    computed for, and from then on without another dry run; parsers are those of the current schema, and
    concurrent calls (\<open>Parser_Races\<close>) share one fetch per group-version, end, and may share an older schema;
    fields of older releases are taken over. \<open>SSA_Convergence\<close>: an apply makes the Observe of the next
    reconcile, with a client of its own, report up to date; \<open>Deletion\<close>: a Delete makes it report the
    resource missing, and drops the cache of that Object only.
  \<^item> Finalizers, watches, collections (\<open>Finalizer\<close>, \<open>Watching\<close>, \<open>Watch_Liveness\<close>, \<open>Membership\<close>): which
    resources are marked after success and after failure; no informer leaks under any interleaving, what
    an Object asks for is watched once it is observed and not collected while it is needed, and every
    change reaches its referrers; \<open>Informer_Races\<close> has the garbage collector run among the watches, and the
    schedule in which a watch is lost; a collection has exactly the matched members, which never act.
  \<^item> Reporting, conversion, credentials, start (\<open>Reporting\<close>, \<open>Conversion\<close>, \<open>Rest_Config\<close>, \<open>Token_Stores\<close>,
    \<open>Transport\<close>, \<open>Field_Manager\<close>, \<open>Startup\<close>): what error messages, readiness and conversion preserve,
    which identity ends up on the wire, that concurrent callers share one token source and end, that
    the provider starts complete, knows every kind its controllers work with, and polls within bounds.
  \<^item> Deep copies (\<open>Go_Heap\<close>, \<open>Deep_Copy\<close> and the theories after it): every copy stands for the value of its
    original and reaches new addresses only, so that neither sees what is written through the other;
    accessors are lawful but for the management policies of v1alpha1; the types of all packages fit into one
    scheme, which then knows every kind that the controllers work with.

  \<^bold>\<open>Bounds.\<close> There is no fuel: every loop of the modelled code runs over a list or a string and is
  structurally recursive. Lengths that the code limits are kept (seven digits of the hash, the length
  of a field manager). Durations and percentages are integers without their width; the values that
  \<open>main\<close> accepts stay far below 64 bits. A \<open>float64\<close> of the poll jitter is an exact rational.

  \<^bold>\<open>Not modelled.\<close> Logging, events, metrics and rate limits; contexts and deadlines, except where their end
  changes what the code does (\<open>informers.go\<close>); the managed reconciler, controller-runtime, client-go, CEL,
  the cloud SDKs and the OpenAPI libraries, which are parameters; the mocks of the tests, the build
  version, the time format of the logger and flag parsing. Error messages carry the values the code formats
  into them; \<open>%v\<close> of a library struct is a parameter. The runs of \<open>singleflight\<close> are those its documentation
  describes: one run per key at a time, whose result every caller gets that came in meanwhile.
\<close>

end
